(* ===== verification/Omaha_Prelude.thy ===== *)
theory Omaha_Prelude imports Main "HOL-Library.Word" "HOL-Library.State_Monad" begin

text \<open>
  Shared vocabulary of the development: the machine integers and error values that several
  components use, the pieces of the Rust standard library they call on strings and integers
  (decimal printing, \<open>str::parse\<close>, \<open>split\<close>, \<open>split_once\<close>, prefix tests), and the rules that
  lift a preorder on states through the state monad.

  A \<open>String\<close> of the source is a \<^typ>\<open>string\<close>, its UTF-8 bytes; a \<open>Result<T, E>\<close> is a value of
  \<open>E + T\<close> with \<open>Inl\<close> the error; a panic of a pure operation is \<open>None\<close>.
\<close>

section \<open>Collections and machine integers\<close>

named_theorems io_rules \<open>introduction rules for \<open>state_io_rel\<close>\<close>
named_theorems wp_simps \<open>weakest preconditions\<close>
named_theorems parse_simps \<open>printing and parsing round trips\<close>

type_synonym u8 = "8 word"
type_synonym u32 = "32 word"
type_synonym u64 = "64 word"
type_synonym i64 = "64 word" \<comment> \<open>two's complement, read with \<^const>\<open>sint\<close>\<close>

text \<open>\<open>i64::try_from\<close> of an unsigned value, and \<open>i64::checked_neg\<close>.\<close>

definition i64_try_from_nat :: "nat \<Rightarrow> i64 option" where
  "i64_try_from_nat n = (if n < 2 ^ 63 then Some (of_nat n) else None)"

definition i64_checked_neg :: "i64 \<Rightarrow> i64 option" where
  "i64_checked_neg x = (if sint x = - (2 ^ 63) then None else Some (- x))"

text \<open>\<open>u64::try_from\<close> and \<open>u32::try_from\<close> of an \<open>i64\<close>.\<close>

definition u64_try_from_i64 :: "i64 \<Rightarrow> u64 option" where
  "u64_try_from_i64 x = (if 0 \<le> sint x then Some x else None)"

definition u32_try_from_i64 :: "i64 \<Rightarrow> u32 option" where
  "u32_try_from_i64 x = (if 0 \<le> sint x \<and> sint x < 2 ^ 32 then Some (word_of_int (sint x)) else None)"

lemma sint_of_nat_63: "n < 2 ^ 63 \<Longrightarrow> sint (of_nat n :: 64 word) = int n"
proof -
  assume "n < 2 ^ 63"
  then have "int n < 2 ^ 63" using of_nat_less_iff [of n "2 ^ 63"] by simp
  then show ?thesis
    by (simp add: signed_of_nat signed_take_bit_int_eq_self)
qed

lemma unat_of_nat_64: "n < 2 ^ 64 \<Longrightarrow> unat (of_nat n :: 64 word) = n"
  by (simp add: unat_of_nat take_bit_nat_eq_self)

lemma unat_of_nat_32: "n < 2 ^ 32 \<Longrightarrow> unat (of_nat n :: 32 word) = n"
  by (simp add: unat_of_nat take_bit_nat_eq_self)

lemma i64_try_from_nat_sint: "i64_try_from_nat n = Some x \<Longrightarrow> sint x = int n"
  by (auto simp: i64_try_from_nat_def sint_of_nat_63 split: if_splits)

lemma i64_try_from_nat_Some: "n < 2 ^ 63 \<Longrightarrow> i64_try_from_nat n = Some (of_nat n)"
  by (simp add: i64_try_from_nat_def)

lemma u64_try_from_i64_of_nat:
  assumes "n < 2 ^ 63"
  shows "u64_try_from_i64 (of_nat n) = Some (of_nat n)" and "unat (of_nat n :: 64 word) = n"
proof -
  show "u64_try_from_i64 (of_nat n) = Some (of_nat n)"
    using sint_of_nat_63 [OF assms] by (simp add: u64_try_from_i64_def)
  show "unat (of_nat n :: 64 word) = n" using assms by (intro unat_of_nat_64) simp
qed

lemma unat_le_u32 [simp]: "unat (x :: u32) \<le> 4294967295"
proof -
  have "unat x < 2 ^ LENGTH(32)" by (rule unsigned_less)
  then show ?thesis by simp
qed

lemma unat_le_u64 [simp]: "unat (x :: u64) \<le> 18446744073709551615"
proof -
  have "unat x < 2 ^ LENGTH(64)" by (rule unsigned_less)
  then show ?thesis by simp
qed

section \<open>Decimal numerals\<close>

definition digit_char :: "nat \<Rightarrow> char" where
  "digit_char d = char_of (48 + d)"

definition digit_val :: "char \<Rightarrow> nat option" where
  "digit_val c = (let k = of_char c :: nat in if 48 \<le> k \<and> k \<le> 57 then Some (k - 48) else None)"

fun dec :: "nat \<Rightarrow> string" where
  "dec n = (if n < 10 then [digit_char n] else dec (n div 10) @ [digit_char (n mod 10)])"

declare dec.simps [simp del]

lemma digit_val_char [simp]: "d < 10 \<Longrightarrow> digit_val (digit_char d) = Some d"
  by (simp add: digit_val_def digit_char_def Let_def of_char_of)

lemma digit_char_eq_iff: "d < 10 \<Longrightarrow> digit_char d = c \<longleftrightarrow> digit_val c = Some d"
  by (auto simp: digit_val_def digit_char_def Let_def of_char_of split: if_splits)

lemma dec_not_Nil [simp]: "dec n \<noteq> []"
  by (subst dec.simps) simp

lemma dec_digits: "c \<in> set (dec n) \<Longrightarrow> digit_val c \<noteq> None"
proof (induction n rule: dec.induct)
  case (1 n)
  show ?case
  proof (cases "n < 10")
    case True
    with "1.prems" show ?thesis by (simp add: dec.simps [of n])
  next
    case False
    with "1.prems" have "c \<in> set (dec (n div 10)) \<or> c = digit_char (n mod 10)"
      by (auto simp: dec.simps [of n])
    with "1.IH" False show ?thesis by auto
  qed
qed

text \<open>\<open>str::parse\<close> for the unsigned types: an optional plus sign, then digits, checked for
  overflow of the type's maximum \<open>M\<close> after each digit.\<close>

datatype parse_int_error = EmptyString | InvalidDigit | PosOverflow

fun parse_digits :: "nat \<Rightarrow> nat \<Rightarrow> string \<Rightarrow> parse_int_error + nat" where
  "parse_digits M acc [] = Inr acc"
| "parse_digits M acc (c # cs) =
     (case digit_val c of
        None \<Rightarrow> Inl InvalidDigit
      | Some d \<Rightarrow> if acc * 10 + d > M then Inl PosOverflow else parse_digits M (acc * 10 + d) cs)"

definition parse_uint :: "nat \<Rightarrow> string \<Rightarrow> parse_int_error + nat" where
  "parse_uint M s =
     (if s = [] then Inl EmptyString
      else if s = ''+'' \<or> s = ''-'' then Inl InvalidDigit
      else if hd s = CHR ''+'' then parse_digits M 0 (tl s)
      else parse_digits M 0 s)"

abbreviation parse_u32 :: "string \<Rightarrow> parse_int_error + nat" where
  "parse_u32 \<equiv> parse_uint 4294967295"

abbreviation parse_u64 :: "string \<Rightarrow> parse_int_error + nat" where
  "parse_u64 \<equiv> parse_uint 18446744073709551615"

lemma parse_digits_snoc:
  "parse_digits M acc (xs @ [c]) =
     (case parse_digits M acc xs of Inl e \<Rightarrow> Inl e | Inr a \<Rightarrow> parse_digits M a [c])"
  by (induction xs arbitrary: acc) (auto split: option.splits)

lemma parse_digits_le: "parse_digits M acc cs = Inr n \<Longrightarrow> acc \<le> M \<Longrightarrow> n \<le> M"
  by (induction cs arbitrary: acc) (auto split: option.splits if_splits)

lemma parse_uint_le: "parse_uint M s = Inr n \<Longrightarrow> n \<le> M"
  by (auto simp: parse_uint_def dest: parse_digits_le split: if_splits)

lemma parse_digits_dec: "n \<le> M \<Longrightarrow> parse_digits M 0 (dec n) = Inr n"
proof (induction n rule: dec.induct)
  case (1 n)
  show ?case
  proof (cases "n < 10")
    case True
    with "1.prems" show ?thesis by (simp add: dec.simps [of n])
  next
    case False
    have "n div 10 \<le> M" using "1.prems" by simp
    with "1.IH" False have "parse_digits M 0 (dec (n div 10)) = Inr (n div 10)" by simp
    moreover have "n div 10 * 10 + n mod 10 = n" by simp
    ultimately show ?thesis using False "1.prems"
      by (simp add: dec.simps [of n] parse_digits_snoc)
  qed
qed

lemma sign_chars_no_digit [simp]:
  "digit_val CHR ''+'' = None" "digit_val CHR ''-'' = None" "digit_val CHR ''.'' = None"
  "digit_val CHR '':'' = None"
  by (simp_all add: digit_val_def)

lemma digit_val_None_notin_dec: "digit_val c = None \<Longrightarrow> c \<notin> set (dec n)"
  using dec_digits by blast

lemma hd_dec_digit: "digit_val (hd (dec n)) \<noteq> None"
  by (rule dec_digits [of _ n]) simp

lemma parse_uint_dec [parse_simps]: "n \<le> M \<Longrightarrow> parse_uint M (dec n) = Inr n"
proof -
  assume "n \<le> M"
  have "hd (dec n) \<noteq> CHR ''+''" "dec n \<noteq> ''+''" "dec n \<noteq> ''-''"
    using hd_dec_digit [of n] by auto
  then show ?thesis using \<open>n \<le> M\<close> by (simp add: parse_uint_def parse_digits_dec)
qed

section \<open>Splitting strings\<close>

fun split_char :: "char \<Rightarrow> string \<Rightarrow> string list" where
  "split_char c [] = [[]]"
| "split_char c (x # xs) =
     (if x = c then [] # split_char c xs
      else (case split_char c xs of [] \<Rightarrow> [[x]] | y # ys \<Rightarrow> (x # y) # ys))"

fun split_once :: "char \<Rightarrow> string \<Rightarrow> (string \<times> string) option" where
  "split_once c [] = None"
| "split_once c (x # xs) =
     (if x = c then Some ([], xs) else map_option (\<lambda>(a, b). (x # a, b)) (split_once c xs))"

definition starts_with :: "string \<Rightarrow> string \<Rightarrow> bool" where
  "starts_with p s \<longleftrightarrow> take (length p) s = p"

lemma split_char_not_Nil [simp]: "split_char c s \<noteq> []"
  by (induction s) (auto split: list.splits)

lemma split_char_no_sep: "c \<notin> set s \<Longrightarrow> split_char c s = [s]"
  by (induction s) auto

lemma split_char_append: "c \<notin> set a \<Longrightarrow> split_char c (a @ c # b) = a # split_char c b"
  by (induction a) auto

lemma split_once_append [parse_simps]: "c \<notin> set a \<Longrightarrow> split_once c (a @ c # b) = Some (a, b)"
  by (induction a) auto

lemma split_once_Some:
  "split_once c s = Some (a, b) \<Longrightarrow> s = a @ c # b \<and> c \<notin> set a"
  by (induction s arbitrary: a) (auto split: if_splits)

lemma split_once_None: "split_once c s = None \<longleftrightarrow> c \<notin> set s"
  by (induction s) auto

lemma starts_with_append [simp]: "starts_with p (p @ s)"
  by (simp add: starts_with_def)

lemma starts_with_iff: "starts_with p s \<longleftrightarrow> (\<exists>t. s = p @ t)"
  by (auto simp: starts_with_def) (metis append_take_drop_id)

section \<open>Results\<close>

text \<open>\<open>Result::ok\<close>, and the first element that satisfies a test, updated in place.\<close>

definition result_ok :: "'e + 'a \<Rightarrow> 'a option" where
  "result_ok r = (case r of Inl _ \<Rightarrow> None | Inr a \<Rightarrow> Some a)"

definition is_ok :: "'e + 'a \<Rightarrow> bool" where
  "is_ok r = (case r of Inl _ \<Rightarrow> False | Inr _ \<Rightarrow> True)"

definition result_map_err :: "('e \<Rightarrow> 'f) \<Rightarrow> 'e + 'a \<Rightarrow> 'f + 'a" where
  "result_map_err f r = (case r of Inl e \<Rightarrow> Inl (f e) | Inr a \<Rightarrow> Inr a)"

lemma is_ok_simps [simp]: "is_ok (Inr a)" "\<not> is_ok (Inl e)"
  by (simp_all add: is_ok_def)

lemma result_ok_simps [simp]: "result_ok (Inr a) = Some a" "result_ok (Inl e) = None"
  by (simp_all add: result_ok_def)

lemma result_map_err_simps [simp]:
  "result_map_err f (Inr a) = Inr a" "result_map_err f (Inl e) = Inl (f e)"
  by (simp_all add: result_map_err_def)

text \<open>The question mark operator, and \<open>Option::ok_or\<close>.\<close>

definition result_bind :: "'e + 'a \<Rightarrow> ('a \<Rightarrow> 'e + 'b) \<Rightarrow> 'e + 'b" where
  "result_bind r f = (case r of Inl e \<Rightarrow> Inl e | Inr a \<Rightarrow> f a)"

definition ok_or :: "'e \<Rightarrow> 'a option \<Rightarrow> 'e + 'a" where
  "ok_or e r = (case r of None \<Rightarrow> Inl e | Some a \<Rightarrow> Inr a)"

lemma result_bind_simps [simp]: "result_bind (Inl e) f = Inl e" "result_bind (Inr a) f = f a"
  by (simp_all add: result_bind_def)

lemma ok_or_simps [simp]: "ok_or e None = Inl e" "ok_or e (Some a) = Inr a"
  by (simp_all add: ok_or_def)

lemma result_bind_Inr_iff: "result_bind r f = Inr b \<longleftrightarrow> (\<exists>a. r = Inr a \<and> f a = Inr b)"
  by (cases r) auto

lemma result_bind_Inl_iff:
  "result_bind r f = Inl e \<longleftrightarrow> r = Inl e \<or> (\<exists>a. r = Inr a \<and> f a = Inl e)"
  by (cases r) auto

lemma ok_or_Inr_iff [simp]: "ok_or e r = Inr a \<longleftrightarrow> r = Some a"
  by (cases r) auto

lemma ok_or_Inl_iff [simp]: "ok_or e r = Inl e' \<longleftrightarrow> r = None \<and> e' = e"
  by (cases r) auto

fun modify_first :: "('a \<Rightarrow> bool) \<Rightarrow> ('a \<Rightarrow> 'a) \<Rightarrow> 'a list \<Rightarrow> 'a list" where
  "modify_first p f [] = []"
| "modify_first p f (x # xs) = (if p x then f x # xs else x # modify_first p f xs)"

lemma modify_first_length [simp]: "length (modify_first p f xs) = length xs"
  by (induction xs) auto

lemma map_modify_first: "(\<And>x. p x \<Longrightarrow> g (f x) = g x) \<Longrightarrow> map g (modify_first p f xs) = map g xs"
  by (induction xs) auto

lemma modify_first_none: "\<forall>x \<in> set xs. \<not> p x \<Longrightarrow> modify_first p f xs = xs"
  by (induction xs) auto

section \<open>Effects in the state monad\<close>

text \<open>Reading and changing the state through a function of it.\<close>

definition gets :: "('s \<Rightarrow> 'a) \<Rightarrow> ('s, 'a) state" where
  "gets f = State (\<lambda>s. (f s, s))"

definition modify :: "('s \<Rightarrow> 's) \<Rightarrow> ('s, unit) state" where
  "modify f = State (\<lambda>s. ((), f s))"

lemma run_gets [simp]: "run_state (gets f) s = (f s, s)"
  by (simp add: gets_def)

lemma run_modify [simp]: "run_state (modify f) s = ((), f s)"
  by (simp add: modify_def)

text \<open>A loop over a list.\<close>

fun for_each :: "('a \<Rightarrow> ('s, unit) state) \<Rightarrow> 'a list \<Rightarrow> ('s, unit) state" where
  "for_each f [] = State_Monad.return ()"
| "for_each f (x # xs) = State_Monad.bind (f x) (\<lambda>_. for_each f xs)"

text \<open>
  The weakest precondition of a program: simplification with \<open>wp_simps\<close> reduces it to a statement
  about the states of the calls that have no rule, which \<open>wp_mono\<close> then discharges from what is
  known of them.
\<close>

definition wp :: "('s, 'a) state \<Rightarrow> ('a \<Rightarrow> 's \<Rightarrow> bool) \<Rightarrow> 's \<Rightarrow> bool" where
  "wp m Q s \<longleftrightarrow> (case run_state m s of (a, s') \<Rightarrow> Q a s')"

lemma wp_return [wp_simps]: "wp (State_Monad.return x) Q s = Q x s"
  by (simp add: wp_def State_Monad.return_def)

lemma wp_bind [wp_simps]: "wp (State_Monad.bind m f) Q s = wp m (\<lambda>a. wp (f a) Q) s"
  by (simp add: wp_def split: prod.splits)

lemma wp_gets [wp_simps]: "wp (gets f) Q s = Q (f s) s"
  by (simp add: wp_def)

lemma wp_modify [wp_simps]: "wp (modify f) Q s = Q () (f s)"
  by (simp add: wp_def)

lemma wp_if [wp_simps]: "wp (if b then m else m') Q s = (if b then wp m Q s else wp m' Q s)"
  by simp

lemma wp_mono: "wp m Q s \<Longrightarrow> (\<And>a s'. Q a s' \<Longrightarrow> Q' a s') \<Longrightarrow> wp m Q' s"
  by (auto simp: wp_def split: prod.splits)

lemma wp_conj: "wp m Q s \<Longrightarrow> wp m Q' s \<Longrightarrow> wp m (\<lambda>a s'. Q a s' \<and> Q' a s') s"
  by (auto simp: wp_def split: prod.splits)

lemma wpI: "(\<And>a s'. run_state m s = (a, s') \<Longrightarrow> Q a s') \<Longrightarrow> wp m Q s"
  by (simp add: wp_def split: prod.splits)

lemma wpD: "wp m Q s \<Longrightarrow> run_state m s = (a, s') \<Longrightarrow> Q a s'"
  by (simp add: wp_def)

lemma wp_fst_snd: "wp m Q s = Q (fst (run_state m s)) (snd (run_state m s))"
  by (simp add: wp_def split: prod.splits)

lemma wp_of_io_rel: "state_io_rel R m \<Longrightarrow> wp m (\<lambda>_. R s) s"
  by (auto intro!: wpI dest: state_io_relD)

text \<open>
  What an operation may do to the state, given as a preorder on states, is closed under
  sequencing. A component's frame and progress facts are instances of this interface.
\<close>

locale effect_preorder =
  fixes R :: "'s \<Rightarrow> 's \<Rightarrow> bool"
  assumes effect_refl: "R s s"
    and effect_trans: "R s t \<Longrightarrow> R t u \<Longrightarrow> R s u"
begin

lemma io_return: "state_io_rel R (State_Monad.return x)"
  by (auto simp: state_io_rel_def effect_refl)

lemma io_gets: "state_io_rel R (gets f)"
  by (auto simp: state_io_rel_def effect_refl)

lemma io_bind:
  assumes "state_io_rel R m" and "\<And>a. state_io_rel R (f a)"
  shows "state_io_rel R (State_Monad.bind m f)"
proof (rule state_io_relI)
  fix a s s'
  assume "run_state (State_Monad.bind m f) s = (a, s')"
  then obtain b t where "run_state m s = (b, t)" and "run_state (f b) t = (a, s')"
    by (auto split: prod.splits)
  with assms show "R s s'" by (meson effect_trans state_io_relD)
qed

lemma io_modify: "(\<And>s. R s (f s)) \<Longrightarrow> state_io_rel R (modify f)"
  by (auto simp: state_io_rel_def)

lemma io_if:
  "(b \<Longrightarrow> state_io_rel R m) \<Longrightarrow> (\<not> b \<Longrightarrow> state_io_rel R m') \<Longrightarrow> state_io_rel R (if b then m else m')"
  by simp

lemma io_option:
  "state_io_rel R m \<Longrightarrow> (\<And>x. state_io_rel R (f x)) \<Longrightarrow> state_io_rel R (case z of None \<Rightarrow> m | Some x \<Rightarrow> f x)"
  by (cases z) simp_all

lemma io_sum:
  "(\<And>x. state_io_rel R (f x)) \<Longrightarrow> (\<And>x. state_io_rel R (g x)) \<Longrightarrow>
   state_io_rel R (case z of Inl x \<Rightarrow> f x | Inr x \<Rightarrow> g x)"
  by (cases z) simp_all

lemma io_prod: "(\<And>x y. state_io_rel R (f x y)) \<Longrightarrow> state_io_rel R (case z of (x, y) \<Rightarrow> f x y)"
  by (cases z) simp

lemma io_for_each: "(\<And>x. x \<in> set xs \<Longrightarrow> state_io_rel R (f x)) \<Longrightarrow> state_io_rel R (for_each f xs)"
  by (induction xs) (auto intro: io_return io_bind)

lemmas io_intros = io_return io_gets io_bind io_if io_option io_sum io_prod io_for_each

end

end
