(* ===== verification/Version.thy ===== *)
theory Version imports Omaha_Prelude begin

text \<open>
  \<open>omaha-client/src/version.rs\<close>: versions A.B.C.D, their printing, parsing (with the loop of
  \<open>from_str\<close> over the split parts), the conversions from shorter arrays and the derived order.
\<close>

section \<open>Data and operations\<close>

text \<open>\<open>Version([u32; 4])\<close>.\<close>

datatype version = Version u32 u32 u32 u32

fun version_nums :: "version \<Rightarrow> u32 list" where
  "version_nums (Version a b c d) = [a, b, c, d]"

text \<open>The array update \<open>array[i] = v\<close> of \<open>from_str\<close>; \<open>from_str\<close> leaves the loop for \<open>i >= 4\<close>.\<close>

fun version_set :: "nat \<Rightarrow> u32 \<Rightarrow> version \<Rightarrow> version" where
  "version_set i v (Version a b c d) =
     (if i = 0 then Version v b c d else if i = 1 then Version a v c d
      else if i = 2 then Version a b v d else if i = 3 then Version a b c v else Version a b c d)"

fun intersperse_dots :: "string list \<Rightarrow> string" where
  "intersperse_dots [] = []"
| "intersperse_dots [x] = x"
| "intersperse_dots (x # y # xs) = x @ ''.'' @ intersperse_dots (y # xs)"

definition version_to_string :: "version \<Rightarrow> string" where
  "version_to_string v = intersperse_dots (map (\<lambda>n. dec (unat n)) (version_nums v))"

datatype version_error = TooManyNumbersError | ParseError parse_int_error

fun from_str_loop :: "nat \<Rightarrow> string list \<Rightarrow> version \<Rightarrow> version_error + version" where
  "from_str_loop i [] array = Inr array"
| "from_str_loop i (s # ss) array =
     (if i \<ge> 4 then Inl TooManyNumbersError
      else (case parse_u32 s of
              Inl e \<Rightarrow> Inl (ParseError e)
            | Inr v \<Rightarrow> from_str_loop (Suc i) ss (version_set i (of_nat v) array)))"

definition version_from_str :: "string \<Rightarrow> version_error + version" where
  "version_from_str s = from_str_loop 0 (split_char CHR ''.'' s) (Version 0 0 0 0)"

text \<open>\<open>From<[u32; n]>\<close> for n = 1 .. 4: the array is copied over a prefix of zeros.\<close>

fun copy_prefix :: "nat \<Rightarrow> u32 list \<Rightarrow> version \<Rightarrow> version" where
  "copy_prefix i [] v = v"
| "copy_prefix i (x # xs) v = copy_prefix (Suc i) xs (version_set i x v)"

definition version_from :: "u32 list \<Rightarrow> version" where
  "version_from xs = copy_prefix 0 xs (Version 0 0 0 0)"

text \<open>The derived \<open>PartialOrd\<close>/\<open>Ord\<close>: lexicographic on the four numbers.\<close>

fun version_lt :: "version \<Rightarrow> version \<Rightarrow> bool" where
  "version_lt (Version a b c d) (Version a' b' c' d') \<longleftrightarrow>
     a < a' \<or> a = a' \<and> (b < b' \<or> b = b' \<and> (c < c' \<or> c = c' \<and> d < d'))"

instantiation version :: linorder
begin

definition less_version :: "version \<Rightarrow> version \<Rightarrow> bool" where
  "less_version v w = version_lt v w"

definition less_eq_version :: "version \<Rightarrow> version \<Rightarrow> bool" where
  "less_eq_version v w \<longleftrightarrow> version_lt v w \<or> v = w"

instance
proof
  fix x y z :: version
  show "x < y \<longleftrightarrow> x \<le> y \<and> \<not> y \<le> x" "x \<le> x" "x \<le> y \<Longrightarrow> y \<le> z \<Longrightarrow> x \<le> z"
    "x \<le> y \<Longrightarrow> y \<le> x \<Longrightarrow> x = y" "x \<le> y \<or> y \<le> x"
    by (cases x; cases y; cases z; auto simp: less_version_def less_eq_version_def)+
qed

end

section \<open>Lemmas\<close>

lemma dot_notin_dec [simp]: "CHR ''.'' \<notin> set (dec n)"
  by (rule digit_val_None_notin_dec) simp

lemma split_dots:
  "xs \<noteq> [] \<Longrightarrow> (\<And>x. x \<in> set xs \<Longrightarrow> CHR ''.'' \<notin> set x) \<Longrightarrow>
     split_char CHR ''.'' (intersperse_dots xs) = xs"
  by (induction xs rule: intersperse_dots.induct)
     (auto simp: split_char_append split_char_no_sep)

lemma from_str_loop_too_many:
  "ss \<noteq> [] \<Longrightarrow> i + length ss > 4 \<Longrightarrow> \<exists>e. from_str_loop i ss v = Inl e"
proof (induction ss arbitrary: i v)
  case (Cons s ss)
  then show ?case by (cases "ss = []") (auto split: sum.splits)
qed simp

lemma from_str_loop_length: "from_str_loop i ss v = Inr w \<Longrightarrow> ss = [] \<or> i + length ss \<le> 4"
  using from_str_loop_too_many [of ss i v] by (cases "i + length ss > 4") auto

lemma version_set_nums:
  "i < 4 \<Longrightarrow> version_nums (version_set i x v) = (version_nums v)[i := x]"
  by (cases v) (auto simp: numeral_eq_Suc less_Suc_eq)

lemma version_nums_inject: "version_nums v = version_nums w \<longleftrightarrow> v = w"
  by (cases v; cases w) auto

lemma length_version_nums [simp]: "length (version_nums v) = 4"
  by (cases v) simp

lemma from_str_loop_iff:
  "from_str_loop i ss v = Inr w \<longleftrightarrow>
     (\<exists>ns. map parse_u32 ss = map Inr ns \<and> (ss = [] \<or> i + length ss \<le> 4) \<and>
           w = copy_prefix i (map of_nat ns) v)"
proof (induction ss arbitrary: i v)
  case Nil
  then show ?case by auto
next
  case (Cons s ss)
  show ?case
  proof (cases "parse_u32 s")
    case (Inl e)
    then show ?thesis by auto
  next
    case (Inr n)
    have "from_str_loop i (s # ss) v = Inr w \<longleftrightarrow>
        i < 4 \<and> from_str_loop (Suc i) ss (version_set i (of_nat n) v) = Inr w"
      using Inr by simp
    also have "\<dots> \<longleftrightarrow> i < 4 \<and> (\<exists>ns. map parse_u32 ss = map Inr ns \<and> (ss = [] \<or> Suc i + length ss \<le> 4) \<and>
        w = copy_prefix (Suc i) (map of_nat ns) (version_set i (of_nat n) v))"
      using Cons.IH by blast
    also have "\<dots> \<longleftrightarrow> (\<exists>ns. map parse_u32 (s # ss) = map Inr (n # ns) \<and> i + length (s # ss) \<le> 4 \<and>
        w = copy_prefix i (map of_nat (n # ns)) v)"
      using Inr by auto
    also have "\<dots> \<longleftrightarrow> (\<exists>ns. map parse_u32 (s # ss) = map Inr ns \<and> (s # ss = [] \<or> i + length (s # ss) \<le> 4) \<and>
        w = copy_prefix i (map of_nat ns) v)" (is "?L \<longleftrightarrow> ?R")
    proof
      assume ?R
      then obtain ns where ns: "map parse_u32 (s # ss) = map Inr ns" "i + length (s # ss) \<le> 4"
        "w = copy_prefix i (map of_nat ns) v" by blast
      moreover from ns(1) Inr obtain ns' where "ns = n # ns'" by (cases ns) auto
      ultimately show ?L by blast
    qed blast
    finally show ?thesis .
  qed
qed

lemma copy_prefix_nums:
  "i + length xs \<le> 4 \<Longrightarrow>
     version_nums (copy_prefix i xs v) = take i (version_nums v) @ xs @ drop (i + length xs) (version_nums v)"
proof (induction xs arbitrary: i v)
  case Nil
  then show ?case by simp
next
  case (Cons x xs)
  then have "i < 4" by simp
  with Cons show ?case
    by (simp add: version_set_nums take_Suc_conv_app_nth [of i] upd_conv_take_nth_drop drop_update_cancel add.commute)
qed

lemma parts_of_version:
  "map parse_u32 (split_char CHR ''.'' (version_to_string v)) = map (\<lambda>n. Inr (unat n)) (version_nums v)"
proof -
  let ?ds = "map (\<lambda>n. dec (unat n)) (version_nums v)"
  have "split_char CHR ''.'' (intersperse_dots ?ds) = ?ds"
  proof (rule split_dots)
    show "?ds \<noteq> []" by (cases v) simp
  qed auto
  then show ?thesis by (simp add: version_to_string_def parse_uint_dec)
qed

section \<open>Properties\<close>

text \<open>C35: \<open>FromStr\<close> reads back exactly what \<open>Display\<close> prints, for every version.\<close>

theorem version_roundtrip: "version_from_str (version_to_string v) = Inr v"
proof -
  let ?ns = "map unat (version_nums v)"
  have parts: "map parse_u32 (split_char CHR ''.'' (version_to_string v)) = map Inr ?ns"
    by (simp only: parts_of_version map_map comp_def)
  then have "length (split_char CHR ''.'' (version_to_string v)) = 4"
    by (metis length_map length_version_nums)
  moreover have "copy_prefix 0 (map of_nat ?ns) (Version 0 0 0 0) = v"
    by (simp add: version_nums_inject [symmetric] copy_prefix_nums comp_def)
  ultimately show ?thesis
    unfolding version_from_str_def from_str_loop_iff using parts
    by (intro exI [of _ ?ns]) (simp del: map_map)
qed

text \<open>C36: What \<open>FromStr\<close> accepts, completely: between one and four dot-separated unsigned 32-bit
  numbers; the result holds them in order, followed by zeros.  Everything else is an error.\<close>

theorem version_from_str_accepts:
  "version_from_str s = Inr v \<longleftrightarrow>
     (\<exists>ns. map parse_u32 (split_char CHR ''.'' s) = map Inr ns \<and> length ns \<le> 4 \<and>
           version_nums v = map of_nat ns @ replicate (4 - length ns) 0)"
proof -
  have nums: "version_nums (copy_prefix 0 (map of_nat ns) (Version 0 0 0 0)) =
      map of_nat ns @ replicate (4 - length ns) 0" if "length ns \<le> 4" for ns
  proof -
    have "[0, 0, 0, 0 :: u32] = replicate 4 0" by (simp add: numeral_eq_Suc)
    then show ?thesis using that by (simp add: copy_prefix_nums drop_replicate)
  qed
  have len: "length ns = length (split_char CHR ''.'' s)"
    if "map parse_u32 (split_char CHR ''.'' s) = map Inr ns" for ns
    using that by (metis length_map)
  show ?thesis
    unfolding version_from_str_def from_str_loop_iff
    using nums len by (fastforce simp: version_nums_inject [symmetric])
qed

end
