(* ===== verification/Time_Model.thy ===== *)
theory Time_Model imports Omaha_Prelude begin

text \<open>
  \<open>omaha-client/src/time.rs\<close>, \<open>time/complex.rs\<close>, \<open>time/time_source.rs\<close> and \<open>time/timers.rs\<close>:
  wall and monotonic times, their pairing, the conversion to and from 64-bit microseconds, the
  mock time source and the mock and stub timers.

  A \<open>Duration\<close> is its number of nanoseconds; a \<open>SystemTime\<close> is the signed number of nanoseconds
  from \<open>UNIX_EPOCH\<close> and an \<open>Instant\<close> that from an unknown origin.  On the 64-bit Unix targets both
  are an \<open>i64\<close> of seconds with nanoseconds, which \<open>representable\<close> states; the checked
  operations return \<open>None\<close> outside it and the operators panic, which is \<open>None\<close> as well.
\<close>

section \<open>The standard library's times\<close>

type_synonym duration = nat
type_synonym system_time = int
type_synonym instant = int

abbreviation (input) UNIX_EPOCH :: system_time where "UNIX_EPOCH \<equiv> 0"

definition duration_from_secs :: "nat \<Rightarrow> duration" where
  "duration_from_secs n = n * 1000000000"

definition duration_from_millis :: "nat \<Rightarrow> duration" where
  "duration_from_millis n = n * 1000000"

definition duration_from_micros :: "nat \<Rightarrow> duration" where
  "duration_from_micros n = n * 1000"

definition duration_as_micros :: "duration \<Rightarrow> nat" where
  "duration_as_micros d = d div 1000"

definition duration_as_millis :: "duration \<Rightarrow> nat" where
  "duration_as_millis d = d div 1000000"

definition representable :: "int \<Rightarrow> bool" where
  "representable t \<longleftrightarrow> - (2 ^ 63 * 1000000000) \<le> t \<and> t < 2 ^ 63 * 1000000000"

definition checked_time_add :: "int \<Rightarrow> duration \<Rightarrow> int option" where
  "checked_time_add t d = (if representable (t + int d) then Some (t + int d) else None)"

definition checked_time_sub :: "int \<Rightarrow> duration \<Rightarrow> int option" where
  "checked_time_sub t d = (if representable (t - int d) then Some (t - int d) else None)"

text \<open>\<open>SystemTime::duration_since\<close> (the error carries the duration the other way) and
  \<open>Instant::checked_duration_since\<close>.\<close>

definition duration_since :: "system_time \<Rightarrow> system_time \<Rightarrow> duration + duration" where
  "duration_since t earlier =
     (if earlier \<le> t then Inr (nat (t - earlier)) else Inl (nat (earlier - t)))"

definition checked_duration_since :: "instant \<Rightarrow> instant \<Rightarrow> duration option" where
  "checked_duration_since t earlier = (if earlier \<le> t then Some (nat (t - earlier)) else None)"

definition duration_checked_sub :: "duration \<Rightarrow> duration \<Rightarrow> duration option" where
  "duration_checked_sub a b = (if b \<le> a then Some (a - b) else None)"

section \<open>Microseconds from the epoch\<close>

text \<open>\<open>complex.rs\<close>, module \<open>system_time_conversion\<close>.\<close>

definition checked_system_time_to_micros_from_epoch :: "system_time \<Rightarrow> i64 option" where
  "checked_system_time_to_micros_from_epoch time =
     (case duration_since time UNIX_EPOCH of
        Inr duration_since_epoch \<Rightarrow> i64_try_from_nat (duration_as_micros duration_since_epoch)
      | Inl e \<Rightarrow> Option.bind (i64_try_from_nat (duration_as_micros e)) i64_checked_neg)"

definition micros_from_epoch_to_system_time :: "i64 \<Rightarrow> system_time" where
  "micros_from_epoch_to_system_time micros =
     (if sint micros > 0 then UNIX_EPOCH + int (duration_from_micros (unat micros))
      else UNIX_EPOCH - int (duration_from_micros (unat (- micros))))"

section \<open>Complex and partial times\<close>

record complex_time =
  wall :: system_time
  mono :: instant

datatype partial_complex_time = Wall system_time | Monotonic instant | Complex complex_time

definition wall_duration_since :: "complex_time \<Rightarrow> system_time \<Rightarrow> duration + duration" where
  "wall_duration_since c earlier = duration_since (wall c) earlier"

definition truncate_submicrosecond_walltime :: "complex_time \<Rightarrow> complex_time option" where
  "truncate_submicrosecond_walltime c =
     (let submicrosecond_nanos =
        (case wall_duration_since c UNIX_EPOCH of
           Inr duration \<Rightarrow> duration mod 1000
         | Inl e \<Rightarrow> 1000 - e mod 1000)
      in map_option (\<lambda>w. \<lparr>wall = w, mono = mono c\<rparr>) (checked_time_sub (wall c) submicrosecond_nanos))"

fun is_after_or_eq_any :: "complex_time \<Rightarrow> partial_complex_time \<Rightarrow> bool" where
  "is_after_or_eq_any s (Wall w) = (wall s \<ge> w)"
| "is_after_or_eq_any s (Monotonic m) = (mono s \<ge> m)"
| "is_after_or_eq_any s (Complex c) = (wall s \<ge> wall c \<or> mono s \<ge> mono c)"

definition complex_time_from :: "system_time \<times> instant \<Rightarrow> complex_time" where
  "complex_time_from t = \<lparr>wall = fst t, mono = snd t\<rparr>"

text \<open>The operators \<open>+\<close> and \<open>-\<close> of \<open>ComplexTime\<close>: both components, panicking on overflow.\<close>

definition complex_time_add :: "complex_time \<Rightarrow> duration \<Rightarrow> complex_time option" where
  "complex_time_add c dur =
     (case (checked_time_add (wall c) dur, checked_time_add (mono c) dur) of
        (Some w, Some m) \<Rightarrow> Some \<lparr>wall = w, mono = m\<rparr> | _ \<Rightarrow> None)"

definition complex_time_sub :: "complex_time \<Rightarrow> duration \<Rightarrow> complex_time option" where
  "complex_time_sub c dur =
     (case (checked_time_sub (wall c) dur, checked_time_sub (mono c) dur) of
        (Some w, Some m) \<Rightarrow> Some \<lparr>wall = w, mono = m\<rparr> | _ \<Rightarrow> None)"

fun partial_time_add :: "partial_complex_time \<Rightarrow> duration \<Rightarrow> partial_complex_time option" where
  "partial_time_add (Wall w) dur = map_option Wall (checked_time_add w dur)"
| "partial_time_add (Monotonic m) dur = map_option Monotonic (checked_time_add m dur)"
| "partial_time_add (Complex c) dur = map_option Complex (complex_time_add c dur)"

fun partial_time_sub :: "partial_complex_time \<Rightarrow> duration \<Rightarrow> partial_complex_time option" where
  "partial_time_sub (Wall w) dur = map_option Wall (checked_time_sub w dur)"
| "partial_time_sub (Monotonic m) dur = map_option Monotonic (checked_time_sub m dur)"
| "partial_time_sub (Complex c) dur = map_option Complex (complex_time_sub c dur)"

fun destructure :: "partial_complex_time \<Rightarrow> system_time option \<times> instant option" where
  "destructure (Wall w) = (Some w, None)"
| "destructure (Monotonic m) = (None, Some m)"
| "destructure (Complex c) = (Some (wall c), Some (mono c))"

definition checked_to_system_time :: "partial_complex_time \<Rightarrow> system_time option" where
  "checked_to_system_time p = fst (destructure p)"

definition checked_to_instant :: "partial_complex_time \<Rightarrow> instant option" where
  "checked_to_instant p = snd (destructure p)"

definition checked_to_micros_since_epoch :: "partial_complex_time \<Rightarrow> i64 option" where
  "checked_to_micros_since_epoch p =
     Option.bind (checked_to_system_time p) checked_system_time_to_micros_from_epoch"

definition from_micros_since_epoch :: "i64 \<Rightarrow> partial_complex_time" where
  "from_micros_since_epoch micros = Wall (micros_from_epoch_to_system_time micros)"

definition complete_with :: "partial_complex_time \<Rightarrow> complex_time \<Rightarrow> complex_time" where
  "complete_with p complex =
     (let (system, instant) = destructure p
      in complex_time_from (case system of None \<Rightarrow> wall complex | Some w \<Rightarrow> w,
                            case instant of None \<Rightarrow> mono complex | Some m \<Rightarrow> m))"

section \<open>Time sources and timers\<close>

text \<open>\<open>MockTimeSource\<close>: the shared time every clone reads; \<open>advance\<close> and the truncation
  replace it, panicking as the operators do.\<close>

record mock_time_source =
  mts_time :: complex_time

definition mts_now_in_walltime :: "mock_time_source \<Rightarrow> system_time" where
  "mts_now_in_walltime s = wall (mts_time s)"

definition mts_now_in_monotonic :: "mock_time_source \<Rightarrow> instant" where
  "mts_now_in_monotonic s = mono (mts_time s)"

definition mts_now :: "mock_time_source \<Rightarrow> complex_time" where
  "mts_now s = mts_time s"

definition mts_new :: "complex_time \<Rightarrow> mock_time_source" where
  "mts_new t = \<lparr>mts_time = t\<rparr>"

definition mts_advance :: "mock_time_source \<Rightarrow> duration \<Rightarrow> mock_time_source option" where
  "mts_advance s d = map_option (\<lambda>t. \<lparr>mts_time = t\<rparr>) (complex_time_add (mts_time s) d)"

definition mts_truncate :: "mock_time_source \<Rightarrow> mock_time_source option" where
  "mts_truncate s = map_option (\<lambda>t. \<lparr>mts_time = t\<rparr>) (truncate_submicrosecond_walltime (mts_time s))"

datatype expected_wait = ExpectUntil partial_complex_time | ExpectFor duration duration
datatype requested_wait = WaitUntil partial_complex_time | WaitFor duration

record mock_timer =
  expected_waits :: "expected_wait list"
  requested_waits :: "requested_wait list"

text \<open>What a wait does: panic, complete at once, or block for ever.\<close>

datatype wait_result = WaitPanic | WaitReady | WaitPending

definition mock_timer_new :: mock_timer where
  "mock_timer_new = \<lparr>expected_waits = [], requested_waits = []\<rparr>"

definition expect_until :: "mock_timer \<Rightarrow> partial_complex_time \<Rightarrow> mock_timer" where
  "expect_until t time = t\<lparr>expected_waits := expected_waits t @ [ExpectUntil time]\<rparr>"

definition expect_for :: "mock_timer \<Rightarrow> duration \<Rightarrow> mock_timer" where
  "expect_for t d = t\<lparr>expected_waits := expected_waits t @ [ExpectFor d d]\<rparr>"

definition expect_for_range :: "mock_timer \<Rightarrow> duration \<Rightarrow> duration \<Rightarrow> mock_timer" where
  "expect_for_range t lo hi = t\<lparr>expected_waits := expected_waits t @ [ExpectFor lo hi]\<rparr>"

fun wait_matches :: "requested_wait \<Rightarrow> expected_wait \<Rightarrow> bool" where
  "wait_matches (WaitFor d) (ExpectFor lo hi) = (lo \<le> d \<and> d \<le> hi)"
| "wait_matches (WaitUntil r) (ExpectUntil e) = (r = e)"
| "wait_matches _ _ = False"

definition handle_wait :: "mock_timer \<Rightarrow> requested_wait \<Rightarrow> wait_result \<times> mock_timer" where
  "handle_wait t requested =
     (case expected_waits t of
        [] \<Rightarrow> (WaitPending, t)
      | expected # rest \<Rightarrow>
          (if wait_matches requested expected
           then (WaitReady, t\<lparr>expected_waits := rest, requested_waits := requested_waits t @ [requested]\<rparr>)
           else (WaitPanic, t\<lparr>expected_waits := rest\<rparr>)))"

text \<open>A sequence of waits, as long as each completes.\<close>

fun handle_waits :: "mock_timer \<Rightarrow> requested_wait list \<Rightarrow> wait_result \<times> mock_timer" where
  "handle_waits t [] = (WaitReady, t)"
| "handle_waits t (r # rs) =
     (case handle_wait t r of (WaitReady, t') \<Rightarrow> handle_waits t' rs | res \<Rightarrow> res)"

text \<open>\<open>Drop\<close> asserts that nothing expected is left.\<close>

definition mock_timer_drop_ok :: "mock_timer \<Rightarrow> bool" where
  "mock_timer_drop_ok t \<longleftrightarrow> expected_waits t = []"

definition stub_timer_wait :: "requested_wait \<Rightarrow> wait_result" where
  "stub_timer_wait _ = WaitReady"

section \<open>Lemmas\<close>

lemma sint_64_bounds: "- (2 ^ 63) \<le> sint (m :: i64)" "sint (m :: i64) < 2 ^ 63"
  using sint_range_size [of m] by (simp_all add: word_size)

lemma uint_of_sint: "uint (m :: i64) = sint m mod 2 ^ 64"
  by (simp add: uint_sint take_bit_eq_mod)

lemma unat_of_nonneg: "0 \<le> sint (m :: i64) \<Longrightarrow> int (unat m) = sint m"
  using sint_64_bounds [of m] by (simp add: uint_of_sint)

lemma unat_of_neg: "sint (m :: i64) \<le> 0 \<Longrightarrow> int (unat (- m)) = - sint m"
proof -
  assume a: "sint m \<le> 0"
  have "uint (- m) = (- uint m) mod 2 ^ 64"
    by (simp add: uint_word_ariths)
  also have "\<dots> = (- sint m) mod 2 ^ 64"
    by (simp add: uint_of_sint mod_minus_eq)
  also have "\<dots> = - sint m" using a sint_64_bounds [of m] by simp
  finally show ?thesis by simp
qed

lemma micros_from_epoch_eq: "micros_from_epoch_to_system_time m = sint m * 1000"
  using unat_of_nonneg [of m] unat_of_neg [of m]
  by (simp add: micros_from_epoch_to_system_time_def duration_from_micros_def)

lemma sint_eq_64: "m = x \<longleftrightarrow> sint (m :: i64) = sint x"
  by (auto intro: signed_word_eqI)

lemma sint_word_of_int_63:
  "- (2 ^ 63) \<le> k \<Longrightarrow> k < 2 ^ 63 \<Longrightarrow> sint (word_of_int k :: i64) = k"
  by (simp add: signed_of_int signed_take_bit_int_eq_self)

lemma sint_uminus_64: "sint (m :: i64) \<noteq> - (2 ^ 63) \<Longrightarrow> sint (- m) = - sint m"
proof -
  assume "sint m \<noteq> - (2 ^ 63)"
  then have "sint (word_of_int (- sint m) :: i64) = - sint m"
    using sint_64_bounds [of m] by (intro sint_word_of_int_63) auto
  moreover have "word_of_int (- sint m) = - m" by simp
  ultimately show ?thesis by metis
qed

lemma to_micros_of_nonneg:
  "0 \<le> t \<Longrightarrow> checked_system_time_to_micros_from_epoch t = i64_try_from_nat (nat t div 1000)"
  by (simp add: checked_system_time_to_micros_from_epoch_def duration_since_def duration_as_micros_def)

lemma to_micros_of_neg:
  assumes "t < 0"
  shows "checked_system_time_to_micros_from_epoch t =
    (let n = nat (- t) div 1000 in if n < 2 ^ 63 then Some (- of_nat n) else None)"
proof -
  have "i64_checked_neg (of_nat n) = Some (- of_nat n)" if "n < 2 ^ 63" for n
    using sint_of_nat_63 [OF that] by (simp add: i64_checked_neg_def)
  with assms show ?thesis
    by (simp add: checked_system_time_to_micros_from_epoch_def duration_since_def
        duration_as_micros_def i64_try_from_nat_def Let_def)
qed

lemma sint_minus_of_nat_63: "n < 2 ^ 63 \<Longrightarrow> sint (- (of_nat n) :: i64) = - int n"
  using sint_of_nat_63 [of n] sint_uminus_64 [of "of_nat n"] by simp

lemma to_micros_Some_iff:
  "checked_system_time_to_micros_from_epoch t = Some m \<longleftrightarrow>
     \<bar>t\<bar> div 1000 < 2 ^ 63 \<and> sint m = sgn t * (\<bar>t\<bar> div 1000)"
  (is "?L \<longleftrightarrow> ?R")
proof (cases "0 \<le> t")
  case True
  then obtain n where n: "t = int n" by (metis nonneg_int_cases)
  have d: "int n div 1000 = int (n div 1000)" by (simp add: zdiv_int)
  have bound: "n div 1000 < 2 ^ 63 \<longleftrightarrow> int n div 1000 < 2 ^ 63"
    unfolding d by simp
  have "?L \<longleftrightarrow> n div 1000 < 2 ^ 63 \<and> m = of_nat (n div 1000)"
    using n by (auto simp: to_micros_of_nonneg i64_try_from_nat_def)
  also have "\<dots> \<longleftrightarrow> n div 1000 < 2 ^ 63 \<and> sint m = int (n div 1000)"
    using sint_of_nat_63 [of "n div 1000"] by (metis sint_eq_64)
  finally show ?thesis using bound n d by (cases "n = 0") (auto simp: sgn_if)
next
  case False
  then obtain n where n: "t = - int n" "n > 0"
    by (metis int_cases nat_less_le neg_int_cases not_le)
  have d: "int n div 1000 = int (n div 1000)" by (simp add: zdiv_int)
  have bound: "n div 1000 < 2 ^ 63 \<longleftrightarrow> int n div 1000 < 2 ^ 63"
    unfolding d by simp
  have "?L \<longleftrightarrow> n div 1000 < 2 ^ 63 \<and> m = - of_nat (n div 1000)"
    using n by (auto simp: to_micros_of_neg Let_def)
  also have "\<dots> \<longleftrightarrow> n div 1000 < 2 ^ 63 \<and> sint m = - int (n div 1000)"
    using sint_minus_of_nat_63 [of "n div 1000"] by (metis sint_eq_64)
  finally show ?thesis using bound n d by (auto simp: sgn_if)
qed

lemma micros_from_epoch_representable: "representable (micros_from_epoch_to_system_time m)"
  using sint_64_bounds [of m] by (simp add: micros_from_epoch_eq representable_def)

section \<open>Properties\<close>

text \<open>A stored number of microseconds comes back unchanged through a \<open>SystemTime\<close>, except the
  smallest \<open>i64\<close>, which is converted to a time (within the representable range) that converts
  back to nothing.\<close>

lemma micros_roundtrip:
  "representable (micros_from_epoch_to_system_time m) \<and>
   checked_system_time_to_micros_from_epoch (micros_from_epoch_to_system_time m) =
     (if sint m = - (2 ^ 63) then None else Some m)"
proof (cases "sint m = - (2 ^ 63)")
  case True
  have "checked_system_time_to_micros_from_epoch (micros_from_epoch_to_system_time m) \<noteq> Some x" for x
    using True by (simp add: to_micros_Some_iff micros_from_epoch_eq)
  with True show ?thesis using micros_from_epoch_representable [of m] by force
next
  case False
  have "\<bar>sint m * 1000\<bar> div 1000 = \<bar>sint m\<bar>" by (simp add: abs_mult)
  moreover have "sgn (sint m * 1000) * \<bar>sint m\<bar> = sint m" by (simp add: sgn_if)
  moreover have "\<bar>sint m\<bar> < 2 ^ 63" using False sint_64_bounds [of m] by linarith
  ultimately have "checked_system_time_to_micros_from_epoch (micros_from_epoch_to_system_time m) = Some m"
    unfolding to_micros_Some_iff micros_from_epoch_eq by presburger
  with False show ?thesis using micros_from_epoch_representable [of m] by simp
qed

text \<open>Storing a time keeps it to the microsecond: what comes back is on the epoch's side of the
  time stored, less than a microsecond away.\<close>

lemma time_survives_to_the_microsecond:
  assumes "checked_system_time_to_micros_from_epoch t = Some m"
  shows "\<bar>t - micros_from_epoch_to_system_time m\<bar> < 1000 \<and>
         \<bar>micros_from_epoch_to_system_time m\<bar> \<le> \<bar>t\<bar>"
proof -
  from assms have m: "sint m = sgn t * (\<bar>t\<bar> div 1000)" by (simp add: to_micros_Some_iff)
  consider "t > 0" | "t = 0" | "t < 0" by linarith
  then show ?thesis
  proof cases
    case 1
    with div_mult_mod_eq [of t 1000] pos_mod_bound [of 1000 t] pos_mod_sign [of 1000 t]
    have "0 \<le> t - t div 1000 * 1000" "t - t div 1000 * 1000 < 1000" by linarith+
    with 1 show ?thesis by (simp add: micros_from_epoch_eq m)
  next
    case 3
    with div_mult_mod_eq [of "- t" 1000] pos_mod_bound [of 1000 "- t"] pos_mod_sign [of 1000 "- t"]
    have "0 \<le> - t - - t div 1000 * 1000" "- t - - t div 1000 * 1000 < 1000" by linarith+
    with 3 show ?thesis by (simp add: micros_from_epoch_eq m)
  qed (simp add: micros_from_epoch_eq m)
qed

text \<open>C39: What \<open>truncate_submicrosecond_walltime\<close> computes.  From the epoch on it rounds down to the
  microsecond.  Before the epoch it also rounds down, except that a time that is already a whole
  number of microseconds is moved one microsecond earlier; the monotonic time is untouched.\<close>

theorem truncate_submicrosecond_walltime_spec:
  assumes "truncate_submicrosecond_walltime c = Some c'"
  shows "mono c' = mono c \<and>
         wall c' = 1000 * (wall c div 1000) - (if wall c < 0 \<and> 1000 dvd wall c then 1000 else 0)"
proof (cases "0 \<le> wall c")
  case True
  then have "int (nat (wall c) mod 1000) = wall c mod 1000" by (simp add: zmod_int)
  with assms True show ?thesis
    by (auto simp: truncate_submicrosecond_walltime_def wall_duration_since_def duration_since_def
        checked_time_sub_def Let_def minus_mod_eq_mult_div split: if_splits)
next
  case False
  then have "int (nat (- wall c) mod 1000) = (- wall c) mod 1000" by (simp add: zmod_int)
  moreover have "nat (- wall c) mod 1000 \<le> 1000" by (simp add: less_imp_le)
  ultimately have *: "int (1000 - nat (- wall c) mod 1000) = 1000 - (- wall c) mod 1000"
    by (simp add: of_nat_diff)
  have "wall c - (1000 - (- wall c) mod 1000) =
      1000 * (wall c div 1000) - (if 1000 dvd wall c then 1000 else 0)"
    by (simp add: zmod_zminus1_eq_if dvd_eq_mod_eq_0 minus_mod_eq_mult_div [symmetric])
  with assms False * show ?thesis
    by (auto simp: truncate_submicrosecond_walltime_def wall_duration_since_def duration_since_def
        checked_time_sub_def Let_def split: if_splits)
qed

theorem truncate_submicrosecond_walltime_spec_witness:
  "truncate_submicrosecond_walltime \<lparr>wall = - 2000, mono = 5\<rparr> = Some \<lparr>wall = - 3000, mono = 5\<rparr> \<and>
   1000 * (- 2000 div 1000) - 1000 = (- 3000 :: int)"
proof -
  have h: "truncate_submicrosecond_walltime \<lparr>wall = - 2000, mono = 5\<rparr> = Some \<lparr>wall = - 3000, mono = 5\<rparr>"
    by (simp add: truncate_submicrosecond_walltime_def wall_duration_since_def duration_since_def
        checked_time_sub_def representable_def)
  show ?thesis using truncate_submicrosecond_walltime_spec [OF h] h by simp
qed

lemma partial_time_add_sub:
  "partial_time_add p d = Some q \<Longrightarrow> (\<forall>w. fst (destructure p) = Some w \<longrightarrow> representable w) \<Longrightarrow>
   (\<forall>m. snd (destructure p) = Some m \<longrightarrow> representable m) \<Longrightarrow> partial_time_sub q d = Some p"
  by (cases p)
     (auto simp: checked_time_add_def checked_time_sub_def complex_time_add_def complex_time_sub_def
        split: if_splits option.splits)

lemma is_after_or_eq_any_now: "is_after_or_eq_any c (Complex c)"
  by simp

text \<open>A completed time is after, on some timeline, exactly when the partial time is: completing
  a bound from the current time never makes it later than the bound or than the current time.\<close>

lemma complete_with_spec:
  "destructure (Complex (complete_with p c)) =
     (Some (case fst (destructure p) of None \<Rightarrow> wall c | Some w \<Rightarrow> w),
      Some (case snd (destructure p) of None \<Rightarrow> mono c | Some m \<Rightarrow> m)) \<and>
   (is_after_or_eq_any c p \<longrightarrow> is_after_or_eq_any c (Complex (complete_with p c)))"
  by (cases p) (auto simp: complete_with_def complex_time_from_def)


lemma handle_wait_ready:
  "handle_wait t r = (WaitReady, t') \<Longrightarrow>
     \<exists>e. expected_waits t = e # expected_waits t' \<and> wait_matches r e \<and>
         requested_waits t' = requested_waits t @ [r]"
  by (auto simp: handle_wait_def split: list.splits if_splits)

text \<open>The mock timer lets a run of waits through only if they match, one by one and in order, the
  expectations at the front of its queue; it records exactly those waits and keeps the rest.\<close>

lemma mock_timer_matches:
  assumes "handle_waits t rs = (WaitReady, t')"
  shows "\<exists>es. expected_waits t = es @ expected_waits t' \<and> list_all2 wait_matches rs es \<and>
              requested_waits t' = requested_waits t @ rs"
  using assms
proof (induction rs arbitrary: t)
  case Nil
  then show ?case by simp
next
  case (Cons r rs)
  then obtain u where u: "handle_wait t r = (WaitReady, u)" "handle_waits u rs = (WaitReady, t')"
    by (auto split: prod.splits wait_result.splits)
  with Cons.IH [of u] obtain es where
    "expected_waits u = es @ expected_waits t'" "list_all2 wait_matches rs es"
    "requested_waits t' = requested_waits u @ rs" by blast
  with handle_wait_ready [OF u(1)] show ?case
    by (metis append.assoc append_Cons append_Nil list.rel_intros(2))
qed


end
