(* ===== verification/Storage_Model.thy ===== *)
theory Storage_Model imports Time_Model begin

text \<open>
  \<open>omaha-client/src/storage.rs\<close> (the trait \<open>Storage\<close> and its extension \<open>StorageExt\<close>),
  \<open>storage/memory.rs\<close> (\<open>MemStorage\<close>) and \<open>storage/stub.rs\<close> (\<open>StubStorage\<close>, which fails on
  purpose).  The trait is a record of operations on a store of any type; its documented promises
  are a locale, which both implementations interpret.
\<close>

section \<open>The trait\<close>

record ('s, 'e) storage_ops =
  get_string :: "'s \<Rightarrow> string \<Rightarrow> string option"
  get_int :: "'s \<Rightarrow> string \<Rightarrow> i64 option"
  get_bool :: "'s \<Rightarrow> string \<Rightarrow> bool option"
  set_string :: "'s \<Rightarrow> string \<Rightarrow> string \<Rightarrow> ('e + unit) \<times> 's"
  set_int :: "'s \<Rightarrow> string \<Rightarrow> i64 \<Rightarrow> ('e + unit) \<times> 's"
  set_bool :: "'s \<Rightarrow> string \<Rightarrow> bool \<Rightarrow> ('e + unit) \<times> 's"
  remove_value :: "'s \<Rightarrow> string \<Rightarrow> ('e + unit) \<times> 's"
  commit_values :: "'s \<Rightarrow> ('e + unit) \<times> 's"

text \<open>\<open>StorageExt\<close>.\<close>

definition set_option_int :: "('s, 'e) storage_ops \<Rightarrow> 's \<Rightarrow> string \<Rightarrow> i64 option \<Rightarrow> ('e + unit) \<times> 's" where
  "set_option_int ops s key value =
     (case value of Some v \<Rightarrow> set_int ops s key v | None \<Rightarrow> remove_value ops s key)"

definition get_time :: "('s, 'e) storage_ops \<Rightarrow> 's \<Rightarrow> string \<Rightarrow> system_time option" where
  "get_time ops s key = map_option micros_from_epoch_to_system_time (get_int ops s key)"

definition set_time :: "('s, 'e) storage_ops \<Rightarrow> 's \<Rightarrow> string \<Rightarrow> system_time \<Rightarrow> ('e + unit) \<times> 's" where
  "set_time ops s key value = set_option_int ops s key (checked_system_time_to_micros_from_epoch value)"

definition remove_or_log :: "('s, 'e) storage_ops \<Rightarrow> 's \<Rightarrow> string \<Rightarrow> 's" where
  "remove_or_log ops s key = snd (remove_value ops s key)"

definition commit_or_log :: "('s, 'e) storage_ops \<Rightarrow> 's \<Rightarrow> 's" where
  "commit_or_log ops s = snd (commit_values ops s)"

section \<open>MemStorage and StubStorage\<close>

datatype stored = StoredString string | StoredInt i64 | StoredBool bool

record mem_storage =
  mem_data :: "string \<rightharpoonup> stored"
  mem_committed :: bool

datatype storage_errors = UnknownStorageError

definition mem_new :: mem_storage where
  "mem_new = \<lparr>mem_data = Map.empty, mem_committed = True\<rparr>"

definition mem_is_committed :: "mem_storage \<Rightarrow> bool" where
  "mem_is_committed s = mem_committed s"

definition mem_len :: "mem_storage \<Rightarrow> nat" where
  "mem_len s = card (dom (mem_data s))"

definition mem_is_empty :: "mem_storage \<Rightarrow> bool" where
  "mem_is_empty s \<longleftrightarrow> mem_data s = Map.empty"

definition mem_get_string :: "mem_storage \<Rightarrow> string \<Rightarrow> string option" where
  "mem_get_string s key = (case mem_data s key of Some (StoredString v) \<Rightarrow> Some v | _ \<Rightarrow> None)"

definition mem_get_int :: "mem_storage \<Rightarrow> string \<Rightarrow> i64 option" where
  "mem_get_int s key = (case mem_data s key of Some (StoredInt v) \<Rightarrow> Some v | _ \<Rightarrow> None)"

definition mem_get_bool :: "mem_storage \<Rightarrow> string \<Rightarrow> bool option" where
  "mem_get_bool s key = (case mem_data s key of Some (StoredBool v) \<Rightarrow> Some v | _ \<Rightarrow> None)"

definition mem_set_string :: "mem_storage \<Rightarrow> string \<Rightarrow> string \<Rightarrow> (storage_errors + unit) \<times> mem_storage" where
  "mem_set_string s key value =
     (Inr (), s\<lparr>mem_data := (mem_data s)(key \<mapsto> StoredString value), mem_committed := False\<rparr>)"

definition mem_set_int :: "mem_storage \<Rightarrow> string \<Rightarrow> i64 \<Rightarrow> (storage_errors + unit) \<times> mem_storage" where
  "mem_set_int s key value =
     (Inr (), s\<lparr>mem_data := (mem_data s)(key \<mapsto> StoredInt value), mem_committed := False\<rparr>)"

definition mem_set_bool :: "mem_storage \<Rightarrow> string \<Rightarrow> bool \<Rightarrow> (storage_errors + unit) \<times> mem_storage" where
  "mem_set_bool s key value =
     (Inr (), s\<lparr>mem_data := (mem_data s)(key \<mapsto> StoredBool value), mem_committed := False\<rparr>)"

definition mem_remove :: "mem_storage \<Rightarrow> string \<Rightarrow> (storage_errors + unit) \<times> mem_storage" where
  "mem_remove s key = (Inr (), s\<lparr>mem_data := (mem_data s)(key := None), mem_committed := False\<rparr>)"

definition mem_commit :: "mem_storage \<Rightarrow> (storage_errors + unit) \<times> mem_storage" where
  "mem_commit s = (Inr (), s\<lparr>mem_committed := True\<rparr>)"

definition mem_ops :: "(mem_storage, storage_errors) storage_ops" where
  "mem_ops =
     \<lparr>get_string = mem_get_string, get_int = mem_get_int, get_bool = mem_get_bool,
      set_string = mem_set_string, set_int = mem_set_int, set_bool = mem_set_bool,
      remove_value = mem_remove, commit_values = mem_commit\<rparr>"

datatype stub_errors = Intentional

definition stub_storage_ops :: "(unit, stub_errors) storage_ops" where
  "stub_storage_ops =
     \<lparr>get_string = (\<lambda>_ _. None), get_int = (\<lambda>_ _. None), get_bool = (\<lambda>_ _. None),
      set_string = (\<lambda>s _ _. (Inl Intentional, s)), set_int = (\<lambda>s _ _. (Inl Intentional, s)),
      set_bool = (\<lambda>s _ _. (Inl Intentional, s)), remove_value = (\<lambda>s _. (Inl Intentional, s)),
      commit_values = (\<lambda>s. (Inl Intentional, s))\<rparr>"

section \<open>What the trait promises\<close>

text \<open>
  The documentation of \<open>Storage\<close>: a value read under the wrong type reads as absent; a \<open>get\<close>
  after a successful \<open>set\<close> returns the value set, committed or not; a change of one key leaves the
  others alone; committing changes no value.  What a failed write leaves under its key is open.
\<close>

locale storage_laws =
  fixes ops :: "('s, 'e) storage_ops"
    and view :: "'s \<Rightarrow> string \<rightharpoonup> stored"
  assumes view_string: "get_string ops s k = (case view s k of Some (StoredString v) \<Rightarrow> Some v | _ \<Rightarrow> None)"
    and view_int: "get_int ops s k = (case view s k of Some (StoredInt v) \<Rightarrow> Some v | _ \<Rightarrow> None)"
    and view_bool: "get_bool ops s k = (case view s k of Some (StoredBool v) \<Rightarrow> Some v | _ \<Rightarrow> None)"
    and set_string_view: "set_string ops s k v = (r, s') \<Longrightarrow>
          (\<forall>k'. k' \<noteq> k \<longrightarrow> view s' k' = view s k') \<and> (is_ok r \<longrightarrow> view s' k = Some (StoredString v))"
    and set_int_view: "set_int ops s k i = (r, s') \<Longrightarrow>
          (\<forall>k'. k' \<noteq> k \<longrightarrow> view s' k' = view s k') \<and> (is_ok r \<longrightarrow> view s' k = Some (StoredInt i))"
    and set_bool_view: "set_bool ops s k b = (r, s') \<Longrightarrow>
          (\<forall>k'. k' \<noteq> k \<longrightarrow> view s' k' = view s k') \<and> (is_ok r \<longrightarrow> view s' k = Some (StoredBool b))"
    and remove_view: "remove_value ops s k = (r, s') \<Longrightarrow>
          (\<forall>k'. k' \<noteq> k \<longrightarrow> view s' k' = view s k') \<and> (is_ok r \<longrightarrow> view s' k = None)"
    and commit_view: "view (snd (commit_values ops s)) = view s"
begin

lemma set_option_int_view:
  "set_option_int ops s k i = (r, s') \<Longrightarrow>
     (\<forall>k'. k' \<noteq> k \<longrightarrow> view s' k' = view s k') \<and> (is_ok r \<longrightarrow> view s' k = map_option StoredInt i)"
  by (auto simp: set_option_int_def dest: set_int_view remove_view split: option.splits)

lemma get_set_option_int:
  "set_option_int ops s k i = (Inr (), s') \<Longrightarrow> get_int ops s' k = i"
  using set_option_int_view [of s k i "Inr ()" s'] by (auto simp: view_int split: option.splits)

lemma set_time_view:
  "set_time ops s k t = (r, s') \<Longrightarrow>
     (\<forall>k'. k' \<noteq> k \<longrightarrow> view s' k' = view s k') \<and>
     (is_ok r \<longrightarrow> view s' k = map_option StoredInt (checked_system_time_to_micros_from_epoch t))"
  unfolding set_time_def by (rule set_option_int_view)

lemma get_set_time:
  assumes "set_time ops s k t = (Inr (), s')"
  shows "get_time ops s' k =
    map_option micros_from_epoch_to_system_time (checked_system_time_to_micros_from_epoch t)"
  using assms get_set_option_int by (simp add: set_time_def get_time_def)

lemma remove_or_log_frame: "k' \<noteq> k \<Longrightarrow> view (remove_or_log ops s k) k' = view s k'"
  using remove_view [of s k "fst (remove_value ops s k)" "snd (remove_value ops s k)"]
  by (simp add: remove_or_log_def)

lemma commit_or_log_view: "view (commit_or_log ops s) = view s"
  by (simp add: commit_or_log_def commit_view)

lemma wrong_type_reads_absent:
  "get_int ops s k \<noteq> None \<Longrightarrow> get_string ops s k = None \<and> get_bool ops s k = None"
  by (auto simp: view_int view_string view_bool split: option.splits stored.splits)

end

text \<open>A store whose writes succeed, as \<open>MemStorage\<close>'s do.\<close>

locale reliable_storage = storage_laws +
  assumes set_string_ok: "is_ok (fst (set_string ops s k v))"
    and set_int_ok: "is_ok (fst (set_int ops s k i))"
    and set_bool_ok: "is_ok (fst (set_bool ops s k b))"
    and remove_ok: "is_ok (fst (remove_value ops s k))"
begin

lemma set_string_upd: "view (snd (set_string ops s k v)) = (view s)(k \<mapsto> StoredString v)"
  using set_string_view [of s k v "fst (set_string ops s k v)" "snd (set_string ops s k v)"] set_string_ok
  by (auto simp: fun_eq_iff)

lemma set_int_upd: "view (snd (set_int ops s k v)) = (view s)(k \<mapsto> StoredInt v)"
  using set_int_view [of s k v "fst (set_int ops s k v)" "snd (set_int ops s k v)"] set_int_ok
  by (auto simp: fun_eq_iff)

lemma remove_upd: "view (snd (remove_value ops s k)) = (view s)(k := None)"
  using remove_view [of s k "fst (remove_value ops s k)" "snd (remove_value ops s k)"] remove_ok
  by (auto simp: fun_eq_iff)

lemma set_option_int_upd: "view (snd (set_option_int ops s k i)) = (view s)(k := map_option StoredInt i)"
  by (cases i) (simp_all add: set_option_int_def remove_upd set_int_upd)

lemma set_option_int_ok: "is_ok (fst (set_option_int ops s k i))"
  by (cases i) (simp_all add: set_option_int_def remove_ok set_int_ok)

lemma set_time_upd:
  "view (snd (set_time ops s k t)) = (view s)(k := map_option StoredInt (checked_system_time_to_micros_from_epoch t))"
  by (simp add: set_time_def set_option_int_upd)

lemma remove_or_log_upd: "view (remove_or_log ops s k) = (view s)(k := None)"
  by (simp add: remove_or_log_def remove_upd)

lemmas view_upds = set_string_upd set_int_upd remove_upd set_option_int_upd set_time_upd
  remove_or_log_upd commit_or_log_view

end

lemmas mem_defs = mem_ops_def mem_get_string_def mem_get_int_def mem_get_bool_def mem_set_string_def
  mem_set_int_def mem_set_bool_def mem_remove_def mem_commit_def

interpretation mem: reliable_storage mem_ops mem_data
  by unfold_locales (auto simp: mem_defs)

interpretation stub_store: storage_laws stub_storage_ops "\<lambda>_. Map.empty"
  by unfold_locales (auto simp: stub_storage_ops_def)

declare mem.commit_or_log_view [simp]

lemma mem_committed_simps [simp]:
  "mem_committed (snd (set_option_int mem_ops s k i)) = False"
  "mem_committed (commit_or_log mem_ops s) = True"
  "mem_committed (remove_or_log mem_ops s k) = False"
  by (auto simp: set_option_int_def commit_or_log_def remove_or_log_def mem_defs split: option.splits)

section \<open>Properties\<close>

text \<open>A time written to \<open>MemStorage\<close> reads back truncated to the microsecond (and reads as absent
  when it does not fit 64 bits of microseconds); every other key, of any type, is untouched; the
  store is left uncommitted until \<open>commit\<close>, which changes no value.\<close>

lemma mem_set_time_get_time:
  "let s' = snd (set_time mem_ops s k t) in
     get_time mem_ops s' k = map_option micros_from_epoch_to_system_time (checked_system_time_to_micros_from_epoch t) \<and>
     (\<forall>k'. k' \<noteq> k \<longrightarrow> mem_data s' k' = mem_data s k') \<and> \<not> mem_committed s' \<and>
     mem_data (commit_or_log mem_ops s') = mem_data s' \<and> mem_committed (commit_or_log mem_ops s')"
proof -
  have "set_time mem_ops s k t = (Inr (), snd (set_time mem_ops s k t))"
    by (auto simp: set_time_def set_option_int_def mem_defs split: option.splits)
  then show ?thesis
    using mem.get_set_time [of s k t] by (auto simp: Let_def mem.set_option_int_upd set_time_def)
qed

end
