(* ===== verification/Json_Model.thy ===== *)
theory Json_Model imports Omaha_Prelude begin

text \<open>
  JSON values and the shapes of serialisation and deserialisation that serde's derive macros
  produce for the attributes the protocol structs use: optional fields that are left out, flattened
  fields, missing, null and repeated fields, and the sequence form of a struct.  The byte-level
  reader and writer of \<open>serde_json\<close> are parameters of the functions that use them.

  An object is the list of its fields in order; deserialisation errors are \<open>None\<close>.
\<close>

datatype json =
    JNull | JBool bool | JInt int | JFloat string | JStr string
  | JArr "json list" | JObj "(string \<times> json) list"

section \<open>Writing\<close>

text \<open>\<open>skip_serializing_if = "Option::is_none"\<close>.\<close>

definition opt_entry :: "string \<Rightarrow> ('a \<Rightarrow> json) \<Rightarrow> 'a option \<Rightarrow> (string \<times> json) list" where
  "opt_entry k f v = (case v of None \<Rightarrow> [] | Some x \<Rightarrow> [(k, f x)])"

lemma opt_entry_simps [simp]: "opt_entry k f None = []" "opt_entry k f (Some x) = [(k, f x)]"
  by (simp_all add: opt_entry_def)

section \<open>Reading\<close>

type_synonym fields = "(string \<times> json) list"

text \<open>A known field: absent, present, or present more than once (an error).\<close>

definition field_values :: "fields \<Rightarrow> string \<Rightarrow> json list" where
  "field_values kvs k = map snd (filter (\<lambda>p. fst p = k) kvs)"

definition req_field :: "fields \<Rightarrow> string \<Rightarrow> (json \<Rightarrow> 'a option) \<Rightarrow> 'a option" where
  "req_field kvs k f = (case field_values kvs k of [v] \<Rightarrow> f v | _ \<Rightarrow> None)"

definition de_option :: "(json \<Rightarrow> 'a option) \<Rightarrow> json \<Rightarrow> 'a option option" where
  "de_option f j = (if j = JNull then Some None else map_option Some (f j))"

definition opt_field :: "fields \<Rightarrow> string \<Rightarrow> (json \<Rightarrow> 'a option) \<Rightarrow> 'a option option" where
  "opt_field kvs k f =
     (case field_values kvs k of [] \<Rightarrow> Some None | [v] \<Rightarrow> de_option f v | _ \<Rightarrow> None)"

text \<open>A struct without flattened fields is read from an object (unknown fields are ignored) or from
  an array of exactly its fields; a struct with flattened fields only from an object.\<close>

definition struct_fields :: "string list \<Rightarrow> json \<Rightarrow> fields option" where
  "struct_fields names j =
     (case j of
        JObj kvs \<Rightarrow> Some kvs
      | JArr vs \<Rightarrow> if length vs = length names then Some (zip names vs) else None
      | _ \<Rightarrow> None)"

definition map_fields :: "json \<Rightarrow> fields option" where
  "map_fields j = (case j of JObj kvs \<Rightarrow> Some kvs | _ \<Rightarrow> None)"

text \<open>The flattened rest of an object, as a map; the last of several equal keys wins.\<close>

definition rest_fields :: "string list \<Rightarrow> fields \<Rightarrow> (string \<rightharpoonup> json)" where
  "rest_fields known kvs = map_of (rev (filter (\<lambda>p. fst p \<notin> set known) kvs))"

fun de_string :: "json \<Rightarrow> string option" where
  "de_string (JStr s) = Some s"
| "de_string _ = None"

fun de_bool :: "json \<Rightarrow> bool option" where
  "de_bool (JBool b) = Some b"
| "de_bool _ = None"

fun de_uint :: "nat \<Rightarrow> json \<Rightarrow> nat option" where
  "de_uint M (JInt n) = (if 0 \<le> n \<and> n \<le> int M then Some (nat n) else None)"
| "de_uint M _ = None"

definition de_u32 :: "json \<Rightarrow> u32 option" where
  "de_u32 j = map_option of_nat (de_uint 4294967295 j)"

definition de_u64 :: "json \<Rightarrow> u64 option" where
  "de_u64 j = map_option of_nat (de_uint 18446744073709551615 j)"

fun sequence :: "'a option list \<Rightarrow> 'a list option" where
  "sequence [] = Some []"
| "sequence (x # xs) = (case x of None \<Rightarrow> None | Some v \<Rightarrow> map_option (Cons v) (sequence xs))"

definition de_list :: "(json \<Rightarrow> 'a option) \<Rightarrow> json \<Rightarrow> 'a list option" where
  "de_list f j = (case j of JArr xs \<Rightarrow> sequence (map f xs) | _ \<Rightarrow> None)"

section \<open>Lemmas\<close>

lemma field_values_Nil [simp]: "field_values [] k = []"
  by (simp add: field_values_def)

lemma field_values_Cons [simp]:
  "field_values ((k', v) # kvs) k = (if k' = k then v # field_values kvs k else field_values kvs k)"
  by (simp add: field_values_def)

lemma field_values_append [simp]: "field_values (a @ b) k = field_values a k @ field_values b k"
  by (simp add: field_values_def)

lemma field_values_opt_entry [simp]:
  "field_values (opt_entry k f v) k' = (if k' = k then (case v of None \<Rightarrow> [] | Some x \<Rightarrow> [f x]) else [])"
  by (cases v) auto

lemma sequence_map_Some: "(\<And>x. x \<in> set xs \<Longrightarrow> f x = Some (g x)) \<Longrightarrow> sequence (map f xs) = Some (map g xs)"
  by (induction xs) auto

lemma sequence_Some_iff: "sequence xs = Some ys \<longleftrightarrow> xs = map Some ys"
proof (induction xs arbitrary: ys)
  case (Cons x xs)
  then show ?case by (cases ys) (auto split: option.splits)
qed auto

lemma de_u32_of_uint [simp]: "de_u32 (JInt (uint x)) = Some x"
proof -
  have "uint x < 2 ^ LENGTH(32)" by (rule unsigned_less)
  then show ?thesis by (simp add: de_u32_def)
qed

lemma keys_opt_entry [simp]:
  "distinct (map fst (opt_entry k f v))" "fst ` set (opt_entry k f v) = (if v = None then {} else {k})"
  by (cases v; simp)+

lemmas de_simps = req_field_def opt_field_def de_option_def struct_fields_def map_fields_def de_list_def

end
