(* ===== verification/Protocol_Model.thy ===== *)
theory Protocol_Model imports Json_Model begin

text \<open>
  \<open>omaha-client/src/protocol.rs\<close> (cohorts) and \<open>protocol/request.rs\<close>: the request structs and
  what their derived \<open>Serialize\<close> writes, field by field in declaration order.
  The GUIDs' text is that of the \<open>uuid\<close> crate; a GUID is modelled as this (braced) text.
\<close>

section \<open>Cohorts\<close>

record cohort =
  cohort_id :: "string option"
  cohort_hint :: "string option"
  cohort_name :: "string option"

definition cohort_default :: cohort where
  "cohort_default = \<lparr>cohort_id = None, cohort_hint = None, cohort_name = None\<rparr>"

definition cohort_new :: "string \<Rightarrow> cohort" where
  "cohort_new i = \<lparr>cohort_id = Some i, cohort_hint = None, cohort_name = None\<rparr>"

definition cohort_from_hint :: "string \<Rightarrow> cohort" where
  "cohort_from_hint h = \<lparr>cohort_id = None, cohort_hint = Some h, cohort_name = None\<rparr>"

definition cohort_update_from_omaha :: "cohort \<Rightarrow> cohort \<Rightarrow> cohort" where
  "cohort_update_from_omaha c omaha =
     (let c1 = (if cohort_id omaha \<noteq> None then c\<lparr>cohort_id := cohort_id omaha\<rparr> else c);
          c2 = (if cohort_hint omaha \<noteq> None then c1\<lparr>cohort_hint := cohort_hint omaha\<rparr> else c1)
      in if cohort_name omaha \<noteq> None then c2\<lparr>cohort_name := cohort_name omaha\<rparr> else c2)"

text \<open>The source tests characters; a character outside ASCII has only bytes from 0x80 on.\<close>

definition validate_name :: "string \<Rightarrow> bool" where
  "validate_name name \<longleftrightarrow>
     name \<noteq> [] \<and> length name \<le> 1024 \<and>
     list_all (\<lambda>c. 0x20 \<le> (of_char c :: nat) \<and> (of_char c :: nat) \<le> 0x7e) name"

text \<open>The derived \<open>Serialize\<close> and \<open>Deserialize\<close> of \<open>Cohort\<close>.\<close>

definition cohort_entries :: "cohort \<Rightarrow> fields" where
  "cohort_entries c =
     opt_entry ''cohort'' JStr (cohort_id c) @ opt_entry ''cohorthint'' JStr (cohort_hint c) @
     opt_entry ''cohortname'' JStr (cohort_name c)"

definition cohort_of_fields :: "fields \<Rightarrow> cohort option" where
  "cohort_of_fields kvs =
     do { i \<leftarrow> opt_field kvs ''cohort'' de_string;
          h \<leftarrow> opt_field kvs ''cohorthint'' de_string;
          n \<leftarrow> opt_field kvs ''cohortname'' de_string;
          Some \<lparr>cohort_id = i, cohort_hint = h, cohort_name = n\<rparr> }"

abbreviation cohort_keys :: "string list" where
  "cohort_keys \<equiv> [''cohort'', ''cohorthint'', ''cohortname'']"

section \<open>Requests\<close>

datatype install_source = OnDemand | ScheduledTask

definition install_source_default :: install_source where
  "install_source_default = ScheduledTask"

datatype guid = GUID string

record os =
  os_platform :: string
  os_version :: string
  os_service_pack :: string
  os_arch :: string

record update_check =
  uc_disabled :: bool
  uc_offer_update_if_same_version :: bool

definition update_check_disabled :: update_check where
  "update_check_disabled = \<lparr>uc_disabled = True, uc_offer_update_if_same_version = False\<rparr>"

record ping =
  date_last_active :: "u32 option"
  date_last_roll_call :: "u32 option"

datatype event_type =
    UnknownEvent | DownloadComplete | InstallComplete | UpdateComplete
  | UpdateDownloadStarted | UpdateDownloadFinished | RebootedAfterUpdate

datatype event_result =
    EventError | EventSuccess | SuccessAndRestartRequired | SuccessAndAppRestartRequired
  | Cancelled | ErrorInSystemInstaller | UpdateDeferred

datatype event_error_code = ParseResponse | ConstructInstallPlan | Installation | ErrDeniedByPolicy

record event =
  event_type :: event_type
  event_result :: event_result
  errorcode :: "event_error_code option"
  previous_version :: "string option"
  next_version :: "string option"
  download_time_ms :: "u64 option"

definition event_default :: event where
  "event_default =
     \<lparr>event_type = UnknownEvent, event_result = EventError, errorcode = None,
      previous_version = None, next_version = None, download_time_ms = None\<rparr>"

definition event_of_success :: "event_type \<Rightarrow> event" where
  "event_of_success t = event_default\<lparr>event_type := t, event_result := EventSuccess\<rparr>"

definition event_of_error :: "event_error_code \<Rightarrow> event" where
  "event_of_error e =
     event_default\<lparr>event_type := UpdateComplete, event_result := EventError, errorcode := Some e\<rparr>"

record protocol_app =
  papp_id :: string
  papp_version :: string
  papp_fingerprint :: "string option"
  papp_cohort :: "cohort option"
  papp_update_check :: "update_check option"
  papp_events :: "event list"
  papp_ping :: "ping option"
  papp_extra_fields :: "(string \<times> string) list"

record request =
  protocol_version :: string
  updater :: string
  updater_version :: string
  req_install_source :: install_source
  is_machine :: bool
  request_id :: "guid option"
  session_id :: "guid option"
  request_os :: os
  request_apps :: "protocol_app list"

text \<open>The numbers of the \<open>Serialize_repr\<close> enums.\<close>

fun event_type_repr :: "event_type \<Rightarrow> int" where
  "event_type_repr UnknownEvent = 0"
| "event_type_repr DownloadComplete = 1"
| "event_type_repr InstallComplete = 2"
| "event_type_repr UpdateComplete = 3"
| "event_type_repr UpdateDownloadStarted = 13"
| "event_type_repr UpdateDownloadFinished = 14"
| "event_type_repr RebootedAfterUpdate = 54"

fun event_result_repr :: "event_result \<Rightarrow> int" where
  "event_result_repr EventError = 0"
| "event_result_repr EventSuccess = 1"
| "event_result_repr SuccessAndRestartRequired = 2"
| "event_result_repr SuccessAndAppRestartRequired = 3"
| "event_result_repr Cancelled = 4"
| "event_result_repr ErrorInSystemInstaller = 8"
| "event_result_repr UpdateDeferred = 9"

fun event_error_code_repr :: "event_error_code \<Rightarrow> int" where
  "event_error_code_repr ParseResponse = 0"
| "event_error_code_repr ConstructInstallPlan = 1"
| "event_error_code_repr Installation = 2"
| "event_error_code_repr ErrDeniedByPolicy = 3"

fun install_source_json :: "install_source \<Rightarrow> json" where
  "install_source_json OnDemand = JStr ''ondemand''"
| "install_source_json ScheduledTask = JStr ''scheduledtask''"

fun guid_json :: "guid \<Rightarrow> json" where
  "guid_json (GUID s) = JStr s"

definition os_json :: "os \<Rightarrow> json" where
  "os_json o' = JObj [(''platform'', JStr (os_platform o')), (''version'', JStr (os_version o')),
                     (''sp'', JStr (os_service_pack o')), (''arch'', JStr (os_arch o'))]"

definition update_check_json :: "update_check \<Rightarrow> json" where
  "update_check_json u =
     JObj ((if uc_disabled u then [(''updatedisabled'', JBool True)] else []) @
           (if uc_offer_update_if_same_version u then [(''sameversionupdate'', JBool True)] else []))"

definition ping_json :: "ping \<Rightarrow> json" where
  "ping_json p =
     JObj (opt_entry ''ad'' (\<lambda>n. JInt (uint n)) (date_last_active p) @
           opt_entry ''rd'' (\<lambda>n. JInt (uint n)) (date_last_roll_call p))"

definition event_json :: "event \<Rightarrow> json" where
  "event_json e =
     JObj ([(''eventtype'', JInt (event_type_repr (event_type e))),
            (''eventresult'', JInt (event_result_repr (event_result e)))] @
           opt_entry ''errorcode'' (\<lambda>c. JInt (event_error_code_repr c)) (errorcode e) @
           opt_entry ''previousversion'' JStr (previous_version e) @
           opt_entry ''nextversion'' JStr (next_version e) @
           opt_entry ''download_time_ms'' (\<lambda>n. JInt (uint n)) (download_time_ms e))"

text \<open>The fields of an app, the flattened cohort in its place, the flattened extra fields last.\<close>

definition protocol_app_entries :: "protocol_app \<Rightarrow> fields" where
  "protocol_app_entries a =
     [(''appid'', JStr (papp_id a)), (''version'', JStr (papp_version a))] @
     opt_entry ''fp'' JStr (papp_fingerprint a) @
     (case papp_cohort a of None \<Rightarrow> [] | Some c \<Rightarrow> cohort_entries c) @
     opt_entry ''updatecheck'' update_check_json (papp_update_check a) @
     (if papp_events a = [] then [] else [(''event'', JArr (map event_json (papp_events a)))]) @
     opt_entry ''ping'' ping_json (papp_ping a) @
     map (\<lambda>(k, v). (k, JStr v)) (papp_extra_fields a)"

definition request_json :: "request \<Rightarrow> json" where
  "request_json r =
     JObj ([(''protocol'', JStr (protocol_version r)), (''updater'', JStr (updater r)),
            (''updaterversion'', JStr (updater_version r)),
            (''installsource'', install_source_json (req_install_source r)),
            (''ismachine'', JBool (is_machine r))] @
           opt_entry ''requestid'' guid_json (request_id r) @
           opt_entry ''sessionid'' guid_json (session_id r) @
           [(''os'', os_json (request_os r)),
            (''app'', JArr (map (\<lambda>a. JObj (protocol_app_entries a)) (request_apps r)))])"

definition request_wrapper_json :: "request \<Rightarrow> json" where
  "request_wrapper_json r = JObj [(''request'', request_json r)]"

section \<open>Lemmas\<close>

lemma cohort_update_fields [simp]:
  "cohort_id (cohort_update_from_omaha c o') = (case cohort_id o' of None \<Rightarrow> cohort_id c | Some i \<Rightarrow> Some i)"
  "cohort_hint (cohort_update_from_omaha c o') = (case cohort_hint o' of None \<Rightarrow> cohort_hint c | Some i \<Rightarrow> Some i)"
  "cohort_name (cohort_update_from_omaha c o') = (case cohort_name o' of None \<Rightarrow> cohort_name c | Some i \<Rightarrow> Some i)"
  by (auto simp: cohort_update_from_omaha_def Let_def split: option.splits)

lemma cohort_update_default: "cohort_update_from_omaha c cohort_default = c"
  by (simp add: cohort_update_from_omaha_def cohort_default_def)

lemma field_values_cohort_entries:
  "field_values (cohort_entries c) k =
     (if k = ''cohort'' then (case cohort_id c of None \<Rightarrow> [] | Some x \<Rightarrow> [JStr x])
      else if k = ''cohorthint'' then (case cohort_hint c of None \<Rightarrow> [] | Some x \<Rightarrow> [JStr x])
      else if k = ''cohortname'' then (case cohort_name c of None \<Rightarrow> [] | Some x \<Rightarrow> [JStr x]) else [])"
  by (simp add: cohort_entries_def)

lemma opt_field_string: "field_values kvs k = (case v of None \<Rightarrow> [] | Some x \<Rightarrow> [JStr x]) \<Longrightarrow>
    opt_field kvs k de_string = Some v"
  by (cases v) (simp_all add: opt_field_def de_option_def)

lemma cohort_of_entries: "cohort_of_fields (cohort_entries c) = Some c"
  by (simp add: cohort_of_fields_def field_values_cohort_entries opt_field_string [where v = "cohort_id c"]
      opt_field_string [where v = "cohort_hint c"] opt_field_string [where v = "cohort_name c"])

lemma repr_inj: "inj event_type_repr" "inj event_result_repr" "inj event_error_code_repr"
proof -
  show "inj event_type_repr"
  proof (rule injI)
    fix x y assume "event_type_repr x = event_type_repr y"
    then show "x = y" by (cases x; cases y; simp)
  qed
  show "inj event_result_repr"
  proof (rule injI)
    fix x y assume "event_result_repr x = event_result_repr y"
    then show "x = y" by (cases x; cases y; simp)
  qed
  show "inj event_error_code_repr"
  proof (rule injI)
    fix x y assume "event_error_code_repr x = event_error_code_repr y"
    then show "x = y" by (cases x; cases y; simp)
  qed
qed

text \<open>The keys an app writes before its extra fields.\<close>

definition protocol_app_own_keys :: "protocol_app \<Rightarrow> string list" where
  "protocol_app_own_keys a = map fst (protocol_app_entries (a\<lparr>papp_extra_fields := []\<rparr>))"

lemma protocol_app_entries_split:
  "protocol_app_entries a =
     protocol_app_entries (a\<lparr>papp_extra_fields := []\<rparr>) @ map (\<lambda>(k, v). (k, JStr v)) (papp_extra_fields a)"
  by (simp add: protocol_app_entries_def split: option.splits)

lemma keys_cohort_entries [simp]:
  "distinct (map fst (cohort_entries c))" "fst ` set (cohort_entries c) \<subseteq> set cohort_keys"
  by (auto simp: cohort_entries_def image_Un)

lemma distinct_own_keys: "distinct (protocol_app_own_keys a)"
proof -
  have c: "distinct (map fst (case papp_cohort a of None \<Rightarrow> [] | Some c \<Rightarrow> cohort_entries c))"
    "fst ` set (case papp_cohort a of None \<Rightarrow> [] | Some c \<Rightarrow> cohort_entries c) \<subseteq> set cohort_keys"
    using keys_cohort_entries by (auto split: option.splits)
  show ?thesis
    unfolding protocol_app_own_keys_def protocol_app_entries_def
    using c by (simp add: image_Un) (intro conjI impI; fastforce)
qed

section \<open>Properties\<close>

text \<open>Cohort data from Omaha overwrites exactly the attributes it carries (an empty string too), is
  idempotent, and two responses in a row act as their combination.\<close>

lemma cohort_update_from_omaha_spec:
  "cohort_update_from_omaha c o1 =
     \<lparr>cohort_id = (case cohort_id o1 of None \<Rightarrow> cohort_id c | Some i \<Rightarrow> Some i),
      cohort_hint = (case cohort_hint o1 of None \<Rightarrow> cohort_hint c | Some i \<Rightarrow> Some i),
      cohort_name = (case cohort_name o1 of None \<Rightarrow> cohort_name c | Some i \<Rightarrow> Some i)\<rparr> \<and>
   cohort_update_from_omaha (cohort_update_from_omaha c o1) o1 = cohort_update_from_omaha c o1 \<and>
   cohort_update_from_omaha (cohort_update_from_omaha c o1) o2 =
     cohort_update_from_omaha c (cohort_update_from_omaha o1 o2)"
  by (auto intro!: cohort.equality split: option.splits)

text \<open>The object written for an app has no repeated key exactly when the extra fields have none and
  avoid the keys the app itself writes; this is the documented way they can break the protocol.\<close>

lemma protocol_app_keys_distinct:
  "distinct (map fst (protocol_app_entries a)) \<longleftrightarrow>
     distinct (map fst (papp_extra_fields a)) \<and>
     set (map fst (papp_extra_fields a)) \<inter> set (protocol_app_own_keys a) = {}"
proof -
  have "map fst (protocol_app_entries a) = protocol_app_own_keys a @ map fst (papp_extra_fields a)"
    by (subst protocol_app_entries_split) (simp add: protocol_app_own_keys_def comp_def case_prod_beta)
  then show ?thesis using distinct_own_keys [of a] by auto
qed

end
