(* ===== verification/Response_Model.thy ===== *)
theory Response_Model imports Protocol_Model begin

text \<open>
  \<open>omaha-client/src/protocol/response.rs\<close>: the response structs, their derived
  \<open>Deserialize\<close> on a JSON value, the accessors on an \<open>updatecheck\<close>, and the entry points that
  strip the wrapper and the XSSI prefix.  \<open>serde_json::from_slice\<close> at the level of bytes is the
  parameter \<open>from_slice\<close>.
\<close>

section \<open>Data\<close>

record day_start =
  elapsed_days :: "u32 option"
  elapsed_seconds :: "u32 option"

datatype omaha_status = StatusOk | Restricted | NoUpdateStatus | StatusError string

record package =
  pkg_name :: string
  pkg_required :: bool
  pkg_size :: "u64 option"
  pkg_hash :: "string option"
  pkg_hash_sha256 :: "string option"
  pkg_fingerprint :: string
  pkg_extra :: "string \<rightharpoonup> json"

record response_action =
  act_event :: "string option"
  act_run :: "string option"
  act_extra :: "string \<rightharpoonup> json"

record manifest =
  man_version :: string
  man_actions :: "response_action list"
  man_packages :: "package list"

record response_update_check =
  ruc_status :: omaha_status
  ruc_info :: "string option"
  ruc_urls :: "string list option" \<comment> \<open>the \<open>codebase\<close> of each \<open>URL\<close>\<close>
  ruc_manifest :: "manifest option"
  ruc_extra :: "string \<rightharpoonup> json"

record response_app =
  rapp_id :: string
  rapp_status :: omaha_status
  rapp_cohort :: cohort
  rapp_ping :: "omaha_status option"
  rapp_update_check :: "response_update_check option"
  rapp_events :: "omaha_status list option"
  rapp_extra :: "string \<rightharpoonup> json"

record response =
  resp_protocol_version :: string
  resp_server :: "string option"
  resp_daystart :: "day_start option"
  resp_apps :: "response_app list"

section \<open>Deserialisation\<close>

fun status_of_string :: "string \<Rightarrow> omaha_status" where
  "status_of_string s =
     (if s = ''ok'' then StatusOk else if s = ''restricted'' then Restricted
      else if s = ''noupdate'' then NoUpdateStatus else StatusError s)"

definition de_status :: "json \<Rightarrow> omaha_status option" where
  "de_status j = map_option status_of_string (de_string j)"

definition de_day_start :: "json \<Rightarrow> day_start option" where
  "de_day_start j =
     do { kvs \<leftarrow> struct_fields [''elapsed_days'', ''elapsed_seconds''] j;
          d \<leftarrow> opt_field kvs ''elapsed_days'' de_u32;
          s \<leftarrow> opt_field kvs ''elapsed_seconds'' de_u32;
          Some \<lparr>elapsed_days = d, elapsed_seconds = s\<rparr> }"

text \<open>\<open>Ping\<close> and \<open>Event\<close> hold only a status.\<close>

definition de_status_struct :: "json \<Rightarrow> omaha_status option" where
  "de_status_struct j =
     do { kvs \<leftarrow> struct_fields [''status''] j; req_field kvs ''status'' de_status }"

definition de_url :: "json \<Rightarrow> string option" where
  "de_url j = do { kvs \<leftarrow> struct_fields [''codebase''] j; req_field kvs ''codebase'' de_string }"

definition de_urls :: "json \<Rightarrow> string list option" where
  "de_urls j = do { kvs \<leftarrow> struct_fields [''url''] j; req_field kvs ''url'' (de_list de_url) }"

definition de_package :: "json \<Rightarrow> package option" where
  "de_package j =
     do { kvs \<leftarrow> map_fields j;
          name \<leftarrow> req_field kvs ''name'' de_string;
          required \<leftarrow> req_field kvs ''required'' de_bool;
          size \<leftarrow> opt_field kvs ''size'' de_u64;
          hash \<leftarrow> opt_field kvs ''hash'' de_string;
          sha \<leftarrow> opt_field kvs ''hash_sha256'' de_string;
          fp \<leftarrow> req_field kvs ''fp'' de_string;
          Some \<lparr>pkg_name = name, pkg_required = required, pkg_size = size, pkg_hash = hash,
                pkg_hash_sha256 = sha, pkg_fingerprint = fp,
                pkg_extra = rest_fields [''name'', ''required'', ''size'', ''hash'', ''hash_sha256'', ''fp''] kvs\<rparr> }"

definition de_packages :: "json \<Rightarrow> package list option" where
  "de_packages j =
     do { kvs \<leftarrow> struct_fields [''package''] j; req_field kvs ''package'' (de_list de_package) }"

definition de_action :: "json \<Rightarrow> response_action option" where
  "de_action j =
     do { kvs \<leftarrow> map_fields j;
          e \<leftarrow> opt_field kvs ''event'' de_string;
          r \<leftarrow> opt_field kvs ''run'' de_string;
          Some \<lparr>act_event = e, act_run = r, act_extra = rest_fields [''event'', ''run''] kvs\<rparr> }"

definition de_actions :: "json \<Rightarrow> response_action list option" where
  "de_actions j =
     do { kvs \<leftarrow> struct_fields [''action''] j; req_field kvs ''action'' (de_list de_action) }"

definition de_manifest :: "json \<Rightarrow> manifest option" where
  "de_manifest j =
     do { kvs \<leftarrow> struct_fields [''version'', ''actions'', ''packages''] j;
          v \<leftarrow> req_field kvs ''version'' de_string;
          a \<leftarrow> req_field kvs ''actions'' de_actions;
          p \<leftarrow> req_field kvs ''packages'' de_packages;
          Some \<lparr>man_version = v, man_actions = a, man_packages = p\<rparr> }"

definition de_update_check :: "json \<Rightarrow> response_update_check option" where
  "de_update_check j =
     do { kvs \<leftarrow> map_fields j;
          st \<leftarrow> req_field kvs ''status'' de_status;
          info \<leftarrow> opt_field kvs ''info'' de_string;
          urls \<leftarrow> opt_field kvs ''urls'' de_urls;
          man \<leftarrow> opt_field kvs ''manifest'' de_manifest;
          Some \<lparr>ruc_status = st, ruc_info = info, ruc_urls = urls, ruc_manifest = man,
                ruc_extra = rest_fields [''status'', ''info'', ''urls'', ''manifest''] kvs\<rparr> }"

definition de_response_app :: "json \<Rightarrow> response_app option" where
  "de_response_app j =
     do { kvs \<leftarrow> map_fields j;
          i \<leftarrow> req_field kvs ''appid'' de_string;
          st \<leftarrow> req_field kvs ''status'' de_status;
          p \<leftarrow> opt_field kvs ''ping'' de_status_struct;
          u \<leftarrow> opt_field kvs ''updatecheck'' de_update_check;
          es \<leftarrow> opt_field kvs ''event'' (de_list de_status_struct);
          c \<leftarrow> cohort_of_fields kvs;
          Some \<lparr>rapp_id = i, rapp_status = st, rapp_cohort = c, rapp_ping = p, rapp_update_check = u,
                rapp_events = es,
                rapp_extra = rest_fields ([''appid'', ''status'', ''ping'', ''updatecheck'', ''event''] @ cohort_keys) kvs\<rparr> }"

definition de_response :: "json \<Rightarrow> response option" where
  "de_response j =
     do { kvs \<leftarrow> struct_fields [''protocol'', ''server'', ''daystart'', ''app''] j;
          p \<leftarrow> req_field kvs ''protocol'' de_string;
          s \<leftarrow> opt_field kvs ''server'' de_string;
          d \<leftarrow> opt_field kvs ''daystart'' de_day_start;
          a \<leftarrow> req_field kvs ''app'' (de_list de_response_app);
          Some \<lparr>resp_protocol_version = p, resp_server = s, resp_daystart = d, resp_apps = a\<rparr> }"

definition de_response_wrapper :: "json \<Rightarrow> response option" where
  "de_response_wrapper j =
     do { kvs \<leftarrow> struct_fields [''response''] j; req_field kvs ''response'' de_response }"

text \<open>\<open>)]}'\<close> and a newline.\<close>

definition safety_prefix :: string where
  "safety_prefix = '')]}'' @ [CHR 0x27, CHR 0x0A]"

definition parse_safe_json :: "(string \<Rightarrow> json option) \<Rightarrow> (json \<Rightarrow> 'a option) \<Rightarrow> string \<Rightarrow> 'a option" where
  "parse_safe_json from_slice de raw =
     (if starts_with safety_prefix raw
      then Option.bind (from_slice (drop (length safety_prefix) raw)) de
      else Option.bind (from_slice raw) de)"

definition parse_json_response :: "(string \<Rightarrow> json option) \<Rightarrow> string \<Rightarrow> response option" where
  "parse_json_response from_slice json = parse_safe_json from_slice de_response_wrapper json"

section \<open>Accessors and constructors\<close>

definition get_manifest_version :: "response_app \<Rightarrow> string option" where
  "get_manifest_version a =
     Option.bind (rapp_update_check a) (\<lambda>u. map_option man_version (ruc_manifest u))"

definition update_check_default :: response_update_check where
  "update_check_default =
     \<lparr>ruc_status = StatusOk, ruc_info = None, ruc_urls = None, ruc_manifest = None, ruc_extra = Map.empty\<rparr>"

definition update_check_ok :: "string list \<Rightarrow> response_update_check" where
  "update_check_ok urls = update_check_default\<lparr>ruc_urls := Some urls\<rparr>"

definition update_check_no_update :: response_update_check where
  "update_check_no_update = update_check_default\<lparr>ruc_status := NoUpdateStatus\<rparr>"

definition get_all_url_codebases :: "response_update_check \<Rightarrow> string list" where
  "get_all_url_codebases u = (case ruc_urls u of None \<Rightarrow> [] | Some urls \<Rightarrow> urls)"

definition get_all_packages :: "response_update_check \<Rightarrow> package list" where
  "get_all_packages u = (case ruc_manifest u of None \<Rightarrow> [] | Some m \<Rightarrow> man_packages m)"

definition get_all_full_urls :: "response_update_check \<Rightarrow> string list" where
  "get_all_full_urls u =
     concat (map (\<lambda>codebase. map (\<lambda>package. codebase @ pkg_name package) (get_all_packages u))
       (get_all_url_codebases u))"

definition package_with_name :: "string \<Rightarrow> package" where
  "package_with_name name =
     \<lparr>pkg_name = name, pkg_required = False, pkg_size = None, pkg_hash = None,
      pkg_hash_sha256 = None, pkg_fingerprint = [], pkg_extra = Map.empty\<rparr>"

section \<open>Lemmas\<close>

lemma rest_fields_known [simp]: "k \<in> set known \<Longrightarrow> rest_fields known kvs k = None"
proof -
  assume "k \<in> set known"
  then have "k \<notin> fst ` set (rev (filter (\<lambda>p. fst p \<notin> set known) kvs))" by auto
  then show ?thesis by (simp add: rest_fields_def map_of_eq_None_iff)
qed

lemma status_of_string_ok: "status_of_string s = StatusOk \<longleftrightarrow> s = ''ok''"
  by simp

lemma length_concat_const: "\<forall>x \<in> set xs. length (f x) = n \<Longrightarrow> length (concat (map f xs)) = length xs * n"
  by (induction xs) auto

lemma set_get_all_full_urls:
  "set (get_all_full_urls u) =
     {c @ pkg_name p | c p. c \<in> set (get_all_url_codebases u) \<and> p \<in> set (get_all_packages u)}"
  by (auto simp: get_all_full_urls_def)

lemma length_get_all_full_urls:
  "length (get_all_full_urls u) = length (get_all_url_codebases u) * length (get_all_packages u)"
  by (simp add: get_all_full_urls_def length_concat_const)

lemma parse_safe_json_prefix: "parse_safe_json fs de (safety_prefix @ raw) = Option.bind (fs raw) de"
  by (simp add: parse_safe_json_def)

text \<open>What the fields of an object hold, stated on the JSON itself.  A status is written as its text; an error
  status is any other text.\<close>

fun status_text :: "omaha_status \<Rightarrow> string" where
  "status_text StatusOk = ''ok''"
| "status_text Restricted = ''restricted''"
| "status_text NoUpdateStatus = ''noupdate''"
| "status_text (StatusError s) = s"

definition holds_status :: "json \<Rightarrow> omaha_status \<Rightarrow> bool" where
  "holds_status j st \<longleftrightarrow> j = JStr (status_text st) \<and>
     (case st of StatusError s \<Rightarrow> s \<notin> {''ok'', ''restricted'', ''noupdate''} | _ \<Rightarrow> True)"

text \<open>A struct of a status alone: an object with one such field, or an array of one.\<close>

definition holds_one_status :: "json \<Rightarrow> omaha_status \<Rightarrow> bool" where
  "holds_one_status j st \<longleftrightarrow>
     (\<exists>v. holds_status v st \<and> (j = JArr [v] \<or> (\<exists>kvs. j = JObj kvs \<and> field_values kvs ''status'' = [v])))"

text \<open>An optional field is absent or null, or there is one value and it is read.\<close>

definition holds_optional :: "fields \<Rightarrow> string \<Rightarrow> (json \<Rightarrow> 'a \<Rightarrow> bool) \<Rightarrow> 'a option \<Rightarrow> bool" where
  "holds_optional kvs k P v \<longleftrightarrow>
     (case v of
        None \<Rightarrow> field_values kvs k \<in> {[], [JNull]}
      | Some x \<Rightarrow> \<exists>j. field_values kvs k = [j] \<and> j \<noteq> JNull \<and> P j x)"

lemma de_status_iff: "de_status j = Some st \<longleftrightarrow> holds_status j st"
  by (cases j; cases st) (auto simp: de_status_def holds_status_def)

lemma req_field_iff: "req_field kvs k f = Some x \<longleftrightarrow> (\<exists>j. field_values kvs k = [j] \<and> f j = Some x)"
  by (auto simp: req_field_def split: list.splits)

lemma opt_field_iff: "opt_field kvs k f = Some v \<longleftrightarrow> holds_optional kvs k (\<lambda>j x. f j = Some x) v"
  by (cases v) (auto simp: opt_field_def holds_optional_def de_option_def split: list.splits if_splits)

lemma de_status_struct_iff: "de_status_struct j = Some st \<longleftrightarrow> holds_one_status j st"
  by (cases j)
     (auto simp: de_status_struct_def struct_fields_def holds_one_status_def req_field_iff de_status_iff length_Suc_conv
       bind_eq_Some_conv split: if_splits)

lemma sequence_iff: "sequence (map f xs) = Some ys \<longleftrightarrow> list_all2 (\<lambda>x y. f x = Some y) xs ys"
  by (induction xs arbitrary: ys) (auto simp: list_all2_Cons1 split: option.splits)

lemma de_list_iff: "de_list f j = Some ys \<longleftrightarrow> (\<exists>xs. j = JArr xs \<and> list_all2 (\<lambda>x y. f x = Some y) xs ys)"
  by (auto simp: de_list_def sequence_iff split: json.splits)

lemma de_string_iff: "de_string j = Some s \<longleftrightarrow> j = JStr s"
  by (cases j) auto

lemma rest_fields_alt: "rest_fields known kvs = (\<lambda>k. if k \<in> set known then None else map_of (rev kvs) k)"
proof
  show "rest_fields known kvs k = (if k \<in> set known then None else map_of (rev kvs) k)" for k
    unfolding rest_fields_def by (induction kvs) (auto simp: map_add_def split: option.splits)
qed

lemmas de_iffs = de_status_iff req_field_iff opt_field_iff de_status_struct_iff de_list_iff de_string_iff rest_fields_alt

lemma response_app_eq_iff:
  "\<lparr>rapp_id = i, rapp_status = st, rapp_cohort = c, rapp_ping = p, rapp_update_check = u, rapp_events = es, rapp_extra = x\<rparr> = a \<longleftrightarrow>
   rapp_id a = i \<and> rapp_status a = st \<and> rapp_cohort a = c \<and> rapp_ping a = p \<and> rapp_update_check a = u \<and> rapp_events a = es \<and>
   rapp_extra a = x"
  by (cases a) auto

lemma cohort_eq_iff:
  "c = \<lparr>cohort_id = i, cohort_hint = h, cohort_name = n\<rparr> \<longleftrightarrow> cohort_id c = i \<and> cohort_hint c = h \<and> cohort_name c = n"
  by (cases c) auto

section \<open>Properties\<close>

text \<open>A response reads the same with the XSSI prefix put before it as without.  (The prefix is
  stripped once: a body that itself starts with the prefix is the only exception.)\<close>

lemma safety_prefix_transparent:
  assumes "\<not> starts_with safety_prefix raw"
  shows "parse_json_response from_slice (safety_prefix @ raw) = parse_json_response from_slice raw"
  using assms by (simp add: parse_json_response_def parse_safe_json_prefix) (simp add: parse_safe_json_def)

text \<open>C38: What survives parsing of an app, field by field.  An app is read exactly from an object that has one text
  \<open>appid\<close> and one text \<open>status\<close>; \<open>ping\<close>, \<open>updatecheck\<close>, \<open>event\<close> and the three strings of the cohort are each absent, null,
  or given once with a value of their kind, and are what the app then holds.  Exactly the other fields are
  kept as extra attributes, the last of repeated ones.\<close>

theorem response_app_fields:
  "de_response_app j = Some a \<longleftrightarrow>
     (\<exists>kvs. j = JObj kvs \<and>
        field_values kvs ''appid'' = [JStr (rapp_id a)] \<and>
        (\<exists>v. field_values kvs ''status'' = [v] \<and> holds_status v (rapp_status a)) \<and>
        holds_optional kvs ''ping'' holds_one_status (rapp_ping a) \<and>
        holds_optional kvs ''updatecheck'' (\<lambda>v u. de_update_check v = Some u) (rapp_update_check a) \<and>
        holds_optional kvs ''event'' (\<lambda>v sts. \<exists>vs. v = JArr vs \<and> list_all2 holds_one_status vs sts) (rapp_events a) \<and>
        holds_optional kvs ''cohort'' (\<lambda>v s. v = JStr s) (cohort_id (rapp_cohort a)) \<and>
        holds_optional kvs ''cohorthint'' (\<lambda>v s. v = JStr s) (cohort_hint (rapp_cohort a)) \<and>
        holds_optional kvs ''cohortname'' (\<lambda>v s. v = JStr s) (cohort_name (rapp_cohort a)) \<and>
        rapp_extra a = (\<lambda>k.
          if k \<in> {''appid'', ''status'', ''ping'', ''updatecheck'', ''event'', ''cohort'', ''cohorthint'', ''cohortname''}
          then None else map_of (rev kvs) k))"
  by (cases j)
     (auto simp: de_response_app_def map_fields_def bind_eq_Some_conv cohort_of_fields_def de_iffs response_app_eq_iff cohort_eq_iff)

lemma response_app_fields_example:
  "\<exists>a. de_response_app (JObj [(''appid'', JStr ''x''), (''_prio'', JInt 3), (''status'', JStr ''ok'')]) = Some a \<and>
       rapp_extra a ''_prio'' = Some (JInt 3) \<and> rapp_extra a ''appid'' = None \<and> rapp_status a = StatusOk"
  by (simp add: de_response_app_def map_fields_def req_field_def opt_field_def de_status_def cohort_of_fields_def rest_fields_alt)

text \<open>The full URLs of an \<open>updatecheck\<close> are every codebase joined with every package name, once per
  pair and grouped by codebase; none without a manifest or without URLs.\<close>

lemma get_all_full_urls_spec:
  "set (get_all_full_urls u) =
     {c @ pkg_name p | c p. c \<in> set (get_all_url_codebases u) \<and> p \<in> set (get_all_packages u)} \<and>
   length (get_all_full_urls u) = length (get_all_url_codebases u) * length (get_all_packages u) \<and>
   (\<forall>i < length (get_all_url_codebases u). \<forall>j < length (get_all_packages u).
      get_all_full_urls u ! (i * length (get_all_packages u) + j) =
      get_all_url_codebases u ! i @ pkg_name (get_all_packages u ! j))"
proof -
  have nth: "concat (map (\<lambda>c. map (\<lambda>p. c @ pkg_name p) ps) cs) ! (i * length ps + j) = cs ! i @ pkg_name (ps ! j)"
    if "i < length cs" "j < length ps" for i j cs and ps :: "package list"
    using that
  proof (induction cs arbitrary: i)
    case (Cons c cs)
    then show ?case by (cases i) (auto simp: nth_append)
  qed simp
  show ?thesis
    using set_get_all_full_urls length_get_all_full_urls nth by (auto simp: get_all_full_urls_def)
qed


end
