(* ===== verification/Common_Model.thy ===== *)
theory Common_Model imports Version Storage_Model Response_Model begin

text \<open>
  \<open>omaha-client/src/common.rs\<close>: apps, what is persisted of them, the check options, schedule and
  timing, and the protocol state.  The text form of JSON (\<open>serde_json::to_string\<close>, \<open>from_str\<close>) is
  a parameter of \<open>app_persist\<close> and \<open>app_load\<close>.
\<close>

section \<open>Data\<close>

datatype user_counting = ClientRegulatedByDate "u32 option"

definition user_counting_from :: "day_start option \<Rightarrow> user_counting" where
  "user_counting_from opt_day_start =
     (case opt_day_start of
        Some day_start \<Rightarrow> ClientRegulatedByDate (elapsed_days day_start)
      | None \<Rightarrow> ClientRegulatedByDate None)"

record app =
  app_id :: string
  app_version :: version
  app_fingerprint :: "string option"
  app_cohort :: cohort
  app_user_counting :: user_counting
  app_extra_fields :: "(string \<times> string) list"

record persisted_app =
  pers_cohort :: cohort
  pers_user_counting :: user_counting

definition persisted_app_from :: "app \<Rightarrow> persisted_app" where
  "persisted_app_from a = \<lparr>pers_cohort = app_cohort a, pers_user_counting = app_user_counting a\<rparr>"

record check_options =
  opt_source :: install_source

definition check_options_default :: check_options where
  "check_options_default = \<lparr>opt_source = install_source_default\<rparr>"

record check_timing =
  ct_time :: partial_complex_time
  ct_minimum_wait :: "duration option"

record update_check_schedule =
  last_update_time :: "partial_complex_time option"
  last_update_check_time :: "partial_complex_time option"
  next_update_time :: "check_timing option"

record protocol_state =
  server_dictated_poll_interval :: "duration option"
  consecutive_failed_update_checks :: u32
  consecutive_proxied_requests :: u32

definition update_check_schedule_default :: update_check_schedule where
  "update_check_schedule_default =
     \<lparr>last_update_time = None, last_update_check_time = None, next_update_time = None\<rparr>"

definition protocol_state_default :: protocol_state where
  "protocol_state_default =
     \<lparr>server_dictated_poll_interval = None, consecutive_failed_update_checks = 0,
      consecutive_proxied_requests = 0\<rparr>"

section \<open>Persisted apps as JSON\<close>

fun user_counting_json :: "user_counting \<Rightarrow> json" where
  "user_counting_json (ClientRegulatedByDate d) =
     JObj [(''ClientRegulatedByDate'', case d of None \<Rightarrow> JNull | Some n \<Rightarrow> JInt (uint n))]"

definition de_user_counting :: "json \<Rightarrow> user_counting option" where
  "de_user_counting j =
     (case j of
        JObj [(k, v)] \<Rightarrow> if k = ''ClientRegulatedByDate''
                         then map_option ClientRegulatedByDate (de_option de_u32 v) else None
      | _ \<Rightarrow> None)"

definition persisted_app_json :: "persisted_app \<Rightarrow> json" where
  "persisted_app_json p =
     JObj [(''cohort'', JObj (cohort_entries (pers_cohort p))),
           (''user_counting'', user_counting_json (pers_user_counting p))]"

definition de_cohort :: "json \<Rightarrow> cohort option" where
  "de_cohort j = Option.bind (struct_fields cohort_keys j) cohort_of_fields"

definition de_persisted_app :: "json \<Rightarrow> persisted_app option" where
  "de_persisted_app j =
     do { kvs \<leftarrow> struct_fields [''cohort'', ''user_counting''] j;
          c \<leftarrow> req_field kvs ''cohort'' de_cohort;
          u \<leftarrow> req_field kvs ''user_counting'' de_user_counting;
          Some \<lparr>pers_cohort = c, pers_user_counting = u\<rparr> }"

section \<open>Operations on apps\<close>

text \<open>The fields of \<open>self\<close> that \<open>load\<close> fills in when they are unset.\<close>

definition app_merge_persisted :: "app \<Rightarrow> persisted_app \<Rightarrow> app" where
  "app_merge_persisted a p =
     (let c = app_cohort a; pc = pers_cohort p;
          c1 = (if cohort_id c = None then c\<lparr>cohort_id := cohort_id pc\<rparr> else c);
          c2 = (if cohort_hint c1 = None then c1\<lparr>cohort_hint := cohort_hint pc\<rparr> else c1);
          c3 = (if cohort_name c2 = None then c2\<lparr>cohort_name := cohort_name pc\<rparr> else c2);
          a1 = a\<lparr>app_cohort := c3\<rparr>
      in if app_user_counting a1 = ClientRegulatedByDate None
         then a1\<lparr>app_user_counting := pers_user_counting p\<rparr> else a1)"

definition app_load :: "('s, 'e) storage_ops \<Rightarrow> (string \<Rightarrow> json option) \<Rightarrow> 's \<Rightarrow> app \<Rightarrow> app" where
  "app_load ops from_text s a =
     (case get_string ops s (app_id a) of
        None \<Rightarrow> a
      | Some app_json \<Rightarrow>
          (case Option.bind (from_text app_json) de_persisted_app of
             Some persisted_app \<Rightarrow> app_merge_persisted a persisted_app
           | None \<Rightarrow> a))"

definition app_persist :: "('s, 'e) storage_ops \<Rightarrow> (json \<Rightarrow> string option) \<Rightarrow> app \<Rightarrow> 's \<Rightarrow> 's" where
  "app_persist ops to_text a s =
     (case to_text (persisted_app_json (persisted_app_from a)) of
        Some json \<Rightarrow> snd (set_string ops s (app_id a) json)
      | None \<Rightarrow> s)"

definition get_current_channel :: "app \<Rightarrow> string" where
  "get_current_channel a = (case cohort_name (app_cohort a) of None \<Rightarrow> [] | Some n \<Rightarrow> n)"

definition get_target_channel :: "app \<Rightarrow> string" where
  "get_target_channel a =
     (case cohort_hint (app_cohort a) of None \<Rightarrow> get_current_channel a | Some h \<Rightarrow> h)"

definition set_target_channel :: "app \<Rightarrow> string option \<Rightarrow> string option \<Rightarrow> app" where
  "set_target_channel a channel i =
     (let a1 = a\<lparr>app_cohort := (app_cohort a)\<lparr>cohort_hint := channel\<rparr>\<rparr>
      in case i of None \<Rightarrow> a1 | Some i' \<Rightarrow> a1\<lparr>app_id := i'\<rparr>)"

definition app_valid :: "app \<Rightarrow> bool" where
  "app_valid a \<longleftrightarrow> app_id a \<noteq> [] \<and> app_version a \<noteq> version_from [0]"

section \<open>Lemmas\<close>

lemma de_user_counting_json [simp]: "de_user_counting (user_counting_json u) = Some u"
  by (cases u) (auto simp: de_user_counting_def de_option_def split: option.splits)

lemma de_cohort_entries [simp]: "de_cohort (JObj (cohort_entries c)) = Some c"
  by (simp add: de_cohort_def struct_fields_def cohort_of_entries)

lemma de_persisted_app_json [simp]: "de_persisted_app (persisted_app_json p) = Some p"
  by (simp add: de_persisted_app_def persisted_app_json_def struct_fields_def req_field_def)

lemma app_merge_persisted_fields [simp]:
  "app_id (app_merge_persisted a p) = app_id a"
  "app_version (app_merge_persisted a p) = app_version a"
  "app_fingerprint (app_merge_persisted a p) = app_fingerprint a"
  "app_extra_fields (app_merge_persisted a p) = app_extra_fields a"
  "app_cohort (app_merge_persisted a p) = cohort_update_from_omaha (pers_cohort p) (app_cohort a)"
  "app_user_counting (app_merge_persisted a p) =
     (if app_user_counting a = ClientRegulatedByDate None then pers_user_counting p else app_user_counting a)"
  by (auto simp: app_merge_persisted_def cohort_update_from_omaha_def Let_def intro!: cohort.equality)

lemma app_valid_cong:
  "app_id a = app_id b \<Longrightarrow> app_version a = app_version b \<Longrightarrow> app_valid a = app_valid b"
  by (simp add: app_valid_def)

lemma app_load_valid: "app_valid (app_load ops ft s a) = app_valid a"
  by (auto simp: app_load_def intro!: app_valid_cong split: option.splits)

lemma app_load_id [simp]: "app_id (app_load ops ft s a) = app_id a"
  by (auto simp: app_load_def split: option.splits)

context reliable_storage
begin

lemma app_load_persist:
  assumes "to_text (persisted_app_json (persisted_app_from a)) = Some txt"
    and "from_text txt = Some (persisted_app_json (persisted_app_from a))"
    and "app_id b = app_id a"
  shows "app_load ops from_text (app_persist ops to_text a s) b = app_merge_persisted b (persisted_app_from a)"
  using assms by (simp add: app_load_def app_persist_def view_string set_string_upd)

lemma app_persist_frame: "k \<noteq> app_id a \<Longrightarrow> view (app_persist ops to_text a s) k = view s k"
  by (auto simp: app_persist_def set_string_upd split: option.splits)

end

section \<open>Properties\<close>

text \<open>What \<open>App::persist\<close> writes, \<open>App::load\<close> brings back: loading into an app with the same id fills
  each unset cohort attribute and an unset user counting from the persisted app, overwrites nothing
  that is set, and keeps id, version, fingerprint and extra fields; no other key of the store is
  touched.  The JSON text is assumed to read back as the value written.\<close>

lemma app_persist_load:
  assumes "to_text (persisted_app_json (persisted_app_from a)) = Some txt"
    and "from_text txt = Some (persisted_app_json (persisted_app_from a))"
    and "app_id b = app_id a"
  shows "app_load mem_ops from_text (app_persist mem_ops to_text a s) b =
           b\<lparr>app_cohort := cohort_update_from_omaha (app_cohort a) (app_cohort b),
             app_user_counting := (if app_user_counting b = ClientRegulatedByDate None
                                   then app_user_counting a else app_user_counting b)\<rparr> \<and>
         (\<forall>k. k \<noteq> app_id a \<longrightarrow> mem_data (app_persist mem_ops to_text a s) k = mem_data s k)"
proof -
  have "app_load mem_ops from_text (app_persist mem_ops to_text a s) b =
      app_merge_persisted b (persisted_app_from a)"
    using assms by (rule mem.app_load_persist)
  then show ?thesis
    using mem.app_persist_frame [of _ a to_text s]
    by (auto simp: persisted_app_from_def intro!: app.equality)
qed

definition sample_app :: "string \<Rightarrow> app" where
  "sample_app i =
     \<lparr>app_id = i, app_version = Version 1 2 3 4, app_fingerprint = None, app_cohort = cohort_new ''stable-channel'',
      app_user_counting = ClientRegulatedByDate (Some 42), app_extra_fields = []\<rparr>"


end
