(* ===== verification/Update_Check.thy ===== *)
theory Update_Check imports Common_Model begin

text \<open>
  \<open>omaha-client/src/state_machine/update_check.rs\<close>: the context of the update checks, its loading
  from and persisting to storage, and the result of a check.
\<close>

section \<open>Data\<close>

definition CONSECUTIVE_FAILED_UPDATE_CHECKS :: string where
  "CONSECUTIVE_FAILED_UPDATE_CHECKS = ''consecutive_failed_update_checks''"

definition LAST_UPDATE_TIME :: string where
  "LAST_UPDATE_TIME = ''last_update_time''"

definition SERVER_DICTATED_POLL_INTERVAL :: string where
  "SERVER_DICTATED_POLL_INTERVAL = ''server_dictated_poll_interval''"

record update_context =
  ctx_schedule :: update_check_schedule
  ctx_state :: protocol_state

datatype action = NoUpdate | DeferredByPolicy | DeniedByPolicy | InstallPlanExecutionError | Updated

record app_response =
  ar_app_id :: string
  ar_cohort :: cohort
  ar_user_counting :: user_counting
  ar_result :: action

section \<open>Loading and persisting\<close>

definition context_load :: "('s, 'e) storage_ops \<Rightarrow> 's \<Rightarrow> update_context" where
  "context_load ops s =
     (let last = map_option Wall (get_time ops s LAST_UPDATE_TIME);
          poll = map_option (\<lambda>t. duration_from_micros (unat t))
                   (Option.bind (get_int ops s SERVER_DICTATED_POLL_INTERVAL) u64_try_from_i64);
          failed_int = (case get_int ops s CONSECUTIVE_FAILED_UPDATE_CHECKS of None \<Rightarrow> 0 | Some i \<Rightarrow> i);
          failed = (case u32_try_from_i64 failed_int of None \<Rightarrow> 0 | Some n \<Rightarrow> n)
      in \<lparr>ctx_schedule = \<lparr>last_update_time = last, last_update_check_time = last, next_update_time = None\<rparr>,
          ctx_state = \<lparr>server_dictated_poll_interval = poll, consecutive_failed_update_checks = failed,
                       consecutive_proxied_requests = 0\<rparr>\<rparr>)"

definition context_persist :: "('s, 'e) storage_ops \<Rightarrow> update_context \<Rightarrow> 's \<Rightarrow> 's" where
  "context_persist ops c s =
     (let s1 = snd (set_option_int ops s LAST_UPDATE_TIME
                 (Option.bind (last_update_time (ctx_schedule c)) checked_to_micros_since_epoch));
          s2 = snd (set_option_int ops s1 SERVER_DICTATED_POLL_INTERVAL
                 (Option.bind (map_option duration_as_micros (server_dictated_poll_interval (ctx_state c)))
                    i64_try_from_nat));
          failed = consecutive_failed_update_checks (ctx_state c)
      in snd (set_option_int ops s2 CONSECUTIVE_FAILED_UPDATE_CHECKS
                (if failed = 0 then None else Some (ucast failed))))"

section \<open>Lemmas\<close>

lemmas context_keys = CONSECUTIVE_FAILED_UPDATE_CHECKS_def LAST_UPDATE_TIME_def SERVER_DICTATED_POLL_INTERVAL_def

lemma context_keys_distinct [simp]:
  "LAST_UPDATE_TIME \<noteq> SERVER_DICTATED_POLL_INTERVAL" "SERVER_DICTATED_POLL_INTERVAL \<noteq> LAST_UPDATE_TIME"
  "LAST_UPDATE_TIME \<noteq> CONSECUTIVE_FAILED_UPDATE_CHECKS" "CONSECUTIVE_FAILED_UPDATE_CHECKS \<noteq> LAST_UPDATE_TIME"
  "SERVER_DICTATED_POLL_INTERVAL \<noteq> CONSECUTIVE_FAILED_UPDATE_CHECKS"
  "CONSECUTIVE_FAILED_UPDATE_CHECKS \<noteq> SERVER_DICTATED_POLL_INTERVAL"
  by (simp_all add: context_keys)

lemma sint_ucast_u32: "sint (ucast (n :: u32) :: i64) = uint n"
proof -
  have "uint n < 2 ^ LENGTH(32)" by (rule unsigned_less)
  then have "sint (word_of_int (uint n) :: i64) = uint n"
    by (intro sint_word_of_int_63) (auto simp: order_trans [of _ 0])
  then show ?thesis by simp
qed

lemma u32_try_from_ucast [simp]: "u32_try_from_i64 (ucast (n :: u32)) = Some n"
proof -
  have "uint n < 2 ^ LENGTH(32)" by (rule unsigned_less)
  then show ?thesis by (simp add: u32_try_from_i64_def sint_ucast_u32)
qed

lemma u32_try_from_0 [simp]: "u32_try_from_i64 0 = Some 0"
  by (simp add: u32_try_from_i64_def)

text \<open>A poll interval comes back truncated to microseconds, or not at all beyond 64 bits.\<close>

definition poll_survives :: "duration \<Rightarrow> duration option" where
  "poll_survives d = (if d div 1000 < 2 ^ 63 then Some (1000 * (d div 1000)) else None)"

lemma poll_survives_spec:
  "map_option (\<lambda>t. duration_from_micros (unat t))
     (Option.bind (map_option duration_as_micros p) (\<lambda>n. Option.bind (i64_try_from_nat n) u64_try_from_i64)) =
   Option.bind p poll_survives"
proof (cases p)
  case (Some d)
  then show ?thesis
    using u64_try_from_i64_of_nat [of "d div 1000"]
    by (simp add: i64_try_from_nat_def duration_as_micros_def duration_from_micros_def poll_survives_def)
qed simp

context reliable_storage
begin

lemma context_persist_view:
  "view (context_persist ops c s) =
     (view s)(LAST_UPDATE_TIME := map_option StoredInt
                (Option.bind (last_update_time (ctx_schedule c)) checked_to_micros_since_epoch),
              SERVER_DICTATED_POLL_INTERVAL := map_option StoredInt
                (Option.bind (map_option duration_as_micros (server_dictated_poll_interval (ctx_state c))) i64_try_from_nat),
              CONSECUTIVE_FAILED_UPDATE_CHECKS := map_option StoredInt
                (if consecutive_failed_update_checks (ctx_state c) = 0 then None
                 else Some (ucast (consecutive_failed_update_checks (ctx_state c)))))"
  by (simp add: context_persist_def Let_def set_option_int_upd)

lemma get_int_of_view: "view s k = map_option StoredInt i \<Longrightarrow> get_int ops s k = i"
  by (cases i) (simp_all add: view_int)

lemma context_load_persist:
  "context_load ops (context_persist ops c s) =
     (let last = Option.bind (last_update_time (ctx_schedule c)) (\<lambda>p.
                   map_option from_micros_since_epoch (checked_to_micros_since_epoch p))
      in \<lparr>ctx_schedule = \<lparr>last_update_time = last, last_update_check_time = last, next_update_time = None\<rparr>,
          ctx_state = \<lparr>server_dictated_poll_interval =
                         Option.bind (server_dictated_poll_interval (ctx_state c)) poll_survives,
                       consecutive_failed_update_checks = consecutive_failed_update_checks (ctx_state c),
                       consecutive_proxied_requests = 0\<rparr>\<rparr>)"
proof -
  let ?s = "context_persist ops c s"
  have "get_int ops ?s LAST_UPDATE_TIME =
      Option.bind (last_update_time (ctx_schedule c)) checked_to_micros_since_epoch"
    by (rule get_int_of_view) (simp add: context_persist_view)
  then have last: "map_option Wall (get_time ops ?s LAST_UPDATE_TIME) =
      Option.bind (last_update_time (ctx_schedule c)) (\<lambda>p.
        map_option from_micros_since_epoch (checked_to_micros_since_epoch p))"
    by (cases "last_update_time (ctx_schedule c)")
       (auto simp: get_time_def from_micros_since_epoch_def [abs_def] option.map_comp comp_def)
  have poll: "get_int ops ?s SERVER_DICTATED_POLL_INTERVAL =
      Option.bind (map_option duration_as_micros (server_dictated_poll_interval (ctx_state c))) i64_try_from_nat"
    by (rule get_int_of_view) (simp add: context_persist_view)
  have failed: "get_int ops ?s CONSECUTIVE_FAILED_UPDATE_CHECKS =
      (if consecutive_failed_update_checks (ctx_state c) = 0 then None
       else Some (ucast (consecutive_failed_update_checks (ctx_state c))))"
    by (rule get_int_of_view) (simp add: context_persist_view)
  show ?thesis
    by (simp add: context_load_def Let_def last poll failed poll_survives_spec)
qed

end

section \<open>Properties\<close>

text \<open>C26: The context that is persisted is the one loaded at the next start: the count of failures exactly,
  the last update time and the poll interval to the microsecond (and neither when it does not fit
  64 bits), the last check time from the last update time, no next update time and no count of
  proxied requests.  Persisting touches its three keys only.\<close>

theorem context_persist_load:
  "context_load mem_ops (context_persist mem_ops c s) =
     (let last = Option.bind (last_update_time (ctx_schedule c)) (\<lambda>p.
                   map_option from_micros_since_epoch (checked_to_micros_since_epoch p))
      in \<lparr>ctx_schedule = \<lparr>last_update_time = last, last_update_check_time = last, next_update_time = None\<rparr>,
          ctx_state = \<lparr>server_dictated_poll_interval =
                         Option.bind (server_dictated_poll_interval (ctx_state c)) poll_survives,
                       consecutive_failed_update_checks = consecutive_failed_update_checks (ctx_state c),
                       consecutive_proxied_requests = 0\<rparr>\<rparr>) \<and>
   (\<forall>k. k \<noteq> LAST_UPDATE_TIME \<and> k \<noteq> SERVER_DICTATED_POLL_INTERVAL \<and> k \<noteq> CONSECUTIVE_FAILED_UPDATE_CHECKS \<longrightarrow>
      mem_data (context_persist mem_ops c s) k = mem_data s k)"
  using mem.context_load_persist [of c s] by (simp add: mem.context_persist_view)

theorem context_persist_load_witness:
  "consecutive_failed_update_checks (ctx_state (context_load mem_ops (context_persist mem_ops
      \<lparr>ctx_schedule = update_check_schedule_default,
       ctx_state = protocol_state_default\<lparr>consecutive_failed_update_checks := 7\<rparr>\<rparr>
      mem_new))) = 7"
  using context_persist_load [of "\<lparr>ctx_schedule = update_check_schedule_default,
       ctx_state = protocol_state_default\<lparr>consecutive_failed_update_checks := 7\<rparr>\<rparr>" mem_new]
  by (simp add: Let_def)

text \<open>C33: Whatever integers the store holds, the context loads: a negative or absent poll interval is none,
  a count of failures outside 32 bits is 0, and a value of the wrong type reads as absent.\<close>

theorem context_load_total:
  "(case mem_data s CONSECUTIVE_FAILED_UPDATE_CHECKS of
      Some (StoredInt i) \<Rightarrow> uint (consecutive_failed_update_checks (ctx_state (context_load mem_ops s))) =
         (if 0 \<le> sint i \<and> sint i < 2 ^ 32 then sint i else 0)
    | _ \<Rightarrow> consecutive_failed_update_checks (ctx_state (context_load mem_ops s)) = 0) \<and>
   (case mem_data s SERVER_DICTATED_POLL_INTERVAL of
      Some (StoredInt i) \<Rightarrow> server_dictated_poll_interval (ctx_state (context_load mem_ops s)) =
         (if 0 \<le> sint i then Some (1000 * nat (sint i)) else None)
    | _ \<Rightarrow> server_dictated_poll_interval (ctx_state (context_load mem_ops s)) = None)"
proof -
  have u: "unat i = nat (sint i)" if "0 \<le> sint i" for i :: i64
    using unat_of_nonneg [OF that] by linarith
  have "uint (word_of_int (sint i) :: u32) = sint i" if "0 \<le> sint i" "sint i < 2 ^ 32" for i :: i64
    using that uint_word_of_int [of "sint i", where 'a = 32] by (simp del: of_int_sint)
  then show ?thesis
    by (auto simp: context_load_def Let_def mem.view_int u32_try_from_i64_def u64_try_from_i64_def u
        duration_from_micros_def split: option.splits stored.splits)
qed

end
