(* ===== verification/App_Set.thy ===== *)
theory App_Set imports Update_Check begin

text \<open>
  \<open>omaha-client/src/app_set.rs\<close>: the trait \<open>AppSet\<close> as a record of operations with its laws as a
  locale, the extension \<open>AppSetExt\<close>, and \<open>VecAppSet\<close>.  The mutable iterator of the trait is the
  operation that replaces each app by a function of it, in order.
\<close>

section \<open>The trait and its extension\<close>

record 'a app_set_ops =
  get_apps :: "'a \<Rightarrow> app list"
  iter_mut_apps :: "(app \<Rightarrow> app) \<Rightarrow> 'a \<Rightarrow> 'a"
  get_system_app_id :: "'a \<Rightarrow> string"

definition all_valid :: "'a app_set_ops \<Rightarrow> 'a \<Rightarrow> bool" where
  "all_valid ops s \<longleftrightarrow> list_all app_valid (get_apps ops s)"

text \<open>The inner loop of \<open>update_from_omaha\<close>: the first response with the app's id, then \<open>break\<close>.\<close>

fun update_app_from :: "app_response list \<Rightarrow> app \<Rightarrow> app" where
  "update_app_from [] a = a"
| "update_app_from (r # rs) a =
     (if app_id a = ar_app_id r
      then a\<lparr>app_cohort := cohort_update_from_omaha (app_cohort a) (ar_cohort r),
             app_user_counting := ar_user_counting r\<rparr>
      else update_app_from rs a)"

definition update_from_omaha :: "'a app_set_ops \<Rightarrow> app_response list \<Rightarrow> 'a \<Rightarrow> 'a" where
  "update_from_omaha ops app_responses s = iter_mut_apps ops (update_app_from app_responses) s"

definition app_set_load ::
    "'a app_set_ops \<Rightarrow> ('s, 'e) storage_ops \<Rightarrow> (string \<Rightarrow> json option) \<Rightarrow> 's \<Rightarrow> 'a \<Rightarrow> 'a" where
  "app_set_load ops st from_text storage s = iter_mut_apps ops (app_load st from_text storage) s"

definition app_set_persist ::
    "'a app_set_ops \<Rightarrow> ('s, 'e) storage_ops \<Rightarrow> (json \<Rightarrow> string option) \<Rightarrow> 'a \<Rightarrow> 's \<Rightarrow> 's" where
  "app_set_persist ops st to_text s storage = fold (app_persist st to_text) (get_apps ops s) storage"

section \<open>VecAppSet\<close>

record vec_app_set =
  vas_apps :: "app list"

text \<open>\<open>VecAppSet::new\<close> panics on an empty vector.\<close>

definition vec_app_set_new :: "app list \<Rightarrow> vec_app_set option" where
  "vec_app_set_new apps = (if apps = [] then None else Some \<lparr>vas_apps = apps\<rparr>)"

definition vec_ops :: "vec_app_set app_set_ops" where
  "vec_ops =
     \<lparr>get_apps = vas_apps,
      iter_mut_apps = (\<lambda>f s. s\<lparr>vas_apps := map f (vas_apps s)\<rparr>),
      get_system_app_id = (\<lambda>s. app_id (vas_apps s ! 0))\<rparr>"

section \<open>Laws\<close>

text \<open>
  What a client of \<open>AppSet\<close> relies on: the mutable iterator visits exactly the apps that \<open>get_apps\<close>
  returns, in order, and the system app stays the same app as long as ids are kept.
\<close>

locale app_set_laws =
  fixes ops :: "'a app_set_ops"
    and proper :: "'a \<Rightarrow> bool"
  assumes get_iter: "get_apps ops (iter_mut_apps ops f s) = map f (get_apps ops s)"
    and proper_iter: "proper s \<Longrightarrow> proper (iter_mut_apps ops f s)"
    and system_iter: "proper s \<Longrightarrow> (\<And>a. app_id (f a) = app_id a) \<Longrightarrow>
          get_system_app_id ops (iter_mut_apps ops f s) = get_system_app_id ops s"
    and system_member: "proper s \<Longrightarrow> get_system_app_id ops s \<in> app_id ` set (get_apps ops s)"
begin

lemma update_app_from_id [simp]: "app_id (update_app_from rs a) = app_id a"
  by (induction rs) auto

lemma update_app_from_version [simp]: "app_version (update_app_from rs a) = app_version a"
  by (induction rs) auto

lemma update_app_from_valid [simp]: "app_valid (update_app_from rs a) = app_valid a"
  by (rule app_valid_cong) simp_all

lemma get_apps_update: "get_apps ops (update_from_omaha ops rs s) = map (update_app_from rs) (get_apps ops s)"
  by (simp add: update_from_omaha_def get_iter)

lemma all_valid_update: "all_valid ops (update_from_omaha ops rs s) = all_valid ops s"
  by (simp add: all_valid_def get_apps_update list_all_iff)

lemma system_update: "proper s \<Longrightarrow> get_system_app_id ops (update_from_omaha ops rs s) = get_system_app_id ops s"
  by (simp add: update_from_omaha_def system_iter)

lemma all_valid_load: "all_valid ops (app_set_load ops st ft x s) = all_valid ops s"
  by (simp add: all_valid_def app_set_load_def get_iter list_all_iff app_load_valid)

end

interpretation vec: app_set_laws vec_ops "\<lambda>s. vas_apps s \<noteq> []"
proof unfold_locales
  fix s :: vec_app_set and f :: "app \<Rightarrow> app"
  assume "vas_apps s \<noteq> []" and "\<And>a. app_id (f a) = app_id a"
  then show "get_system_app_id vec_ops (iter_mut_apps vec_ops f s) = get_system_app_id vec_ops s"
    by (cases "vas_apps s") (simp_all add: vec_ops_def)
qed (auto simp: vec_ops_def)

section \<open>Lemmas\<close>

lemma update_app_from_find:
  "update_app_from rs a =
     (case find (\<lambda>r. ar_app_id r = app_id a) rs of
        None \<Rightarrow> a
      | Some r \<Rightarrow> a\<lparr>app_cohort := cohort_update_from_omaha (app_cohort a) (ar_cohort r),
                    app_user_counting := ar_user_counting r\<rparr>)"
  by (induction rs) auto

lemma fold_app_persist_other:
  "k \<notin> app_id ` set as \<Longrightarrow> mem_data (fold (app_persist mem_ops to_text) as s) k = mem_data s k"
  by (induction as arbitrary: s) (simp_all add: mem.app_persist_frame)

section \<open>Properties\<close>

text \<open>C23: After a response each app has the data of the first answer with its id merged in (its cohort
  attributes overwritten where the answer carries them, its user counting replaced) and an app
  without an answer is unchanged; number, order, ids, versions, validity and the system app stay.\<close>

theorem update_from_omaha_spec:
  fixes rs :: "app_response list"
  assumes "vec_app_set_new apps = Some s"
  defines "s' \<equiv> update_from_omaha vec_ops rs s"
  shows "get_apps vec_ops s' =
           map (\<lambda>a. case find (\<lambda>r. ar_app_id r = app_id a) rs of
                      None \<Rightarrow> a
                    | Some r \<Rightarrow> a\<lparr>app_cohort := cohort_update_from_omaha (app_cohort a) (ar_cohort r),
                                  app_user_counting := ar_user_counting r\<rparr>) apps \<and>
         map app_id (get_apps vec_ops s') = map app_id apps \<and>
         map app_version (get_apps vec_ops s') = map app_version apps \<and>
         all_valid vec_ops s' = all_valid vec_ops s \<and>
         get_system_app_id vec_ops s' = app_id (hd apps)"
proof -
  have s: "s = \<lparr>vas_apps = apps\<rparr>" "apps \<noteq> []"
    using assms(1) by (auto simp: vec_app_set_new_def split: if_splits)
  have "get_apps vec_ops s' = map (update_app_from rs) apps"
    unfolding s'_def vec.get_apps_update by (simp add: s vec_ops_def)
  moreover have "get_system_app_id vec_ops s' = get_system_app_id vec_ops s"
    unfolding s'_def by (rule vec.system_update) (simp add: s)
  moreover have "get_system_app_id vec_ops s = app_id (hd apps)"
    using s by (simp add: vec_ops_def hd_conv_nth)
  ultimately show ?thesis
    using vec.all_valid_update [of rs s]
    by (simp add: s'_def update_app_from_find [symmetric] comp_def)
qed

theorem update_from_omaha_spec_witness:
  "map app_user_counting (get_apps vec_ops (update_from_omaha vec_ops
      [\<lparr>ar_app_id = ''b'', ar_cohort = cohort_default, ar_user_counting = ClientRegulatedByDate (Some 7),
        ar_result = NoUpdate\<rparr>]
      \<lparr>vas_apps = [sample_app ''a'', sample_app ''b'']\<rparr>)) =
   [ClientRegulatedByDate (Some 42), ClientRegulatedByDate (Some 7)]"
proof -
  have "vec_app_set_new [sample_app ''a'', sample_app ''b''] = Some \<lparr>vas_apps = [sample_app ''a'', sample_app ''b'']\<rparr>"
    by (simp add: vec_app_set_new_def)
  note eq = update_from_omaha_spec [OF this, THEN conjunct1]
  show ?thesis unfolding eq by (simp add: sample_app_def)
qed

text \<open>C27: Persisting an app set and loading it at the next start restores every app: with distinct ids,
  apps that come up with nothing set get back the cohort and user counting that were persisted.\<close>

theorem app_set_persist_load:
  assumes "distinct (map app_id apps)"
    and "\<And>a. a \<in> set apps \<Longrightarrow> \<exists>txt. to_text (persisted_app_json (persisted_app_from a)) = Some txt \<and>
           from_text txt = Some (persisted_app_json (persisted_app_from a))"
  shows "get_apps vec_ops (app_set_load vec_ops mem_ops from_text
             (app_set_persist vec_ops mem_ops to_text \<lparr>vas_apps = apps\<rparr> s)
             \<lparr>vas_apps = map (\<lambda>a. a\<lparr>app_cohort := cohort_default, app_user_counting := ClientRegulatedByDate None\<rparr>) apps\<rparr>) =
         apps"
proof -
  let ?blank = "\<lambda>a. a\<lparr>app_cohort := cohort_default, app_user_counting := ClientRegulatedByDate None\<rparr>"
  let ?st = "fold (app_persist mem_ops to_text) apps s"
  have merge: "app_merge_persisted (?blank a) (persisted_app_from a) = a" for a
    by (rule app.equality) (simp_all add: persisted_app_from_def cohort_update_default)
  have load: "app_load mem_ops from_text ?st (?blank a) = a" if "a \<in> set apps" for a
  proof -
    from that obtain pre post where split: "apps = pre @ a # post" by (meson split_list)
    from assms(2) [OF that] obtain tx where tx:
      "to_text (persisted_app_json (persisted_app_from a)) = Some tx"
      "from_text tx = Some (persisted_app_json (persisted_app_from a))" by blast
    have "app_id a \<notin> app_id ` set post" using assms(1) split by simp
    then have "mem_data ?st (app_id a) =
        mem_data (app_persist mem_ops to_text a (fold (app_persist mem_ops to_text) pre s)) (app_id a)"
      by (simp add: split fold_app_persist_other)
    then have "app_load mem_ops from_text ?st (?blank a) =
        app_load mem_ops from_text (app_persist mem_ops to_text a (fold (app_persist mem_ops to_text) pre s)) (?blank a)"
      by (simp add: app_load_def mem.view_string)
    also have "\<dots> = a" using mem.app_load_persist [where to_text = to_text and from_text = from_text, OF tx] merge by simp
    finally show ?thesis .
  qed
  show ?thesis
    using load by (simp add: app_set_load_def app_set_persist_def vec_ops_def map_idI)
qed

theorem app_set_persist_load_witness:
  "let a = sample_app ''a''; j = persisted_app_json (persisted_app_from a) in
   get_apps vec_ops (app_set_load vec_ops mem_ops (\<lambda>t. if t = ''{}'' then Some j else None)
      (app_set_persist vec_ops mem_ops (\<lambda>x. if x = j then Some ''{}'' else None) \<lparr>vas_apps = [a]\<rparr> mem_new)
      \<lparr>vas_apps = [a\<lparr>app_cohort := cohort_default, app_user_counting := ClientRegulatedByDate None\<rparr>]\<rparr>) = [a]"
proof -
  let ?a = "sample_app ''a''"
  let ?j = "persisted_app_json (persisted_app_from ?a)"
  have "distinct (map app_id [?a])" by simp
  from app_set_persist_load [where to_text = "\<lambda>x. if x = ?j then Some ''{}'' else None"
      and from_text = "\<lambda>t. if t = ''{}'' then Some ?j else None" and s = mem_new, OF this]
  show ?thesis by (simp add: Let_def)
qed

end
