(* ===== verification/Http_Uri.thy ===== *)
theory Http_Uri imports Omaha_Prelude begin

text \<open>
  \<open>omaha-client/src/http_uri_ext.rs\<close>: extending the path of a URI and appending a query parameter.
  The \<open>http\<close> crate's \<open>Uri\<close>, its parts and its parsers are parameters, a record of functions.
\<close>

section \<open>The http crate's URIs\<close>

datatype uri_error = InvalidUri | InvalidUriParts

record path_and_query =
  pq_path :: string
  pq_query :: "string option"

record 'b uri_parts =
  parts_rest :: 'b \<comment> \<open>scheme and authority\<close>
  parts_path_and_query :: "path_and_query option"

record ('u, 'b) uri_ops =
  uri_parse :: "string \<Rightarrow> uri_error + 'u"
  uri_to_string :: "'u \<Rightarrow> string"
  uri_into_parts :: "'u \<Rightarrow> 'b uri_parts"
  uri_from_parts :: "'b uri_parts \<Rightarrow> uri_error + 'u"
  parse_path_and_query :: "string \<Rightarrow> uri_error + path_and_query"

section \<open>The extension trait\<close>

definition ends_with_slash :: "string \<Rightarrow> bool" where
  "ends_with_slash s \<longleftrightarrow> s \<noteq> [] \<and> last s = CHR ''/''"

text \<open>The common end of both operations: parse the new path and query, and put the parts together.\<close>

definition with_path_and_query :: "('u, 'b) uri_ops \<Rightarrow> 'b uri_parts \<Rightarrow> string \<Rightarrow> uri_error + 'u" where
  "with_path_and_query lib base_parts new =
     (case parse_path_and_query lib new of
        Inl e \<Rightarrow> Inl e
      | Inr pq \<Rightarrow> uri_from_parts lib (base_parts\<lparr>parts_path_and_query := Some pq\<rparr>))"

definition extended_path :: "path_and_query option \<Rightarrow> string \<Rightarrow> string" where
  "extended_path pq path =
     (let (base_path, query) =
        (case pq of
           Some p \<Rightarrow> if pq_path p \<noteq> [] then (pq_path p, pq_query p) else (''/'', pq_query p)
         | None \<Rightarrow> (''/'', None))
      in if ends_with_slash base_path
         then (case query of Some q \<Rightarrow> base_path @ path @ ''?'' @ q | None \<Rightarrow> base_path @ path)
         else (case query of Some q \<Rightarrow> base_path @ ''/'' @ path @ ''?'' @ q | None \<Rightarrow> base_path @ ''/'' @ path))"

definition extend_dir_with_path :: "('u, 'b) uri_ops \<Rightarrow> 'u \<Rightarrow> string \<Rightarrow> uri_error + 'u" where
  "extend_dir_with_path lib u path =
     (if path = [] then Inr u
      else (let base_parts = uri_into_parts lib u
            in with_path_and_query lib base_parts (extended_path (parts_path_and_query base_parts) path)))"

definition appended_query :: "path_and_query option \<Rightarrow> string \<Rightarrow> string \<Rightarrow> string" where
  "appended_query pq key value =
     (case pq of
        Some p \<Rightarrow>
          (let path = (if pq_path p = [] then ''/'' else pq_path p)
           in case pq_query p of
                Some q \<Rightarrow> path @ ''?'' @ q @ ''&'' @ key @ ''='' @ value
              | None \<Rightarrow> path @ ''?'' @ key @ ''='' @ value)
      | None \<Rightarrow> ''/?'' @ key @ ''='' @ value)"

definition append_query_parameter :: "('u, 'b) uri_ops \<Rightarrow> 'u \<Rightarrow> string \<Rightarrow> string \<Rightarrow> uri_error + 'u" where
  "append_query_parameter lib u key value =
     (let base_parts = uri_into_parts lib u
      in with_path_and_query lib base_parts (appended_query (parts_path_and_query base_parts) key value))"

section \<open>Lemmas\<close>

text \<open>How the crate documents a path and query: the text up to the first question mark, and what
  follows it.  (A number sign would start a fragment, which is dropped.)\<close>

definition pq_of_string :: "string \<Rightarrow> path_and_query" where
  "pq_of_string s =
     (case split_once CHR ''?'' s of
        None \<Rightarrow> \<lparr>pq_path = s, pq_query = None\<rparr>
      | Some (p, q) \<Rightarrow> \<lparr>pq_path = p, pq_query = Some q\<rparr>)"

lemma pq_of_string_append:
  "CHR ''?'' \<notin> set p \<Longrightarrow> pq_of_string (p @ CHR ''?'' # q) = \<lparr>pq_path = p, pq_query = Some q\<rparr>"
  "CHR ''?'' \<notin> set p \<Longrightarrow> pq_of_string p = \<lparr>pq_path = p, pq_query = None\<rparr>"
  by (simp_all add: pq_of_string_def split_once_append iffD2 [OF split_once_None])

text \<open>A small URI library for examples: a URI is an optional path and query after a fixed host.\<close>

definition sample_uri_ops :: "(unit uri_parts, unit) uri_ops" where
  "sample_uri_ops =
     \<lparr>uri_parse = (\<lambda>s. Inr \<lparr>parts_rest = (), parts_path_and_query = (if s = [] then None else Some (pq_of_string s))\<rparr>),
      uri_to_string = (\<lambda>u. case parts_path_and_query u of None \<Rightarrow> [] | Some p \<Rightarrow>
         pq_path p @ (case pq_query p of None \<Rightarrow> [] | Some q \<Rightarrow> CHR ''?'' # q)),
      uri_into_parts = (\<lambda>u. u), uri_from_parts = Inr, parse_path_and_query = (\<lambda>s. Inr (pq_of_string s))\<rparr>"

lemma append_query_parameter_parts:
  assumes parse: "\<And>s pq. CHR ''#'' \<notin> set s \<Longrightarrow> parse_path_and_query lib s = Inr pq \<Longrightarrow> pq = pq_of_string s"
    and parts: "\<And>p u. uri_from_parts lib p = Inr u \<Longrightarrow> uri_into_parts lib u = p"
    and base: "\<And>p. parts_path_and_query (uri_into_parts lib u) = Some p \<Longrightarrow>
                CHR ''?'' \<notin> set (pq_path p) \<and> CHR ''#'' \<notin> set (pq_path p) \<and>
                (\<forall>q. pq_query p = Some q \<longrightarrow> CHR ''#'' \<notin> set q)"
    and new: "CHR ''#'' \<notin> set key" "CHR ''#'' \<notin> set value"
    and ok: "append_query_parameter lib u key value = Inr u'"
  shows "uri_into_parts lib u' =
           (uri_into_parts lib u)\<lparr>parts_path_and_query := Some
              (case parts_path_and_query (uri_into_parts lib u) of
                 None \<Rightarrow> \<lparr>pq_path = ''/'', pq_query = Some (key @ ''='' @ value)\<rparr>
               | Some p \<Rightarrow> \<lparr>pq_path = (if pq_path p = [] then ''/'' else pq_path p),
                            pq_query = Some ((case pq_query p of None \<Rightarrow> [] | Some q \<Rightarrow> q @ ''&'')
                                             @ key @ ''='' @ value)\<rparr>)\<rparr>"
proof -
  let ?pq = "parts_path_and_query (uri_into_parts lib u)"
  have clean: "CHR ''#'' \<notin> set (appended_query ?pq key value)"
    using base new by (auto simp: appended_query_def Let_def split: option.splits)
  from ok obtain pq where "parse_path_and_query lib (appended_query ?pq key value) = Inr pq"
    and built: "uri_from_parts lib ((uri_into_parts lib u)\<lparr>parts_path_and_query := Some pq\<rparr>) = Inr u'"
    by (auto simp: append_query_parameter_def with_path_and_query_def Let_def split: sum.splits)
  then have "pq = pq_of_string (appended_query ?pq key value)" using parse clean by blast
  moreover have "pq_of_string (appended_query ?pq key value) =
      (case ?pq of
         None \<Rightarrow> \<lparr>pq_path = ''/'', pq_query = Some (key @ ''='' @ value)\<rparr>
       | Some p \<Rightarrow> \<lparr>pq_path = (if pq_path p = [] then ''/'' else pq_path p),
                    pq_query = Some ((case pq_query p of None \<Rightarrow> [] | Some q \<Rightarrow> q @ ''&'') @ key @ ''='' @ value)\<rparr>)"
    using base pq_of_string_append(1) [of "''/''" "key @ ''='' @ value"]
    by (auto simp: appended_query_def Let_def pq_of_string_append split: option.splits)
       (simp add: pq_of_string_def)+
  ultimately show ?thesis using parts [OF built] by simp
qed

section \<open>Properties\<close>

text \<open>C38: Appending a query parameter keeps scheme, authority, path and every existing parameter, and adds
  the new one at the end; an absent or empty path becomes a slash.  This rests on the crate splitting
  a path and query at its first question mark and on a path containing none.\<close>

theorem append_query_parameter_spec:
  assumes parse: "\<And>s pq. CHR ''#'' \<notin> set s \<Longrightarrow> parse_path_and_query lib s = Inr pq \<Longrightarrow> pq = pq_of_string s"
    and parts: "\<And>p u. uri_from_parts lib p = Inr u \<Longrightarrow> uri_into_parts lib u = p"
    and base: "\<And>p. parts_path_and_query (uri_into_parts lib u) = Some p \<Longrightarrow>
                CHR ''?'' \<notin> set (pq_path p) \<and> CHR ''#'' \<notin> set (pq_path p) \<and>
                (\<forall>q. pq_query p = Some q \<longrightarrow> CHR ''#'' \<notin> set q)"
    and new: "CHR ''#'' \<notin> set key" "CHR ''#'' \<notin> set value"
    and ok: "append_query_parameter lib u key value = Inr u'"
  shows "uri_into_parts lib u' =
           (uri_into_parts lib u)\<lparr>parts_path_and_query := Some
              (case parts_path_and_query (uri_into_parts lib u) of
                 None \<Rightarrow> \<lparr>pq_path = ''/'', pq_query = Some (key @ ''='' @ value)\<rparr>
               | Some p \<Rightarrow> \<lparr>pq_path = (if pq_path p = [] then ''/'' else pq_path p),
                            pq_query = Some ((case pq_query p of None \<Rightarrow> [] | Some q \<Rightarrow> q @ ''&'')
                                             @ key @ ''='' @ value)\<rparr>)\<rparr>"
  by (rule append_query_parameter_parts [OF parse parts base new ok])

theorem append_query_parameter_spec_witness:
  "let u = \<lparr>parts_rest = (), parts_path_and_query = Some \<lparr>pq_path = ''/a'', pq_query = Some ''k=v''\<rparr>\<rparr>;
       u' = \<lparr>parts_rest = (), parts_path_and_query = Some \<lparr>pq_path = ''/a'', pq_query = Some ''k=v&k2=v2''\<rparr>\<rparr>
   in append_query_parameter sample_uri_ops u ''k2'' ''v2'' = Inr u' \<and> uri_into_parts sample_uri_ops u' = u'"
proof -
  let ?u = "\<lparr>parts_rest = (), parts_path_and_query = Some \<lparr>pq_path = ''/a'', pq_query = Some ''k=v''\<rparr>\<rparr>"
  obtain u' where u': "append_query_parameter sample_uri_ops ?u ''k2'' ''v2'' = Inr u'"
    by (simp add: append_query_parameter_def with_path_and_query_def sample_uri_ops_def)
  have "uri_into_parts sample_uri_ops u' = ?u\<lparr>parts_path_and_query := Some
      (case parts_path_and_query (uri_into_parts sample_uri_ops ?u) of
                 None \<Rightarrow> \<lparr>pq_path = ''/'', pq_query = Some (''k2'' @ ''='' @ ''v2'')\<rparr>
               | Some p \<Rightarrow> \<lparr>pq_path = (if pq_path p = [] then ''/'' else pq_path p),
                            pq_query = Some ((case pq_query p of None \<Rightarrow> [] | Some q \<Rightarrow> q @ ''&'')
                                             @ ''k2'' @ ''='' @ ''v2'')\<rparr>)\<rparr>"
    by (rule append_query_parameter_spec [of sample_uri_ops ?u "''k2''" "''v2''" u', OF _ _ _ _ _ u', THEN trans])
       (simp_all add: sample_uri_ops_def)
  then show ?thesis using u' by (simp add: sample_uri_ops_def)
qed

text \<open>Extending a directory joins with exactly one slash between the old path and the new and keeps the
  query; an empty argument changes nothing.\<close>

lemma extended_path_spec:
  "extend_dir_with_path lib u [] = Inr u \<and>
   (let base = (case pq of Some p \<Rightarrow> if pq_path p \<noteq> [] then pq_path p else ''/'' | None \<Rightarrow> ''/'') in
    \<exists>dir. (base = dir @ ''/'' \<or> base = dir \<and> \<not> ends_with_slash dir) \<and>
          extended_path pq path = dir @ ''/'' @ path @
            (case Option.bind pq pq_query of Some q \<Rightarrow> CHR ''?'' # q | None \<Rightarrow> []))"
proof -
  define base where "base = (case pq of Some p \<Rightarrow> if pq_path p \<noteq> [] then pq_path p else ''/'' | None \<Rightarrow> ''/'')"
  define dir where "dir = (if ends_with_slash base then butlast base else base)"
  define tail where "tail = (case Option.bind pq pq_query of Some q \<Rightarrow> CHR ''?'' # q | None \<Rightarrow> [])"
  have slash: "ends_with_slash base \<Longrightarrow> base = dir @ ''/''"
    using append_butlast_last_id [of base] by (simp add: dir_def ends_with_slash_def)
  then have dir: "base = dir @ ''/'' \<or> base = dir \<and> \<not> ends_with_slash dir"
    by (cases "ends_with_slash base") (simp_all add: dir_def)
  moreover have "extended_path pq path = dir @ ''/'' @ path @ tail"
  proof (cases "ends_with_slash base")
    case True
    with slash have "base = dir @ ''/''" by simp
    with True show ?thesis
      unfolding base_def tail_def extended_path_def
      by (cases pq) (auto simp: Let_def split: option.splits if_splits)
  next
    case False
    then have "base = dir" by (simp add: dir_def)
    with False show ?thesis
      unfolding base_def tail_def extended_path_def
      by (cases pq) (auto simp: Let_def split: option.splits if_splits)
  qed
  ultimately show ?thesis
    unfolding base_def tail_def Let_def by (auto simp: extend_dir_with_path_def)
qed

end
