(* ===== verification/Cup_Ecdsa.thy ===== *)
theory Cup_Ecdsa imports Http_Uri begin

text \<open>
  \<open>omaha-client/src/cup_ecdsa.rs\<close>: the CUPv2 handler, which decorates a request with a key id and a
  nonce and verifies that a response is signed for exactly that request.  The cryptographic crates
  (SHA-256, hex, ECDSA with its DER encodings) and header values are parameters, a record of functions;
  their opaque error values carry no content here.
\<close>

section \<open>Parameters\<close>

record ('k, 'd, 's) crypto_ops =
  sha256 :: "string \<Rightarrow> string"
  hex_encode :: "string \<Rightarrow> string"
  hex_decode :: "string \<Rightarrow> string option"
  der_from_bytes :: "string \<Rightarrow> 'd option"
  der_as_bytes :: "'d \<Rightarrow> string"
  signature_of_der :: "'d \<Rightarrow> 's option"
  key_verify :: "'k \<Rightarrow> string \<Rightarrow> 's \<Rightarrow> bool"
  header_to_str :: "string \<Rightarrow> string option"

text \<open>A response of the HTTP library: its status code, the lookup of a header value, its body.\<close>

record http_response =
  http_status :: nat
  http_header :: "string \<Rightarrow> string option"
  http_body :: string

abbreviation ETAG :: string where "ETAG \<equiv> ''etag''"

section \<open>Data\<close>

datatype cup_decoration_error =
    SerializationError | ParseError | AppendQueryParameterError uri_error

datatype cup_verification_error =
    EtagHeaderMissing | EtagNotString | EtagMalformed | RequestHashMalformed | RequestHashMismatch
  | SignatureMalformed | SpecifiedPublicKeyIdMissing | SignatureError

type_synonym public_key_id = u64

record 'k public_key_and_id =
  pk_key :: 'k
  pk_id :: public_key_id

record 'k public_keys =
  pk_latest :: "'k public_key_and_id"
  pk_historical :: "'k public_key_and_id list"

text \<open>A nonce is its 32 bytes; it is displayed in hexadecimal.\<close>

type_synonym nonce = string

definition nonce_to_string :: "('k, 'd, 's) crypto_ops \<Rightarrow> nonce \<Rightarrow> string" where
  "nonce_to_string lib n = hex_encode lib n"

record request_metadata =
  rm_request_body :: string
  rm_public_key_id :: public_key_id
  rm_nonce :: nonce

text \<open>The trait \<open>CupRequest\<close>: a request under construction.\<close>

record 'r cup_request =
  get_uri :: "'r \<Rightarrow> string"
  set_uri :: "string \<Rightarrow> 'r \<Rightarrow> 'r"
  get_serialized_body :: "'r \<Rightarrow> unit + string"

record 'k standard_cupv2_handler =
  parameters_by_id :: "public_key_id \<rightharpoonup> 'k"
  latest_public_key_id :: public_key_id

definition standard_cupv2_handler_new :: "'k public_keys \<Rightarrow> 'k standard_cupv2_handler" where
  "standard_cupv2_handler_new keys =
     \<lparr>parameters_by_id = fold (\<lambda>k m. m(pk_id k \<mapsto> pk_key k)) (pk_latest keys # pk_historical keys) (\<lambda>_. None),
      latest_public_key_id = pk_id (pk_latest keys)\<rparr>"

section \<open>Decorating a request\<close>

definition cup2_urlparam :: "('k, 'd, 's) crypto_ops \<Rightarrow> public_key_id \<Rightarrow> nonce \<Rightarrow> string" where
  "cup2_urlparam lib key_id n = dec (unat key_id) @ '':'' @ nonce_to_string lib n"

text \<open>The request is mutated in place, so it is returned with the result; the nonce is drawn by the caller.\<close>

definition decorate_request ::
  "('k, 'd, 's) crypto_ops \<Rightarrow> ('u, 'b) uri_ops \<Rightarrow> 'r cup_request \<Rightarrow> 'k standard_cupv2_handler \<Rightarrow> nonce \<Rightarrow> 'r
     \<Rightarrow> (cup_decoration_error + request_metadata) \<times> 'r" where
  "decorate_request lib uris req handler n r =
     (let public_key_id = latest_public_key_id handler in
      case uri_parse uris (get_uri req r) of
        Inl _ \<Rightarrow> (Inl ParseError, r)
      | Inr u \<Rightarrow>
          (case append_query_parameter uris u ''cup2key'' (cup2_urlparam lib public_key_id n) of
             Inl e \<Rightarrow> (Inl (AppendQueryParameterError e), r)
           | Inr u' \<Rightarrow>
               (let r' = set_uri req (uri_to_string uris u') r in
                case get_serialized_body req r' of
                  Inl _ \<Rightarrow> (Inl SerializationError, r')
                | Inr body \<Rightarrow>
                    (Inr \<lparr>rm_request_body = body, rm_public_key_id = public_key_id, rm_nonce = n\<rparr>, r'))))"

section \<open>Verifying a response\<close>

text \<open>The bytes fed to the transaction hash, and the hash.\<close>

definition transaction_bytes ::
  "('k, 'd, 's) crypto_ops \<Rightarrow> string \<Rightarrow> string \<Rightarrow> public_key_id \<Rightarrow> nonce \<Rightarrow> string" where
  "transaction_bytes lib request_body response_body public_key_id n =
     sha256 lib request_body @ sha256 lib response_body @ cup2_urlparam lib public_key_id n"

definition make_transaction_hash ::
  "('k, 'd, 's) crypto_ops \<Rightarrow> string \<Rightarrow> string \<Rightarrow> public_key_id \<Rightarrow> nonce \<Rightarrow> string" where
  "make_transaction_hash lib request_body response_body public_key_id n =
     sha256 lib (transaction_bytes lib request_body response_body public_key_id n)"

definition verify_response_with_signature ::
  "('k, 'd, 's) crypto_ops \<Rightarrow> 'k standard_cupv2_handler \<Rightarrow> 'd \<Rightarrow> string \<Rightarrow> string \<Rightarrow> public_key_id \<Rightarrow> nonce
     \<Rightarrow> cup_verification_error + unit" where
  "verify_response_with_signature lib handler ecdsa_signature request_body response_body public_key_id n =
     (let transaction_hash = make_transaction_hash lib request_body response_body public_key_id n in
      result_bind (ok_or SpecifiedPublicKeyIdMissing (parameters_by_id handler public_key_id)) (\<lambda>public_key.
      result_bind (ok_or SignatureError (der_from_bytes lib (der_as_bytes lib ecdsa_signature))) (\<lambda>der_signature.
      result_bind (ok_or SignatureError (signature_of_der lib der_signature)) (\<lambda>signature.
      if key_verify lib public_key transaction_hash signature then Inr () else Inl SignatureError))))"

text \<open>An entity tag stands in double quotes, after an optional weakness prefix.\<close>

definition parse_etag :: "string \<Rightarrow> string" where
  "parse_etag etag =
     (if 4 \<le> length etag \<and> take 3 etag = [CHR ''W'', CHR ''/'', CHR 0x22] \<and> last etag = CHR 0x22
      then butlast (drop 3 etag)
      else if 2 \<le> length etag \<and> hd etag = CHR 0x22 \<and> last etag = CHR 0x22
      then butlast (tl etag)
      else etag)"

definition verify_response ::
  "('k, 'd, 's) crypto_ops \<Rightarrow> 'k standard_cupv2_handler \<Rightarrow> request_metadata \<Rightarrow> http_response \<Rightarrow> public_key_id
     \<Rightarrow> cup_verification_error + 'd" where
  "verify_response lib handler request_metadata resp public_key_id =
     result_bind (ok_or EtagHeaderMissing (http_header resp ETAG)) (\<lambda>value.
     result_bind (ok_or EtagNotString (header_to_str lib value)) (\<lambda>text.
     result_bind (ok_or EtagMalformed (split_once CHR '':'' (parse_etag text))) (\<lambda>(encoded_signature, hex_hash).
     result_bind (ok_or RequestHashMalformed (hex_decode lib hex_hash)) (\<lambda>actual_hash.
     if sha256 lib (rm_request_body request_metadata) \<noteq> actual_hash then Inl RequestHashMismatch
     else
       result_bind (ok_or SignatureMalformed (hex_decode lib encoded_signature)) (\<lambda>bytes.
       result_bind (ok_or SignatureError (der_from_bytes lib bytes)) (\<lambda>signature.
       result_bind (verify_response_with_signature lib handler signature (rm_request_body request_metadata)
                      (http_body resp) public_key_id (rm_nonce request_metadata)) (\<lambda>_.
       Inr signature)))))))"

section \<open>Lemmas\<close>

lemma handler_fold_unchanged:
  "i \<notin> pk_id ` set ks \<Longrightarrow> fold (\<lambda>k m. m(pk_id k \<mapsto> pk_key k)) ks m i = m i"
  by (induction ks arbitrary: m) auto

lemma handler_fold_dom: "dom (fold (\<lambda>k m. m(pk_id k \<mapsto> pk_key k)) ks m) = dom m \<union> pk_id ` set ks"
  by (induction ks arbitrary: m) auto

lemma verify_with_signature_Inr_iff:
  "verify_response_with_signature lib handler d rb sb i n = Inr () \<longleftrightarrow>
     (\<exists>k d' s. parameters_by_id handler i = Some k \<and> der_from_bytes lib (der_as_bytes lib d) = Some d' \<and>
        signature_of_der lib d' = Some s \<and> key_verify lib k (make_transaction_hash lib rb sb i n) s)"
  by (auto simp: verify_response_with_signature_def result_bind_Inr_iff Let_def split: if_splits)

lemma cup2_urlparam_split [parse_simps]:
  "split_once CHR '':'' (cup2_urlparam lib i n) = Some (dec (unat i), nonce_to_string lib n)"
  using split_once_append [of "CHR '':''" "dec (unat i)"] digit_val_None_notin_dec [of "CHR '':''"]
  by (simp add: cup2_urlparam_def)

lemma parse_key_id [parse_simps]: "parse_u64 (dec (unat (i :: u64))) = Inr (unat i)"
  by (rule parse_uint_dec) simp

lemma dec_unat_inject: "dec (unat (i :: u64)) = dec (unat j) \<longleftrightarrow> i = j"
proof
  assume "dec (unat i) = dec (unat j)"
  then have "(Inr (unat i) :: parse_int_error + nat) = Inr (unat j)"
    using parse_key_id [of i] parse_key_id [of j] by metis
  then show "i = j" by (simp only: sum.inject word_unat_eq_iff)
qed simp

lemma decorate_request_InrD:
  "decorate_request lib uris req handler n r = (Inr meta, r') \<Longrightarrow>
     \<exists>u u'. uri_parse uris (get_uri req r) = Inr u \<and>
       append_query_parameter uris u ''cup2key'' (cup2_urlparam lib (latest_public_key_id handler) n) = Inr u' \<and>
       r' = set_uri req (uri_to_string uris u') r \<and> get_serialized_body req r' = Inr (rm_request_body meta) \<and>
       rm_public_key_id meta = latest_public_key_id handler \<and> rm_nonce meta = n"
  by (auto simp: decorate_request_def Let_def split: sum.splits)

text \<open>The two quoted forms and the plain one.\<close>

lemma parse_etag_weak: "parse_etag ([CHR ''W'', CHR ''/'', CHR 0x22] @ t @ [CHR 0x22]) = t"
  by (simp add: parse_etag_def butlast_append)

lemma parse_etag_quoted: "parse_etag ([CHR 0x22] @ t @ [CHR 0x22]) = t"
  by (simp add: parse_etag_def butlast_append)

lemma parse_etag_plain: "CHR 0x22 \<notin> set t \<Longrightarrow> parse_etag t = t"
proof (cases "t = []")
  case False
  assume "CHR 0x22 \<notin> set t"
  with last_in_set [OF False] have "last t \<noteq> CHR 0x22" by metis
  then show ?thesis by (simp add: parse_etag_def)
qed (simp add: parse_etag_def)

lemma verify_accepts_iff:
  "verify_response lib handler meta resp i = Inr d \<longleftrightarrow>
     (\<exists>value text sig_hex hash_hex bytes k d' s.
        http_header resp ETAG = Some value \<and> header_to_str lib value = Some text \<and>
        parse_etag text = sig_hex @ '':'' @ hash_hex \<and> CHR '':'' \<notin> set sig_hex \<and>
        hex_decode lib hash_hex = Some (sha256 lib (rm_request_body meta)) \<and>
        hex_decode lib sig_hex = Some bytes \<and> der_from_bytes lib bytes = Some d \<and>
        parameters_by_id handler i = Some k \<and>
        der_from_bytes lib (der_as_bytes lib d) = Some d' \<and> signature_of_der lib d' = Some s \<and>
        key_verify lib k (make_transaction_hash lib (rm_request_body meta) (http_body resp) i (rm_nonce meta)) s)"
  (is "?lhs \<longleftrightarrow> ?rhs")
proof
  assume ?lhs
  then show ?rhs
    unfolding verify_response_def
    by (fastforce simp: result_bind_Inr_iff verify_with_signature_Inr_iff dest!: split_once_Some
        split: if_splits prod.splits)
next
  assume ?rhs
  then show ?lhs
    by (clarsimp simp: verify_response_def split_once_append result_bind_Inr_iff)
       (metis verify_with_signature_Inr_iff)
qed

text \<open>A toy instance of the parameters for examples: text is its own encoding, the "hash" is the identity, and
  a signature of a message by a key is the key's name before the message.\<close>

definition toy_crypto :: "(string, string, string) crypto_ops" where
  "toy_crypto = \<lparr>sha256 = (\<lambda>s. take 2 (s @ ''__'')), hex_encode = (\<lambda>s. s), hex_decode = Some,
     der_from_bytes = Some, der_as_bytes = (\<lambda>d. d), signature_of_der = Some,
     key_verify = (\<lambda>k m s. s = k @ m), header_to_str = Some\<rparr>"

text \<open>The bytes that are hashed determine the two hashes in them, the key id and the nonce.\<close>

lemma transaction_bytes_inject:
  assumes sha_len: "\<And>s. length (sha256 lib s) = n"
    and hex_inj: "inj (hex_encode lib)"
    and eq: "transaction_bytes lib req resp i a = transaction_bytes lib req' resp' j b"
  shows "sha256 lib req = sha256 lib req' \<and> sha256 lib resp = sha256 lib resp' \<and> i = j \<and> a = b"
proof -
  from eq have "sha256 lib req = sha256 lib req' \<and> sha256 lib resp = sha256 lib resp'"
    and "cup2_urlparam lib i a = cup2_urlparam lib j b"
    by (auto simp: transaction_bytes_def sha_len)
  moreover from this have "dec (unat i) = dec (unat j)" and "hex_encode lib a = hex_encode lib b"
    using cup2_urlparam_split [of lib i a] cup2_urlparam_split [of lib j b] by (auto simp: nonce_to_string_def)
  ultimately show ?thesis using hex_inj by (auto simp: dec_unat_inject dest: injD)
qed

section \<open>Properties\<close>

text \<open>C8: A response is accepted exactly when its entity tag is present, is text, and splits at its first colon into
  a hexadecimal signature and the hexadecimal hash of the request that was sent, and the signature verifies under the
  key known for the given id over the transaction hash of this request, this response, this id and this nonce.  The
  signature returned is the one of the header.\<close>

theorem verify_response_accepts_iff:
  "verify_response lib handler meta resp i = Inr d \<longleftrightarrow>
     (\<exists>value text sig_hex hash_hex bytes k d' s.
        http_header resp ETAG = Some value \<and> header_to_str lib value = Some text \<and>
        parse_etag text = sig_hex @ '':'' @ hash_hex \<and> CHR '':'' \<notin> set sig_hex \<and>
        hex_decode lib hash_hex = Some (sha256 lib (rm_request_body meta)) \<and>
        hex_decode lib sig_hex = Some bytes \<and> der_from_bytes lib bytes = Some d \<and>
        parameters_by_id handler i = Some k \<and>
        der_from_bytes lib (der_as_bytes lib d) = Some d' \<and> signature_of_der lib d' = Some s \<and>
        key_verify lib k (make_transaction_hash lib (rm_request_body meta) (http_body resp) i (rm_nonce meta)) s)"
  by (rule verify_accepts_iff)

text \<open>C24: A signature binds one transaction.  What is signed is the transaction hash, so a signature of one transaction is
  one of every other with the same hash.  With a hash of fixed length and an injective hexadecimal encoding, two
  transactions with the same transaction hash are the same, in their requests, responses, key ids and nonces, unless the hash
  function collides on one of three pairs of texts: the two requests, the two responses, or the two texts that were
  hashed last.\<close>

theorem transaction_hash_binds:
  assumes sha_len: "\<And>s. length (sha256 lib s) = n"
    and hex_inj: "inj (hex_encode lib)"
    and eq: "make_transaction_hash lib req resp i a = make_transaction_hash lib req' resp' j b"
  shows "req = req' \<and> resp = resp' \<and> i = j \<and> a = b \<or>
    (\<exists>(x, y) \<in> {(req, req'), (resp, resp'), (transaction_bytes lib req resp i a, transaction_bytes lib req' resp' j b)}.
       x \<noteq> y \<and> sha256 lib x = sha256 lib y)"
proof (cases "transaction_bytes lib req resp i a = transaction_bytes lib req' resp' j b")
  case True
  with transaction_bytes_inject [OF sha_len hex_inj this] show ?thesis by auto
next
  case False
  with eq show ?thesis by (auto simp: make_transaction_hash_def)
qed

text \<open>The toy hash keeps two characters: it collides on these requests, and the theorem names that pair.\<close>

theorem transaction_hash_binds_witness:
  "make_transaction_hash toy_crypto ''req'' ''a'' 7 ''n'' = make_transaction_hash toy_crypto ''rex'' ''a'' 7 ''n'' \<and>
   (''req'' = ''rex'' \<or> (\<exists>(x, y) \<in> {(''req'', ''rex''), (''a'', ''a''),
      (transaction_bytes toy_crypto ''req'' ''a'' 7 ''n'', transaction_bytes toy_crypto ''rex'' ''a'' 7 ''n'')}.
        x \<noteq> y \<and> sha256 toy_crypto x = sha256 toy_crypto y))"
proof -
  have "make_transaction_hash toy_crypto ''req'' ''a'' 7 ''n'' = make_transaction_hash toy_crypto ''rex'' ''a'' 7 ''n''"
    by (simp add: make_transaction_hash_def transaction_bytes_def toy_crypto_def)
  moreover have "length (sha256 toy_crypto s) = 2" "inj (hex_encode toy_crypto)" for s
    by (simp_all add: toy_crypto_def inj_def)
  ultimately show ?thesis using transaction_hash_binds [of toy_crypto 2 "''req''" "''a''" 7 "''n''" "''rex''" "''a''" 7 "''n''"] by blast
qed

text \<open>C25: What decorating a request does, error by error.  It fails with \<open>ParseError\<close> only on a URI that does not parse
  and with \<open>AppendQueryParameterError\<close> only with the error of that step, and then the request is unchanged.
  Otherwise the request has a URI with the old scheme, authority, path and query, and after these the parameter
  \<open>cup2key\<close> with the decimal id of the latest key, a colon and the nonce in hexadecimal; if the body serialized
  after that fails the error is \<open>SerializationError\<close>, else the metadata is this body, this id and this nonce.
  (Laws of the URI library as for appending a parameter.)\<close>

theorem decorate_request_spec:
  assumes parse: "\<And>s pq. CHR ''#'' \<notin> set s \<Longrightarrow> parse_path_and_query uris s = Inr pq \<Longrightarrow> pq = pq_of_string s"
    and parts: "\<And>p u. uri_from_parts uris p = Inr u \<Longrightarrow> uri_into_parts uris u = p"
    and base: "\<And>u p. uri_parse uris (get_uri req r) = Inr u \<Longrightarrow> parts_path_and_query (uri_into_parts uris u) = Some p \<Longrightarrow>
                CHR ''?'' \<notin> set (pq_path p) \<and> CHR ''#'' \<notin> set (pq_path p) \<and>
                (\<forall>q. pq_query p = Some q \<longrightarrow> CHR ''#'' \<notin> set q)"
    and hex: "CHR ''#'' \<notin> set (hex_encode lib n)"
  shows "let key = dec (unat (latest_public_key_id handler)) @ '':'' @ hex_encode lib n;
      decorated = (\<lambda>u'. \<exists>u. uri_parse uris (get_uri req r) = Inr u \<and>
        uri_into_parts uris u' = (uri_into_parts uris u)\<lparr>parts_path_and_query := Some
          (case parts_path_and_query (uri_into_parts uris u) of
             None \<Rightarrow> \<lparr>pq_path = ''/'', pq_query = Some (''cup2key='' @ key)\<rparr>
           | Some p \<Rightarrow> \<lparr>pq_path = (if pq_path p = [] then ''/'' else pq_path p),
                        pq_query = Some ((case pq_query p of None \<Rightarrow> [] | Some q \<Rightarrow> q @ ''&'') @ ''cup2key='' @ key)\<rparr>)\<rparr>)
    in case decorate_request lib uris req handler n r of
      (Inl ParseError, r') \<Rightarrow> r' = r \<and> (\<exists>e. uri_parse uris (get_uri req r) = Inl e)
    | (Inl (AppendQueryParameterError e), r') \<Rightarrow> r' = r \<and>
        (\<exists>u. uri_parse uris (get_uri req r) = Inr u \<and> append_query_parameter uris u ''cup2key'' key = Inl e)
    | (Inl SerializationError, r') \<Rightarrow>
        (\<exists>u'. decorated u' \<and> r' = set_uri req (uri_to_string uris u') r) \<and> get_serialized_body req r' = Inl ()
    | (Inr meta, r') \<Rightarrow>
        (\<exists>u'. decorated u' \<and> r' = set_uri req (uri_to_string uris u') r) \<and>
        get_serialized_body req r' = Inr (rm_request_body meta) \<and>
        rm_public_key_id meta = latest_public_key_id handler \<and> rm_nonce meta = n"
proof -
  let ?key = "dec (unat (latest_public_key_id handler)) @ '':'' @ hex_encode lib n"
  have text_eq: "''cup2key'' @ ''='' @ ?key = ''cup2key='' @ ?key" by simp
  have clean: "CHR ''#'' \<notin> set ''cup2key''" "CHR ''#'' \<notin> set ?key"
    using hex digit_val_None_notin_dec [of "CHR ''#''"] by (auto simp: digit_val_def)
  have "uri_into_parts uris u' = (uri_into_parts uris u)\<lparr>parts_path_and_query := Some
      (case parts_path_and_query (uri_into_parts uris u) of
         None \<Rightarrow> \<lparr>pq_path = ''/'', pq_query = Some (''cup2key='' @ ?key)\<rparr>
       | Some p \<Rightarrow> \<lparr>pq_path = (if pq_path p = [] then ''/'' else pq_path p),
                    pq_query = Some ((case pq_query p of None \<Rightarrow> [] | Some q \<Rightarrow> q @ ''&'') @ ''cup2key='' @ ?key)\<rparr>)\<rparr>"
    if "uri_parse uris (get_uri req r) = Inr u" "append_query_parameter uris u ''cup2key'' ?key = Inr u'" for u u'
    using append_query_parameter_parts [OF parse parts base [OF that(1)] clean that(2)] unfolding text_eq .
  then show ?thesis
    unfolding Let_def decorate_request_def cup2_urlparam_def nonce_to_string_def
    by (simp split: sum.splits unit.splits) blast
qed

theorem decorate_request_spec_witness:
  "\<exists>meta. decorate_request toy_crypto sample_uri_ops \<lparr>get_uri = (\<lambda>s. s), set_uri = (\<lambda>s _. s), get_serialized_body = Inr\<rparr>
       \<lparr>parameters_by_id = [7 \<mapsto> ''key''], latest_public_key_id = 7\<rparr> ''n'' ''/a?k=v'' = (Inr meta, ''/a?k=v&cup2key=7:n'') \<and>
     rm_request_body meta = ''/a?k=v&cup2key=7:n'' \<and> rm_public_key_id meta = 7 \<and> rm_nonce meta = ''n''"
proof -
  let ?req = "\<lparr>get_uri = (\<lambda>s. s), set_uri = (\<lambda>s _. s), get_serialized_body = Inr\<rparr> :: string cup_request"
  let ?h = "\<lparr>parameters_by_id = [7 \<mapsto> ''key''], latest_public_key_id = 7\<rparr>"
  have laws: "\<And>s pq. CHR ''#'' \<notin> set s \<Longrightarrow> parse_path_and_query sample_uri_ops s = Inr pq \<Longrightarrow> pq = pq_of_string s"
    "\<And>p u. uri_from_parts sample_uri_ops p = Inr u \<Longrightarrow> uri_into_parts sample_uri_ops u = p"
    "\<And>u p. uri_parse sample_uri_ops (get_uri ?req ''/a?k=v'') = Inr u \<Longrightarrow>
       parts_path_and_query (uri_into_parts sample_uri_ops u) = Some p \<Longrightarrow>
       CHR ''?'' \<notin> set (pq_path p) \<and> CHR ''#'' \<notin> set (pq_path p) \<and> (\<forall>q. pq_query p = Some q \<longrightarrow> CHR ''#'' \<notin> set q)"
    "CHR ''#'' \<notin> set (hex_encode toy_crypto ''n'')"
    by (auto simp: sample_uri_ops_def toy_crypto_def pq_of_string_def)
  have seven: "dec 7 = ''7''" by code_simp
  obtain meta r' where run: "decorate_request toy_crypto sample_uri_ops ?req ?h ''n'' ''/a?k=v'' = (Inr meta, r')"
    by (simp add: decorate_request_def append_query_parameter_def with_path_and_query_def sample_uri_ops_def Let_def)
  show ?thesis
    by (rule revcut_rl [OF decorate_request_spec [of sample_uri_ops ?req "''/a?k=v''" toy_crypto "''n''" ?h]], (fact laws)+)
       (unfold run Let_def, auto simp: sample_uri_ops_def pq_of_string_def toy_crypto_def seven)
qed

text \<open>The handler knows exactly the keys it was given: every id of the list and no other, the last key listed for an
  id winning, so that the latest key is the one used for its id unless a historical entry repeats the id.\<close>

lemma handler_new_spec:
  "dom (parameters_by_id (standard_cupv2_handler_new keys)) = pk_id ` set (pk_latest keys # pk_historical keys) \<and>
   parameters_by_id (standard_cupv2_handler_new keys) (latest_public_key_id (standard_cupv2_handler_new keys)) \<noteq> None \<and>
   (pk_id (pk_latest keys) \<in> pk_id ` set (pk_historical keys) \<or>
    parameters_by_id (standard_cupv2_handler_new keys) (pk_id (pk_latest keys)) = Some (pk_key (pk_latest keys)))"
proof -
  let ?h = "standard_cupv2_handler_new keys"
  have "dom (parameters_by_id ?h) = pk_id ` set (pk_latest keys # pk_historical keys)"
    unfolding standard_cupv2_handler_new_def standard_cupv2_handler.simps handler_fold_dom by simp
  moreover from this have "latest_public_key_id ?h \<in> dom (parameters_by_id ?h)"
    by (simp add: standard_cupv2_handler_new_def)
  moreover have "pk_id (pk_latest keys) \<notin> pk_id ` set (pk_historical keys) \<Longrightarrow>
      parameters_by_id ?h (pk_id (pk_latest keys)) = Some (pk_key (pk_latest keys))"
    by (simp add: standard_cupv2_handler_new_def handler_fold_unchanged)
  ultimately show ?thesis by blast
qed

end
