(* ===== verification/Request_Builder.thy ===== *)
theory Request_Builder imports Common_Model Cup_Ecdsa begin

text \<open>
  \<open>omaha-client/src/configuration.rs\<close> and \<open>request_builder.rs\<close>: the accumulation of update checks,
  pings and events per app, and the construction of the HTTP request, decorated by the CUP handler
  when there is one.  Serializing JSON to bytes and the HTTP library's check of URI and headers are
  parameters.
\<close>

section \<open>Data\<close>

definition PROTOCOL_V3 :: string where "PROTOCOL_V3 = ''3.0''"
definition HEADER_UPDATER_NAME :: string where "HEADER_UPDATER_NAME = ''X-Goog-Update-Updater''"
definition HEADER_APP_ID :: string where "HEADER_APP_ID = ''X-Goog-Update-AppId''"
definition HEADER_INTERACTIVITY :: string where "HEADER_INTERACTIVITY = ''X-Goog-Update-Interactivity''"

record updater_config =
  upd_name :: string
  upd_version :: version

record 'k config =
  cfg_updater :: updater_config
  cfg_os :: os
  service_url :: string
  omaha_public_keys :: "'k public_keys option"

record request_params =
  rp_source :: install_source
  use_configured_proxies :: bool
  disable_updates :: bool
  offer_update_if_same_version :: bool

definition request_params_default :: request_params where
  "request_params_default =
     \<lparr>rp_source = install_source_default, use_configured_proxies = False, disable_updates = False,
      offer_update_if_same_version = False\<rparr>"

record app_entry =
  entry_app :: app
  entry_update_check :: "update_check option"
  entry_ping :: bool
  entry_events :: "event list"

definition app_entry_new :: "app \<Rightarrow> app_entry" where
  "app_entry_new a = \<lparr>entry_app = a, entry_update_check = None, entry_ping = False, entry_events = []\<rparr>"

definition protocol_app_from :: "app_entry \<Rightarrow> protocol_app" where
  "protocol_app_from entry =
     (let a = entry_app entry;
          ping = (if entry_ping entry
                  then (case app_user_counting a of ClientRegulatedByDate days \<Rightarrow>
                          Some \<lparr>date_last_active = days, date_last_roll_call = days\<rparr>)
                  else None)
      in \<lparr>papp_id = app_id a, papp_version = version_to_string (app_version a),
          papp_fingerprint = app_fingerprint a, papp_cohort = Some (app_cohort a),
          papp_update_check = entry_update_check entry, papp_events = entry_events entry,
          papp_ping = ping, papp_extra_fields = app_extra_fields a\<rparr>)"

datatype builder_error = JsonError | HttpError | CupError cup_decoration_error

record 'k request_builder =
  rb_config :: "'k config"
  rb_params :: request_params
  rb_app_entries :: "app_entry list"
  rb_request_id :: "guid option"
  rb_session_id :: "guid option"

section \<open>Accumulating\<close>

definition request_builder_new :: "'k config \<Rightarrow> request_params \<Rightarrow> 'k request_builder" where
  "request_builder_new cfg params =
     \<lparr>rb_config = cfg, rb_params = params, rb_app_entries = [], rb_request_id = None, rb_session_id = None\<rparr>"

definition insert_and_modify_entry :: "app \<Rightarrow> (app_entry \<Rightarrow> app_entry) \<Rightarrow> app_entry list \<Rightarrow> app_entry list" where
  "insert_and_modify_entry a f es =
     (if list_ex (\<lambda>e. app_id (entry_app e) = app_id a) es
      then modify_first (\<lambda>e. app_id (entry_app e) = app_id a) f es
      else es @ [f (app_entry_new a)])"

definition add_update_check :: "app \<Rightarrow> 'k request_builder \<Rightarrow> 'k request_builder" where
  "add_update_check a b =
     (let update_check = \<lparr>uc_disabled = disable_updates (rb_params b),
                          uc_offer_update_if_same_version = offer_update_if_same_version (rb_params b)\<rparr>
      in b\<lparr>rb_app_entries :=
             insert_and_modify_entry a (\<lambda>entry. entry\<lparr>entry_update_check := Some update_check\<rparr>) (rb_app_entries b)\<rparr>)"

definition add_ping :: "app \<Rightarrow> 'k request_builder \<Rightarrow> 'k request_builder" where
  "add_ping a b =
     b\<lparr>rb_app_entries := insert_and_modify_entry a (\<lambda>entry. entry\<lparr>entry_ping := True\<rparr>) (rb_app_entries b)\<rparr>"

definition add_event :: "app \<Rightarrow> event \<Rightarrow> 'k request_builder \<Rightarrow> 'k request_builder" where
  "add_event a e b =
     b\<lparr>rb_app_entries :=
         insert_and_modify_entry a (\<lambda>entry. entry\<lparr>entry_events := entry_events entry @ [e]\<rparr>) (rb_app_entries b)\<rparr>"

definition with_request_id :: "guid \<Rightarrow> 'k request_builder \<Rightarrow> 'k request_builder" where
  "with_request_id i b = b\<lparr>rb_request_id := Some i\<rparr>"

definition with_session_id :: "guid \<Rightarrow> 'k request_builder \<Rightarrow> 'k request_builder" where
  "with_session_id i b = b\<lparr>rb_session_id := Some i\<rparr>"

section \<open>Building\<close>

record intermediate =
  im_uri :: string
  im_headers :: "(string \<times> string) list"
  im_body :: request

text \<open>\<open>serde_json::to_vec\<close> is \<open>to_vec\<close>, \<open>None\<close> its error.\<close>

definition serialize_body :: "(json \<Rightarrow> string option) \<Rightarrow> intermediate \<Rightarrow> unit + string" where
  "serialize_body to_vec im = ok_or () (to_vec (request_wrapper_json (im_body im)))"

definition intermediate_request :: "(json \<Rightarrow> string option) \<Rightarrow> intermediate cup_request" where
  "intermediate_request to_vec =
     \<lparr>get_uri = im_uri, set_uri = (\<lambda>uri im. im\<lparr>im_uri := uri\<rparr>), get_serialized_body = serialize_body to_vec\<rparr>"

text \<open>The HTTP request as the library holds it; \<open>head_ok\<close> is its test of URI and headers.\<close>

record http_request =
  hreq_method :: string
  hreq_uri :: string
  hreq_headers :: "(string \<times> string) list"
  hreq_body :: string

definition http_request_from ::
  "(json \<Rightarrow> string option) \<Rightarrow> (string \<Rightarrow> (string \<times> string) list \<Rightarrow> bool) \<Rightarrow> intermediate
     \<Rightarrow> builder_error + http_request" where
  "http_request_from to_vec head_ok im =
     result_bind (result_map_err (\<lambda>_. JsonError) (serialize_body to_vec im)) (\<lambda>body.
       if head_ok (im_uri im) (im_headers im)
       then Inr \<lparr>hreq_method = ''POST'', hreq_uri = im_uri im, hreq_headers = im_headers im, hreq_body = body\<rparr>
       else Inl HttpError)"

text \<open>The trait \<open>Cupv2RequestHandler\<close>, with the nonce that decorating a request draws as an argument.\<close>

record 'd cup_handler =
  ch_decorate :: "nonce \<Rightarrow> intermediate \<Rightarrow> (cup_decoration_error + request_metadata) \<times> intermediate"
  ch_verify :: "request_metadata \<Rightarrow> http_response \<Rightarrow> public_key_id \<Rightarrow> cup_verification_error + 'd"

definition standard_handler ::
  "('k, 'd, 's) crypto_ops \<Rightarrow> ('u, 'b) uri_ops \<Rightarrow> (json \<Rightarrow> string option) \<Rightarrow> 'k standard_cupv2_handler \<Rightarrow> 'd cup_handler" where
  "standard_handler lib uris to_vec handler =
     \<lparr>ch_decorate = decorate_request lib uris (intermediate_request to_vec) handler,
      ch_verify = verify_response lib handler\<rparr>"

definition request_headers :: "'k request_builder \<Rightarrow> (string \<times> string) list" where
  "request_headers b =
     [(''content-type'', ''application/json''),
      (HEADER_UPDATER_NAME, upd_name (cfg_updater (rb_config b))),
      (HEADER_INTERACTIVITY, case rp_source (rb_params b) of OnDemand \<Rightarrow> ''fg'' | ScheduledTask \<Rightarrow> ''bg'')] @
     (case rb_app_entries b of [] \<Rightarrow> [] | main_app # _ \<Rightarrow> [(HEADER_APP_ID, app_id (entry_app main_app))])"

definition request_of :: "'k request_builder \<Rightarrow> request" where
  "request_of b =
     \<lparr>protocol_version = PROTOCOL_V3, updater = upd_name (cfg_updater (rb_config b)),
      updater_version = version_to_string (upd_version (cfg_updater (rb_config b))),
      req_install_source = rp_source (rb_params b), is_machine = True,
      request_id = rb_request_id b, session_id = rb_session_id b, request_os = cfg_os (rb_config b),
      request_apps = map protocol_app_from (rb_app_entries b)\<rparr>"

definition build_intermediate ::
  "'d cup_handler option \<Rightarrow> nonce \<Rightarrow> 'k request_builder \<Rightarrow> builder_error + (intermediate \<times> request_metadata option)" where
  "build_intermediate cup n b =
     (let im = \<lparr>im_uri = service_url (rb_config b), im_headers = request_headers b, im_body = request_of b\<rparr> in
      case cup of
        Some handler \<Rightarrow>
          (case ch_decorate handler n im of
             (Inl e, _) \<Rightarrow> Inl (CupError e)
           | (Inr metadata, im') \<Rightarrow> Inr (im', Some metadata))
      | None \<Rightarrow> Inr (im, None))"

definition build ::
  "(json \<Rightarrow> string option) \<Rightarrow> (string \<Rightarrow> (string \<times> string) list \<Rightarrow> bool) \<Rightarrow> 'd cup_handler option \<Rightarrow> nonce
     \<Rightarrow> 'k request_builder \<Rightarrow> builder_error + (http_request \<times> request_metadata option)" where
  "build to_vec head_ok cup n b =
     result_bind (build_intermediate cup n b) (\<lambda>(im, metadata).
     result_bind (http_request_from to_vec head_ok im) (\<lambda>req.
     Inr (req, metadata)))"

section \<open>What a sequence of additions denotes\<close>

datatype builder_op = AddUpdateCheck app | AddPing app | AddEvent app event

fun op_app :: "builder_op \<Rightarrow> app" where
  "op_app (AddUpdateCheck a) = a"
| "op_app (AddPing a) = a"
| "op_app (AddEvent a e) = a"

abbreviation op_id :: "builder_op \<Rightarrow> string" where
  "op_id op \<equiv> app_id (op_app op)"

fun apply_op :: "builder_op \<Rightarrow> 'k request_builder \<Rightarrow> 'k request_builder" where
  "apply_op (AddUpdateCheck a) b = add_update_check a b"
| "apply_op (AddPing a) b = add_ping a b"
| "apply_op (AddEvent a e) b = add_event a e b"

fun op_event :: "string \<Rightarrow> builder_op \<Rightarrow> event list" where
  "op_event i (AddEvent a e) = (if app_id a = i then [e] else [])"
| "op_event i _ = []"

fun is_update_check_of :: "string \<Rightarrow> builder_op \<Rightarrow> bool" where
  "is_update_check_of i (AddUpdateCheck a) = (app_id a = i)"
| "is_update_check_of i _ = False"

fun is_ping_of :: "string \<Rightarrow> builder_op \<Rightarrow> bool" where
  "is_ping_of i (AddPing a) = (app_id a = i)"
| "is_ping_of i _ = False"

text \<open>Each element at its first occurrence.\<close>

definition first_occurrences :: "'a list \<Rightarrow> 'a list" where
  "first_occurrences xs = rev (remdups (rev xs))"

definition entry_spec :: "request_params \<Rightarrow> builder_op list \<Rightarrow> string \<Rightarrow> app_entry" where
  "entry_spec params ops i =
     \<lparr>entry_app = op_app (hd (filter (\<lambda>op. app_id (op_app op) = i) ops)),
      entry_update_check =
        (if list_ex (is_update_check_of i) ops
         then Some \<lparr>uc_disabled = disable_updates params, uc_offer_update_if_same_version = offer_update_if_same_version params\<rparr>
         else None),
      entry_ping = list_ex (is_ping_of i) ops,
      entry_events = concat (map (op_event i) ops)\<rparr>"

section \<open>Lemmas\<close>

lemma first_occurrences_Nil [simp]: "first_occurrences [] = []"
  by (simp add: first_occurrences_def)

lemma first_occurrences_snoc [simp]:
  "first_occurrences (xs @ [x]) = (if x \<in> set xs then first_occurrences xs else first_occurrences xs @ [x])"
  by (simp add: first_occurrences_def)

lemma set_first_occurrences [simp]: "set (first_occurrences xs) = set xs"
  by (simp add: first_occurrences_def)

lemma distinct_first_occurrences [simp]: "distinct (first_occurrences xs)"
  by (simp add: first_occurrences_def)

lemma modify_first_map:
  "distinct is \<Longrightarrow> (\<And>j. j \<in> set is \<Longrightarrow> key (f j) = j) \<Longrightarrow>
   modify_first (\<lambda>e. key e = i) g (map f is) = map (\<lambda>j. if j = i then g (f j) else f j) is"
proof (induction "is")
  case (Cons j js)
  show ?case
  proof (cases "j = i")
    case True
    with Cons.prems have "map (\<lambda>j. if j = i then g (f j) else f j) js = map f js" by (intro map_cong) auto
    with True Cons.prems show ?thesis by simp
  next
    case False
    with Cons show ?thesis by auto
  qed
qed simp

lemma entry_spec_id: "i \<in> set (map op_id ops) \<Longrightarrow> app_id (entry_app (entry_spec params ops i)) = i"
  by (induction ops) (auto simp: entry_spec_def)

definition op_modify :: "request_params \<Rightarrow> builder_op \<Rightarrow> app_entry \<Rightarrow> app_entry" where
  "op_modify params op =
     (case op of
        AddUpdateCheck a \<Rightarrow> (\<lambda>e. e\<lparr>entry_update_check := Some \<lparr>uc_disabled = disable_updates params,
             uc_offer_update_if_same_version = offer_update_if_same_version params\<rparr>\<rparr>)
      | AddPing a \<Rightarrow> (\<lambda>e. e\<lparr>entry_ping := True\<rparr>)
      | AddEvent a ev \<Rightarrow> (\<lambda>e. e\<lparr>entry_events := entry_events e @ [ev]\<rparr>))"

lemma apply_op_eq:
  "apply_op op b = b\<lparr>rb_app_entries := insert_and_modify_entry (op_app op) (op_modify (rb_params b) op) (rb_app_entries b)\<rparr>"
  by (cases op) (simp_all add: op_modify_def add_update_check_def add_ping_def add_event_def)

lemma apply_ops_frame [simp]:
  "rb_params (fold apply_op ops b) = rb_params b" "rb_config (fold apply_op ops b) = rb_config b"
  "rb_request_id (fold apply_op ops b) = rb_request_id b" "rb_session_id (fold apply_op ops b) = rb_session_id b"
  by (induction ops arbitrary: b) (simp_all add: apply_op_eq)

lemma entry_spec_snoc_other:
  "app_id (op_app op) \<noteq> i \<Longrightarrow> entry_spec params (ops @ [op]) i = entry_spec params ops i"
  by (cases op) (simp_all add: entry_spec_def)

lemma entry_spec_snoc_old:
  "i \<in> set (map op_id ops) \<Longrightarrow> app_id (op_app op) = i \<Longrightarrow>
   entry_spec params (ops @ [op]) i = op_modify params op (entry_spec params ops i)"
  by (cases op) (auto simp: entry_spec_def op_modify_def hd_append filter_empty_conv)

lemma op_frame:
  "op_id op \<noteq> i \<Longrightarrow> op_event i op = [] \<and> \<not> is_update_check_of i op \<and> \<not> is_ping_of i op"
  by (cases op) auto

lemma request_builder_new_simps [simp]:
  "rb_params (request_builder_new cfg params) = params" "rb_app_entries (request_builder_new cfg params) = []"
  by (simp_all add: request_builder_new_def)

lemma entry_spec_new:
  assumes "i \<notin> set (map op_id ops)" and "app_id (op_app op) = i"
  shows "entry_spec params (ops @ [op]) i = op_modify params op (app_entry_new (op_app op))"
proof -
  have none: "\<forall>o' \<in> set ops. op_id o' \<noteq> i" using assms(1) by auto
  have "filter (\<lambda>o'. op_id o' = i) ops = []" using none by (simp add: filter_empty_conv)
  moreover have "concat (map (op_event i) ops) = []"
    and "\<not> list_ex (is_update_check_of i) ops" and "\<not> list_ex (is_ping_of i) ops"
    using none op_frame by (auto simp: list_ex_iff)
  ultimately show ?thesis using assms(2)
    by (cases op) (simp_all add: entry_spec_def op_modify_def app_entry_new_def)
qed

lemma build_InrD:
  "build to_vec head_ok cup n b = Inr (req, metadata) \<Longrightarrow>
     \<exists>im. build_intermediate cup n b = Inr (im, metadata) \<and> head_ok (im_uri im) (im_headers im) \<and>
          to_vec (request_wrapper_json (im_body im)) = Some (hreq_body req) \<and> hreq_uri req = im_uri im \<and>
          hreq_headers req = im_headers im \<and> hreq_method req = ''POST''"
  by (auto simp: build_def http_request_from_def serialize_body_def ok_or_def result_bind_Inr_iff
      split: if_splits option.splits)

lemma build_intermediate_standard:
  assumes "build_intermediate (Some (standard_handler lib uris to_vec handler)) n b = Inr (im, metadata)"
  shows "\<exists>meta u u'. metadata = Some meta \<and> uri_parse uris (service_url (rb_config b)) = Inr u \<and>
     append_query_parameter uris u ''cup2key'' (cup2_urlparam lib (latest_public_key_id handler) n) = Inr u' \<and>
     im = \<lparr>im_uri = uri_to_string uris u', im_headers = request_headers b, im_body = request_of b\<rparr> \<and>
     to_vec (request_wrapper_json (im_body im)) = Some (rm_request_body meta) \<and>
     rm_public_key_id meta = latest_public_key_id handler \<and> rm_nonce meta = n"
proof -
  let ?im = "\<lparr>im_uri = service_url (rb_config b), im_headers = request_headers b, im_body = request_of b\<rparr>"
  from assms obtain meta where meta: "metadata = Some meta"
    and dec: "decorate_request lib uris (intermediate_request to_vec) handler n ?im = (Inr meta, im)"
    by (auto simp: build_intermediate_def standard_handler_def Let_def split: prod.splits sum.splits)
  from decorate_request_InrD [OF dec] obtain u u' where
    uri: "uri_parse uris (service_url (rb_config b)) = Inr u"
    and app: "append_query_parameter uris u ''cup2key'' (cup2_urlparam lib (latest_public_key_id handler) n) = Inr u'"
    and im: "im = \<lparr>im_uri = uri_to_string uris u', im_headers = request_headers b, im_body = request_of b\<rparr>"
    and body: "serialize_body to_vec im = Inr (rm_request_body meta)"
    and ids: "rm_public_key_id meta = latest_public_key_id handler" "rm_nonce meta = n"
    by (elim exE conjE) (simp add: intermediate_request_def)
  from body im have "to_vec (request_wrapper_json (request_of b)) = Some (rm_request_body meta)"
    by (simp add: serialize_body_def)
  with meta uri app im ids show ?thesis by simp
qed

lemma build_standard:
  assumes "build to_vec head_ok (Some (standard_handler lib uris to_vec handler)) n b = Inr (req, metadata)"
  shows "\<exists>meta u u'. metadata = Some meta \<and>
           to_vec (request_wrapper_json (request_of b)) = Some (hreq_body req) \<and>
           rm_request_body meta = hreq_body req \<and>
           rm_public_key_id meta = latest_public_key_id handler \<and> rm_nonce meta = n \<and>
           uri_parse uris (service_url (rb_config b)) = Inr u \<and>
           append_query_parameter uris u ''cup2key'' (cup2_urlparam lib (latest_public_key_id handler) n) = Inr u' \<and>
           hreq_uri req = uri_to_string uris u' \<and> hreq_method req = ''POST'' \<and>
           hreq_headers req = request_headers b"
proof -
  from assms obtain im where im: "build_intermediate (Some (standard_handler lib uris to_vec handler)) n b = Inr (im, metadata)"
    and req: "to_vec (request_wrapper_json (im_body im)) = Some (hreq_body req)" "hreq_uri req = im_uri im"
      "hreq_headers req = im_headers im" "hreq_method req = ''POST''"
    by (auto dest!: build_InrD)
  from build_intermediate_standard [OF im] obtain meta u u' where "metadata = Some meta"
    and "uri_parse uris (service_url (rb_config b)) = Inr u"
    and "append_query_parameter uris u ''cup2key'' (cup2_urlparam lib (latest_public_key_id handler) n) = Inr u'"
    and "im = \<lparr>im_uri = uri_to_string uris u', im_headers = request_headers b, im_body = request_of b\<rparr>"
    and "to_vec (request_wrapper_json (im_body im)) = Some (rm_request_body meta)"
    and "rm_public_key_id meta = latest_public_key_id handler" and "rm_nonce meta = n"
    by blast
  then show ?thesis using req by simp
qed

text \<open>A request for one app, built with the toy cryptography and URIs.\<close>

definition sample_builder :: "string request_builder" where
  "sample_builder =
     add_ping (sample_app ''id'') (request_builder_new
       \<lparr>cfg_updater = \<lparr>upd_name = ''updater'', upd_version = version_from [1, 2]\<rparr>,
        cfg_os = \<lparr>os_platform = [], os_version = [], os_service_pack = [], os_arch = []\<rparr>,
        service_url = ''/s'', omaha_public_keys = None\<rparr> request_params_default)"

section \<open>Properties\<close>

text \<open>C11: After any sequence of additions the builder holds one entry per app id, in the order of first mention;
  the entry keeps the app (so the cohort) of its first mention, and carries an update check with the flags of the
  parameters if one was added, a ping if one was added, and exactly the events added for that id, in order.\<close>

theorem builder_entries_spec:
  "rb_app_entries (fold apply_op ops (request_builder_new cfg params)) =
     map (entry_spec params ops) (first_occurrences (map op_id ops))"
proof (induction ops rule: rev_induct)
  case (snoc op ops)
  let ?ids = "map op_id ops" and ?i = "app_id (op_app op)"
  let ?b = "fold apply_op ops (request_builder_new cfg params)"
  have ids: "app_id (entry_app (entry_spec params ops j)) = j" if "j \<in> set ?ids" for j
    using that by (rule entry_spec_id)
  show ?case
  proof (cases "?i \<in> set ?ids")
    case True
    then have "list_ex (\<lambda>e. app_id (entry_app e) = ?i) (rb_app_entries ?b)"
      unfolding snoc.IH list_ex_iff using ids [OF True] True by auto
    then have "rb_app_entries (fold apply_op (ops @ [op]) (request_builder_new cfg params)) =
        modify_first (\<lambda>e. app_id (entry_app e) = ?i) (op_modify params op)
          (map (entry_spec params ops) (first_occurrences ?ids))"
      by (simp add: apply_op_eq insert_and_modify_entry_def snoc.IH)
    also have "\<dots> = map (\<lambda>j. if j = ?i then op_modify params op (entry_spec params ops j) else entry_spec params ops j)
          (first_occurrences ?ids)"
      by (rule modify_first_map) (simp_all only: distinct_first_occurrences set_first_occurrences ids)
    also have "\<dots> = map (entry_spec params (ops @ [op])) (first_occurrences ?ids)"
      using entry_spec_snoc_old [OF True] entry_spec_snoc_other [of op] by (intro map_cong) auto
    finally show ?thesis using True by simp
  next
    case False
    have "app_id (entry_app e) \<noteq> ?i" if "e \<in> set (rb_app_entries ?b)" for e
    proof -
      from that obtain j where "j \<in> set ?ids" and "e = entry_spec params ops j"
        unfolding snoc.IH set_map set_first_occurrences by blast
      with ids [of j] False show ?thesis by metis
    qed
    then have "\<not> list_ex (\<lambda>e. app_id (entry_app e) = ?i) (rb_app_entries ?b)"
      by (simp only: list_ex_iff) blast
    then have "rb_app_entries (fold apply_op (ops @ [op]) (request_builder_new cfg params)) =
        map (entry_spec params ops) (first_occurrences ?ids) @ [op_modify params op (app_entry_new (op_app op))]"
      by (simp add: apply_op_eq insert_and_modify_entry_def snoc.IH)
    also have "map (entry_spec params ops) (first_occurrences ?ids) = map (entry_spec params (ops @ [op])) (first_occurrences ?ids)"
    proof (rule map_cong [OF refl])
      fix j assume "j \<in> set (first_occurrences ?ids)"
      with False have "?i \<noteq> j" unfolding set_first_occurrences by metis
      then show "entry_spec params ops j = entry_spec params (ops @ [op]) j"
        by (rule entry_spec_snoc_other [symmetric])
    qed
    finally show ?thesis using False entry_spec_new [OF False refl] by simp
  qed
qed simp

text \<open>C9: What is signed is what is sent: when a request is built with the standard CUP handler, the body of the HTTP
  request is the serialized protocol request of the builder and is the body recorded in the metadata; the recorded key
  id is the handler's latest and the nonce the one drawn; and the URI of the HTTP request is the service URL with the
  parameter made of that id and nonce appended.  The headers are those of the builder.\<close>

theorem build_signs_what_it_sends:
  assumes "build to_vec head_ok (Some (standard_handler lib uris to_vec handler)) n b = Inr (req, metadata)"
  shows "\<exists>meta u u'. metadata = Some meta \<and>
           to_vec (request_wrapper_json (request_of b)) = Some (hreq_body req) \<and>
           rm_request_body meta = hreq_body req \<and>
           rm_public_key_id meta = latest_public_key_id handler \<and> rm_nonce meta = n \<and>
           uri_parse uris (service_url (rb_config b)) = Inr u \<and>
           append_query_parameter uris u ''cup2key'' (cup2_urlparam lib (latest_public_key_id handler) n) = Inr u' \<and>
           hreq_uri req = uri_to_string uris u' \<and> hreq_method req = ''POST'' \<and>
           hreq_headers req = request_headers b"
  by (rule build_standard [OF assms])

theorem build_signs_what_it_sends_witness:
  "\<exists>req meta. build (\<lambda>_. Some ''body'') (\<lambda>_ _. True)
       (Some (standard_handler toy_crypto sample_uri_ops (\<lambda>_. Some ''body'') \<lparr>parameters_by_id = [7 \<mapsto> ''k''], latest_public_key_id = 7\<rparr>))
       ''n'' sample_builder = Inr (req, Some meta) \<and> rm_request_body meta = hreq_body req"
proof -
  let ?h = "\<lparr>parameters_by_id = [7 \<mapsto> ''k''], latest_public_key_id = 7\<rparr> :: string standard_cupv2_handler"
  obtain req md where ok: "build (\<lambda>_. Some ''body'') (\<lambda>_ _. True)
       (Some (standard_handler toy_crypto sample_uri_ops (\<lambda>_. Some ''body'') ?h)) ''n'' sample_builder = Inr (req, md)"
    by (simp add: build_def build_intermediate_def standard_handler_def decorate_request_def intermediate_request_def
        http_request_from_def serialize_body_def sample_uri_ops_def append_query_parameter_def with_path_and_query_def Let_def)
  from build_signs_what_it_sends [OF ok] ok show ?thesis by blast
qed

end
