(* ===== verification/Policy_Installer.thy ===== *)
theory Policy_Installer imports Request_Builder App_Set begin

text \<open>
  The interfaces of the state machine and the values that cross them: \<open>policy.rs\<close> with its stub
  engine, \<open>installer.rs\<close> with its stub, the errors of \<open>http_request.rs\<close>, \<open>metrics.rs\<close>, the
  events of \<open>state_machine/observer.rs\<close> and the error types of \<open>state_machine.rs\<close>.  A trait is a
  record of operations on the world \<open>'w\<close> outside the state machine; an asynchronous call is the
  change of the world it makes and its result.
\<close>

section \<open>Policy\<close>

datatype check_decision =
    CheckOk request_params | OkUpdateDeferred request_params
  | TooSoon | ThrottledByPolicy | CheckDeniedByPolicy

datatype update_decision = UpdateOk | UpdateDeferredByPolicy | UpdateDeniedByPolicy

record ('w, 'pl, 'ir) policy_engine =
  compute_next_update_time :: "app list \<Rightarrow> update_check_schedule \<Rightarrow> protocol_state \<Rightarrow> 'w \<Rightarrow> check_timing \<times> 'w"
  update_check_allowed ::
    "app list \<Rightarrow> update_check_schedule \<Rightarrow> protocol_state \<Rightarrow> check_options \<Rightarrow> 'w \<Rightarrow> check_decision \<times> 'w"
  update_can_start :: "'pl \<Rightarrow> 'w \<Rightarrow> update_decision \<times> 'w"
  reboot_allowed :: "check_options \<Rightarrow> 'ir \<Rightarrow> 'w \<Rightarrow> bool \<times> 'w"
  reboot_needed :: "'pl \<Rightarrow> 'w \<Rightarrow> bool \<times> 'w"

text \<open>\<open>StubPolicy\<close> and its engine, which allow everything immediately.\<close>

definition stub_compute_next_update_time :: "complex_time \<Rightarrow> check_timing" where
  "stub_compute_next_update_time current_time = \<lparr>ct_time = Complex current_time, ct_minimum_wait = None\<rparr>"

definition stub_update_check_allowed :: "check_options \<Rightarrow> check_decision" where
  "stub_update_check_allowed check_options =
     CheckOk (request_params_default\<lparr>rp_source := opt_source check_options, use_configured_proxies := True\<rparr>)"

definition stub_policy_engine :: "('w \<Rightarrow> complex_time \<times> 'w) \<Rightarrow> ('w, 'pl, unit) policy_engine" where
  "stub_policy_engine now =
     \<lparr>compute_next_update_time = (\<lambda>apps scheduling protocol_state w.
        let (t, w') = now w in (stub_compute_next_update_time t, w')),
      update_check_allowed = (\<lambda>apps scheduling protocol_state check_options w.
        (stub_update_check_allowed check_options, w)),
      update_can_start = (\<lambda>plan w. (UpdateOk, w)),
      reboot_allowed = (\<lambda>check_options install_result w. (True, w)),
      reboot_needed = (\<lambda>plan w. (True, w))\<rparr>"

section \<open>Installer\<close>

datatype 'x app_install_result = Installed | Deferred | Failed 'x

definition app_install_result_from :: "'x + unit \<Rightarrow> 'x app_install_result" where
  "app_install_result_from r = (case r of Inr () \<Rightarrow> Installed | Inl e \<Rightarrow> Failed e)"

text \<open>\<open>perform_install\<close> returns, beside its result, the progress it sent to the observer, as the bits of
  each \<open>f32\<close>; \<open>plan_id\<close> is the trait \<open>Plan\<close>.\<close>

record ('w, 'pl, 'ir, 'x) installer =
  perform_install :: "'pl \<Rightarrow> 'w \<Rightarrow> (u32 list \<times> 'ir \<times> 'x app_install_result list) \<times> 'w"
  perform_reboot :: "'w \<Rightarrow> (unit + unit) \<times> 'w"
  try_create_install_plan ::
    "request_params \<Rightarrow> request_metadata option \<Rightarrow> response \<Rightarrow> string \<Rightarrow> string option \<Rightarrow> 'w \<Rightarrow> ('x + 'pl) \<times> 'w"
  plan_id :: "'pl \<Rightarrow> string"

datatype stub_install_errors = StubFailed
datatype stub_plan = StubPlan

definition stub_installer :: "bool \<Rightarrow> ('w, stub_plan, unit, stub_install_errors) installer" where
  "stub_installer should_fail =
     \<lparr>perform_install = (\<lambda>plan w. (([], (), if should_fail then [Failed StubFailed] else [Installed]), w)),
      perform_reboot = (\<lambda>w. (Inr (), w)),
      try_create_install_plan = (\<lambda>params metadata resp bytes signature w.
        (if resp_protocol_version resp \<noteq> ''3.0'' then Inl StubFailed else Inr StubPlan, w)),
      plan_id = (\<lambda>_. [])\<rparr>"

section \<open>HTTP errors\<close>

datatype http_error = User | Transport | Timeout

definition is_user :: "http_error \<Rightarrow> bool" where "is_user e \<longleftrightarrow> e = User"
definition is_timeout :: "http_error \<Rightarrow> bool" where "is_timeout e \<longleftrightarrow> e = Timeout"

definition http_error_from_hyper :: "bool \<Rightarrow> http_error" where
  "http_error_from_hyper hyper_is_user = (if hyper_is_user then User else Transport)"

section \<open>Metrics\<close>

datatype clock_type = MonotonicClock | WallClock

datatype update_check_failure_reason =
    ReasonOmaha | ReasonNetwork | ReasonProxy | ReasonConfiguration | ReasonInternal

datatype metrics =
    UpdateCheckResponseTime duration bool
  | UpdateCheckInterval duration clock_type install_source
  | SuccessfulUpdateDuration duration
  | SuccessfulUpdateFromFirstSeen duration
  | FailedUpdateDuration duration
  | UpdateCheckFailureReason update_check_failure_reason
  | RequestsPerCheck nat bool
  | AttemptsToSuccessfulCheck u64
  | AttemptsToSuccessfulInstall u64 bool
  | WaitedForRebootDuration duration
  | OmahaEventLost event

section \<open>States, errors and events of the state machine\<close>

datatype sm_state =
    Idle | CheckingForUpdates install_source | ErrorCheckingForUpdate | NoUpdateAvailable
  | InstallationDeferredByPolicy | InstallingUpdate | WaitingForReboot | InstallationError

datatype omaha_request_error =
    RequestJson | HttpBuilder | CupDecoration cup_decoration_error | CupValidation cup_verification_error
  | HttpTransport http_error | HttpStatus nat

fun omaha_request_error_from :: "builder_error \<Rightarrow> omaha_request_error" where
  "omaha_request_error_from JsonError = RequestJson"
| "omaha_request_error_from HttpError = HttpBuilder"
| "omaha_request_error_from (CupError e) = CupDecoration e"

datatype response_parse_error = Utf8Error | ResponseJson

datatype 'x update_check_error =
    OmahaRequest omaha_request_error | ResponseParser response_parse_error | InstallPlan 'x

datatype start_update_check_response = Started | AlreadyRunning | Throttled

datatype 'ir reboot_after_update = Needed 'ir | NotNeeded

datatype 'x state_machine_event =
    StateChange sm_state
  | ScheduleChange update_check_schedule
  | ProtocolStateChange protocol_state
  | UpdateCheckResult "'x update_check_error + app_response list"
  | InstallProgressChange u32
  | OmahaServerResponse response
  | InstallerError "'x option"

end
