(* ===== verification/Machine_State.thy ===== *)
theory Machine_State imports Policy_Installer begin

text \<open>
  The state of \<open>StateMachine\<close> (\<open>omaha-client/src/state_machine.rs\<close>) and the primitive actions its
  methods are made of.  The fields of the struct that are implementations of traits are the record
  \<open>env\<close> of their operations on the world; the world, the storage, the app set and the context are
  the state.  What the machine does to the outside is recorded in order in \<open>sm_trace\<close>: events
  yielded, metrics reported, timers awaited or set, requests sent, decisions of the policy engine,
  installations and reboots.
\<close>

section \<open>Environment and state\<close>

record ('w, 's, 'e, 'a, 'd, 'pl, 'ir, 'x) env =
  policy :: "('w, 'pl, 'ir) policy_engine"
  inst :: "('w, 'pl, 'ir, 'x) installer"
  http_send :: "http_request \<Rightarrow> 'w \<Rightarrow> (http_error + http_response) \<times> 'w"
  timer_wait :: "requested_wait \<Rightarrow> 'w \<Rightarrow> 'w"
  now :: "'w \<Rightarrow> complex_time \<times> 'w"
  now_in_walltime :: "'w \<Rightarrow> system_time \<times> 'w"
  now_in_monotonic :: "'w \<Rightarrow> instant \<times> 'w"
  new_guid :: "'w \<Rightarrow> guid \<times> 'w"
  new_nonce :: "'w \<Rightarrow> nonce \<times> 'w"
  random_u64 :: "'w \<Rightarrow> u64 \<times> 'w"
  store :: "('s, 'e) storage_ops"
  apps_api :: "'a app_set_ops"
  json_to_vec :: "json \<Rightarrow> string option"
  json_to_text :: "json \<Rightarrow> string option"
  json_from_text :: "string \<Rightarrow> json option"
  json_from_slice :: "string \<Rightarrow> json option"
  head_ok :: "string \<Rightarrow> (string \<times> string) list \<Rightarrow> bool"
  header_text :: "string \<Rightarrow> string option"
  signature_bytes :: "'d \<Rightarrow> string"

datatype ('pl, 'x) effect =
    Yielded "'x state_machine_event"
  | Reported metrics
  | Waited requested_wait
  | TimerSet requested_wait
  | SentRequest http_request
  | CheckDecided check_decision
  | PlanDecided 'pl update_decision
  | Installing 'pl
  | RebootDecided bool
  | Rebooted

record ('w, 's, 'a, 'k, 'd, 'pl, 'x) machine =
  sm_config :: "'k config"
  sm_cup_handler :: "'d cup_handler option"
  sm_context :: update_context
  sm_storage :: 's
  sm_app_set :: 'a
  sm_world :: 'w
  sm_trace :: "('pl, 'x) effect list"

type_synonym ('w, 's, 'a, 'k, 'd, 'pl, 'x, 'r) act = "(('w, 's, 'a, 'k, 'd, 'pl, 'x) machine, 'r) state"

section \<open>Primitive actions\<close>

definition emit :: "('pl, 'x) effect \<Rightarrow> ('w, 's, 'a, 'k, 'd, 'pl, 'x, unit) act" where
  "emit e = modify (\<lambda>m. m\<lparr>sm_trace := sm_trace m @ [e]\<rparr>)"

text \<open>A call of the world outside.\<close>

definition outside :: "('w \<Rightarrow> 'r \<times> 'w) \<Rightarrow> ('w, 's, 'a, 'k, 'd, 'pl, 'x, 'r) act" where
  "outside f = State (\<lambda>m. (fst (f (sm_world m)), m\<lparr>sm_world := snd (f (sm_world m))\<rparr>))"

definition modify_context :: "(update_context \<Rightarrow> update_context) \<Rightarrow> ('w, 's, 'a, 'k, 'd, 'pl, 'x, unit) act" where
  "modify_context f = modify (\<lambda>m. m\<lparr>sm_context := f (sm_context m)\<rparr>)"

definition modify_storage :: "('s \<Rightarrow> 's) \<Rightarrow> ('w, 's, 'a, 'k, 'd, 'pl, 'x, unit) act" where
  "modify_storage f = modify (\<lambda>m. m\<lparr>sm_storage := f (sm_storage m)\<rparr>)"

definition modify_app_set :: "('a \<Rightarrow> 'a) \<Rightarrow> ('w, 's, 'a, 'k, 'd, 'pl, 'x, unit) act" where
  "modify_app_set f = modify (\<lambda>m. m\<lparr>sm_app_set := f (sm_app_set m)\<rparr>)"

abbreviation context_of :: "('w, 's, 'a, 'k, 'd, 'pl, 'x, update_context) act" where
  "context_of \<equiv> gets sm_context"

definition apps_of :: "('w, 's, 'e, 'a, 'd, 'pl, 'ir, 'x) env \<Rightarrow> ('w, 's, 'a, 'k, 'd, 'pl, 'x, app list) act" where
  "apps_of env = gets (\<lambda>m. get_apps (apps_api env) (sm_app_set m))"

definition yield_event :: "'x state_machine_event \<Rightarrow> ('w, 's, 'a, 'k, 'd, 'pl, 'x, unit) act" where
  "yield_event e = emit (Yielded e)"

definition yield_state :: "sm_state \<Rightarrow> ('w, 's, 'a, 'k, 'd, 'pl, 'x, unit) act" where
  "yield_state s = yield_event (StateChange s)"

text \<open>The result of the reporter is only logged.\<close>

definition report_metrics :: "metrics \<Rightarrow> ('w, 's, 'a, 'k, 'd, 'pl, 'x, unit) act" where
  "report_metrics x = emit (Reported x)"

definition wait_for_timer ::
  "('w, 's, 'e, 'a, 'd, 'pl, 'ir, 'x) env \<Rightarrow> requested_wait \<Rightarrow> ('w, 's, 'a, 'k, 'd, 'pl, 'x, unit) act" where
  "wait_for_timer env r = do { emit (Waited r); outside (\<lambda>w. ((), timer_wait env r w)) }"

section \<open>Updates of the context\<close>

definition set_schedule :: "(update_check_schedule \<Rightarrow> update_check_schedule) \<Rightarrow> update_context \<Rightarrow> update_context" where
  "set_schedule f c = c\<lparr>ctx_schedule := f (ctx_schedule c)\<rparr>"

definition set_last_update_time :: "complex_time \<Rightarrow> update_context \<Rightarrow> update_context" where
  "set_last_update_time t = set_schedule (\<lambda>s. s\<lparr>last_update_time := Some (Complex t)\<rparr>)"

definition set_last_update_check_time :: "complex_time \<Rightarrow> update_context \<Rightarrow> update_context" where
  "set_last_update_check_time t = set_schedule (\<lambda>s. s\<lparr>last_update_check_time := Some (Complex t)\<rparr>)"

definition set_next_update_time :: "check_timing \<Rightarrow> update_context \<Rightarrow> update_context" where
  "set_next_update_time t = set_schedule (\<lambda>s. s\<lparr>next_update_time := Some t\<rparr>)"

definition set_failed_checks :: "u32 \<Rightarrow> update_context \<Rightarrow> update_context" where
  "set_failed_checks n c = c\<lparr>ctx_state := (ctx_state c)\<lparr>consecutive_failed_update_checks := n\<rparr>\<rparr>"

definition set_poll_interval :: "duration option \<Rightarrow> update_context \<Rightarrow> update_context" where
  "set_poll_interval d c = c\<lparr>ctx_state := (ctx_state c)\<lparr>server_dictated_poll_interval := d\<rparr>\<rparr>"

abbreviation failed_checks :: "update_context \<Rightarrow> u32" where
  "failed_checks c \<equiv> consecutive_failed_update_checks (ctx_state c)"

abbreviation poll_interval :: "update_context \<Rightarrow> duration option" where
  "poll_interval c \<equiv> server_dictated_poll_interval (ctx_state c)"

lemmas context_updates = set_schedule_def set_last_update_time_def set_last_update_check_time_def
  set_next_update_time_def set_failed_checks_def set_poll_interval_def

section \<open>Weakest preconditions of the actions\<close>

lemma wp_emit [wp_simps]: "wp (emit e) Q m = Q () (m\<lparr>sm_trace := sm_trace m @ [e]\<rparr>)"
  by (simp add: emit_def wp_simps)

lemma wp_outside [wp_simps]:
  "wp (outside f) Q m = Q (fst (f (sm_world m))) (m\<lparr>sm_world := snd (f (sm_world m))\<rparr>)"
  by (simp add: outside_def wp_def)

lemma wp_modify_context [wp_simps]: "wp (modify_context f) Q m = Q () (m\<lparr>sm_context := f (sm_context m)\<rparr>)"
  by (simp add: modify_context_def wp_simps)

lemma wp_modify_storage [wp_simps]: "wp (modify_storage f) Q m = Q () (m\<lparr>sm_storage := f (sm_storage m)\<rparr>)"
  by (simp add: modify_storage_def wp_simps)

lemma wp_modify_app_set [wp_simps]: "wp (modify_app_set f) Q m = Q () (m\<lparr>sm_app_set := f (sm_app_set m)\<rparr>)"
  by (simp add: modify_app_set_def wp_simps)

lemma wp_apps_of [wp_simps]: "wp (apps_of env) Q m = Q (get_apps (apps_api env) (sm_app_set m)) m"
  by (simp add: apps_of_def wp_simps)

lemmas action_defs = yield_state_def yield_event_def report_metrics_def wait_for_timer_def

section \<open>What actions may do\<close>

text \<open>
  The relation between two states of the machine that a class of effects, closed under concatenation,
  gives: the configuration is frozen, and the trace grows by a sequence of the class.
\<close>

definition trace_rel ::
  "(('pl, 'x) effect list \<Rightarrow> bool) \<Rightarrow> ('w, 's, 'a, 'k, 'd, 'pl, 'x) machine
     \<Rightarrow> ('w, 's, 'a, 'k, 'd, 'pl, 'x) machine \<Rightarrow> bool" where
  "trace_rel P m m' \<longleftrightarrow>
     sm_config m' = sm_config m \<and> sm_cup_handler m' = sm_cup_handler m \<and>
     (\<exists>es. sm_trace m' = sm_trace m @ es \<and> P es)"

locale effect_class =
  fixes P :: "('pl, 'x) effect list \<Rightarrow> bool"
  assumes class_Nil: "P []"
    and class_append: "P xs \<Longrightarrow> P ys \<Longrightarrow> P (xs @ ys)"
begin

lemma trace_rel_refl: "trace_rel P m m"
  using class_Nil by (auto simp: trace_rel_def)

lemma trace_rel_trans: "trace_rel P m m' \<Longrightarrow> trace_rel P m' m'' \<Longrightarrow> trace_rel P m m''"
  using class_append by (fastforce simp: trace_rel_def)

lemma trace_rel_emit: "P [e] \<Longrightarrow> state_io_rel (trace_rel P) (emit e)"
  by (auto simp: state_io_rel_def emit_def trace_rel_def)

lemma trace_rel_silent:
  "state_io_rel (trace_rel P) (outside f)" "state_io_rel (trace_rel P) (modify_context g)"
  "state_io_rel (trace_rel P) (modify_storage h)" "state_io_rel (trace_rel P) (modify_app_set j)"
  "state_io_rel (trace_rel P) context_of" "state_io_rel (trace_rel P) (apps_of env)"
  using class_Nil
  by (auto simp: state_io_rel_def trace_rel_def outside_def modify_context_def modify_storage_def
      modify_app_set_def apps_of_def)

end

sublocale effect_class \<subseteq> effect_preorder "trace_rel P"
  by unfold_locales (rule trace_rel_refl, rule trace_rel_trans)

text \<open>Classes given by a test of the single effect.\<close>

interpretation every: effect_class "list_all p" for p
  by unfold_locales auto

lemma trace_rel_mono: "trace_rel P m m' \<Longrightarrow> (\<And>es. P es \<Longrightarrow> Q es) \<Longrightarrow> trace_rel Q m m'"
  by (auto simp: trace_rel_def)

end
