(* ===== verification/Omaha_Requests.thy ===== *)
theory Omaha_Requests imports Machine_State begin

text \<open>
  The part of \<open>omaha-client/src/state_machine.rs\<close> that talks to Omaha and keeps the books: one
  request with its verification and the poll interval the server dictates, event reports, pings, the
  counters of failed checks and installs, the first-seen time of an update, and the persisting of the
  context and the apps.
\<close>

section \<open>Constants\<close>

definition INSTALL_PLAN_ID :: string where "INSTALL_PLAN_ID = ''install_plan_id''"
definition UPDATE_FIRST_SEEN_TIME :: string where "UPDATE_FIRST_SEEN_TIME = ''update_first_seen_time''"
definition UPDATE_FINISH_TIME :: string where "UPDATE_FINISH_TIME = ''update_finish_time''"
definition TARGET_VERSION :: string where "TARGET_VERSION = ''target_version''"
definition CONSECUTIVE_FAILED_INSTALL_ATTEMPTS :: string where
  "CONSECUTIVE_FAILED_INSTALL_ATTEMPTS = ''consecutive_failed_install_attempts''"
definition CHECK_REBOOT_ALLOWED_INTERVAL :: duration where
  "CHECK_REBOOT_ALLOWED_INTERVAL = duration_from_secs (30 * 60)"
definition X_RETRY_AFTER :: string where "X_RETRY_AFTER = ''X-Retry-After''"
definition MAX_OMAHA_REQUEST_ATTEMPTS :: nat where "MAX_OMAHA_REQUEST_ATTEMPTS = 3"

lemmas machine_keys = INSTALL_PLAN_ID_def UPDATE_FIRST_SEEN_TIME_def UPDATE_FINISH_TIME_def TARGET_VERSION_def
  CONSECUTIVE_FAILED_INSTALL_ATTEMPTS_def

section \<open>Making a request\<close>

text \<open>\<open>status.is_success()\<close>.\<close>

definition status_is_success :: "nat \<Rightarrow> bool" where
  "status_is_success s \<longleftrightarrow> 200 \<le> s \<and> s < 300"

text \<open>The poll interval that a response dictates, capped at a day.\<close>

definition retry_after ::
  "('w, 's, 'e, 'a, 'd, 'pl, 'ir, 'x) env \<Rightarrow> http_response \<Rightarrow> duration option" where
  "retry_after env resp =
     Option.bind (http_header resp X_RETRY_AFTER) (\<lambda>header.
       case header_text env header of
         None \<Rightarrow> None
       | Some s \<Rightarrow> (case parse_u64 s of
           Inl _ \<Rightarrow> None
         | Inr seconds \<Rightarrow> Some (duration_from_secs (min seconds 86400))))"

text \<open>With a handler the request was decorated, so there is metadata, and the response must verify.\<close>

definition check_signature ::
  "'d cup_handler option \<Rightarrow> request_metadata option \<Rightarrow> http_response \<Rightarrow> cup_verification_error + 'd option" where
  "check_signature cup metadata resp =
     (case (cup, metadata) of
        (Some handler, Some meta) \<Rightarrow>
          (case ch_verify handler meta resp (rm_public_key_id meta) of
             Inl e \<Rightarrow> Inl e
           | Inr signature \<Rightarrow> Inr (Some signature))
      | _ \<Rightarrow> Inr None)"

definition persist_context ::
  "('w, 's, 'e, 'a, 'd, 'pl, 'ir, 'x) env \<Rightarrow> ('w, 's, 'a, 'k, 'd, 'pl, 'x, unit) act" where
  "persist_context env = do { c \<leftarrow> context_of; modify_storage (context_persist (store env) c) }"

definition commit ::
  "('w, 's, 'e, 'a, 'd, 'pl, 'ir, 'x) env \<Rightarrow> ('w, 's, 'a, 'k, 'd, 'pl, 'x, unit) act" where
  "commit env = modify_storage (commit_or_log (store env))"

definition update_poll_interval ::
  "('w, 's, 'e, 'a, 'd, 'pl, 'ir, 'x) env \<Rightarrow> duration option \<Rightarrow> ('w, 's, 'a, 'k, 'd, 'pl, 'x, unit) act" where
  "update_poll_interval env interval = do {
     c \<leftarrow> context_of;
     if poll_interval c \<noteq> interval then do {
       modify_context (set_poll_interval interval);
       c' \<leftarrow> context_of;
       yield_event (ProtocolStateChange (ctx_state c'));
       persist_context env;
       commit env
     } else State_Monad.return () }"

text \<open>The nonce of the decoration is drawn when there is a handler.\<close>

definition draw_nonce ::
  "('w, 's, 'e, 'a, 'd, 'pl, 'ir, 'x) env \<Rightarrow> 'd cup_handler option \<Rightarrow> ('w, 's, 'a, 'k, 'd, 'pl, 'x, nonce) act" where
  "draw_nonce env cup = (case cup of None \<Rightarrow> State_Monad.return [] | Some _ \<Rightarrow> outside (new_nonce env))"

definition make_request ::
  "('w, 's, 'e, 'a, 'd, 'pl, 'ir, 'x) env \<Rightarrow> http_request
     \<Rightarrow> ('w, 's, 'a, 'k, 'd, 'pl, 'x, http_error + http_response) act" where
  "make_request env req = do { emit (SentRequest req); outside (http_send env req) }"

type_synonym 'd omaha_result = "omaha_request_error + (string \<times> request_metadata option \<times> 'd option)"

definition handle_response ::
  "('w, 's, 'e, 'a, 'd, 'pl, 'ir, 'x) env \<Rightarrow> 'd cup_handler option \<Rightarrow> request_metadata option \<Rightarrow> http_response
     \<Rightarrow> ('w, 's, 'a, 'k, 'd, 'pl, 'x, 'd omaha_result) act" where
  "handle_response env cup metadata resp =
     (case check_signature cup metadata resp of
        Inl e \<Rightarrow> State_Monad.return (Inl (CupValidation e))
      | Inr signature \<Rightarrow> do {
          update_poll_interval env (retry_after env resp);
          State_Monad.return
            (if status_is_success (http_status resp) then Inr (http_body resp, metadata, signature)
             else Inl (HttpStatus (http_status resp))) })"

definition do_omaha_request ::
  "('w, 's, 'e, 'a, 'd, 'pl, 'ir, 'x) env \<Rightarrow> 'k request_builder
     \<Rightarrow> ('w, 's, 'a, 'k, 'd, 'pl, 'x, 'd omaha_result) act" where
  "do_omaha_request env builder = do {
     cup \<leftarrow> gets sm_cup_handler;
     n \<leftarrow> draw_nonce env cup;
     (case build (json_to_vec env) (head_ok env) cup n builder of
        Inl e \<Rightarrow> State_Monad.return (Inl (omaha_request_error_from e))
      | Inr (req, metadata) \<Rightarrow> do {
          r \<leftarrow> make_request env req;
          (case r of
             Inl e \<Rightarrow> State_Monad.return (Inl (HttpTransport e))
           | Inr resp \<Rightarrow> handle_response env cup metadata resp) }) }"

definition parse_omaha_response ::
  "('w, 's, 'e, 'a, 'd, 'pl, 'ir, 'x) env \<Rightarrow> string \<Rightarrow> response_parse_error + response" where
  "parse_omaha_response env data = ok_or ResponseJson (parse_json_response (json_from_slice env) data)"

section \<open>Reports to Omaha\<close>

text \<open>\<open>u64::try_from(duration.as_millis()).ok()\<close>, and collecting pairs into a \<open>HashMap\<close>.\<close>

definition download_time :: "duration option \<Rightarrow> u64 option" where
  "download_time d = Option.bind d (\<lambda>d. let ms = duration_as_millis d in if ms < 2 ^ 64 then Some (of_nat ms) else None)"

definition collect_map :: "('k \<times> 'v) list \<Rightarrow> ('k \<rightharpoonup> 'v)" where
  "collect_map kvs = map_of (rev kvs)"

definition add_app_event ::
  "event \<Rightarrow> (string \<rightharpoonup> string option) \<Rightarrow> duration option \<Rightarrow> app \<Rightarrow> 'k request_builder \<Rightarrow> 'k request_builder" where
  "add_app_event ev next_versions install_duration a b =
     (case next_versions (app_id a) of
        None \<Rightarrow> b
      | Some v \<Rightarrow>
          add_event a (ev\<lparr>previous_version := Some (version_to_string (app_version a)), next_version := v,
                          download_time_ms := download_time install_duration\<rparr>) b)"

definition report_omaha_event ::
  "('w, 's, 'e, 'a, 'd, 'pl, 'ir, 'x) env \<Rightarrow> request_params \<Rightarrow> event \<Rightarrow> app list \<Rightarrow> guid
     \<Rightarrow> (string \<rightharpoonup> string option) \<Rightarrow> duration option \<Rightarrow> ('w, 's, 'a, 'k, 'd, 'pl, 'x, unit) act" where
  "report_omaha_event env params ev apps session next_versions install_duration = do {
     cfg \<leftarrow> gets sm_config;
     let builder = fold (add_app_event ev next_versions install_duration) apps (request_builder_new cfg params);
     rid \<leftarrow> outside (new_guid env);
     r \<leftarrow> do_omaha_request env (with_request_id rid (with_session_id session builder));
     (case r of
        Inl _ \<Rightarrow> report_metrics (OmahaEventLost ev)
      | Inr _ \<Rightarrow> State_Monad.return ()) }"

section \<open>App responses\<close>

definition app_response_of :: "day_start option \<Rightarrow> action \<Rightarrow> response_app \<Rightarrow> app_response" where
  "app_response_of daystart act a =
     \<lparr>ar_app_id = rapp_id a, ar_cohort = rapp_cohort a, ar_user_counting = user_counting_from daystart, ar_result = act\<rparr>"

definition make_app_responses :: "response \<Rightarrow> action \<Rightarrow> app_response list" where
  "make_app_responses resp act = map (app_response_of (resp_daystart resp) act) (resp_apps resp)"

definition get_app_update_statuses :: "response \<Rightarrow> (string \<times> omaha_status) list" where
  "get_app_update_statuses resp =
     List.map_filter (\<lambda>a. map_option (\<lambda>u. (rapp_id a, ruc_status u)) (rapp_update_check a)) (resp_apps resp)"

section \<open>Persisting and counting\<close>

definition persist_data ::
  "('w, 's, 'e, 'a, 'd, 'pl, 'ir, 'x) env \<Rightarrow> ('w, 's, 'a, 'k, 'd, 'pl, 'x, unit) act" where
  "persist_data env = do {
     persist_context env;
     a \<leftarrow> gets sm_app_set;
     modify_storage (app_set_persist (apps_api env) (store env) (json_to_text env) a);
     commit env }"

text \<open>The increments wrap as in a release build.\<close>

definition report_attempts_to_successful_check :: "bool \<Rightarrow> ('w, 's, 'a, 'k, 'd, 'pl, 'x, unit) act" where
  "report_attempts_to_successful_check success = do {
     c \<leftarrow> context_of;
     let attempts = failed_checks c + 1;
     if success then do {
       modify_context (set_failed_checks 0);
       report_metrics (AttemptsToSuccessfulCheck (ucast attempts))
     } else modify_context (set_failed_checks attempts) }"

definition report_attempts_to_successful_install ::
  "('w, 's, 'e, 'a, 'd, 'pl, 'ir, 'x) env \<Rightarrow> bool \<Rightarrow> ('w, 's, 'a, 'k, 'd, 'pl, 'x, unit) act" where
  "report_attempts_to_successful_install env success = do {
     s \<leftarrow> gets sm_storage;
     let attempts = (case get_int (store env) s CONSECUTIVE_FAILED_INSTALL_ATTEMPTS of None \<Rightarrow> 0 | Some n \<Rightarrow> n) + 1;
     report_metrics (AttemptsToSuccessfulInstall attempts success);
     if success then modify_storage (\<lambda>s. remove_or_log (store env) s CONSECUTIVE_FAILED_INSTALL_ATTEMPTS)
     else modify_storage (\<lambda>s. snd (set_int (store env) s CONSECUTIVE_FAILED_INSTALL_ATTEMPTS attempts)) }"

text \<open>The first time this plan was seen, by the stored id of the last plan: on a new id both are written,
  and the id is withdrawn when the time cannot be stored.\<close>

definition first_seen :: "('s, 'e) storage_ops \<Rightarrow> string \<Rightarrow> system_time \<Rightarrow> 's \<Rightarrow> system_time \<times> 's" where
  "first_seen ops plan t s =
     (if get_string ops s INSTALL_PLAN_ID = Some plan
      then (case get_time ops s UPDATE_FIRST_SEEN_TIME of None \<Rightarrow> t | Some t' \<Rightarrow> t', s)
      else (case set_string ops s INSTALL_PLAN_ID plan of
              (Inl _, s1) \<Rightarrow> (t, s1)
            | (Inr _, s1) \<Rightarrow>
                (case set_time ops s1 UPDATE_FIRST_SEEN_TIME t of
                   (Inl _, s2) \<Rightarrow> (t, snd (remove_value ops s2 INSTALL_PLAN_ID))
                 | (Inr _, s2) \<Rightarrow> (t, commit_or_log ops s2))))"

definition record_update_first_seen_time ::
  "('w, 's, 'e, 'a, 'd, 'pl, 'ir, 'x) env \<Rightarrow> string \<Rightarrow> system_time \<Rightarrow> ('w, 's, 'a, 'k, 'd, 'pl, 'x, system_time) act" where
  "record_update_first_seen_time env plan t = do {
     s \<leftarrow> gets sm_storage;
     let (r, s') = first_seen (store env) plan t s;
     modify_storage (\<lambda>_. s');
     State_Monad.return r }"

definition report_check_interval ::
  "('w, 's, 'e, 'a, 'd, 'pl, 'ir, 'x) env \<Rightarrow> install_source \<Rightarrow> ('w, 's, 'a, 'k, 'd, 'pl, 'x, unit) act" where
  "report_check_interval env source = do {
     t \<leftarrow> outside (now env);
     c \<leftarrow> context_of;
     (case last_update_check_time (ctx_schedule c) of
        Some (Wall w) \<Rightarrow> (case wall_duration_since t w of
            Inr interval \<Rightarrow> report_metrics (UpdateCheckInterval interval WallClock source)
          | Inl _ \<Rightarrow> State_Monad.return ())
      | Some (Complex c') \<Rightarrow> (case checked_duration_since (mono t) (mono c') of
            Some interval \<Rightarrow> report_metrics (UpdateCheckInterval interval MonotonicClock source)
          | None \<Rightarrow> State_Monad.return ())
      | _ \<Rightarrow> State_Monad.return ());
     modify_context (set_last_update_check_time t) }"

section \<open>Pings\<close>

definition ping_params :: request_params where
  "ping_params = \<lparr>rp_source = ScheduledTask, use_configured_proxies = True, disable_updates = False,
                  offer_update_if_same_version = False\<rparr>"

definition ping_failed ::
  "('w, 's, 'e, 'a, 'd, 'pl, 'ir, 'x) env \<Rightarrow> ('w, 's, 'a, 'k, 'd, 'pl, 'x, unit) act" where
  "ping_failed env = do {
     modify_context (\<lambda>c. set_failed_checks (failed_checks c + 1) c);
     persist_data env }"

definition ping_omaha ::
  "('w, 's, 'e, 'a, 'd, 'pl, 'ir, 'x) env \<Rightarrow> ('w, 's, 'a, 'k, 'd, 'pl, 'x, unit) act" where
  "ping_omaha env = do {
     apps \<leftarrow> apps_of env;
     cfg \<leftarrow> gets sm_config;
     let builder = fold add_ping apps (request_builder_new cfg ping_params);
     session \<leftarrow> outside (new_guid env);
     rid \<leftarrow> outside (new_guid env);
     r \<leftarrow> do_omaha_request env (with_request_id rid (with_session_id session builder));
     (case r of
        Inl _ \<Rightarrow> ping_failed env
      | Inr (data, _, _) \<Rightarrow>
          (case parse_omaha_response env data of
             Inl _ \<Rightarrow> ping_failed env
           | Inr resp \<Rightarrow> do {
               modify_context (set_failed_checks 0);
               t \<leftarrow> outside (now env);
               modify_context (set_last_update_time t);
               c \<leftarrow> context_of;
               yield_event (ScheduleChange (ctx_schedule c));
               modify_app_set (update_from_omaha (apps_api env) (make_app_responses resp NoUpdate));
               persist_data env })) }"

end
