(* ===== verification/Update_Flow.thy ===== *)
theory Update_Flow imports Omaha_Requests begin

text \<open>
  \<open>perform_update_check\<close> and \<open>start_update_check\<close> of \<open>omaha-client/src/state_machine.rs\<close>, from the
  request with its retries through the install plan, the policy's decision, the installation and its
  reports, to the bookkeeping and the persisting at the end of a check.  \<open>None\<close> is the panic of
  \<open>app_install_results.remove(0)\<close> on a list of results that is too short.
\<close>

section \<open>Requesting, with retries\<close>

text \<open>A random number from \<open>n - range / 2\<close> on, below \<open>n - range / 2 + range\<close>; on u64.\<close>

definition randomize :: "u64 \<Rightarrow> u64 \<Rightarrow> u64 \<Rightarrow> u64" where
  "randomize r n width = n - width div 2 + r mod width"

definition check_builder :: "'k config \<Rightarrow> request_params \<Rightarrow> app list \<Rightarrow> guid \<Rightarrow> 'k request_builder" where
  "check_builder cfg params apps session =
     with_session_id session
       (fold (\<lambda>a b. add_ping a (add_update_check a b)) apps (request_builder_new cfg params))"

text \<open>One attempt, with the report of its response time.\<close>

definition omaha_attempt ::
  "('w, 's, 'e, 'a, 'd, 'pl, 'ir, 'x) env \<Rightarrow> 'k request_builder
     \<Rightarrow> ('w, 's, 'a, 'k, 'd, 'pl, 'x, 'd omaha_result) act" where
  "omaha_attempt env builder = do {
     start \<leftarrow> outside (now_in_monotonic env);
     rid \<leftarrow> outside (new_guid env);
     result \<leftarrow> do_omaha_request env (with_request_id rid builder);
     t \<leftarrow> outside (now_in_monotonic env);
     (case checked_duration_since t start of
        Some response_time \<Rightarrow> report_metrics (UpdateCheckResponseTime response_time (is_ok result))
      | None \<Rightarrow> State_Monad.return ());
     State_Monad.return result }"

text \<open>Whether an error ends the attempts: every error but transport errors and failure statuses does; those
  do after the last attempt, when the server dictated a poll interval, or when the error is the user's.\<close>

fun gives_up :: "nat \<Rightarrow> duration option \<Rightarrow> omaha_request_error \<Rightarrow> bool" where
  "gives_up attempt interval (HttpTransport e) \<longleftrightarrow>
     attempt \<ge> MAX_OMAHA_REQUEST_ATTEMPTS \<or> is_user e \<or> interval \<noteq> None"
| "gives_up attempt interval (HttpStatus s) \<longleftrightarrow> attempt \<ge> MAX_OMAHA_REQUEST_ATTEMPTS \<or> interval \<noteq> None"
| "gives_up attempt interval _ \<longleftrightarrow> True"

definition back_off ::
  "('w, 's, 'e, 'a, 'd, 'pl, 'ir, 'x) env \<Rightarrow> nat \<Rightarrow> ('w, 's, 'a, 'k, 'd, 'pl, 'x, unit) act" where
  "back_off env attempt = do {
     r \<leftarrow> outside (random_u64 env);
     let backoff_time_secs = push_bit (attempt - 1) (1 :: u64);
     let backoff_time = randomize r (backoff_time_secs * 1000) 1000;
     wait_for_timer env (WaitFor (duration_from_millis (unat backoff_time))) }"

lemma not_gives_up_attempt: "\<not> gives_up attempt interval e \<Longrightarrow> attempt < MAX_OMAHA_REQUEST_ATTEMPTS"
  by (cases e) auto

function request_loop ::
  "('w, 's, 'e, 'a, 'd, 'pl, 'ir, 'x) env \<Rightarrow> 'k request_builder \<Rightarrow> nat
     \<Rightarrow> ('w, 's, 'a, 'k, 'd, 'pl, 'x, nat \<times> 'd omaha_result) act" where
  "request_loop env builder attempt = do {
     result \<leftarrow> omaha_attempt env builder;
     c \<leftarrow> context_of;
     (case result of
        Inr res \<Rightarrow> State_Monad.return (attempt, Inr res)
      | Inl e \<Rightarrow>
          if \<not> gives_up attempt (poll_interval c) e
          then do { back_off env attempt; request_loop env builder (attempt + 1) }
          else do { yield_state ErrorCheckingForUpdate; State_Monad.return (attempt, Inl e) }) }"
  by pat_completeness auto

termination
  by (relation "measure (\<lambda>(env, builder, attempt). MAX_OMAHA_REQUEST_ATTEMPTS - attempt)")
     (auto dest: not_gives_up_attempt)

declare request_loop.simps [simp del]

section \<open>Reading the response\<close>

definition has_update :: "response_app \<Rightarrow> bool" where
  "has_update a \<longleftrightarrow> (case rapp_update_check a of Some u \<Rightarrow> ruc_status u = StatusOk | None \<Rightarrow> False)"

definition next_versions_of :: "response_app list \<Rightarrow> (string \<rightharpoonup> string option)" where
  "next_versions_of as = collect_map (map (\<lambda>a. (rapp_id a, get_manifest_version a)) as)"

type_synonym ('ir, 'x) check_outcome = "('x update_check_error + (app_response list \<times> 'ir reboot_after_update)) option"

definition not_updated :: "response \<Rightarrow> action \<Rightarrow> ('ir, 'x) check_outcome" where
  "not_updated resp act = Some (Inr (make_app_responses resp act, NotNeeded))"

definition parse_failed ::
  "('w, 's, 'e, 'a, 'd, 'pl, 'ir, 'x) env \<Rightarrow> request_params \<Rightarrow> app list \<Rightarrow> guid \<Rightarrow> response_parse_error
     \<Rightarrow> ('w, 's, 'a, 'k, 'd, 'pl, 'x, ('ir, 'x) check_outcome) act" where
  "parse_failed env params apps session e = do {
     yield_state ErrorCheckingForUpdate;
     report_omaha_event env params (event_of_error ParseResponse) apps session
       (collect_map (map (\<lambda>a. (app_id a, None)) apps)) None;
     State_Monad.return (Some (Inl (ResponseParser e))) }"

section \<open>The plan and the policy's decision\<close>

definition plan_failed ::
  "('w, 's, 'e, 'a, 'd, 'pl, 'ir, 'x) env \<Rightarrow> request_params \<Rightarrow> app list \<Rightarrow> guid \<Rightarrow> (string \<rightharpoonup> string option) \<Rightarrow> 'x
     \<Rightarrow> ('w, 's, 'a, 'k, 'd, 'pl, 'x, ('ir, 'x) check_outcome) act" where
  "plan_failed env params apps session next_versions e = do {
     yield_state InstallingUpdate;
     yield_state InstallationError;
     report_omaha_event env params (event_of_error ConstructInstallPlan) apps session next_versions None;
     State_Monad.return (Some (Inl (InstallPlan e))) }"

definition plan_deferred ::
  "('w, 's, 'e, 'a, 'd, 'pl, 'ir, 'x) env \<Rightarrow> request_params \<Rightarrow> app list \<Rightarrow> guid \<Rightarrow> (string \<rightharpoonup> string option) \<Rightarrow> response
     \<Rightarrow> ('w, 's, 'a, 'k, 'd, 'pl, 'x, ('ir, 'x) check_outcome) act" where
  "plan_deferred env params apps session next_versions resp = do {
     report_omaha_event env params
       (event_default\<lparr>event_type := UpdateComplete, event_result := UpdateDeferred\<rparr>) apps session next_versions None;
     yield_state InstallationDeferredByPolicy;
     State_Monad.return (not_updated resp DeferredByPolicy) }"

definition plan_denied ::
  "('w, 's, 'e, 'a, 'd, 'pl, 'ir, 'x) env \<Rightarrow> request_params \<Rightarrow> app list \<Rightarrow> guid \<Rightarrow> (string \<rightharpoonup> string option) \<Rightarrow> response
     \<Rightarrow> ('w, 's, 'a, 'k, 'd, 'pl, 'x, ('ir, 'x) check_outcome) act" where
  "plan_denied env params apps session next_versions resp = do {
     report_omaha_event env params (event_of_error ErrDeniedByPolicy) apps session next_versions None;
     State_Monad.return (not_updated resp DeniedByPolicy) }"

section \<open>Installing\<close>

text \<open>Before the installation: the state, the report that the download started, the start time and the time this
  plan was first seen.\<close>

definition begin_install ::
  "('w, 's, 'e, 'a, 'd, 'pl, 'ir, 'x) env \<Rightarrow> request_params \<Rightarrow> app list \<Rightarrow> guid \<Rightarrow> (string \<rightharpoonup> string option) \<Rightarrow> 'pl
     \<Rightarrow> ('w, 's, 'a, 'k, 'd, 'pl, 'x, system_time \<times> system_time) act" where
  "begin_install env params apps session next_versions plan = do {
     yield_state InstallingUpdate;
     report_omaha_event env params (event_of_success UpdateDownloadStarted) apps session next_versions None;
     update_start_time \<leftarrow> outside (now_in_walltime env);
     first_seen_time \<leftarrow> record_update_first_seen_time env (plan_id (inst env) plan) update_start_time;
     State_Monad.return (update_start_time, first_seen_time) }"

text \<open>The installation itself, whose progress is yielded as it arrives.\<close>

definition run_install ::
  "('w, 's, 'e, 'a, 'd, 'pl, 'ir, 'x) env \<Rightarrow> 'pl
     \<Rightarrow> ('w, 's, 'a, 'k, 'd, 'pl, 'x, 'ir \<times> 'x app_install_result list) act" where
  "run_install env plan = do {
     emit (Installing plan);
     (progress, install_result, app_install_results) \<leftarrow> outside (perform_install (inst env) plan);
     for_each (\<lambda>p. yield_event (InstallProgressChange p)) progress;
     State_Monad.return (install_result, app_install_results) }"

fun app_did_not_fail :: "'x app_install_result \<Rightarrow> bool" where
  "app_did_not_fail (Failed _) \<longleftrightarrow> False"
| "app_did_not_fail _ \<longleftrightarrow> True"

definition report_install_duration ::
  "system_time \<Rightarrow> system_time \<Rightarrow> 'x app_install_result list \<Rightarrow> ('w, 's, 'a, 'k, 'd, 'pl, 'x, duration option) act" where
  "report_install_duration finish start results =
     (case duration_since finish start of
        Inr d \<Rightarrow> do {
          report_metrics (if list_all app_did_not_fail results then SuccessfulUpdateDuration d else FailedUpdateDuration d);
          State_Monad.return (Some d) }
      | Inl _ \<Rightarrow> State_Monad.return None)"

fun install_result_event :: "'x app_install_result \<Rightarrow> event" where
  "install_result_event Installed = event_of_success UpdateDownloadFinished"
| "install_result_event Deferred = event_default\<lparr>event_type := UpdateComplete, event_result := UpdateDeferred\<rparr>"
| "install_result_event (Failed _) = event_of_error Installation"

text \<open>The events for the results, in order, each with its app; apps that are not of the check are skipped.\<close>

fun result_events ::
  "app list \<Rightarrow> duration option \<Rightarrow> (response_app \<times> 'x app_install_result) list \<Rightarrow> (app \<times> event) list" where
  "result_events apps d [] = []"
| "result_events apps d ((ra, r) # rest) =
     (case find (\<lambda>a. app_id a = rapp_id ra) apps of
        Some a \<Rightarrow>
          (a, (install_result_event r)\<lparr>previous_version := Some (version_to_string (app_version a)),
                 next_version := get_manifest_version ra, download_time_ms := download_time d\<rparr>)
          # result_events apps d rest
      | None \<Rightarrow> result_events apps d rest)"

fun installed_apps_of :: "app list \<Rightarrow> (response_app \<times> 'x app_install_result) list \<Rightarrow> app list" where
  "installed_apps_of apps [] = []"
| "installed_apps_of apps ((ra, r) # rest) =
     (case (find (\<lambda>a. app_id a = rapp_id ra) apps, r) of
        (Some a, Installed) \<Rightarrow> a # installed_apps_of apps rest
      | _ \<Rightarrow> installed_apps_of apps rest)"

definition report_results ::
  "('w, 's, 'e, 'a, 'd, 'pl, 'ir, 'x) env \<Rightarrow> request_params \<Rightarrow> guid \<Rightarrow> (app \<times> event) list
     \<Rightarrow> ('w, 's, 'a, 'k, 'd, 'pl, 'x, unit) act" where
  "report_results env params session events = do {
     cfg \<leftarrow> gets sm_config;
     let builder = fold (\<lambda>(a, e). add_event a e) events (request_builder_new cfg params);
     rid \<leftarrow> outside (new_guid env);
     r \<leftarrow> do_omaha_request env (with_request_id rid (with_session_id session builder));
     (case r of
        Inl _ \<Rightarrow> for_each (\<lambda>(a, e). report_metrics (OmahaEventLost e)) events
      | Inr _ \<Rightarrow> State_Monad.return ()) }"

definition report_installed ::
  "('w, 's, 'e, 'a, 'd, 'pl, 'ir, 'x) env \<Rightarrow> request_params \<Rightarrow> app list \<Rightarrow> guid \<Rightarrow> (string \<rightharpoonup> string option) \<Rightarrow> duration option
     \<Rightarrow> ('w, 's, 'a, 'k, 'd, 'pl, 'x, unit) act" where
  "report_installed env params installed session next_versions d =
     (if installed \<noteq> []
      then report_omaha_event env params (event_of_success UpdateComplete) installed session next_versions d
      else State_Monad.return ())"

fun action_of :: "'x app_install_result \<Rightarrow> action" where
  "action_of Installed = Updated"
| "action_of Deferred = DeferredByPolicy"
| "action_of (Failed _) = InstallPlanExecutionError"

fun errors_of :: "'x app_install_result \<Rightarrow> 'x list" where
  "errors_of (Failed e) = [e]"
| "errors_of _ = []"

text \<open>The responses of the apps and the errors: the results are consumed in order by the apps with an update.\<close>

fun installed_responses ::
  "day_start option \<Rightarrow> response_app list \<Rightarrow> 'x app_install_result list \<Rightarrow> (app_response list \<times> 'x list) option" where
  "installed_responses daystart [] results = Some ([], [])"
| "installed_responses daystart (a # as) results =
     (if has_update a
      then (case results of
              [] \<Rightarrow> None
            | r # rs \<Rightarrow>
                map_option (\<lambda>(resps, es). (app_response_of daystart (action_of r) a # resps, errors_of r @ es))
                  (installed_responses daystart as rs))
      else map_option (\<lambda>(resps, es). (app_response_of daystart NoUpdate a # resps, es))
             (installed_responses daystart as results))"

definition unwrap_target_version :: "string option \<Rightarrow> string" where
  "unwrap_target_version v = (case v of None \<Rightarrow> ''UNKNOWN'' | Some t \<Rightarrow> t)"

text \<open>A successful installation: the metric since first seen, the finish time and the target version of the system
  app to storage, the question whether to reboot.\<close>

definition store_finished ::
  "('w, 's, 'e, 'a, 'd, 'pl, 'ir, 'x) env \<Rightarrow> (string \<rightharpoonup> string option) \<Rightarrow> system_time \<Rightarrow> 'a \<Rightarrow> 's \<Rightarrow> 's" where
  "store_finished env next_versions finish a s =
     (let s1 = snd (set_time (store env) s UPDATE_FINISH_TIME finish);
          s2 = (case next_versions (get_system_app_id (apps_api env) a) of
                  None \<Rightarrow> s1
                | Some v \<Rightarrow> snd (set_string (store env) s1 TARGET_VERSION (unwrap_target_version v)))
      in commit_or_log (store env) s2)"

definition finish_install ::
  "('w, 's, 'e, 'a, 'd, 'pl, 'ir, 'x) env \<Rightarrow> (string \<rightharpoonup> string option) \<Rightarrow> 'pl \<Rightarrow> system_time \<Rightarrow> system_time \<Rightarrow> 'ir
     \<Rightarrow> ('w, 's, 'a, 'k, 'd, 'pl, 'x, 'ir reboot_after_update) act" where
  "finish_install env next_versions plan finish first_seen_time install_result = do {
     (case duration_since finish first_seen_time of
        Inr d \<Rightarrow> report_metrics (SuccessfulUpdateFromFirstSeen d)
      | Inl _ \<Rightarrow> State_Monad.return ());
     a \<leftarrow> gets sm_app_set;
     modify_storage (store_finished env next_versions finish a);
     needed \<leftarrow> outside (reboot_needed (policy env) plan);
     State_Monad.return (if needed then Needed install_result else NotNeeded) }"

definition install_failed ::
  "app_response list \<Rightarrow> 'x list \<Rightarrow> ('w, 's, 'a, 'k, 'd, 'pl, 'x, ('ir, 'x) check_outcome) act" where
  "install_failed app_responses errors = do {
     for_each (\<lambda>e. yield_event (InstallerError (Some e))) errors;
     yield_state InstallationError;
     State_Monad.return (Some (Inr (app_responses, NotNeeded))) }"

definition install_update ::
  "('w, 's, 'e, 'a, 'd, 'pl, 'ir, 'x) env \<Rightarrow> request_params \<Rightarrow> app list \<Rightarrow> guid \<Rightarrow> response \<Rightarrow> 'pl
     \<Rightarrow> ('w, 's, 'a, 'k, 'd, 'pl, 'x, ('ir, 'x) check_outcome) act" where
  "install_update env params apps session resp plan = do {
     let apps_with_update = filter has_update (resp_apps resp);
     let next_versions = next_versions_of apps_with_update;
     (start, first_seen_time) \<leftarrow> begin_install env params apps session next_versions plan;
     (install_result, results) \<leftarrow> run_install env plan;
     finish \<leftarrow> outside (now_in_walltime env);
     d \<leftarrow> report_install_duration finish start results;
     let pairs = zip apps_with_update results;
     report_results env params session (result_events apps d pairs);
     report_installed env params (installed_apps_of apps pairs) session next_versions d;
     (case installed_responses (resp_daystart resp) (resp_apps resp) results of
        None \<Rightarrow> State_Monad.return None
      | Some (app_responses, errors) \<Rightarrow>
          if errors \<noteq> [] then install_failed app_responses errors
          else do {
            reboot \<leftarrow> finish_install env next_versions plan finish first_seen_time install_result;
            State_Monad.return (Some (Inr (app_responses, reboot))) }) }"

section \<open>The update check\<close>

definition process_plan ::
  "('w, 's, 'e, 'a, 'd, 'pl, 'ir, 'x) env \<Rightarrow> request_params \<Rightarrow> app list \<Rightarrow> guid \<Rightarrow> response \<Rightarrow> 'pl
     \<Rightarrow> ('w, 's, 'a, 'k, 'd, 'pl, 'x, ('ir, 'x) check_outcome) act" where
  "process_plan env params apps session resp plan = do {
     let next_versions = next_versions_of (filter has_update (resp_apps resp));
     decision \<leftarrow> outside (update_can_start (policy env) plan);
     emit (PlanDecided plan decision);
     (case decision of
        UpdateOk \<Rightarrow> install_update env params apps session resp plan
      | UpdateDeferredByPolicy \<Rightarrow> plan_deferred env params apps session next_versions resp
      | UpdateDeniedByPolicy \<Rightarrow> plan_denied env params apps session next_versions resp) }"

definition process_response ::
  "('w, 's, 'e, 'a, 'd, 'pl, 'ir, 'x) env \<Rightarrow> request_params \<Rightarrow> app list \<Rightarrow> guid \<Rightarrow> string \<times> request_metadata option \<times> 'd option
     \<Rightarrow> response \<Rightarrow> ('w, 's, 'a, 'k, 'd, 'pl, 'x, ('ir, 'x) check_outcome) act" where
  "process_response env params apps session received resp = do {
     yield_event (OmahaServerResponse resp);
     if filter has_update (resp_apps resp) = [] then do {
       yield_state NoUpdateAvailable;
       State_Monad.return (not_updated resp NoUpdate)
     } else do {
       let (data, metadata, signature) = received;
       plan \<leftarrow> outside (try_create_install_plan (inst env) params metadata resp data
                        (map_option (signature_bytes env) signature));
       (case plan of
          Inl e \<Rightarrow> plan_failed env params apps session
                    (next_versions_of (filter has_update (resp_apps resp))) e
        | Inr p \<Rightarrow> process_plan env params apps session resp p) } }"

definition perform_update_check ::
  "('w, 's, 'e, 'a, 'd, 'pl, 'ir, 'x) env \<Rightarrow> request_params \<Rightarrow> app list
     \<Rightarrow> ('w, 's, 'a, 'k, 'd, 'pl, 'x, ('ir, 'x) check_outcome) act" where
  "perform_update_check env params apps = do {
     yield_state (CheckingForUpdates (rp_source params));
     report_check_interval env (rp_source params);
     cfg \<leftarrow> gets sm_config;
     session \<leftarrow> outside (new_guid env);
     (attempts, result) \<leftarrow> request_loop env (check_builder cfg params apps session) 1;
     report_metrics (RequestsPerCheck attempts (is_ok result));
     (case result of
        Inl e \<Rightarrow> State_Monad.return (Some (Inl (OmahaRequest e)))
      | Inr received \<Rightarrow>
          (case parse_omaha_response env (fst received) of
             Inl e \<Rightarrow> parse_failed env params apps session e
           | Inr resp \<Rightarrow> process_response env params apps session received resp)) }"

section \<open>The end of a check\<close>

text \<open>The fold over the results: a failed installation counts as failed, otherwise an installed one as success.\<close>

definition install_success :: "app_response list \<Rightarrow> bool option" where
  "install_success app_responses =
     fold (\<lambda>a result.
         case (result, ar_result a) of
           (_, InstallPlanExecutionError) \<Rightarrow> Some False
         | (None, Updated) \<Rightarrow> Some True
         | (result, _) \<Rightarrow> result) app_responses None"

fun failure_reason :: "'x update_check_error \<Rightarrow> update_check_failure_reason" where
  "failure_reason (ResponseParser _) = ReasonOmaha"
| "failure_reason (InstallPlan _) = ReasonOmaha"
| "failure_reason (OmahaRequest (HttpTransport _)) = ReasonNetwork"
| "failure_reason (OmahaRequest (HttpStatus _)) = ReasonNetwork"
| "failure_reason (OmahaRequest _) = ReasonInternal"

fun contacted_omaha :: "'x update_check_error \<Rightarrow> bool" where
  "contacted_omaha (OmahaRequest _) = False"
| "contacted_omaha _ = True"

definition touch_last_update_time ::
  "('w, 's, 'e, 'a, 'd, 'pl, 'ir, 'x) env \<Rightarrow> ('w, 's, 'a, 'k, 'd, 'pl, 'x, unit) act" where
  "touch_last_update_time env = do { t \<leftarrow> outside (now env); modify_context (set_last_update_time t) }"

definition check_succeeded ::
  "('w, 's, 'e, 'a, 'd, 'pl, 'ir, 'x) env \<Rightarrow> app_response list \<Rightarrow> ('w, 's, 'a, 'k, 'd, 'pl, 'x, unit) act" where
  "check_succeeded env app_responses = do {
     touch_last_update_time env;
     report_attempts_to_successful_check True;
     modify_app_set (update_from_omaha (apps_api env) app_responses);
     (case install_success app_responses of
        Some success \<Rightarrow> report_attempts_to_successful_install env success
      | None \<Rightarrow> State_Monad.return ()) }"

definition check_failed ::
  "('w, 's, 'e, 'a, 'd, 'pl, 'ir, 'x) env \<Rightarrow> 'x update_check_error \<Rightarrow> ('w, 's, 'a, 'k, 'd, 'pl, 'x, unit) act" where
  "check_failed env e = do {
     (if contacted_omaha e then touch_last_update_time env else State_Monad.return ());
     report_metrics (UpdateCheckFailureReason (failure_reason e));
     report_attempts_to_successful_check False }"

definition yield_outcome ::
  "('x update_check_error + app_response list) \<Rightarrow> ('w, 's, 'a, 'k, 'd, 'pl, 'x, unit) act" where
  "yield_outcome result = do {
     c \<leftarrow> context_of;
     yield_event (ScheduleChange (ctx_schedule c));
     yield_event (ProtocolStateChange (ctx_state c));
     yield_event (UpdateCheckResult result) }"

definition start_update_check ::
  "('w, 's, 'e, 'a, 'd, 'pl, 'ir, 'x) env \<Rightarrow> request_params
     \<Rightarrow> ('w, 's, 'a, 'k, 'd, 'pl, 'x, 'ir reboot_after_update option) act" where
  "start_update_check env params = do {
     apps \<leftarrow> apps_of env;
     result \<leftarrow> perform_update_check env params apps;
     (case result of
        None \<Rightarrow> State_Monad.return None
      | Some (Inr (app_responses, reboot)) \<Rightarrow> do {
          check_succeeded env app_responses;
          yield_outcome (Inr app_responses);
          persist_data env;
          State_Monad.return (Some reboot) }
      | Some (Inl e) \<Rightarrow> do {
          check_failed env e;
          yield_outcome (Inl e);
          persist_data env;
          State_Monad.return (Some NotNeeded) }) }"

end
