(* ===== verification/Control_Loop.thy ===== *)
theory Control_Loop imports Update_Flow begin

text \<open>
  \<open>state_machine/builder.rs\<close> (\<open>build\<close>) and the two loops of \<open>state_machine.rs\<close>: \<open>run\<close> and
  \<open>wait_for_reboot\<close>, with the control requests they answer.  The points where the task waits in a
  \<open>select!\<close> are the phases of a step relation; whichever branch is ready is taken, control requests
  are queued by their senders at any time, and the world outside may change at any time.

  An update check only shares \<open>options\<close> with the requests that come in during it, and answers them
  without touching the machine; its own effects are one step, taken when it completes.
\<close>

section \<open>Building a machine\<close>

definition build_machine ::
  "('w, 's, 'e, 'a, 'd, 'pl, 'ir, 'x) env \<Rightarrow> 'k config \<Rightarrow> 'd cup_handler option \<Rightarrow> 's \<Rightarrow> 'a \<Rightarrow> 'w
     \<Rightarrow> ('w, 's, 'a, 'k, 'd, 'pl, 'x) machine" where
  "build_machine env cfg cup s a w =
     \<lparr>sm_config = cfg, sm_cup_handler = cup, sm_context = context_load (store env) s, sm_storage = s,
      sm_app_set = app_set_load (apps_api env) (store env) (json_from_text env) s a, sm_world = w, sm_trace = []\<rparr>"

definition oneshot_check ::
  "('w, 's, 'e, 'a, 'd, 'pl, 'ir, 'x) env \<Rightarrow> ('w, 's, 'a, 'k, 'd, 'pl, 'x) machine
     \<Rightarrow> ('w, 's, 'a, 'k, 'd, 'pl, 'x) machine" where
  "oneshot_check env m = snd (run_state (start_update_check env request_params_default) m)"

section \<open>Actions of the loops\<close>

definition update_next_update_time ::
  "('w, 's, 'e, 'a, 'd, 'pl, 'ir, 'x) env \<Rightarrow> ('w, 's, 'a, 'k, 'd, 'pl, 'x, check_timing) act" where
  "update_next_update_time env = do {
     apps \<leftarrow> apps_of env;
     c \<leftarrow> context_of;
     timing \<leftarrow> outside (compute_next_update_time (policy env) apps (ctx_schedule c) (ctx_state c));
     modify_context (set_next_update_time timing);
     c' \<leftarrow> context_of;
     yield_event (ScheduleChange (ctx_schedule c'));
     State_Monad.return timing }"

text \<open>The timers that are set; with a minimum wait both have to elapse.\<close>

fun timers_for :: "check_timing \<Rightarrow> requested_wait list" where
  "timers_for timing =
     (case ct_minimum_wait timing of
        Some minimum_wait \<Rightarrow> [WaitFor minimum_wait, WaitUntil (ct_time timing)]
      | None \<Rightarrow> [WaitUntil (ct_time timing)])"

definition make_wait_to_next_check :: "check_timing \<Rightarrow> ('w, 's, 'a, 'k, 'd, 'pl, 'x, unit) act" where
  "make_wait_to_next_check timing = for_each (\<lambda>r. emit (TimerSet r)) (timers_for timing)"

definition schedule_next_check ::
  "('w, 's, 'e, 'a, 'd, 'pl, 'ir, 'x) env \<Rightarrow> ('w, 's, 'a, 'k, 'd, 'pl, 'x, unit) act" where
  "schedule_next_check env = do { timing \<leftarrow> update_next_update_time env; make_wait_to_next_check timing }"

text \<open>The pure part of \<open>report_waited_for_reboot_duration\<close>.\<close>

definition waited_for_reboot_duration :: "system_time \<Rightarrow> instant \<Rightarrow> complex_time \<Rightarrow> duration option" where
  "waited_for_reboot_duration update_finish_time start_mono t =
     (case wall_duration_since t update_finish_time of
        Inl _ \<Rightarrow> None
      | Inr finish_to_now \<Rightarrow>
          (case checked_duration_since (mono t) start_mono of
             None \<Rightarrow> None
           | Some start_to_now \<Rightarrow> duration_checked_sub finish_to_now start_to_now))"

definition forget_finished_update :: "('s, 'e) storage_ops \<Rightarrow> 's \<Rightarrow> 's" where
  "forget_finished_update ops s =
     commit_or_log ops (remove_or_log ops (remove_or_log ops s UPDATE_FINISH_TIME) TARGET_VERSION)"

text \<open>The report at the head of the loop; the result is whether it has still to be made.\<close>

definition report_waited_for_reboot ::
  "('w, 's, 'e, 'a, 'd, 'pl, 'ir, 'x) env \<Rightarrow> system_time \<Rightarrow> instant \<Rightarrow> ('w, 's, 'a, 'k, 'd, 'pl, 'x, bool) act" where
  "report_waited_for_reboot env update_finish_time start_mono = do {
     t \<leftarrow> outside (now env);
     (case waited_for_reboot_duration update_finish_time start_mono t of
        Some d \<Rightarrow> do {
          report_metrics (WaitedForRebootDuration d);
          modify_storage (forget_finished_update (store env));
          State_Monad.return False }
      | None \<Rightarrow> State_Monad.return True) }"

definition decide_check ::
  "('w, 's, 'e, 'a, 'd, 'pl, 'ir, 'x) env \<Rightarrow> check_options \<Rightarrow> ('w, 's, 'a, 'k, 'd, 'pl, 'x, request_params option) act" where
  "decide_check env options = do {
     apps \<leftarrow> apps_of env;
     c \<leftarrow> context_of;
     decision \<leftarrow> outside (update_check_allowed (policy env) apps (ctx_schedule c) (ctx_state c) options);
     emit (CheckDecided decision);
     State_Monad.return (case decision of
        CheckOk rp \<Rightarrow> Some rp | OkUpdateDeferred rp \<Rightarrow> Some rp
      | TooSoon \<Rightarrow> None | ThrottledByPolicy \<Rightarrow> None | CheckDeniedByPolicy \<Rightarrow> None) }"

definition ask_reboot ::
  "('w, 's, 'e, 'a, 'd, 'pl, 'ir, 'x) env \<Rightarrow> check_options \<Rightarrow> 'ir \<Rightarrow> ('w, 's, 'a, 'k, 'd, 'pl, 'x, bool) act" where
  "ask_reboot env options install_result = do {
     allowed \<leftarrow> outside (reboot_allowed (policy env) options install_result);
     emit (RebootDecided allowed);
     State_Monad.return allowed }"

text \<open>The reboot, after which the loop only goes on if it failed.\<close>

definition do_reboot ::
  "('w, 's, 'e, 'a, 'd, 'pl, 'ir, 'x) env \<Rightarrow> ('w, 's, 'a, 'k, 'd, 'pl, 'x, unit) act" where
  "do_reboot env = do {
     emit Rebooted;
     outside (perform_reboot (inst env));
     yield_state Idle }"

definition reboot_if ::
  "('w, 's, 'e, 'a, 'd, 'pl, 'ir, 'x) env \<Rightarrow> ('w, 's, 'a, 'k, 'd, 'pl, 'x, unit) act \<Rightarrow> bool
     \<Rightarrow> ('w, 's, 'a, 'k, 'd, 'pl, 'x, bool) act" where
  "reboot_if env otherwise allowed =
     (if allowed then do { do_reboot env; State_Monad.return True }
      else do { otherwise; State_Monad.return False })"

text \<open>Entering \<open>wait_for_reboot\<close>, its timer, its ping, and an on demand request; the result is whether it is done.\<close>

definition enter_reboot_wait ::
  "('w, 's, 'e, 'a, 'd, 'pl, 'ir, 'x) env \<Rightarrow> check_options \<Rightarrow> 'ir \<Rightarrow> ('w, 's, 'a, 'k, 'd, 'pl, 'x, bool) act" where
  "enter_reboot_wait env options install_result = do {
     yield_state WaitingForReboot;
     allowed \<leftarrow> ask_reboot env options install_result;
     reboot_if env (do { emit (TimerSet (WaitFor CHECK_REBOOT_ALLOWED_INTERVAL)); schedule_next_check env }) allowed }"

definition reboot_timer_fired ::
  "('w, 's, 'e, 'a, 'd, 'pl, 'ir, 'x) env \<Rightarrow> check_options \<Rightarrow> 'ir \<Rightarrow> ('w, 's, 'a, 'k, 'd, 'pl, 'x, bool) act" where
  "reboot_timer_fired env options install_result = do {
     allowed \<leftarrow> ask_reboot env options install_result;
     reboot_if env (emit (TimerSet (WaitFor CHECK_REBOOT_ALLOWED_INTERVAL))) allowed }"

definition ping_timer_fired ::
  "('w, 's, 'e, 'a, 'd, 'pl, 'ir, 'x) env \<Rightarrow> ('w, 's, 'a, 'k, 'd, 'pl, 'x, unit) act" where
  "ping_timer_fired env = do { ping_omaha env; schedule_next_check env }"

definition reboot_on_demand ::
  "('w, 's, 'e, 'a, 'd, 'pl, 'ir, 'x) env \<Rightarrow> check_options \<Rightarrow> 'ir \<Rightarrow> ('w, 's, 'a, 'k, 'd, 'pl, 'x, bool) act" where
  "reboot_on_demand env options install_result = do {
     allowed \<leftarrow> ask_reboot env options install_result;
     reboot_if env (State_Monad.return ()) allowed }"

text \<open>Options are only ever upgraded to on demand.\<close>

definition merge_options :: "check_options \<Rightarrow> check_options \<Rightarrow> check_options" where
  "merge_options options new_options =
     (if opt_source new_options = OnDemand then options\<lparr>opt_source := OnDemand\<rparr> else options)"

section \<open>The loop\<close>

datatype 'ir phase =
    AtLoopHead | WaitingForCheck | CheckInProgress check_options request_params
  | AwaitingReboot check_options 'ir | Stopped | Panicked

type_synonym request_no = nat

record ('ir, 'm) loop_state =
  lp_machine :: 'm
  lp_phase :: "'ir phase"
  lp_should_report :: bool
  lp_finish_time :: "system_time option"
  lp_start_mono :: instant
  lp_queue :: "(request_no \<times> check_options) list"
  lp_answers :: "(request_no \<times> start_update_check_response) list"
  lp_next_no :: request_no

type_synonym ('w, 's, 'a, 'k, 'd, 'pl, 'ir, 'x) loop = "('ir, ('w, 's, 'a, 'k, 'd, 'pl, 'x) machine) loop_state"

definition acting ::
  "('w, 's, 'a, 'k, 'd, 'pl, 'x, 'r) act \<Rightarrow> ('r \<Rightarrow> ('w, 's, 'a, 'k, 'd, 'pl, 'ir, 'x) loop \<Rightarrow> ('w, 's, 'a, 'k, 'd, 'pl, 'ir, 'x) loop)
     \<Rightarrow> ('w, 's, 'a, 'k, 'd, 'pl, 'ir, 'x) loop \<Rightarrow> ('w, 's, 'a, 'k, 'd, 'pl, 'ir, 'x) loop" where
  "acting act k l =
     k (fst (run_state act (lp_machine l))) (l\<lparr>lp_machine := snd (run_state act (lp_machine l))\<rparr>)"

definition goto ::
  "'ir phase \<Rightarrow> ('w, 's, 'a, 'k, 'd, 'pl, 'ir, 'x) loop \<Rightarrow> ('w, 's, 'a, 'k, 'd, 'pl, 'ir, 'x) loop" where
  "goto p l = l\<lparr>lp_phase := p\<rparr>"

definition answer ::
  "request_no option \<Rightarrow> start_update_check_response \<Rightarrow> ('w, 's, 'a, 'k, 'd, 'pl, 'ir, 'x) loop
     \<Rightarrow> ('w, 's, 'a, 'k, 'd, 'pl, 'ir, 'x) loop" where
  "answer responder r l =
     (case responder of None \<Rightarrow> l | Some i \<Rightarrow> l\<lparr>lp_answers := lp_answers l @ [(i, r)]\<rparr>)"

text \<open>\<open>run\<close> up to its loop.\<close>

definition run_start ::
  "('w, 's, 'e, 'a, 'd, 'pl, 'ir, 'x) env \<Rightarrow> ('w, 's, 'a, 'k, 'd, 'pl, 'x) machine
     \<Rightarrow> ('w, 's, 'a, 'k, 'd, 'pl, 'ir, 'x) loop" where
  "run_start env m =
     (if \<not> all_valid (apps_api env) (sm_app_set m)
      then \<lparr>lp_machine = m, lp_phase = Stopped, lp_should_report = False, lp_finish_time = None,
            lp_start_mono = 0, lp_queue = [], lp_answers = [], lp_next_no = 0\<rparr>
      else
        (let (start_mono, w) = now_in_monotonic env (sm_world m);
             finish = get_time (store env) (sm_storage m) UPDATE_FINISH_TIME
         in \<lparr>lp_machine = m\<lparr>sm_world := w\<rparr>, lp_phase = AtLoopHead,
             lp_should_report = (finish \<noteq> None \<and>
               get_string (store env) (sm_storage m) TARGET_VERSION = Some (os_version (cfg_os (sm_config m)))),
             lp_finish_time = finish, lp_start_mono = start_mono, lp_queue = [], lp_answers = [], lp_next_no = 0\<rparr>))"

definition loop_head ::
  "('w, 's, 'e, 'a, 'd, 'pl, 'ir, 'x) env \<Rightarrow> ('w, 's, 'a, 'k, 'd, 'pl, 'ir, 'x) loop
     \<Rightarrow> ('w, 's, 'a, 'k, 'd, 'pl, 'ir, 'x) loop" where
  "loop_head env l =
     acting (schedule_next_check env) (\<lambda>_. goto WaitingForCheck)
       (if lp_should_report l
        then (case lp_finish_time l of
                Some t \<Rightarrow> acting (report_waited_for_reboot env t (lp_start_mono l)) (\<lambda>r l. l\<lparr>lp_should_report := r\<rparr>) l
              | None \<Rightarrow> l)
        else l)"

definition consider_check ::
  "('w, 's, 'e, 'a, 'd, 'pl, 'ir, 'x) env \<Rightarrow> check_options \<Rightarrow> request_no option
     \<Rightarrow> ('w, 's, 'a, 'k, 'd, 'pl, 'ir, 'x) loop \<Rightarrow> ('w, 's, 'a, 'k, 'd, 'pl, 'ir, 'x) loop" where
  "consider_check env options responder =
     acting (decide_check env options) (\<lambda>params.
       case params of
         None \<Rightarrow> (\<lambda>l. goto AtLoopHead (answer responder Throttled l))
       | Some rp \<Rightarrow> (\<lambda>l. goto (CheckInProgress options rp) (answer responder Started l)))"

definition after_reboot_question ::
  "check_options \<Rightarrow> 'ir \<Rightarrow> bool \<Rightarrow> ('w, 's, 'a, 'k, 'd, 'pl, 'ir, 'x) loop \<Rightarrow> ('w, 's, 'a, 'k, 'd, 'pl, 'ir, 'x) loop" where
  "after_reboot_question options install_result done =
     goto (if done then AtLoopHead else AwaitingReboot options install_result)"

definition complete_check ::
  "('w, 's, 'e, 'a, 'd, 'pl, 'ir, 'x) env \<Rightarrow> check_options \<Rightarrow> request_params
     \<Rightarrow> ('w, 's, 'a, 'k, 'd, 'pl, 'ir, 'x) loop \<Rightarrow> ('w, 's, 'a, 'k, 'd, 'pl, 'ir, 'x) loop" where
  "complete_check env options params =
     acting (start_update_check env params) (\<lambda>r.
       case r of
         None \<Rightarrow> goto Panicked
       | Some NotNeeded \<Rightarrow> acting (yield_state Idle) (\<lambda>_. goto AtLoopHead)
       | Some (Needed ir) \<Rightarrow> acting (enter_reboot_wait env options ir) (after_reboot_question options ir))"

inductive step ::
  "('w, 's, 'e, 'a, 'd, 'pl, 'ir, 'x) env \<Rightarrow> ('w, 's, 'a, 'k, 'd, 'pl, 'ir, 'x) loop
     \<Rightarrow> ('w, 's, 'a, 'k, 'd, 'pl, 'ir, 'x) loop \<Rightarrow> bool" for env where
  step_world: "step env l (l\<lparr>lp_machine := (lp_machine l)\<lparr>sm_world := w\<rparr>\<rparr>)"
| step_send: "step env l (l\<lparr>lp_queue := lp_queue l @ [(lp_next_no l, options)], lp_next_no := lp_next_no l + 1\<rparr>)"
| step_loop_head: "lp_phase l = AtLoopHead \<Longrightarrow> step env l (loop_head env l)"
| step_timer: "lp_phase l = WaitingForCheck \<Longrightarrow> step env l (consider_check env check_options_default None l)"
| step_request: "lp_phase l = WaitingForCheck \<Longrightarrow> lp_queue l = (i, options) # q \<Longrightarrow>
    step env l (consider_check env options (Some i) (l\<lparr>lp_queue := q\<rparr>))"
| step_busy: "lp_phase l = CheckInProgress options params \<Longrightarrow> lp_queue l = (i, new_options) # q \<Longrightarrow>
    step env l (goto (CheckInProgress (merge_options options new_options) params)
      (answer (Some i) AlreadyRunning (l\<lparr>lp_queue := q\<rparr>)))"
| step_complete: "lp_phase l = CheckInProgress options params \<Longrightarrow> step env l (complete_check env options params l)"
| step_reboot_timer: "lp_phase l = AwaitingReboot options ir \<Longrightarrow>
    step env l (acting (reboot_timer_fired env options ir) (after_reboot_question options ir) l)"
| step_ping: "lp_phase l = AwaitingReboot options ir \<Longrightarrow>
    step env l (acting (ping_timer_fired env) (\<lambda>_. goto (AwaitingReboot options ir)) l)"
| step_reboot_request: "lp_phase l = AwaitingReboot options ir \<Longrightarrow> lp_queue l = (i, new_options) # q \<Longrightarrow>
    opt_source new_options \<noteq> OnDemand \<Longrightarrow>
    step env l (answer (Some i) AlreadyRunning (l\<lparr>lp_queue := q\<rparr>))"
| step_reboot_on_demand: "lp_phase l = AwaitingReboot options ir \<Longrightarrow> lp_queue l = (i, new_options) # q \<Longrightarrow>
    opt_source new_options = OnDemand \<Longrightarrow>
    step env l (acting (reboot_on_demand env (merge_options options new_options) ir)
      (after_reboot_question (merge_options options new_options) ir)
      (answer (Some i) AlreadyRunning (l\<lparr>lp_queue := q\<rparr>)))"

inductive reachable ::
  "('w, 's, 'e, 'a, 'd, 'pl, 'ir, 'x) env \<Rightarrow> ('w, 's, 'a, 'k, 'd, 'pl, 'x) machine
     \<Rightarrow> ('w, 's, 'a, 'k, 'd, 'pl, 'ir, 'x) loop \<Rightarrow> bool" for env m where
  reachable_start: "reachable env m (run_start env m)"
| reachable_step: "reachable env m l \<Longrightarrow> step env l l' \<Longrightarrow> reachable env m l'"

inductive_cases stepE: "step env l l'"

end
