(* ===== verification/Machine_Effects.thy ===== *)
theory Machine_Effects imports Control_Loop begin

text \<open>
  What an update check and the loops may do to the machine, proved once for every preorder on machines that
  the primitive steps respect (locales), and its instances: which effects may follow which (installations
  and reboots only after the policy's consent), how many requests are sent, and what of the context and the
  app set stays.
\<close>

section \<open>The steps of a check, for any preorder\<close>

text \<open>The one metric that only the head of the loop reports; the checks report the others.\<close>

fun waited_for_reboot :: "metrics \<Rightarrow> bool" where
  "waited_for_reboot (WaitedForRebootDuration d) \<longleftrightarrow> True"
| "waited_for_reboot _ \<longleftrightarrow> False"

lemma other_metrics:
  "\<not> waited_for_reboot (UpdateCheckResponseTime d b)" "\<not> waited_for_reboot (UpdateCheckInterval d ct src)"
  "\<not> waited_for_reboot (SuccessfulUpdateDuration d)" "\<not> waited_for_reboot (SuccessfulUpdateFromFirstSeen d)"
  "\<not> waited_for_reboot (FailedUpdateDuration d)" "\<not> waited_for_reboot (UpdateCheckFailureReason r)"
  "\<not> waited_for_reboot (RequestsPerCheck n b)" "\<not> waited_for_reboot (AttemptsToSuccessfulCheck a)"
  "\<not> waited_for_reboot (AttemptsToSuccessfulInstall a b)" "\<not> waited_for_reboot (OmahaEventLost e)"
  "\<not> waited_for_reboot x \<Longrightarrow> \<not> waited_for_reboot y \<Longrightarrow> \<not> waited_for_reboot (if c then x else y)"
  by simp_all

text \<open>Effects that need no permission.\<close>

fun auxiliary :: "('pl, 'x) effect \<Rightarrow> bool" where
  "auxiliary (PlanDecided p d) \<longleftrightarrow> d \<noteq> UpdateOk"
| "auxiliary (Installing p) \<longleftrightarrow> False"
| "auxiliary (RebootDecided b) \<longleftrightarrow> \<not> b"
| "auxiliary Rebooted \<longleftrightarrow> False"
| "auxiliary (Reported x) \<longleftrightarrow> \<not> waited_for_reboot x"
| "auxiliary _ \<longleftrightarrow> True"

text \<open>The storages that a machine may leave behind: every write of the machine to its storage is one of these.\<close>

inductive storage_write ::
  "('w, 's, 'e, 'a, 'd, 'pl, 'ir, 'x) env \<Rightarrow> ('w, 's, 'a, 'k, 'd, 'pl, 'x) machine \<Rightarrow> 's \<Rightarrow> bool" for env m where
  writes_context: "storage_write env m (context_persist (store env) (sm_context m) (sm_storage m))"
| writes_apps: "storage_write env m
    (app_set_persist (apps_api env) (store env) (json_to_text env) (sm_app_set m) (sm_storage m))"
| commits: "storage_write env m (commit_or_log (store env) (sm_storage m))"
| writes_first_seen: "storage_write env m (snd (first_seen (store env) plan t (sm_storage m)))"
| counts_attempt: "storage_write env m (snd (set_int (store env) (sm_storage m) CONSECUTIVE_FAILED_INSTALL_ATTEMPTS n))"
| forgets_attempts: "storage_write env m (remove_or_log (store env) (sm_storage m) CONSECUTIVE_FAILED_INSTALL_ATTEMPTS)"
| writes_finish: "storage_write env m (store_finished env next_versions t a (sm_storage m))"
| forgets_finish: "storage_write env m (forget_finished_update (store env) (sm_storage m))"

locale check_effects = effect_preorder R
  for R :: "('w, 's, 'a, 'k, 'd, 'pl, 'x) machine \<Rightarrow> ('w, 's, 'a, 'k, 'd, 'pl, 'x) machine \<Rightarrow> bool" +
  fixes env :: "('w, 's, 'e, 'a, 'd, 'pl, 'ir, 'x) env"
  assumes on_aux: "auxiliary e \<Longrightarrow> R m (m\<lparr>sm_trace := sm_trace m @ [e]\<rparr>)"
    and on_world: "R m (m\<lparr>sm_world := w\<rparr>)"
    and on_storage: "storage_write env m s \<Longrightarrow> R m (m\<lparr>sm_storage := s\<rparr>)"
    and on_poll: "R m (m\<lparr>sm_context := set_poll_interval (retry_after env resp) (sm_context m)\<rparr>)"
    and on_check_time: "R m (m\<lparr>sm_context := set_last_update_check_time t (sm_context m)\<rparr>)"
begin

lemma io_emit: "auxiliary e \<Longrightarrow> state_io_rel R (emit e)"
  unfolding emit_def by (intro io_modify on_aux)

lemma io_outside: "state_io_rel R (outside f)"
  by (auto simp: state_io_rel_def outside_def on_world)

lemma io_storage: "(\<And>m :: ('w, 's, 'a, 'k, 'd, 'pl, 'x) machine. storage_write env m (f (sm_storage m))) \<Longrightarrow>
    state_io_rel R (modify_storage f)"
  unfolding modify_storage_def by (intro io_modify on_storage)

lemma io_apps_of: "state_io_rel R (apps_of env')"
  unfolding apps_of_def by (rule io_gets)

lemma io_yields: "state_io_rel R (yield_event ev)" "state_io_rel R (yield_state st)"
  "\<not> waited_for_reboot x \<Longrightarrow> state_io_rel R (report_metrics x)"
  unfolding action_defs by (simp_all add: io_emit)

lemma io_wait: "state_io_rel R (wait_for_timer env' r)"
  unfolding action_defs by (intro io_bind io_emit io_outside) simp_all

lemmas io_writes = io_storage commits counts_attempt forgets_attempts writes_finish forgets_finish

lemmas io_steps = io_intros io_outside io_writes io_apps_of io_yields io_wait other_metrics

lemma io_commit: "state_io_rel R (commit env)"
  unfolding commit_def by (intro io_steps)

lemma io_persist_context: "state_io_rel R (persist_context env)"
  by (rule state_io_relI)
     (auto simp: persist_context_def action_defs modify_storage_def intro: on_storage writes_context)

lemma io_persist_apps:
  "state_io_rel R (State_Monad.bind (gets sm_app_set)
     (\<lambda>a. modify_storage (app_set_persist (apps_api env) (store env) (json_to_text env) a)))"
  by (rule state_io_relI) (auto simp: modify_storage_def intro: on_storage writes_apps)

lemma io_persist_apps_then:
  "state_io_rel R f \<Longrightarrow> state_io_rel R (State_Monad.bind (gets sm_app_set) (\<lambda>a. State_Monad.bind
     (modify_storage (app_set_persist (apps_api env) (store env) (json_to_text env) a)) (\<lambda>_. f)))"
  using io_bind [OF io_persist_apps, of "\<lambda>_. f"] by simp

lemma io_persist_data: "state_io_rel R (persist_data env)"
  unfolding persist_data_def by (intro io_bind [OF io_persist_context] io_persist_apps_then io_commit)

lemmas io_persist = io_persist_context io_commit io_persist_data

lemma io_update_poll: "state_io_rel R (update_poll_interval env (retry_after env resp))"
proof -
  have "state_io_rel R (modify_context (set_poll_interval (retry_after env resp)))"
    unfolding modify_context_def by (intro io_modify on_poll)
  then show ?thesis unfolding update_poll_interval_def by (intro io_steps io_persist)
qed

lemma io_do_omaha: "state_io_rel R (do_omaha_request env b)"
proof -
  have "state_io_rel R (handle_response env cup md resp)" for cup md resp
    unfolding handle_response_def by (intro io_steps io_update_poll)
  moreover have "state_io_rel R (draw_nonce env cup)" for cup
    unfolding draw_nonce_def by (intro io_steps)
  moreover have "state_io_rel R (make_request env req)" for req
    unfolding make_request_def by (intro io_steps io_emit) simp
  ultimately show ?thesis unfolding do_omaha_request_def by (intro io_steps)
qed

lemma io_report_event: "state_io_rel R (report_omaha_event env ps ev as g nv d)"
  unfolding report_omaha_event_def Let_def by (intro io_steps io_do_omaha)

lemma io_check_interval: "state_io_rel R (report_check_interval env src)"
proof -
  have "state_io_rel R (modify_context (set_last_update_check_time t))" for t
    unfolding modify_context_def by (intro io_modify on_check_time)
  then show ?thesis unfolding report_check_interval_def
    by (auto intro!: io_steps split: option.splits partial_complex_time.splits)
qed

lemma io_first_seen: "state_io_rel R (record_update_first_seen_time env p t)"
  by (rule state_io_relI)
     (auto simp: record_update_first_seen_time_def modify_storage_def split_beta
       intro: on_storage writes_first_seen)

lemma io_attempt: "state_io_rel R (omaha_attempt env b)"
  unfolding omaha_attempt_def by (intro io_steps io_do_omaha)

lemma io_back_off: "state_io_rel R (back_off env n)"
  unfolding back_off_def Let_def by (intro io_steps)

lemma io_request_loop: "state_io_rel R (request_loop env b n)"
proof (induction "MAX_OMAHA_REQUEST_ATTEMPTS - n" arbitrary: n rule: less_induct)
  case less
  have "state_io_rel R (request_loop env b (n + 1))" if "\<not> gives_up n i e" for i e
    using not_gives_up_attempt [OF that] by (intro less) simp
  then show ?case
    by (subst request_loop.simps) (intro io_steps io_attempt io_back_off; simp)
qed

lemma io_install_parts:
  "state_io_rel R (begin_install env ps as g nv pl)"
  "state_io_rel R (report_install_duration t t' rs)"
  "state_io_rel R (report_results env ps g evs)"
  "state_io_rel R (report_installed env ps as g nv d)"
  "state_io_rel R (finish_install env nv pl t t' ir)"
  "state_io_rel R (install_failed ars es)"
  unfolding begin_install_def report_install_duration_def report_results_def report_installed_def
    finish_install_def install_failed_def Let_def
  by (intro io_steps io_do_omaha io_report_event io_first_seen)+

lemma io_plan_outcomes:
  "state_io_rel R (parse_failed env ps as g e)"
  "state_io_rel R (plan_failed env ps as g nv x)"
  "state_io_rel R (plan_deferred env ps as g nv resp)"
  "state_io_rel R (plan_denied env ps as g nv resp)"
  unfolding parse_failed_def plan_failed_def plan_deferred_def plan_denied_def
  by (intro io_steps io_report_event)+

lemma io_run_install: "state_io_rel R (emit (Installing pl)) \<Longrightarrow> state_io_rel R (run_install env pl)"
  unfolding run_install_def by (intro io_steps)

lemma io_install_update:
  "state_io_rel R (emit (Installing pl)) \<Longrightarrow> state_io_rel R (install_update env ps as g resp pl)"
  unfolding install_update_def Let_def by (intro io_steps io_install_parts io_run_install)

lemma io_process_plan:
  assumes "\<And>m. R m (m\<lparr>sm_trace := sm_trace m @ [PlanDecided pl UpdateOk]\<rparr>)"
    and "state_io_rel R (emit (Installing pl))"
  shows "state_io_rel R (process_plan env ps as g resp pl)"
proof -
  have "state_io_rel R (emit (PlanDecided pl d))" for d
    using assms(1) on_aux [of "PlanDecided pl d"] unfolding emit_def by (cases d) (auto intro: io_modify)
  moreover have "state_io_rel R (case d of UpdateOk \<Rightarrow> install_update env ps as g resp pl
      | UpdateDeferredByPolicy \<Rightarrow> plan_deferred env ps as g nv resp
      | UpdateDeniedByPolicy \<Rightarrow> plan_denied env ps as g nv resp)" for d nv
    using assms(2) by (cases d) (simp_all add: io_install_update io_plan_outcomes)
  ultimately show ?thesis unfolding process_plan_def Let_def by (intro io_steps)
qed

text \<open>A check stays in the relation when the handling of a plan does.\<close>

lemma io_process_response:
  assumes "\<And>pl. state_io_rel R (process_plan env ps as g resp pl)"
  shows "state_io_rel R (process_response env ps as g rcv resp)"
  unfolding process_response_def Let_def using assms by (intro io_steps io_plan_outcomes)

lemma io_perform_update_check:
  assumes "\<And>g resp pl. state_io_rel R (process_plan env ps as g resp pl)"
  shows "state_io_rel R (perform_update_check env ps as)"
  unfolding perform_update_check_def
  using assms by (intro io_steps io_check_interval io_request_loop io_plan_outcomes io_process_response)

end

section \<open>The steps of the machine\<close>

locale machine_effects = check_effects +
  assumes on_context: "poll_interval c = poll_interval (sm_context m) \<Longrightarrow> R m (m\<lparr>sm_context := c\<rparr>)"
    and on_app_set: "R m (m\<lparr>sm_app_set := update_from_omaha (apps_api env) rs (sm_app_set m)\<rparr>)"
begin

lemma io_modify_context: "(\<And>c. poll_interval (f c) = poll_interval c) \<Longrightarrow> state_io_rel R (modify_context f)"
  unfolding modify_context_def by (intro io_modify on_context)

lemma io_context_updates:
  "state_io_rel R (modify_context (set_failed_checks n))"
  "state_io_rel R (modify_context (\<lambda>c. set_failed_checks (h c) c))"
  "state_io_rel R (modify_context (set_last_update_time t))"
  "state_io_rel R (modify_context (set_next_update_time ct))"
  by (intro io_modify_context; simp add: context_updates)+

lemma io_update_apps: "state_io_rel R (modify_app_set (update_from_omaha (apps_api env) rs))"
  unfolding modify_app_set_def by (intro io_modify on_app_set)

lemmas io_machine = io_steps io_context_updates io_update_apps io_persist

lemma io_outcome:
  "state_io_rel R (check_succeeded env ars)" "state_io_rel R (check_failed env x)" "state_io_rel R (yield_outcome r)"
  unfolding check_succeeded_def check_failed_def yield_outcome_def touch_last_update_time_def
    report_attempts_to_successful_check_def report_attempts_to_successful_install_def Let_def
  by (intro io_machine)+

lemma io_start_update_check:
  assumes "\<And>as g resp pl. state_io_rel R (process_plan env ps as g resp pl)"
  shows "state_io_rel R (start_update_check env ps)"
  unfolding start_update_check_def using assms by (intro io_machine io_perform_update_check io_outcome)

lemma io_ping: "state_io_rel R (ping_omaha env)"
  unfolding ping_omaha_def ping_failed_def Let_def by (intro io_machine io_do_omaha)

lemma io_schedule: "state_io_rel R (schedule_next_check env)"
proof -
  have "state_io_rel R (make_wait_to_next_check ct)" for ct
    unfolding make_wait_to_next_check_def by (intro io_steps io_emit) simp
  then show ?thesis
    unfolding schedule_next_check_def update_next_update_time_def by (intro io_machine)
qed

lemma io_decide: "state_io_rel R (decide_check env opts)"
  unfolding decide_check_def by (intro io_machine io_emit) simp

lemma io_ping_timer: "state_io_rel R (ping_timer_fired env)"
  unfolding ping_timer_fired_def by (intro io_machine io_ping io_schedule)

end

section \<open>The steps of the loops\<close>

locale loop_actions = machine_effects +
  assumes on_plan: "state_io_rel R (process_plan env ps as g resp pl)"
    and on_reboot: "state_io_rel R otherwise \<Longrightarrow>
          state_io_rel R (State_Monad.bind (ask_reboot env opts ir) (reboot_if env otherwise))"
begin

lemma io_reboot_questions:
  "state_io_rel R (enter_reboot_wait env opts ir)"
  "state_io_rel R (reboot_timer_fired env opts ir)"
  "state_io_rel R (reboot_on_demand env opts ir)"
  unfolding enter_reboot_wait_def reboot_timer_fired_def reboot_on_demand_def
  by (intro io_machine on_reboot io_emit io_schedule; simp)+

lemma acting_R:
  assumes "state_io_rel R act" and "\<And>r l. R (lp_machine l) (lp_machine (k r l))"
  shows "R (lp_machine l) (lp_machine (acting act k l))"
proof -
  have "R (lp_machine l) (snd (run_state act (lp_machine l)))"
    using assms(1) by (simp add: state_io_rel_def)
  then show ?thesis using assms(2) [of "l\<lparr>lp_machine := snd (run_state act (lp_machine l))\<rparr>"]
    unfolding acting_def by (auto intro: effect_trans)
qed

lemma lp_machine_moves [simp]:
  "lp_machine (goto p l) = lp_machine l" "lp_machine (answer i r l) = lp_machine l"
  "lp_machine (after_reboot_question opts ir done l) = lp_machine l"
  by (simp_all add: goto_def answer_def after_reboot_question_def split: option.splits)

lemma complete_check_R: "R (lp_machine l) (lp_machine (complete_check env opts ps l))"
  unfolding complete_check_def
proof (intro acting_R io_start_update_check on_plan)
  fix r l
  show "R (lp_machine l) (lp_machine ((case r of
         None \<Rightarrow> goto Panicked
       | Some NotNeeded \<Rightarrow> acting (yield_state Idle) (\<lambda>_. goto AtLoopHead)
       | Some (Needed ir) \<Rightarrow> acting (enter_reboot_wait env opts ir) (after_reboot_question opts ir)) l))"
    by (auto intro!: acting_R io_yields io_reboot_questions simp: effect_refl split: option.splits reboot_after_update.splits)
qed

lemma acting_from: "state_io_rel R act \<Longrightarrow> (\<And>r l. R (lp_machine l) (lp_machine (k r l))) \<Longrightarrow>
    lp_machine l' = lp_machine l \<Longrightarrow> R (lp_machine l) (lp_machine (acting act k l'))"
  using acting_R [of act k l'] by simp

lemma consider_check_from:
  "lp_machine l' = lp_machine l \<Longrightarrow> R (lp_machine l) (lp_machine (consider_check env opts i l'))"
  unfolding consider_check_def by (intro acting_from io_decide) (simp_all add: effect_refl split: option.splits)

lemma other_step_R: "step env l l' \<Longrightarrow> R (lp_machine l) (lp_machine l') \<or> l' = loop_head env l"
proof (induction rule: step.induct)
  case (step_loop_head l)
  show ?case by simp
qed (auto intro!: disjI1 complete_check_R acting_from io_reboot_questions io_ping_timer consider_check_from
        simp: effect_refl on_world)

end

text \<open>With the report at the head of the loop.\<close>

locale loop_effects = loop_actions +
  assumes on_wait: "R m (m\<lparr>sm_trace := sm_trace m @ [Reported (WaitedForRebootDuration d)]\<rparr>)"
begin

lemma io_report_waited: "state_io_rel R (report_waited_for_reboot env t i)"
proof -
  have report: "state_io_rel R (report_metrics (WaitedForRebootDuration d))" for d
    unfolding report_metrics_def emit_def by (intro io_modify on_wait)
  show ?thesis
    unfolding report_waited_for_reboot_def
    by (intro io_bind io_outside io_option report io_writes io_return)
qed

lemma loop_head_R: "R (lp_machine l) (lp_machine (loop_head env l))"
proof -
  let ?l = "if lp_should_report l
        then (case lp_finish_time l of
                Some t \<Rightarrow> acting (report_waited_for_reboot env t (lp_start_mono l)) (\<lambda>r l. l\<lparr>lp_should_report := r\<rparr>) l
              | None \<Rightarrow> l)
        else l"
  have "R (lp_machine l) (lp_machine ?l)"
    by (auto intro!: acting_R io_report_waited simp: effect_refl split: option.splits)
  moreover have "R (lp_machine ?l) (lp_machine (acting (schedule_next_check env) (\<lambda>_. goto WaitingForCheck) ?l))"
    by (intro acting_R io_schedule) (simp add: effect_refl)
  ultimately show ?thesis unfolding loop_head_def by (rule effect_trans)
qed

lemma step_R: "step env l l' \<Longrightarrow> R (lp_machine l) (lp_machine l')"
  using other_step_R [of l l'] loop_head_R [of l] by auto

lemma reachable_R: "reachable env m l \<Longrightarrow> R m (lp_machine l)"
proof (induction rule: reachable.induct)
  case reachable_start
  show ?case by (auto simp: run_start_def Let_def effect_refl on_world split: prod.splits)
next
  case (reachable_step l l')
  then show ?case by (meson step_R effect_trans)
qed

end

section \<open>Relations that allow every effect but the report of a wait for a reboot, and every effect\<close>

locale quiet_effects = machine_effects +
  assumes on_other: "(\<And>d. e \<noteq> Reported (WaitedForRebootDuration d)) \<Longrightarrow> R m (m\<lparr>sm_trace := sm_trace m @ [e]\<rparr>)"
begin

lemma io_emit_other: "(\<And>d. e \<noteq> Reported (WaitedForRebootDuration d)) \<Longrightarrow> state_io_rel R (emit e)"
  unfolding emit_def by (intro io_modify on_other)

lemma io_plan_other: "state_io_rel R (process_plan env ps as g resp pl)"
  by (intro io_process_plan on_other io_emit_other) simp_all

lemma io_reboot_other:
  "state_io_rel R otherwise \<Longrightarrow> state_io_rel R (State_Monad.bind (ask_reboot env opts ir) (reboot_if env otherwise))"
  unfolding ask_reboot_def reboot_if_def do_reboot_def by (intro io_steps io_emit_other) simp_all

end

sublocale quiet_effects \<subseteq> loop_actions
  by unfold_locales (rule io_plan_other, rule io_reboot_other)

locale any_effects = quiet_effects +
  assumes on_report: "R m (m\<lparr>sm_trace := sm_trace m @ [Reported (WaitedForRebootDuration d)]\<rparr>)"

sublocale any_effects \<subseteq> loop_effects
  by unfold_locales (rule on_report)

end
