(* ===== verification/Demo_Environment.thy ===== *)
theory Demo_Environment imports Machine_Effects begin

text \<open>
  A concrete environment for the examples: the stub policy and installer of the repository, the in-memory
  storage, one app, and a server that answers every request with an update for it.  The world is
  the sequence of responses still to come, and the last response is repeated.
\<close>

definition demo_update_json :: json where
  "demo_update_json =
     JObj [(''response'', JObj [
       (''protocol'', JStr ''3.0''),
       (''app'', JArr [JObj [
          (''appid'', JStr ''a''), (''status'', JStr ''ok''),
          (''updatecheck'', JObj [(''status'', JStr ''ok''),
             (''manifest'', JObj [(''version'', JStr ''2''), (''actions'', JObj [(''action'', JArr [])]),
                (''packages'', JObj [(''package'', JArr [])])])])]])])]"

definition ok_response :: http_response where
  "ok_response = \<lparr>http_status = 200, http_header = (\<lambda>_. None), http_body = ''update''\<rparr>"

definition busy_response :: http_response where
  "busy_response = \<lparr>http_status = 503, http_header = (\<lambda>_. None), http_body = []\<rparr>"

type_synonym demo_world = "http_response list"

definition demo_time :: complex_time where
  "demo_time = \<lparr>wall = 1000000, mono = 5\<rparr>"

definition demo_env ::
  "(demo_world, mem_storage, storage_errors, vec_app_set, string, stub_plan, unit, stub_install_errors) env" where
  "demo_env =
     \<lparr>policy = stub_policy_engine (\<lambda>w. (demo_time, w)), inst = stub_installer False,
      http_send = (\<lambda>req w. case w of [] \<Rightarrow> (Inr ok_response, []) | r # rs \<Rightarrow> (Inr r, rs)),
      timer_wait = (\<lambda>_ w. w), now = (\<lambda>w. (demo_time, w)), now_in_walltime = (\<lambda>w. (wall demo_time, w)),
      now_in_monotonic = (\<lambda>w. (mono demo_time, w)), new_guid = (\<lambda>w. (GUID ''g'', w)), new_nonce = (\<lambda>w. (''n'', w)),
      random_u64 = (\<lambda>w. (7, w)), store = mem_ops, apps_api = vec_ops,
      json_to_vec = (\<lambda>_. Some ''body''), json_to_text = (\<lambda>_. Some ''text''), json_from_text = (\<lambda>_. None),
      json_from_slice = (\<lambda>s. if s = ''update'' then Some demo_update_json else None),
      head_ok = (\<lambda>_ _. True), header_text = Some, signature_bytes = (\<lambda>s. s)\<rparr>"

definition demo_config :: "string config" where
  "demo_config = \<lparr>cfg_updater = \<lparr>upd_name = ''u'', upd_version = version_from [1]\<rparr>,
     cfg_os = \<lparr>os_platform = [], os_version = ''1'', os_service_pack = [], os_arch = []\<rparr>,
     service_url = ''/'', omaha_public_keys = None\<rparr>"

definition demo_machine ::
  "demo_world \<Rightarrow> (demo_world, mem_storage, vec_app_set, string, string, stub_plan, stub_install_errors) machine" where
  "demo_machine w = build_machine demo_env demo_config None mem_new \<lparr>vas_apps = [sample_app ''a'']\<rparr> w"

section \<open>Evaluation\<close>

definition demo_app :: response_app where
  "demo_app = \<lparr>rapp_id = ''a'', rapp_status = StatusOk, rapp_cohort = cohort_default, rapp_ping = None,
     rapp_update_check = Some \<lparr>ruc_status = StatusOk, ruc_info = None, ruc_urls = None,
       ruc_manifest = Some \<lparr>man_version = ''2'', man_actions = [], man_packages = []\<rparr>, ruc_extra = \<lambda>_. None\<rparr>,
     rapp_events = None, rapp_extra = \<lambda>_. None\<rparr>"

definition demo_response :: response where
  "demo_response = \<lparr>resp_protocol_version = ''3.0'', resp_server = None, resp_daystart = None, resp_apps = [demo_app]\<rparr>"

lemma demo_response_simps [simp]:
  "resp_apps demo_response = [demo_app]" "resp_daystart demo_response = None" "has_update demo_app"
  "rapp_id demo_app = ''a''"
  by (simp_all add: demo_response_def demo_app_def has_update_def)

lemma demo_parse: "parse_omaha_response demo_env ''update'' = Inr demo_response"
  by (simp add: parse_omaha_response_def demo_env_def parse_json_response_def parse_safe_json_def starts_with_def
      safety_prefix_def demo_update_json_def demo_response_def demo_app_def de_response_wrapper_def de_response_def
      de_response_app_def de_update_check_def de_manifest_def de_actions_def de_packages_def de_simps
      de_status_def cohort_of_fields_def rest_fields_def cohort_default_def)

definition demo_request :: "string request_builder \<Rightarrow> http_request" where
  "demo_request b = \<lparr>hreq_method = ''POST'', hreq_uri = service_url (rb_config b), hreq_headers = request_headers b,
                     hreq_body = ''body''\<rparr>"

text \<open>The operations of the environment.\<close>

lemma demo_ops [simp]:
  "policy demo_env = stub_policy_engine (\<lambda>w. (demo_time, w))" "inst demo_env = stub_installer False"
  "http_send demo_env req [] = (Inr ok_response, [])" "http_send demo_env req (r # rs) = (Inr r, rs)"
  "timer_wait demo_env x w = w" "now demo_env w = (demo_time, w)" "now_in_walltime demo_env w = (wall demo_time, w)"
  "now_in_monotonic demo_env w = (mono demo_time, w)" "new_guid demo_env w = (GUID ''g'', w)"
  "random_u64 demo_env w = (7, w)" "store demo_env = mem_ops" "apps_api demo_env = vec_ops"
  "json_to_vec demo_env j = Some ''body''" "head_ok demo_env u h" "header_text demo_env t = Some t"
  by (simp_all add: demo_env_def)

lemma demo_stubs [simp]:
  "update_can_start (stub_policy_engine clk) pl w = (UpdateOk, w)"
  "reboot_needed (stub_policy_engine clk) pl w = (True, w)"
  "reboot_allowed (stub_policy_engine clk) opts ir w = (True, w)"
  "update_check_allowed (stub_policy_engine clk) as sch st opts w = (stub_update_check_allowed opts, w)"
  "perform_install (stub_installer False) pl' w' = (([], (), [Installed]), w')"
  "try_create_install_plan (stub_installer False) ps md demo_response bs sg w' = (Inr StubPlan, w')"
  by (simp_all add: stub_policy_engine_def stub_installer_def demo_response_def)

text \<open>The machine before and during a check against this server: no handler, no response prepared.\<close>

abbreviation demo_state ::
  "update_context \<Rightarrow> mem_storage \<Rightarrow> vec_app_set \<Rightarrow> (stub_plan, stub_install_errors) effect list
     \<Rightarrow> (demo_world, mem_storage, vec_app_set, string, string, stub_plan, stub_install_errors) machine" where
  "demo_state c s a t \<equiv>
     \<lparr>sm_config = demo_config, sm_cup_handler = None, sm_context = c, sm_storage = s, sm_app_set = a,
      sm_world = [], sm_trace = t\<rparr>"

lemma demo_omaha:
  assumes "poll_interval c = None"
  shows "wp (do_omaha_request demo_env b) Q (demo_state c s a t) =
           Q (Inr (''update'', None, None)) (demo_state c s a (t @ [SentRequest (demo_request b)]))"
  using assms
  by (simp add: do_omaha_request_def draw_nonce_def build_def build_intermediate_def http_request_from_def
      serialize_body_def make_request_def handle_response_def check_signature_def update_poll_interval_def
      retry_after_def ok_response_def status_is_success_def demo_request_def wp_simps)

lemma demo_loop:
  assumes "poll_interval c = None"
  shows "wp (request_loop demo_env b n) Q (demo_state c s a t) =
     Q (n, Inr (''update'', None, None)) (demo_state c s a (t @
         [SentRequest (demo_request (with_request_id (GUID ''g'') b)), Reported (UpdateCheckResponseTime 0 True)]))"
  using assms
  by (subst request_loop.simps) (simp add: omaha_attempt_def demo_omaha checked_duration_since_def action_defs wp_simps)

lemma demo_report:
  assumes "poll_interval c = None"
  shows "wp (report_omaha_event demo_env ps ev as g nv d) Q (demo_state c s a t) =
     Q () (demo_state c s a (t @ [SentRequest (demo_request (with_request_id (GUID ''g'') (with_session_id g
        (fold (add_app_event ev nv d) as (request_builder_new demo_config ps)))))]))"
  using assms by (simp add: report_omaha_event_def demo_omaha action_defs wp_simps Let_def)

lemma demo_results:
  assumes "poll_interval c = None"
  shows "wp (report_results demo_env ps g evs) Q (demo_state c s a t) =
     Q () (demo_state c s a (t @ [SentRequest (demo_request (with_request_id (GUID ''g'') (with_session_id g
        (fold (\<lambda>(a, e). add_event a e) evs (request_builder_new demo_config ps)))))]))"
  using assms by (simp add: report_results_def demo_omaha action_defs wp_simps Let_def)

lemma demo_install:
  assumes "poll_interval c = None"
  shows "wp (install_update demo_env ps [sample_app ''a''] g demo_response StubPlan)
     (\<lambda>r m'. r = Some (Inr ([app_response_of None Updated demo_app], Needed ())) \<and>
             Installing StubPlan \<in> set (sm_trace m') \<and> (\<exists>s' t'. m' = demo_state c s' a t'))
     (demo_state c s a t)"
  using assms
  by (simp add: install_update_def Let_def begin_install_def record_update_first_seen_time_def wp_simps action_defs
      demo_report split_beta run_install_def report_install_duration_def duration_since_def demo_results
      report_installed_def finish_install_def split: sum.splits)

lemma demo_perform:
  assumes "poll_interval c = None" "last_update_check_time (ctx_schedule c) = None"
  shows "wp (perform_update_check demo_env ps [sample_app ''a''])
     (\<lambda>r m'. r = Some (Inr ([app_response_of None Updated demo_app], Needed ())) \<and>
             Installing StubPlan \<in> set (sm_trace m') \<and>
             (\<exists>s' t'. m' = demo_state (set_last_update_check_time demo_time c) s' a t'))
     (demo_state c s a t)"
proof -
  have poll: "poll_interval (set_last_update_check_time demo_time c) = None"
    using assms by (simp add: context_updates)
  show ?thesis
    using assms poll demo_install [OF poll]
    by (simp add: perform_update_check_def action_defs report_check_interval_def wp_simps demo_loop demo_parse
        process_response_def process_plan_def Let_def)
qed

text \<open>With one app and an update for it, a check installs the update and asks for a reboot.\<close>

lemma demo_check:
  assumes "poll_interval c = None" "last_update_check_time (ctx_schedule c) = None" "vas_apps a = [sample_app ''a'']"
  shows "wp (start_update_check demo_env ps)
     (\<lambda>r m'. r = Some (Needed ()) \<and> Installing StubPlan \<in> set (sm_trace m') \<and> (\<exists>c' s' a' t'. m' = demo_state c' s' a' t'))
     (demo_state c s a t)"
proof -
  have apps: "get_apps vec_ops a = [sample_app ''a'']" using assms by (simp add: vec_ops_def)
  have success: "install_success [app_response_of None Updated demo_app] = Some True"
    by (simp add: install_success_def app_response_of_def)
  have perform: "wp (perform_update_check demo_env ps [sample_app ''a''])
     (\<lambda>r m'. r = Some (Inr ([app_response_of None Updated demo_app], Needed ())) \<and>
             Installing StubPlan \<in> set (sm_trace m') \<and>
             (\<exists>s' t'. m' = demo_state (set_last_update_check_time demo_time c) s' a t'))
     (demo_state c s a t)"
    by (intro demo_perform assms)
  have "wp (perform_update_check demo_env ps [sample_app ''a'']) (\<lambda>result. wp (case result of
        None \<Rightarrow> State_Monad.return None
      | Some (Inr (app_responses, reboot)) \<Rightarrow> do {
          check_succeeded demo_env app_responses;
          yield_outcome (Inr app_responses);
          persist_data demo_env;
          State_Monad.return (Some reboot) }
      | Some (Inl e) \<Rightarrow> do {
          check_failed demo_env e;
          yield_outcome (Inl e);
          persist_data demo_env;
          State_Monad.return (Some NotNeeded) })
      (\<lambda>r m'. r = Some (Needed ()) \<and> Installing StubPlan \<in> set (sm_trace m') \<and> (\<exists>c' s' a' t'. m' = demo_state c' s' a' t')))
      (demo_state c s a t)"
    by (rule wp_mono [OF perform])
       (auto simp: wp_simps check_succeeded_def touch_last_update_time_def action_defs success Let_def
         report_attempts_to_successful_check_def report_attempts_to_successful_install_def
         yield_outcome_def persist_data_def persist_context_def commit_def)
  then show ?thesis
    unfolding start_update_check_def wp_bind wp_apps_of by (simp add: apps)
qed

lemma demo_reboot:
  "wp (enter_reboot_wait demo_env opts ()) (\<lambda>r m'. r \<and> sm_trace m' =
       t @ [Yielded (StateChange WaitingForReboot), RebootDecided True, Rebooted, Yielded (StateChange Idle)])
     (demo_state c s a t)"
  by (simp add: enter_reboot_wait_def ask_reboot_def reboot_if_def do_reboot_def action_defs wp_simps stub_installer_def)

text \<open>A run of the loop that installs and reboots.\<close>

type_synonym demo_loop = "(demo_world, mem_storage, vec_app_set, string, string, stub_plan, unit, stub_install_errors) loop"

definition demo_app_set :: vec_app_set where
  "demo_app_set = \<lparr>vas_apps = [sample_app ''a'']\<rparr>"

lemma mem_new_reads [simp]:
  "get_string mem_ops mem_new k = None" "get_int mem_ops mem_new k = None" "get_time mem_ops mem_new k = None"
  by (simp_all add: mem_ops_def mem_get_string_def mem_get_int_def mem_new_def get_time_def)

lemma demo_machine_state:
  "demo_machine [] = demo_state (context_load mem_ops mem_new) mem_new demo_app_set []"
  by (simp add: demo_machine_def build_machine_def app_set_load_def demo_app_set_def)
     (simp add: vec_ops_def app_load_def)

lemma demo_context: "poll_interval (context_load mem_ops mem_new) = None"
  "last_update_check_time (ctx_schedule (context_load mem_ops mem_new)) = None"
  by (simp_all add: context_load_def Let_def)

lemma demo_valid: "all_valid vec_ops demo_app_set"
  by (simp add: all_valid_def vec_ops_def demo_app_set_def app_valid_def sample_app_def version_from_def)

lemma demo_loop_head:
  defines "l1 \<equiv> loop_head demo_env (run_start demo_env (demo_machine []) ::
     (demo_world, mem_storage, vec_app_set, string, string, stub_plan, unit, stub_install_errors) loop)"
  shows "lp_phase l1 = WaitingForCheck"
    and "\<exists>c t. lp_machine l1 = demo_state c mem_new demo_app_set t \<and>
           poll_interval c = None \<and> last_update_check_time (ctx_schedule c) = None"
proof -
  define l0 :: "(demo_world, mem_storage, vec_app_set, string, string, stub_plan, unit, stub_install_errors) loop"
    where "l0 = run_start demo_env (demo_machine [])"
  have l0: "\<not> lp_should_report l0" "lp_machine l0 = demo_state (context_load mem_ops mem_new) mem_new demo_app_set []"
    unfolding l0_def demo_machine_state by (simp_all add: run_start_def demo_valid)
  have l1: "l1 = acting (schedule_next_check demo_env) (\<lambda>_. goto WaitingForCheck) l0"
    unfolding l1_def loop_head_def l0_def [symmetric] using l0 by simp
  then show "lp_phase l1 = WaitingForCheck" by (simp add: acting_def goto_def)
  have "wp (schedule_next_check demo_env)
      (\<lambda>_ m'. \<exists>c t. m' = demo_state c mem_new demo_app_set t \<and> poll_interval c = None \<and> last_update_check_time (ctx_schedule c) = None)
      (demo_state (context_load mem_ops mem_new) mem_new demo_app_set [])"
    using demo_context
    by (simp add: schedule_next_check_def update_next_update_time_def make_wait_to_next_check_def action_defs wp_simps
        stub_policy_engine_def stub_compute_next_update_time_def context_updates)
  then show "\<exists>c t. lp_machine l1 = demo_state c mem_new demo_app_set t \<and>
           poll_interval c = None \<and> last_update_check_time (ctx_schedule c) = None"
    unfolding l1 acting_def wp_fst_snd l0 by (simp add: goto_def)
qed

lemma demo_run:
  "\<exists>l. reachable demo_env (demo_machine []) l \<and> Installing StubPlan \<in> set (sm_trace (lp_machine l)) \<and>
       Rebooted \<in> set (sm_trace (lp_machine l))"
proof -
  define l1 where "l1 = loop_head demo_env (run_start demo_env (demo_machine []))"
  define l2 where "l2 = consider_check demo_env check_options_default None l1"
  define ps where "ps = request_params_default\<lparr>rp_source := opt_source check_options_default, use_configured_proxies := True\<rparr>"
  define l3 where "l3 = complete_check demo_env check_options_default ps l2"
  obtain c t where c: "lp_machine l1 = demo_state c mem_new demo_app_set t" "poll_interval c = None"
    "last_update_check_time (ctx_schedule c) = None" and l1: "lp_phase l1 = WaitingForCheck"
    using demo_loop_head unfolding l1_def by blast
  have "lp_phase (run_start demo_env (demo_machine [])) = AtLoopHead"
    unfolding demo_machine_state by (simp add: run_start_def demo_valid)
  then have r1: "reachable demo_env (demo_machine []) l1"
    unfolding l1_def by (intro reachable_step [OF reachable_start] step_loop_head)
  have r2: "reachable demo_env (demo_machine []) l2"
    unfolding l2_def by (intro reachable_step [OF r1] step_timer l1)
  have decide: "wp (decide_check demo_env check_options_default)
     (\<lambda>r m'. r = Some ps \<and> (\<exists>t'. m' = demo_state c mem_new demo_app_set t')) (demo_state c mem_new demo_app_set t)"
    by (simp add: decide_check_def wp_simps stub_update_check_allowed_def ps_def)
  then obtain t2 where l2: "lp_machine l2 = demo_state c mem_new demo_app_set t2"
      "lp_phase l2 = CheckInProgress check_options_default ps"
    unfolding l2_def consider_check_def acting_def wp_fst_snd c by (auto simp: goto_def answer_def)
  have r3: "reachable demo_env (demo_machine []) l3"
    unfolding l3_def by (intro reachable_step [OF r2] step_complete l2)
  have "wp (start_update_check demo_env ps)
     (\<lambda>r m'. r = Some (Needed ()) \<and> Installing StubPlan \<in> set (sm_trace m') \<and> (\<exists>c' s' a' t'. m' = demo_state c' s' a' t'))
     (demo_state c mem_new demo_app_set t2)"
    by (intro demo_check c) (simp add: demo_app_set_def)
  then obtain c' s' a' t' where check: "run_state (start_update_check demo_env ps) (lp_machine l2) =
      (Some (Needed ()), demo_state c' s' a' t')" and t': "Installing StubPlan \<in> set t'"
    unfolding l2 wp_def by (auto split: prod.splits)
  then have "sm_trace (lp_machine l3) =
      t' @ [Yielded (StateChange WaitingForReboot), RebootDecided True, Rebooted, Yielded (StateChange Idle)]"
    using demo_reboot [of check_options_default t' c' s' a']
    unfolding l3_def complete_check_def acting_def wp_fst_snd
    by (auto simp: after_reboot_question_def goto_def)
  with r3 t' show ?thesis by auto
qed

end
