(* ===== verification/Consent.thy ===== *)
theory Consent imports Demo_Environment begin

text \<open>
  Installations and reboots need the policy's consent: a class of traces, the proof that every step of the
  machine extends the trace within it, and the safety properties of all reachable states.
\<close>

section \<open>The class\<close>

text \<open>A plan is installed only if it is in \<open>A\<close> or was approved before.\<close>

fun installs_from :: "'pl set \<Rightarrow> ('pl, 'x) effect list \<Rightarrow> bool" where
  "installs_from A [] \<longleftrightarrow> True"
| "installs_from A (PlanDecided p d # es) \<longleftrightarrow> installs_from (if d = UpdateOk then insert p A else A) es"
| "installs_from A (Installing p # es) \<longleftrightarrow> p \<in> A \<and> installs_from A es"
| "installs_from A (_ # es) \<longleftrightarrow> installs_from A es"

text \<open>The reboot is performed only directly after a positive answer.\<close>

fun reboots_from :: "bool \<Rightarrow> ('pl, 'x) effect list \<Rightarrow> bool" where
  "reboots_from c [] \<longleftrightarrow> True"
| "reboots_from c (RebootDecided b # es) \<longleftrightarrow> reboots_from b es"
| "reboots_from c (Rebooted # es) \<longleftrightarrow> c \<and> reboots_from False es"
| "reboots_from c (_ # es) \<longleftrightarrow> reboots_from False es"

definition lawful :: "'pl set \<Rightarrow> bool \<Rightarrow> ('pl, 'x) effect list \<Rightarrow> bool" where
  "lawful A c es \<longleftrightarrow> installs_from A es \<and> reboots_from c es"

lemma installs_from_mono: "installs_from A es \<Longrightarrow> A \<subseteq> B \<Longrightarrow> installs_from B es"
proof (induction es arbitrary: A B)
  case (Cons e es)
  show ?case
  proof (cases e)
    case (PlanDecided p d)
    with Cons.prems Cons.IH [of "if d = UpdateOk then insert p A else A" "if d = UpdateOk then insert p B else B"]
    show ?thesis by (auto split: if_splits)
  qed (use Cons in auto)
qed simp

lemma installs_from_append: "installs_from A xs \<Longrightarrow> installs_from A ys \<Longrightarrow> installs_from A (xs @ ys)"
proof (induction A xs rule: installs_from.induct)
  case (2 A p d es)
  moreover have "installs_from (if d = UpdateOk then insert p A else A) ys"
    using "2.prems"(2) by (rule installs_from_mono) auto
  ultimately show ?case by simp
qed auto

lemma reboots_from_mono: "reboots_from False es \<Longrightarrow> reboots_from c es"
proof (cases es)
  case (Cons e es')
  then show "reboots_from False es \<Longrightarrow> reboots_from c es" by (cases e) auto
qed simp

lemma reboots_from_append: "reboots_from c xs \<Longrightarrow> reboots_from False ys \<Longrightarrow> reboots_from c (xs @ ys)"
  by (induction c xs rule: reboots_from.induct) (auto intro: reboots_from_mono)

lemma lawful_append: "lawful A c xs \<Longrightarrow> lawful A False ys \<Longrightarrow> lawful A c (xs @ ys)"
  by (simp add: lawful_def installs_from_append reboots_from_append)

text \<open>What membership in the class says of a trace.\<close>

lemma installs_from_split: "installs_from A (xs @ Installing p # ys) \<Longrightarrow> p \<in> A \<or> PlanDecided p UpdateOk \<in> set xs"
  by (induction A xs rule: installs_from.induct) (auto split: if_splits)

lemma reboots_from_split:
  "reboots_from c (xs @ Rebooted # ys) \<Longrightarrow> xs = [] \<and> c \<or> xs \<noteq> [] \<and> last xs = RebootDecided True"
proof (induction c xs rule: reboots_from.induct)
  case (2 c b es)
  then show ?case by (cases es) auto
next
  case (3 c es)
  then show ?case by (cases es) auto
qed (auto split: if_splits)

section \<open>Every step stays in the class\<close>

interpretation lawful: effect_class "lawful A False" for A
  by unfold_locales (simp add: lawful_def, rule lawful_append)

lemma lawful_auxiliary: "auxiliary e \<Longrightarrow> lawful A c [e]"
  by (cases e) (auto simp: lawful_def)

lemma trace_rel_step [simp]:
  "trace_rel P m (m\<lparr>sm_trace := sm_trace m @ [e]\<rparr>) = P [e]"
  "trace_rel P m (m\<lparr>sm_world := w\<rparr>) = P []"
  "trace_rel P m (m\<lparr>sm_storage := s\<rparr>) = P []"
  "trace_rel P m (m\<lparr>sm_context := c\<rparr>) = P []"
  "trace_rel P m (m\<lparr>sm_app_set := a\<rparr>) = P []"
  by (auto simp: trace_rel_def)

lemma lawful_Nil [simp]: "lawful A c []"
  by (simp add: lawful_def)

interpretation lawful_machine: machine_effects "trace_rel (lawful A False)" env for A env
  by unfold_locales (simp_all add: lawful_auxiliary)

text \<open>An effect before a program of one class puts the whole in another.\<close>

lemma io_prefix:
  assumes "state_io_rel (trace_rel P) f" and "\<And>es. P es \<Longrightarrow> Q (e # es)"
  shows "state_io_rel (trace_rel Q) (State_Monad.bind (emit e) (\<lambda>_. f))"
proof (rule state_io_relI)
  fix a m m'
  assume "run_state (State_Monad.bind (emit e) (\<lambda>_. f)) m = (a, m')"
  then have "run_state f (m\<lparr>sm_trace := sm_trace m @ [e]\<rparr>) = (a, m')" by (simp add: emit_def)
  with assms(1) have "trace_rel P (m\<lparr>sm_trace := sm_trace m @ [e]\<rparr>) m'" by blast
  then show "trace_rel Q m m'" using assms(2) by (auto simp: trace_rel_def)
qed

lemma lawful_process_plan: "state_io_rel (trace_rel (lawful A False)) (process_plan env ps as g resp pl)"
proof -
  have installing: "state_io_rel (trace_rel (lawful (insert pl A) False)) (emit (Installing pl) :: (_, unit) state)"
    unfolding emit_def by (intro lawful.io_modify) (simp add: lawful_def)
  have "state_io_rel (trace_rel (lawful A False))
      (State_Monad.bind (emit (PlanDecided pl d)) (\<lambda>_. case d of
         UpdateOk \<Rightarrow> install_update env ps as g resp pl
       | UpdateDeferredByPolicy \<Rightarrow> plan_deferred env ps as g nv resp
       | UpdateDeniedByPolicy \<Rightarrow> plan_denied env ps as g nv resp))" for d nv
  proof (cases d)
    case UpdateOk
    then show ?thesis
      using io_prefix [OF lawful_machine.io_install_update [OF installing],
          where Q = "lawful A False" and e = "PlanDecided pl UpdateOk"]
      by (simp add: lawful_def)
  qed (auto intro!: lawful.io_bind lawful_machine.io_emit lawful_machine.io_plan_outcomes)
  then show ?thesis unfolding process_plan_def Let_def
    by (rule lawful.io_bind [OF lawful_machine.io_outside])
qed

lemma lawful_reboot:
  assumes "state_io_rel (trace_rel (lawful A False)) otherwise"
  shows "state_io_rel (trace_rel (lawful A False)) (State_Monad.bind (ask_reboot env opts ir) (reboot_if env otherwise))"
proof -
  have "state_io_rel (trace_rel (lawful A False)) (State_Monad.bind (outside (perform_reboot (inst env))) (\<lambda>_. State_Monad.bind (yield_state Idle) (\<lambda>_. State_Monad.return True)))"
    by (intro lawful_machine.io_steps)
  then have "state_io_rel (trace_rel (lawful A True)) (State_Monad.bind (emit Rebooted) (\<lambda>_.
      State_Monad.bind (outside (perform_reboot (inst env))) (\<lambda>_. State_Monad.bind (yield_state Idle) (\<lambda>_. State_Monad.return True))))"
    by (rule io_prefix) (simp add: lawful_def)
  then have "state_io_rel (trace_rel (lawful A False)) (State_Monad.bind (emit (RebootDecided True)) (\<lambda>_. reboot_if env otherwise True))"
    unfolding reboot_if_def do_reboot_def if_True State_Monad.bind_assoc by (rule io_prefix) (simp add: lawful_def)
  moreover have "state_io_rel (trace_rel (lawful A False)) (State_Monad.bind (emit (RebootDecided False)) (\<lambda>_. reboot_if env otherwise False))"
    unfolding reboot_if_def using assms by (auto intro!: lawful_machine.io_steps lawful_machine.io_emit)
  ultimately have "state_io_rel (trace_rel (lawful A False)) (State_Monad.bind (emit (RebootDecided b)) (\<lambda>_. reboot_if env otherwise b))" for b
    by (cases b) simp_all
  then show ?thesis
    unfolding ask_reboot_def State_Monad.bind_assoc State_Monad.bind_left_identity
    by (rule lawful.io_bind [OF lawful_machine.io_outside])
qed

interpretation lawful_loop: loop_effects "trace_rel (lawful A False)" env for A env
  by unfold_locales (rule lawful_process_plan, erule lawful_reboot, simp add: lawful_def)

section \<open>Properties\<close>

text \<open>C1: In every state the state machine can reach, whatever the server, the policy and the users do, an update is
  installed only after the policy allowed exactly this plan to start.\<close>

theorem installs_only_approved_plans:
  assumes "reachable env (build_machine env cfg cup s a w) l"
    and "sm_trace (lp_machine l) = before @ Installing plan # after"
  shows "PlanDecided plan UpdateOk \<in> set before"
proof -
  from lawful_loop.reachable_R [OF assms(1), where A = "{}"] have "lawful {} False (sm_trace (lp_machine l))"
    by (auto simp: trace_rel_def build_machine_def)
  then show ?thesis using assms(2) installs_from_split [of "{}" before plan after] by (simp add: lawful_def)
qed

theorem installs_only_approved_plans_witness:
  "\<exists>l before after. reachable demo_env (demo_machine []) l \<and>
     sm_trace (lp_machine l) = before @ Installing StubPlan # after \<and> PlanDecided StubPlan UpdateOk \<in> set before"
proof -
  obtain l where l: "reachable demo_env (demo_machine []) l" and "Installing StubPlan \<in> set (sm_trace (lp_machine l))"
    using demo_run by blast
  then obtain before after where split: "sm_trace (lp_machine l) = before @ Installing StubPlan # after"
    by (auto dest: split_list)
  from installs_only_approved_plans [OF l [unfolded demo_machine_def] split] l split show ?thesis by blast
qed

text \<open>C2: In every reachable state, the installer is asked to reboot only directly after the policy answered that a
  reboot is allowed.\<close>

theorem reboots_only_when_allowed:
  assumes "reachable env (build_machine env cfg cup s a w) l"
    and "sm_trace (lp_machine l) = before @ Rebooted # after"
  shows "before \<noteq> [] \<and> last before = RebootDecided True"
proof -
  from lawful_loop.reachable_R [OF assms(1), where A = "{}"] have "lawful {} False (sm_trace (lp_machine l))"
    by (auto simp: trace_rel_def build_machine_def)
  then show ?thesis using assms(2) reboots_from_split [of False before after] by (simp add: lawful_def)
qed

theorem reboots_only_when_allowed_witness:
  "\<exists>l before after. reachable demo_env (demo_machine []) l \<and> sm_trace (lp_machine l) = before @ Rebooted # after \<and>
     before \<noteq> [] \<and> last before = RebootDecided True"
proof -
  obtain l where l: "reachable demo_env (demo_machine []) l" and "Rebooted \<in> set (sm_trace (lp_machine l))"
    using demo_run by blast
  then obtain before after where split: "sm_trace (lp_machine l) = before @ Rebooted # after"
    by (auto dest: split_list)
  from reboots_only_when_allowed [OF l [unfolded demo_machine_def] split] l split show ?thesis by blast
qed

end
