(* ===== verification/Check_Properties.thy ===== *)
theory Check_Properties imports Demo_Environment begin

text \<open>
  What a whole update check does to the machine's books: the counters, times and apps it changes and the
  ones it leaves, what it yields at its end, and that its result is persisted; and the bounds that hold
  of the context and of the app set in every reachable state.
\<close>

section \<open>What the request and installation phases leave alone\<close>

definition check_frame ::
  "('w, 's, 'a, 'k, 'd, 'pl, 'x) machine \<Rightarrow> ('w, 's, 'a, 'k, 'd, 'pl, 'x) machine \<Rightarrow> bool" where
  "check_frame m m' \<longleftrightarrow>
     last_update_time (ctx_schedule (sm_context m')) = last_update_time (ctx_schedule (sm_context m)) \<and>
     next_update_time (ctx_schedule (sm_context m')) = next_update_time (ctx_schedule (sm_context m)) \<and>
     failed_checks (sm_context m') = failed_checks (sm_context m) \<and> sm_app_set m' = sm_app_set m \<and>
     sm_config m' = sm_config m \<and> sm_cup_handler m' = sm_cup_handler m"

interpretation frame: check_effects check_frame env for env
  by unfold_locales (simp_all add: check_frame_def context_updates)

lemma check_frame_any: "check_frame m (m\<lparr>sm_trace := sm_trace m @ [e]\<rparr>)"
  by (simp add: check_frame_def)

lemma frame_emit: "state_io_rel check_frame (emit e)"
  unfolding emit_def by (intro frame.io_modify check_frame_any)

lemma perform_frame: "wp (perform_update_check env ps as) (\<lambda>_. check_frame m) m"
  by (intro wp_of_io_rel frame.io_perform_update_check frame.io_process_plan check_frame_any frame_emit)

section \<open>The poll interval and the app set in all reachable states\<close>

definition DAY :: duration where "DAY = duration_from_secs 86400"

lemma retry_after_le: "retry_after env resp = Some d \<Longrightarrow> d \<le> DAY"
proof -
  assume some: "retry_after env resp = Some d"
  then obtain h where "http_header resp X_RETRY_AFTER = Some h"
    by (cases "http_header resp X_RETRY_AFTER") (simp_all add: retry_after_def)
  with some obtain s where "header_text env h = Some s" and
    "(case parse_u64 s of Inl _ \<Rightarrow> None | Inr seconds \<Rightarrow> Some (duration_from_secs (min seconds 86400))) = Some d"
    by (cases "header_text env h") (simp_all add: retry_after_def)
  then show ?thesis
    by (cases "parse_u64 s") (auto simp: DAY_def duration_from_secs_def)
qed

definition poll_rel ::
  "('w, 's, 'a, 'k, 'd, 'pl, 'x) machine \<Rightarrow> ('w, 's, 'a, 'k, 'd, 'pl, 'x) machine \<Rightarrow> bool" where
  "poll_rel m m' \<longleftrightarrow>
     poll_interval (sm_context m') = poll_interval (sm_context m) \<or>
     (\<forall>d. poll_interval (sm_context m') = Some d \<longrightarrow> d \<le> DAY)"

interpretation poll: any_effects poll_rel env for env
  by unfold_locales (auto simp: poll_rel_def context_updates retry_after_le)

text \<open>For the app set of the library.\<close>

definition app_rel ::
  "('w, 's, 'e, vec_app_set, 'd, 'pl, 'ir, 'x) env \<Rightarrow> ('w, 's, vec_app_set, 'k, 'd, 'pl, 'x) machine
     \<Rightarrow> ('w, 's, vec_app_set, 'k, 'd, 'pl, 'x) machine \<Rightarrow> bool" where
  "app_rel env m m' \<longleftrightarrow>
     sm_config m' = sm_config m \<and> sm_cup_handler m' = sm_cup_handler m \<and>
     (apps_api env = vec_ops \<longrightarrow>
        map app_id (vas_apps (sm_app_set m')) = map app_id (vas_apps (sm_app_set m)) \<and>
        map app_version (vas_apps (sm_app_set m')) = map app_version (vas_apps (sm_app_set m)) \<and>
        map app_fingerprint (vas_apps (sm_app_set m')) = map app_fingerprint (vas_apps (sm_app_set m)))"

lemma update_app_from_fingerprint: "app_fingerprint (update_app_from rs a) = app_fingerprint a"
  by (induction rs) auto

lemma vec_update: "vas_apps (update_from_omaha vec_ops rs s) = map (update_app_from rs) (vas_apps s)"
  using vec.get_apps_update [of rs s] by (simp add: vec_ops_def)

interpretation app_set: any_effects "app_rel env" env for env
  by unfold_locales (simp_all add: app_rel_def vec_update update_app_from_fingerprint comp_def)

lemma all_valid_ids_versions:
  "map app_id as = map app_id bs \<Longrightarrow> map app_version as = map app_version bs \<Longrightarrow>
   list_all app_valid as = list_all app_valid bs"
proof (induction as arbitrary: bs)
  case (Cons a as)
  then obtain b bs' where "bs = b # bs'" by (cases bs) auto
  with Cons show ?case by (simp add: app_valid_def)
qed simp

section \<open>The end of a check\<close>

text \<open>The storage holds the final context and apps, committed.\<close>

definition persisted_by ::
  "('w, 's, 'e, 'a, 'd, 'pl, 'ir, 'x) env \<Rightarrow> ('w, 's, 'a, 'k, 'd, 'pl, 'x) machine \<Rightarrow> bool" where
  "persisted_by env m \<longleftrightarrow> (\<exists>s. sm_storage m = commit_or_log (store env)
     (app_set_persist (apps_api env) (store env) (json_to_text env) (sm_app_set m)
       (context_persist (store env) (sm_context m) s)))"

lemma persist_data_wp: "(\<And>s. persisted_by env (m\<lparr>sm_storage := s\<rparr>) \<Longrightarrow> Q () (m\<lparr>sm_storage := s\<rparr>)) \<Longrightarrow> wp (persist_data env) Q m"
  by (auto simp: persist_data_def persist_context_def commit_def wp_simps persisted_by_def)

lemma wp_top: "(\<And>a s. Q a s) \<Longrightarrow> wp f Q m"
  by (auto intro: wpI)

lemma persist_finish:
  "wp (State_Monad.bind f (\<lambda>_. State_Monad.bind g (\<lambda>_. State_Monad.bind (persist_data env) (\<lambda>_. State_Monad.return (Some z)))))
     (\<lambda>r m'. case r of None \<Rightarrow> True | Some reboot \<Rightarrow> persisted_by env m') m"
  by (simp only: wp_bind, rule wp_top, simp only: wp_bind, rule wp_top, simp only: wp_bind, rule persist_data_wp)
     (simp only: wp_return option.case)

lemma check_persists:
  "wp (start_update_check env ps) (\<lambda>r m'. case r of None \<Rightarrow> True | Some reboot \<Rightarrow> persisted_by env m') m"
  unfolding start_update_check_def wp_bind [of "apps_of env"] wp_apps_of wp_bind [of "perform_update_check env ps as" for as]
proof (rule wp_top)
  fix r and m1
  show "wp (case r of
        None \<Rightarrow> State_Monad.return None
      | Some (Inr (app_responses, reboot)) \<Rightarrow> do {
          check_succeeded env app_responses;
          yield_outcome (Inr app_responses);
          persist_data env;
          State_Monad.return (Some reboot) }
      | Some (Inl e) \<Rightarrow> do {
          check_failed env e;
          yield_outcome (Inl e);
          persist_data env;
          State_Monad.return (Some NotNeeded) })
      (\<lambda>r m'. case r of None \<Rightarrow> True | Some reboot \<Rightarrow> persisted_by env m') m1"
  proof (cases r)
    case None
    then show ?thesis by (simp add: wp_return)
  next
    case (Some x)
    then show ?thesis by (cases x) (auto simp only: option.case sum.case prod.case intro!: persist_finish)
  qed
qed

lemma run_start_context: "sm_context (lp_machine (run_start env m)) = sm_context m"
  by (simp add: run_start_def Let_def split: prod.splits)

lemma demo_machine_check:
  "\<exists>m'. run_state (start_update_check demo_env request_params_default) (demo_machine []) = (Some (Needed ()), m')"
proof -
  have "wp (start_update_check demo_env request_params_default)
     (\<lambda>r m'. r = Some (Needed ()) \<and> Installing StubPlan \<in> set (sm_trace m') \<and> (\<exists>c' s' a' t'. m' = demo_state c' s' a' t'))
     (demo_machine [])"
    unfolding demo_machine_state by (intro demo_check demo_context) (simp add: demo_app_set_def)
  then show ?thesis by (auto simp: wp_def split: prod.splits)
qed

section \<open>Properties\<close>

text \<open>C4: A check ends by yielding the schedule, the protocol state and the result, in this order and with the final
  values.  After a success the count of failed checks is 0, the last update time is a time of the clock and the apps took
  over what the server said; after a failure the count is one more (on 32 bits), the apps are untouched and no reboot
  is asked for, and the last update time is a new one exactly when Omaha had answered (an unreadable response or a plan
  that cannot be made) and is unchanged after a failed request.\<close>

theorem start_update_check_bookkeeping:
  assumes "run_state (start_update_check env ps) m = (Some reboot, m')"
  shows "\<exists>result before.
    sm_trace m' = before @ [Yielded (ScheduleChange (ctx_schedule (sm_context m'))),
                            Yielded (ProtocolStateChange (ctx_state (sm_context m'))),
                            Yielded (UpdateCheckResult result)] \<and>
    (case result of
       Inr app_responses \<Rightarrow>
         failed_checks (sm_context m') = 0 \<and>
         (\<exists>t. last_update_time (ctx_schedule (sm_context m')) = Some (Complex t)) \<and>
         sm_app_set m' = update_from_omaha (apps_api env) app_responses (sm_app_set m)
     | Inl e \<Rightarrow>
         failed_checks (sm_context m') = failed_checks (sm_context m) + 1 \<and>
         (if contacted_omaha e then \<exists>t. last_update_time (ctx_schedule (sm_context m')) = Some (Complex t)
          else last_update_time (ctx_schedule (sm_context m')) = last_update_time (ctx_schedule (sm_context m))) \<and>
         sm_app_set m' = sm_app_set m \<and> reboot = NotNeeded)"
proof -
  let ?P = "\<lambda>reboot m'. \<exists>result before.
    sm_trace m' = before @ [Yielded (ScheduleChange (ctx_schedule (sm_context m'))),
                            Yielded (ProtocolStateChange (ctx_state (sm_context m'))),
                            Yielded (UpdateCheckResult result)] \<and>
    (case result of
       Inr app_responses \<Rightarrow>
         failed_checks (sm_context m') = 0 \<and>
         (\<exists>t. last_update_time (ctx_schedule (sm_context m')) = Some (Complex t)) \<and>
         sm_app_set m' = update_from_omaha (apps_api env) app_responses (sm_app_set m)
     | Inl e \<Rightarrow>
         failed_checks (sm_context m') = failed_checks (sm_context m) + 1 \<and>
         (if contacted_omaha e then \<exists>t. last_update_time (ctx_schedule (sm_context m')) = Some (Complex t)
          else last_update_time (ctx_schedule (sm_context m')) = last_update_time (ctx_schedule (sm_context m))) \<and>
         sm_app_set m' = sm_app_set m \<and> reboot = NotNeeded)"
  have "wp (start_update_check env ps) (\<lambda>r m'. case r of None \<Rightarrow> True | Some reboot \<Rightarrow> ?P reboot m') m"
    unfolding start_update_check_def wp_bind wp_apps_of
  proof (rule wp_mono [OF perform_frame])
    fix r and m1
    assume "check_frame m m1"
    then show "wp (case r of
        None \<Rightarrow> State_Monad.return None
      | Some (Inr (app_responses, reboot)) \<Rightarrow> do {
          check_succeeded env app_responses;
          yield_outcome (Inr app_responses);
          persist_data env;
          State_Monad.return (Some reboot) }
      | Some (Inl e) \<Rightarrow> do {
          check_failed env e;
          yield_outcome (Inl e);
          persist_data env;
          State_Monad.return (Some NotNeeded) })
      (\<lambda>r m'. case r of None \<Rightarrow> True | Some reboot \<Rightarrow> ?P reboot m') m1"
      by (auto simp: check_frame_def context_updates wp_simps check_succeeded_def check_failed_def
          touch_last_update_time_def yield_outcome_def persist_data_def persist_context_def commit_def Let_def
          report_attempts_to_successful_check_def report_attempts_to_successful_install_def action_defs
          split: option.splits sum.splits prod.splits)
  qed
  from wpD [OF this assms] show ?thesis by (simp only: option.case)
qed

theorem start_update_check_bookkeeping_witness:
  "\<exists>m' result before. run_state (start_update_check demo_env request_params_default) (demo_machine []) = (Some (Needed ()), m') \<and>
     sm_trace m' = before @ [Yielded (ScheduleChange (ctx_schedule (sm_context m'))),
                             Yielded (ProtocolStateChange (ctx_state (sm_context m'))),
                             Yielded (UpdateCheckResult (Inr result))] \<and>
     failed_checks (sm_context m') = 0"
proof -
  obtain m' where run: "run_state (start_update_check demo_env request_params_default) (demo_machine []) = (Some (Needed ()), m')"
    using demo_machine_check by blast
  from start_update_check_bookkeeping [OF run] obtain result before where
    "sm_trace m' = before @ [Yielded (ScheduleChange (ctx_schedule (sm_context m'))),
                             Yielded (ProtocolStateChange (ctx_state (sm_context m'))),
                             Yielded (UpdateCheckResult result)]"
    and "case result of Inl e \<Rightarrow> Needed () = NotNeeded | Inr ars \<Rightarrow> failed_checks (sm_context m') = 0"
    by (elim exE conjE) (auto split: sum.split_asm simp: sum.case_eq_if)
  with run show ?thesis by (cases result) auto
qed

text \<open>C5: When a check is over its outcome is on disk: with the in-memory storage and the app set of the library, the
  storage is committed, and unless an app's id is one of the context's keys, loading it at the next start gives
  the final count of failures exactly, and the final poll interval and last update time to the microsecond.\<close>

theorem check_outcome_is_persisted:
  assumes "run_state (start_update_check env ps) m = (Some reboot, m')"
    and "store env = mem_ops" and "apps_api env = vec_ops"
    and "{LAST_UPDATE_TIME, SERVER_DICTATED_POLL_INTERVAL, CONSECUTIVE_FAILED_UPDATE_CHECKS} \<inter>
           app_id ` set (vas_apps (sm_app_set m')) = {}"
  shows "mem_is_committed (sm_storage m') \<and>
         (let c = context_load mem_ops (sm_storage m') in
          failed_checks c = failed_checks (sm_context m') \<and>
          poll_interval c = Option.bind (poll_interval (sm_context m')) poll_survives \<and>
          last_update_time (ctx_schedule c) =
            Option.bind (last_update_time (ctx_schedule (sm_context m')))
              (\<lambda>p. map_option from_micros_since_epoch (checked_to_micros_since_epoch p)))"
proof -
  have "wp (start_update_check env ps) (\<lambda>r m'. case r of None \<Rightarrow> True | Some reboot \<Rightarrow> persisted_by env m') m"
    by (rule check_persists)
  from wpD [OF this assms(1)] obtain s where s: "sm_storage m' = commit_or_log mem_ops
      (app_set_persist vec_ops mem_ops (json_to_text env) (sm_app_set m') (context_persist mem_ops (sm_context m') s))"
    using assms(2,3) by (auto simp: persisted_by_def)
  have "mem_data (sm_storage m') k = mem_data (context_persist mem_ops (sm_context m') s) k"
    if "k \<in> {LAST_UPDATE_TIME, SERVER_DICTATED_POLL_INTERVAL, CONSECUTIVE_FAILED_UPDATE_CHECKS}" for k
  proof -
    have "k \<notin> app_id ` set (vas_apps (sm_app_set m'))" using that assms(4) by blast
    then show ?thesis
      unfolding s mem.commit_or_log_view app_set_persist_def by (simp add: vec_ops_def fold_app_persist_other)
  qed
  then have "context_load mem_ops (sm_storage m') = context_load mem_ops (context_persist mem_ops (sm_context m') s)"
    by (simp add: context_load_def get_time_def mem.view_int)
  moreover have "mem_committed (sm_storage m')" unfolding s by simp
  ultimately show ?thesis by (simp add: mem.context_load_persist Let_def mem_is_committed_def)
qed

theorem check_outcome_is_persisted_witness:
  "\<exists>m'. run_state (start_update_check demo_env request_params_default) (demo_machine []) = (Some (Needed ()), m') \<and>
     mem_is_committed (sm_storage m') \<and>
     failed_checks (context_load mem_ops (sm_storage m')) = failed_checks (sm_context m')"
proof -
  obtain m' where run: "run_state (start_update_check demo_env request_params_default) (demo_machine []) = (Some (Needed ()), m')"
    using demo_machine_check by blast
  have "wp (start_update_check demo_env request_params_default) (\<lambda>_. app_rel demo_env (demo_machine [])) (demo_machine [])"
    by (intro wp_of_io_rel app_set.io_start_update_check app_set.io_plan_other)
  from wpD [OF this run] have "app_id ` set (vas_apps (sm_app_set m')) = {''a''}"
    by (simp add: app_rel_def demo_machine_state demo_app_set_def sample_app_def image_set)
  then have "mem_is_committed (sm_storage m') \<and>
      failed_checks (context_load mem_ops (sm_storage m')) = failed_checks (sm_context m')"
    using check_outcome_is_persisted [OF run] by (simp add: context_keys Let_def)
  with run show ?thesis by blast
qed

text \<open>C10: In every reachable state the poll interval that the server dictates is at most a day, except for the one that
  was loaded from storage at the start.\<close>

theorem poll_interval_capped:
  assumes "reachable env (build_machine env cfg cup s a w) l"
    and "poll_interval (sm_context (lp_machine l)) = Some d"
  shows "d \<le> DAY \<or> poll_interval (context_load (store env) s) = Some d"
  using poll.reachable_R [OF assms(1)] assms(2) by (auto simp: poll_rel_def build_machine_def)

theorem poll_interval_capped_witness:
  "\<exists>l d. reachable demo_env (build_machine demo_env demo_config None
           (snd (set_int mem_ops mem_new SERVER_DICTATED_POLL_INTERVAL 5)) demo_app_set []) l \<and>
       poll_interval (sm_context (lp_machine l)) = Some d \<and> (d \<le> DAY \<or> d = 5000)"
proof -
  let ?s = "snd (set_int mem_ops mem_new SERVER_DICTATED_POLL_INTERVAL 5)"
  let ?m = "build_machine demo_env demo_config None ?s demo_app_set []"
  have load: "poll_interval (context_load mem_ops ?s) = Some 5000"
    by (simp add: context_load_def Let_def mem_ops_def mem_set_int_def mem_get_int_def mem_new_def
        u64_try_from_i64_def duration_from_micros_def)
  have start: "poll_interval (sm_context (lp_machine (run_start demo_env ?m))) = Some 5000"
    unfolding run_start_context by (simp add: build_machine_def load)
  have "(5000 :: duration) \<le> DAY \<or> poll_interval (context_load (store demo_env) ?s) = Some 5000"
    by (rule poll_interval_capped [OF reachable_start start])
  with reachable_start [of demo_env ?m] start show ?thesis by blast
qed

text \<open>C21: The configuration and the CUP handler never change, nor do the ids, versions and fingerprints of the apps; a
  valid app set stays valid in every reachable state.\<close>

theorem apps_and_config_frozen:
  assumes "apps_api env = vec_ops" and "reachable env m l"
  shows "sm_config (lp_machine l) = sm_config m \<and> sm_cup_handler (lp_machine l) = sm_cup_handler m \<and>
         map app_id (vas_apps (sm_app_set (lp_machine l))) = map app_id (vas_apps (sm_app_set m)) \<and>
         map app_version (vas_apps (sm_app_set (lp_machine l))) = map app_version (vas_apps (sm_app_set m)) \<and>
         map app_fingerprint (vas_apps (sm_app_set (lp_machine l))) = map app_fingerprint (vas_apps (sm_app_set m)) \<and>
         all_valid vec_ops (sm_app_set (lp_machine l)) = all_valid vec_ops (sm_app_set m)"
proof -
  have rel: "app_rel env m (lp_machine l)" by (rule app_set.reachable_R [OF assms(2)])
  then have "list_all app_valid (vas_apps (sm_app_set (lp_machine l))) = list_all app_valid (vas_apps (sm_app_set m))"
    using assms(1) by (intro all_valid_ids_versions) (simp_all add: app_rel_def)
  with rel assms(1) show ?thesis by (simp add: app_rel_def all_valid_def vec_ops_def)
qed

theorem apps_and_config_frozen_witness:
  "\<exists>l. reachable demo_env (demo_machine []) l \<and> Installing StubPlan \<in> set (sm_trace (lp_machine l)) \<and>
       sm_config (lp_machine l) = demo_config \<and> all_valid vec_ops (sm_app_set (lp_machine l))"
proof -
  obtain l where "reachable demo_env (demo_machine []) l" "Installing StubPlan \<in> set (sm_trace (lp_machine l))"
    using demo_run by blast
  with apps_and_config_frozen [of demo_env "demo_machine []" l] demo_valid show ?thesis
    unfolding demo_machine_state by (intro exI [of _ l]) simp
qed

end
