(* ===== verification/Loop_Moves.thy ===== *)
theory Loop_Moves imports Control_Loop begin

text \<open>
  The loops as an executable machine: a move says which branch of \<open>select!\<close> is taken, or what a client or the outside
  does, and \<open>move\<close> computes the next state.  The moves are the steps of the relation \<open>step\<close>, and the states
  that sequences of moves reach are the reachable ones.
\<close>

text \<open>The outside changes; a control handle sends a request; the head of the loop; the timer of the next check fires;
  the first request of the channel is received; the update check completes; while waiting for the reboot, the
  timer of the next question fires, or that of the next ping.\<close>

datatype 'w loop_move =
    WorldChanges 'w
  | SendRequest check_options
  | EnterLoop
  | CheckTimer
  | TakeRequest
  | FinishCheck
  | RebootTimer
  | PingTimer

definition take_request ::
  "('w, 's, 'e, 'a, 'd, 'pl, 'ir, 'x) env \<Rightarrow> request_no \<Rightarrow> check_options
     \<Rightarrow> ('w, 's, 'a, 'k, 'd, 'pl, 'ir, 'x) loop \<Rightarrow> ('w, 's, 'a, 'k, 'd, 'pl, 'ir, 'x) loop option" where
  "take_request env i new_options l =
     (case lp_phase l of
        WaitingForCheck \<Rightarrow> Some (consider_check env new_options (Some i) l)
      | CheckInProgress options params \<Rightarrow>
          Some (goto (CheckInProgress (merge_options options new_options) params) (answer (Some i) AlreadyRunning l))
      | AwaitingReboot options ir \<Rightarrow>
          (if opt_source new_options = OnDemand
           then Some (acting (reboot_on_demand env (merge_options options new_options) ir)
             (after_reboot_question (merge_options options new_options) ir) (answer (Some i) AlreadyRunning l))
           else Some (answer (Some i) AlreadyRunning l))
      | _ \<Rightarrow> None)"

fun move ::
  "('w, 's, 'e, 'a, 'd, 'pl, 'ir, 'x) env \<Rightarrow> 'w loop_move
     \<Rightarrow> ('w, 's, 'a, 'k, 'd, 'pl, 'ir, 'x) loop \<Rightarrow> ('w, 's, 'a, 'k, 'd, 'pl, 'ir, 'x) loop option" where
  "move env (WorldChanges w) l = Some (l\<lparr>lp_machine := (lp_machine l)\<lparr>sm_world := w\<rparr>\<rparr>)"
| "move env (SendRequest options) l =
     Some (l\<lparr>lp_queue := lp_queue l @ [(lp_next_no l, options)], lp_next_no := lp_next_no l + 1\<rparr>)"
| "move env EnterLoop l = (case lp_phase l of AtLoopHead \<Rightarrow> Some (loop_head env l) | _ \<Rightarrow> None)"
| "move env CheckTimer l =
     (case lp_phase l of WaitingForCheck \<Rightarrow> Some (consider_check env check_options_default None l) | _ \<Rightarrow> None)"
| "move env TakeRequest l =
     (case lp_queue l of [] \<Rightarrow> None | (i, options) # q \<Rightarrow> take_request env i options (l\<lparr>lp_queue := q\<rparr>))"
| "move env FinishCheck l =
     (case lp_phase l of CheckInProgress options params \<Rightarrow> Some (complete_check env options params l) | _ \<Rightarrow> None)"
| "move env RebootTimer l =
     (case lp_phase l of
        AwaitingReboot options ir \<Rightarrow> Some (acting (reboot_timer_fired env options ir) (after_reboot_question options ir) l)
      | _ \<Rightarrow> None)"
| "move env PingTimer l =
     (case lp_phase l of
        AwaitingReboot options ir \<Rightarrow> Some (acting (ping_timer_fired env) (\<lambda>_. goto (AwaitingReboot options ir)) l)
      | _ \<Rightarrow> None)"

fun moves ::
  "('w, 's, 'e, 'a, 'd, 'pl, 'ir, 'x) env \<Rightarrow> 'w loop_move list
     \<Rightarrow> ('w, 's, 'a, 'k, 'd, 'pl, 'ir, 'x) loop \<Rightarrow> ('w, 's, 'a, 'k, 'd, 'pl, 'ir, 'x) loop option" where
  "moves env [] l = Some l"
| "moves env (mv # mvs) l = Option.bind (move env mv l) (moves env mvs)"

lemma take_request_step: "lp_queue l = (i, options) # q \<Longrightarrow> take_request env i options (l\<lparr>lp_queue := q\<rparr>) = Some l' \<Longrightarrow> step env l l'"
  by (auto simp: take_request_def split: phase.splits if_splits intro: step.intros)

lemma move_step: "move env mv l = Some l' \<Longrightarrow> step env l l'"
  by (cases mv) (auto split: phase.splits list.splits intro: step.intros step_send [simplified] take_request_step)

lemma step_move: "step env l l' \<Longrightarrow> \<exists>mv. move env mv l = Some l'"
proof (induction rule: step.induct)
  case (step_request l i options q)
  then have "move env TakeRequest l = Some (consider_check env options (Some i) (l\<lparr>lp_queue := q\<rparr>))"
    by (simp add: take_request_def)
  then show ?case ..
next
  case (step_busy l options params i new_options q)
  then have "move env TakeRequest l = Some (goto (CheckInProgress (merge_options options new_options) params)
      (answer (Some i) AlreadyRunning (l\<lparr>lp_queue := q\<rparr>)))"
    by (simp add: take_request_def)
  then show ?case ..
next
  case (step_reboot_request l options ir i new_options q)
  then have "move env TakeRequest l = Some (answer (Some i) AlreadyRunning (l\<lparr>lp_queue := q\<rparr>))"
    by (simp add: take_request_def)
  then show ?case ..
next
  case (step_reboot_on_demand l options ir i new_options q)
  then have "move env TakeRequest l = Some (acting (reboot_on_demand env (merge_options options new_options) ir)
      (after_reboot_question (merge_options options new_options) ir) (answer (Some i) AlreadyRunning (l\<lparr>lp_queue := q\<rparr>)))"
    by (simp add: take_request_def)
  then show ?case ..
qed (rule exI [of _ "WorldChanges w" for w] exI [of _ "SendRequest opts" for opts] exI [of _ EnterLoop] exI [of _ CheckTimer]
       exI [of _ FinishCheck] exI [of _ RebootTimer] exI [of _ PingTimer]; simp; fail)+

lemma moves_append: "moves env (xs @ ys) l = Option.bind (moves env xs l) (moves env ys)"
  by (induction xs arbitrary: l) (auto split: option.splits Option.bind_splits)

lemma moves_reachable: "moves env mvs l = Some l' \<Longrightarrow> reachable env m l \<Longrightarrow> reachable env m l'"
proof (induction mvs arbitrary: l)
  case (Cons mv mvs)
  then obtain l1 where "move env mv l = Some l1" and l1: "moves env mvs l1 = Some l'" by (auto split: Option.bind_splits)
  then have "reachable env m l1" using Cons.prems(2) by (blast intro: reachable_step move_step)
  with l1 show ?case by (rule Cons.IH)
qed simp

text \<open>The reachable states of the loops are exactly those that a sequence of moves computes from the start: the relation with
  its branches and the executable machine are the same.\<close>

lemma reachable_iff_moves: "reachable env m l \<longleftrightarrow> (\<exists>mvs. moves env mvs (run_start env m) = Some l)"
proof
  assume "reachable env m l"
  then show "\<exists>mvs. moves env mvs (run_start env m) = Some l"
  proof induction
    case reachable_start
    have "moves env [] (run_start env m) = Some (run_start env m)" by simp
    then show ?case ..
  next
    case (reachable_step l l')
    then obtain mvs mv where "moves env mvs (run_start env m) = Some l" "move env mv l = Some l'"
      by (blast dest: step_move)
    then have "moves env (mvs @ [mv]) (run_start env m) = Some l'" by (simp add: moves_append)
    then show ?case ..
  qed
qed (blast intro: moves_reachable reachable_start)

end
