(* ===== verification/Loop_Properties.thy ===== *)
theory Loop_Properties imports Consent Loop_Moves begin

text \<open>
  The control requests of the loops of \<open>state_machine.rs\<close>: who is answered what, in which order, and that
  every request can be answered as long as the loop runs.
\<close>

section \<open>What the moves of the loop do to the queue\<close>

text \<open>Everything that the callers of \<open>start_update_check\<close> see of the loop.\<close>

definition mailbox ::
  "('ir, 'm) loop_state \<Rightarrow> (request_no \<times> start_update_check_response) list \<times> (request_no \<times> check_options) list \<times> request_no" where
  "mailbox l = (lp_answers l, lp_queue l, lp_next_no l)"

lemma mailbox_goto [simp]: "mailbox (goto p l) = mailbox l"
  by (simp add: mailbox_def goto_def)

lemma mailbox_phase [simp]: "mailbox (after_reboot_question opts ir done l) = mailbox l"
  by (simp add: after_reboot_question_def)

lemma mailbox_update [simp]:
  "mailbox (l\<lparr>lp_machine := m\<rparr>) = mailbox l" "mailbox (l\<lparr>lp_should_report := b\<rparr>) = mailbox l"
  by (simp_all add: mailbox_def)

lemma mailbox_acting: "(\<And>r l. mailbox (k r l) = mailbox l) \<Longrightarrow> mailbox (acting act k l) = mailbox l"
  by (simp add: acting_def)

lemma mailbox_loop_head [simp]: "mailbox (loop_head env l) = mailbox l"
  by (simp add: loop_head_def mailbox_acting split: option.splits)

lemma mailbox_complete_check [simp]: "mailbox (complete_check env opts ps l) = mailbox l"
  unfolding complete_check_def
  by (rule mailbox_acting) (auto simp: mailbox_acting split: option.splits reboot_after_update.splits)

lemma mailbox_answer [simp]:
  "mailbox (answer (Some i) r l) = (lp_answers l @ [(i, r)], lp_queue l, lp_next_no l)"
  by (simp add: mailbox_def answer_def)

lemma phase_moves [simp]:
  "lp_phase (goto p l) = p" "lp_machine (goto p l) = lp_machine l"
  "lp_phase (answer i r l) = lp_phase l" "lp_machine (answer i r l) = lp_machine l"
  "lp_phase (after_reboot_question opts ir done l) = (if done then AtLoopHead else AwaitingReboot opts ir)"
  by (auto simp: goto_def answer_def after_reboot_question_def split: option.splits)

section \<open>The decision on a check\<close>

text \<open>What a decision leads to; only the decision is recorded, and only the world may have changed.\<close>

definition params_of_decision :: "check_decision \<Rightarrow> request_params option" where
  "params_of_decision d = (case d of CheckOk rp \<Rightarrow> Some rp | OkUpdateDeferred rp \<Rightarrow> Some rp | _ \<Rightarrow> None)"

lemma decide_check_run:
  "\<exists>d w. run_state (decide_check env opts) m =
     (params_of_decision d, m\<lparr>sm_world := w, sm_trace := sm_trace m @ [CheckDecided d]\<rparr>)"
proof -
  let ?d = "update_check_allowed (policy env) (get_apps (apps_api env) (sm_app_set m))
    (ctx_schedule (sm_context m)) (ctx_state (sm_context m)) opts (sm_world m)"
  have "wp (decide_check env opts) (\<lambda>r m'. r = params_of_decision (fst ?d) \<and>
      m' = m\<lparr>sm_world := snd ?d, sm_trace := sm_trace m @ [CheckDecided (fst ?d)]\<rparr>) m"
    by (simp add: decide_check_def wp_simps params_of_decision_def split: check_decision.splits)
  then show ?thesis by (auto simp: wp_def split: prod.splits)
qed

lemma consider_check_result:
  "\<exists>d w. let l1 = l\<lparr>lp_machine := (lp_machine l)\<lparr>sm_world := w, sm_trace := sm_trace (lp_machine l) @ [CheckDecided d]\<rparr>\<rparr> in
     consider_check env opts i l =
       (case params_of_decision d of
          None \<Rightarrow> goto AtLoopHead (answer i Throttled l1)
        | Some rp \<Rightarrow> goto (CheckInProgress opts rp) (answer i Started l1))"
proof -
  obtain d w where "run_state (decide_check env opts) (lp_machine l) = (params_of_decision d,
      (lp_machine l)\<lparr>sm_world := w, sm_trace := sm_trace (lp_machine l) @ [CheckDecided d]\<rparr>)"
    using decide_check_run [of env opts "lp_machine l"] by (elim exE)
  then have "consider_check env opts i l =
       (case params_of_decision d of
          None \<Rightarrow> goto AtLoopHead (answer i Throttled (l\<lparr>lp_machine := (lp_machine l)\<lparr>sm_world := w, sm_trace := sm_trace (lp_machine l) @ [CheckDecided d]\<rparr>\<rparr>))
        | Some rp \<Rightarrow> goto (CheckInProgress opts rp) (answer i Started (l\<lparr>lp_machine := (lp_machine l)\<lparr>sm_world := w, sm_trace := sm_trace (lp_machine l) @ [CheckDecided d]\<rparr>\<rparr>)))"
    by (simp add: consider_check_def acting_def split: option.splits)
  then show ?thesis unfolding Let_def by blast
qed

lemma mailbox_consider_None [simp]: "mailbox (consider_check env opts None l) = mailbox l"
  unfolding consider_check_def by (rule mailbox_acting) (auto simp: answer_def split: option.splits)


lemma mailbox_consider_Some:
  "\<exists>r. mailbox (consider_check env opts (Some i) l) = (lp_answers l @ [(i, r)], lp_queue l, lp_next_no l)"
proof -
  obtain d w where "let l1 = l\<lparr>lp_machine := (lp_machine l)\<lparr>sm_world := w, sm_trace := sm_trace (lp_machine l) @ [CheckDecided d]\<rparr>\<rparr> in
     consider_check env opts (Some i) l =
       (case params_of_decision d of
          None \<Rightarrow> goto AtLoopHead (answer (Some i) Throttled l1)
        | Some rp \<Rightarrow> goto (CheckInProgress opts rp) (answer (Some i) Started l1))"
    using consider_check_result [of l env opts "Some i"] by (elim exE)
  then show ?thesis by (cases "params_of_decision d") (auto simp: Let_def)
qed

lemma answers_frame [simp]:
  "lp_answers (loop_head env l) = lp_answers l" "lp_answers (complete_check env opts ps l) = lp_answers l"
  "lp_answers (consider_check env opts None l) = lp_answers l"
  "lp_answers (acting act (after_reboot_question opts ir) l) = lp_answers l"
  "lp_answers (acting act' (\<lambda>_. goto p) l) = lp_answers l" "lp_answers (goto p l) = lp_answers l"
  using mailbox_loop_head [of env l] mailbox_complete_check [of env opts ps l] mailbox_consider_None [of env opts l]
    mailbox_acting [of "after_reboot_question opts ir" act l, OF mailbox_phase]
    mailbox_acting [of "\<lambda>_. goto p" act' l, OF mailbox_goto] mailbox_goto [of p l]
  by (simp_all add: mailbox_def del: mailbox_loop_head mailbox_complete_check mailbox_consider_None mailbox_goto)

section \<open>Every request is answered once, in order\<close>

text \<open>What one step does to the requests: nothing, a new one is sent, or the first is answered.\<close>

lemma step_mailbox:
  "step env l l' \<Longrightarrow>
     mailbox l' = mailbox l \<or>
     (\<exists>options. mailbox l' = (lp_answers l, lp_queue l @ [(lp_next_no l, options)], lp_next_no l + 1)) \<or>
     (\<exists>i options q r. lp_queue l = (i, options) # q \<and> mailbox l' = (lp_answers l @ [(i, r)], q, lp_next_no l))"
proof (induction rule: step.induct)
  case (step_request l i options q)
  then show ?case using mailbox_consider_Some [of env options i "l\<lparr>lp_queue := q\<rparr>"] by auto
next
  case (step_reboot_on_demand l options ir i new_options q)
  let ?k = "after_reboot_question (merge_options options new_options) ir"
  have "mailbox (acting (reboot_on_demand env (merge_options options new_options) ir) ?k
      (answer (Some i) AlreadyRunning (l\<lparr>lp_queue := q\<rparr>))) = mailbox (answer (Some i) AlreadyRunning (l\<lparr>lp_queue := q\<rparr>))"
    by (rule mailbox_acting) simp
  with step_reboot_on_demand show ?case by auto
next
  case (step_send l options)
  then show ?case by (auto simp: mailbox_def)
qed (auto simp: mailbox_acting)

lemma mailbox_run_start: "mailbox (run_start env m) = ([], [], 0)"
  by (auto simp: run_start_def mailbox_def Let_def split: prod.splits)

definition ledger :: "('ir, 'm) loop_state \<Rightarrow> request_no list" where
  "ledger l = map fst (lp_answers l) @ map fst (lp_queue l)"

lemma ledger_reachable: "reachable env m l \<Longrightarrow> ledger l = [0..<lp_next_no l]"
proof (induction rule: reachable.induct)
  case reachable_start
  show ?case using mailbox_run_start [of env m] by (auto simp: mailbox_def ledger_def)
next
  case (reachable_step l l')
  from step_mailbox [OF reachable_step.hyps(2)] reachable_step.IH show ?case
    by (auto simp: mailbox_def ledger_def)
qed

section \<open>Every request can be answered\<close>

definition live :: "('ir, 'm) loop_state \<Rightarrow> bool" where
  "live l \<longleftrightarrow> lp_phase l \<noteq> Stopped \<and> lp_phase l \<noteq> Panicked"

lemma acting_phase: "(\<And>r l. P (lp_phase (k r l))) \<Longrightarrow> P (lp_phase (acting act k l))"
  by (simp add: acting_def)

lemma consider_check_live: "live (consider_check env opts i l)"
  unfolding live_def consider_check_def by (rule acting_phase) (simp split: option.splits)

text \<open>One answer: from the head of the loop it takes a move more.\<close>

lemma mailbox_take_request:
  "take_request env i options l = Some l' \<Longrightarrow> \<exists>r. mailbox l' = (lp_answers l @ [(i, r)], lp_queue l, lp_next_no l)"
  using mailbox_consider_Some [of env options i l]
  by (auto simp: take_request_def mailbox_acting split: phase.splits if_splits)

lemma take_request_live:
  assumes "live l" and "lp_phase l \<noteq> AtLoopHead"
  shows "\<exists>l'. take_request env i options l = Some l' \<and> live l'"
proof (cases "lp_phase l")
  case (AwaitingReboot opts ir)
  have "live (acting (reboot_on_demand env opts' ir) (after_reboot_question opts' ir) l1)" for opts' l1
    unfolding live_def by (rule acting_phase) simp
  from this [of "merge_options opts options" "answer (Some i) AlreadyRunning l"] assms(1) AwaitingReboot
  show ?thesis by (cases "opt_source options = OnDemand") (auto simp: take_request_def live_def)
qed (use assms consider_check_live in \<open>auto simp: take_request_def live_def goto_def answer_def\<close>)

lemma answer_when_waiting:
  assumes "live l" and "lp_phase l \<noteq> AtLoopHead" and "lp_queue l = (i, options) # q"
  shows "\<exists>l' r. move env TakeRequest l = Some l' \<and> live l' \<and> lp_queue l' = q \<and> lp_next_no l' = lp_next_no l \<and>
    lp_answers l' = lp_answers l @ [(i, r)]"
proof -
  from take_request_live [of "l\<lparr>lp_queue := q\<rparr>" env i options] assms(1,2) obtain l' where
    l': "take_request env i options (l\<lparr>lp_queue := q\<rparr>) = Some l'" "live l'" by (auto simp: live_def)
  from mailbox_take_request [OF l'(1)] l' assms(3) show ?thesis by (auto simp: mailbox_def)
qed

lemma leave_loop_head:
  assumes "live l"
  shows "\<exists>mvs l'. moves env mvs l = Some l' \<and> set mvs \<subseteq> {EnterLoop} \<and> length mvs \<le> 1 \<and> live l' \<and>
    lp_phase l' \<noteq> AtLoopHead \<and> mailbox l' = mailbox l"
proof (cases "lp_phase l = AtLoopHead")
  case True
  have "lp_phase (loop_head env l) = WaitingForCheck"
    unfolding loop_head_def by (rule acting_phase) simp
  with True show ?thesis
    by (intro exI [of _ "[EnterLoop]"] exI [of _ "loop_head env l"]) (simp add: live_def)
next
  case False
  with assms show ?thesis by (intro exI [of _ "[]"] exI [of _ l]) simp
qed

lemma answer_all:
  "live l \<Longrightarrow> \<exists>mvs l'. moves env mvs l = Some l' \<and> set mvs \<subseteq> {EnterLoop, TakeRequest} \<and> length mvs \<le> 2 * length (lp_queue l) \<and>
     lp_queue l' = [] \<and> lp_next_no l' = lp_next_no l \<and> map fst (lp_answers l') = map fst (lp_answers l) @ map fst (lp_queue l)"
proof (induction "lp_queue l" arbitrary: l)
  case Nil
  then show ?case by (intro exI [of _ "[]"] exI [of _ l]) simp
next
  case (Cons x q)
  obtain i options where x: "x = (i, options)" by (cases x)
  obtain mvs1 l1 where l1: "moves env mvs1 l = Some l1" "set mvs1 \<subseteq> {EnterLoop}" "length mvs1 \<le> 1" "live l1"
      "lp_phase l1 \<noteq> AtLoopHead" "mailbox l1 = mailbox l"
    using leave_loop_head [OF Cons.prems] by blast
  then have "lp_queue l1 = (i, options) # q" using Cons.hyps(2) x by (simp add: mailbox_def)
  from answer_when_waiting [OF l1(4,5) this] obtain l2 r where l2: "move env TakeRequest l1 = Some l2" "live l2" "lp_queue l2 = q"
      "lp_next_no l2 = lp_next_no l1" "lp_answers l2 = lp_answers l1 @ [(i, r)]" by blast
  from Cons.hyps(1) [OF l2(3) [symmetric] l2(2)] obtain mvs3 l3 where l3: "moves env mvs3 l2 = Some l3"
      "set mvs3 \<subseteq> {EnterLoop, TakeRequest}" "length mvs3 \<le> 2 * length q" "lp_queue l3 = []" "lp_next_no l3 = lp_next_no l2"
      "map fst (lp_answers l3) = map fst (lp_answers l2) @ map fst (lp_queue l2)" using l2(3) by auto
  have "moves env (mvs1 @ TakeRequest # mvs3) l = Some l3" using l1(1) l2(1) l3(1) by (simp add: moves_append)
  then show ?case using l1 l2 l3 x Cons.hyps(2) [symmetric]
    by (intro exI [of _ "mvs1 @ TakeRequest # mvs3"] exI [of _ l3]) (auto simp: mailbox_def)
qed

lemma moves_steps: "moves env mvs l = Some l' \<Longrightarrow> (step env)\<^sup>*\<^sup>* l l'"
proof (induction mvs arbitrary: l)
  case (Cons mv mvs)
  then obtain l1 where "move env mv l = Some l1" "moves env mvs l1 = Some l'" by (auto split: Option.bind_splits)
  then show ?case using Cons.IH [of l1] move_step by (metis converse_rtranclp_into_rtranclp)
qed simp

text \<open>The reboot question of an on demand request.\<close>

lemma reboot_on_demand_run:
  "\<exists>w'. run_state (reboot_on_demand env options ir) m =
     (fst (reboot_allowed (policy env) options ir (sm_world m)),
      m\<lparr>sm_world := w', sm_trace := sm_trace m @ (if fst (reboot_allowed (policy env) options ir (sm_world m))
           then [RebootDecided True, Rebooted, Yielded (StateChange Idle)] else [RebootDecided False])\<rparr>)"
proof -
  let ?a = "fst (reboot_allowed (policy env) options ir (sm_world m))"
  have "wp (reboot_on_demand env options ir) (\<lambda>r m'. r = ?a \<and> (\<exists>w'. m' = m\<lparr>sm_world := w', sm_trace := sm_trace m @ (if ?a
           then [RebootDecided True, Rebooted, Yielded (StateChange Idle)] else [RebootDecided False])\<rparr>)) m"
    by (auto simp: reboot_on_demand_def ask_reboot_def reboot_if_def do_reboot_def wp_simps action_defs)
  then show ?thesis by (auto simp: wp_def split: prod.splits)
qed

lemma decide_check_decides:
  "let (d, w) = update_check_allowed (policy env) (get_apps (apps_api env) (sm_app_set m))
      (ctx_schedule (sm_context m)) (ctx_state (sm_context m)) opts (sm_world m)
   in run_state (decide_check env opts) m = (params_of_decision d, m\<lparr>sm_world := w, sm_trace := sm_trace m @ [CheckDecided d]\<rparr>)"
proof -
  let ?d = "update_check_allowed (policy env) (get_apps (apps_api env) (sm_app_set m))
    (ctx_schedule (sm_context m)) (ctx_state (sm_context m)) opts (sm_world m)"
  have "wp (decide_check env opts) (\<lambda>r m'. r = params_of_decision (fst ?d) \<and>
      m' = m\<lparr>sm_world := snd ?d, sm_trace := sm_trace m @ [CheckDecided (fst ?d)]\<rparr>) m"
    by (simp add: decide_check_def wp_simps params_of_decision_def split: check_decision.splits)
  then show ?thesis by (auto simp: wp_def split: prod.splits)
qed

section \<open>Properties\<close>

text \<open>A started machine with one request sent, for the witnesses.\<close>

lemma demo_start:
  obtains l where "reachable demo_env (demo_machine []) l" and "lp_phase l = WaitingForCheck" and
    "lp_queue l = [(0, check_options_default)]" and "lp_answers l = []" and "lp_next_no l = 1"
proof -
  define l1 where "l1 = loop_head demo_env (run_start demo_env (demo_machine []))"
  define l2 where "l2 = l1\<lparr>lp_queue := lp_queue l1 @ [(lp_next_no l1, check_options_default)], lp_next_no := lp_next_no l1 + 1\<rparr>"
  have "lp_phase (run_start demo_env (demo_machine [])) = AtLoopHead"
    unfolding demo_machine_state by (simp add: run_start_def demo_valid)
  then have "reachable demo_env (demo_machine []) l1"
    unfolding l1_def by (intro reachable_step [OF reachable_start] step_loop_head)
  then have "reachable demo_env (demo_machine []) l2"
    unfolding l2_def by (rule reachable_step) (rule step_send)
  moreover have "lp_phase l1 = WaitingForCheck" using demo_loop_head(1) unfolding l1_def .
  moreover have "mailbox l1 = ([], [], 0)" unfolding l1_def by (simp add: mailbox_run_start)
  ultimately show ?thesis by (intro that [of l2]) (auto simp: l2_def mailbox_def)
qed

text \<open>C15: Control requests are answered in the order in which they were sent, and each at most once: in every reachable
  state the numbers of the requests that were answered, followed by those that still wait, are exactly the numbers
  given out so far.\<close>

theorem requests_answered_in_order:
  assumes "reachable env m l"
  shows "map fst (lp_answers l) @ map fst (lp_queue l) = [0..<lp_next_no l]"
  using ledger_reachable [OF assms] by (simp add: ledger_def)

theorem requests_answered_in_order_witness:
  "\<exists>l. reachable demo_env (demo_machine []) l \<and> lp_next_no l = 1 \<and> map fst (lp_answers l) @ map fst (lp_queue l) = [0]"
proof (rule demo_start)
  fix l assume "reachable demo_env (demo_machine []) l" and "lp_next_no l = 1"
  with requests_answered_in_order [of demo_env "demo_machine []" l] show ?thesis by auto
qed

text \<open>C14: Which answer a request gets, and what it makes the machine do.  Only the request that waits longest is answered.
  While the machine waits for the next check, the policy is asked about its options, and the request is \<open>Started\<close> or \<open>Throttled\<close> by
  the decision; up to then nothing but that decision happened; if throttled the loop starts over,
  otherwise a check with these options and the parameters of the decision begins.  While a check runs or a reboot is
  awaited the answer is \<open>AlreadyRunning\<close>, but an on demand request still makes the options on demand (for
  the reboot question after the check, against the documentation of \<open>AlreadyRunning\<close>), and while a reboot is awaited the
  policy is asked at once with these options, and the machine reboots if it allows; any other request changes nothing.\<close>

theorem control_request_answer:
  assumes "step env l l'" and "lp_answers l' = lp_answers l @ [(i, r)]"
  shows "\<exists>new q. lp_queue l = (i, new) # q \<and> lp_queue l' = q \<and>
   (case lp_phase l of
      WaitingForCheck \<Rightarrow>
        (let m = lp_machine l;
             (d, w) = update_check_allowed (policy env) (get_apps (apps_api env) (sm_app_set m))
                        (ctx_schedule (sm_context m)) (ctx_state (sm_context m)) new (sm_world m)
         in lp_machine l' = m\<lparr>sm_world := w, sm_trace := sm_trace m @ [CheckDecided d]\<rparr> \<and>
            (r, lp_phase l') = (case d of
               CheckOk params \<Rightarrow> (Started, CheckInProgress new params)
             | OkUpdateDeferred params \<Rightarrow> (Started, CheckInProgress new params)
             | _ \<Rightarrow> (Throttled, AtLoopHead)))
    | CheckInProgress options params \<Rightarrow> r = AlreadyRunning \<and> lp_machine l' = lp_machine l \<and>
        lp_phase l' =
          CheckInProgress (if opt_source new = OnDemand then options\<lparr>opt_source := OnDemand\<rparr> else options) params
    | AwaitingReboot options ir \<Rightarrow> r = AlreadyRunning \<and>
        (if opt_source new = OnDemand
         then (let m = lp_machine l; options' = options\<lparr>opt_source := OnDemand\<rparr>;
                   allowed = fst (reboot_allowed (policy env) options' ir (sm_world m))
               in (\<exists>w. lp_machine l' = m\<lparr>sm_world := w, sm_trace := sm_trace m @
                     (if allowed then [RebootDecided True, Rebooted, Yielded (StateChange Idle)] else [RebootDecided False])\<rparr>) \<and>
                  lp_phase l' = (if allowed then AtLoopHead else AwaitingReboot options' ir))
         else lp_machine l' = lp_machine l \<and> lp_phase l' = lp_phase l)
    | _ \<Rightarrow> False)"
  using assms
proof (induction rule: step.induct)
  case (step_request l j new q)
  let ?l' = "consider_check env new (Some j) (l\<lparr>lp_queue := q\<rparr>)"
  let ?m = "lp_machine l"
  obtain d w where dw: "update_check_allowed (policy env) (get_apps (apps_api env) (sm_app_set ?m))
      (ctx_schedule (sm_context ?m)) (ctx_state (sm_context ?m)) new (sm_world ?m) = (d, w)" by (metis surj_pair)
  have run: "run_state (decide_check env new) ?m = (params_of_decision d, ?m\<lparr>sm_world := w, sm_trace := sm_trace ?m @ [CheckDecided d]\<rparr>)"
    using decide_check_decides [of env ?m new] dw by simp
  have "lp_machine ?l' = ?m\<lparr>sm_world := w, sm_trace := sm_trace ?m @ [CheckDecided d]\<rparr> \<and> lp_queue ?l' = q \<and>
      (\<exists>r'. lp_answers ?l' = lp_answers l @ [(j, r')] \<and> (r', lp_phase ?l') = (case d of
               CheckOk params \<Rightarrow> (Started, CheckInProgress new params)
             | OkUpdateDeferred params \<Rightarrow> (Started, CheckInProgress new params)
             | _ \<Rightarrow> (Throttled, AtLoopHead)))"
    using run by (cases d) (simp_all add: consider_check_def acting_def params_of_decision_def goto_def answer_def)
  then show ?case using step_request dw by auto
next
  case (step_reboot_on_demand l options ir j new q)
  let ?o = "merge_options options new"
  have o: "?o = options\<lparr>opt_source := OnDemand\<rparr>" using step_reboot_on_demand(3) by (simp add: merge_options_def)
  from reboot_on_demand_run [of env ?o ir "lp_machine l"] step_reboot_on_demand show ?case
    by (auto simp: acting_def after_reboot_question_def goto_def answer_def o Let_def)
qed (auto simp: merge_options_def answer_def goto_def)

theorem control_request_answer_witness:
  "\<exists>(l :: demo_loop) l' r. step demo_env l l' \<and> lp_phase l = WaitingForCheck \<and> lp_answers l' = lp_answers l @ [(0, r)] \<and>
     (r = Started \<or> r = Throttled)"
proof (rule demo_start)
  fix l :: demo_loop assume l: "lp_phase l = WaitingForCheck" "lp_queue l = [(0, check_options_default)]"
  let ?l' = "consider_check demo_env check_options_default (Some 0) (l\<lparr>lp_queue := []\<rparr>)"
  obtain r where r: "lp_answers ?l' = lp_answers l @ [(0, r)]"
    using mailbox_consider_Some [of demo_env check_options_default 0 "l\<lparr>lp_queue := []\<rparr>"] by (auto simp: mailbox_def)
  have "step demo_env l ?l'" by (rule step_request [OF l])
  from control_request_answer [OF this r] l this r show ?thesis
    by (intro exI [of _ l] exI [of _ ?l'] exI [of _ r])
       (cases "stub_update_check_allowed check_options_default"; simp add: Let_def)
qed

text \<open>C16: No request is left hanging by the loop: as long as the loop runs (a valid app set, no panic), from every
  reachable state the requests that wait are all answered, in order, when the loop only takes them from the channel, and
  enters its head when it is there; no timer has to fire, no check to complete, nobody to send or the world to change.  At
  most two such steps are needed per request.\<close>

theorem requests_can_be_answered:
  assumes "reachable env m l" and "lp_phase l \<noteq> Stopped" and "lp_phase l \<noteq> Panicked"
  shows "\<exists>mvs l'. moves env mvs l = Some l' \<and> set mvs \<subseteq> {EnterLoop, TakeRequest} \<and> length mvs \<le> 2 * length (lp_queue l) \<and>
    (step env)\<^sup>*\<^sup>* l l' \<and> lp_queue l' = [] \<and> map fst (lp_answers l') = [0..<lp_next_no l]"
proof -
  obtain mvs l' where l': "moves env mvs l = Some l'" "set mvs \<subseteq> {EnterLoop, TakeRequest}"
      "length mvs \<le> 2 * length (lp_queue l)" "lp_queue l' = []" "map fst (lp_answers l') = map fst (lp_answers l) @ map fst (lp_queue l)"
    using answer_all [of l env] assms(2,3) by (auto simp: live_def)
  moreover have "map fst (lp_answers l') = [0..<lp_next_no l]"
    using ledger_reachable [OF assms(1)] l'(5) by (simp add: ledger_def)
  ultimately show ?thesis using moves_steps [OF l'(1)] by blast
qed

theorem requests_can_be_answered_witness:
  "\<exists>(l :: demo_loop) mvs l'. lp_queue l = [(0, check_options_default)] \<and> moves demo_env mvs l = Some l' \<and>
     set mvs \<subseteq> {EnterLoop, TakeRequest} \<and> lp_queue l' = [] \<and> map fst (lp_answers l') = [0]"
proof (rule demo_start)
  fix l :: demo_loop assume l: "reachable demo_env (demo_machine []) l" "lp_phase l = WaitingForCheck"
    "lp_queue l = [(0, check_options_default)]" "lp_next_no l = 1"
  then obtain mvs l' where "moves demo_env mvs l = Some l'" "set mvs \<subseteq> {EnterLoop, TakeRequest}" "lp_queue l' = []"
      "map fst (lp_answers l') = [0]"
    using requests_can_be_answered [of demo_env "demo_machine []" l] by auto
  with l(3) show ?thesis by (intro exI [of _ l] exI [of _ mvs] exI [of _ l']) simp
qed

end
