(* ===== verification/Retry_Properties.thy ===== *)
theory Retry_Properties imports Check_Properties begin

text \<open>
  The retries of a request to Omaha: how many requests and waits a check can make, how long the waits are and
  how the attempts end.
\<close>

section \<open>Costs of actions\<close>

text \<open>A cost of effects adds up along a trace; an action spends at most \<open>n\<close> when every run of it does.\<close>

definition trace_cost :: "(('pl, 'x) effect \<Rightarrow> nat) \<Rightarrow> ('pl, 'x) effect list \<Rightarrow> nat" where
  "trace_cost cost es = sum_list (map cost es)"

definition spends_rel ::
  "(('pl, 'x) effect \<Rightarrow> nat) \<Rightarrow> nat \<Rightarrow> ('w, 's, 'a, 'k, 'd, 'pl, 'x) machine \<Rightarrow> ('w, 's, 'a, 'k, 'd, 'pl, 'x) machine \<Rightarrow> bool" where
  "spends_rel cost n m m' \<longleftrightarrow> (\<exists>es. sm_trace m' = sm_trace m @ es \<and> trace_cost cost es \<le> n)"

abbreviation spends ::
  "(('pl, 'x) effect \<Rightarrow> nat) \<Rightarrow> nat \<Rightarrow> ('w, 's, 'a, 'k, 'd, 'pl, 'x, 'r) act \<Rightarrow> bool" where
  "spends cost n act \<equiv> state_io_rel (spends_rel cost n) act"

lemma trace_cost_simps [simp]:
  "trace_cost cost [] = 0" "trace_cost cost (e # es) = cost e + trace_cost cost es"
  "trace_cost cost (es @ es') = trace_cost cost es + trace_cost cost es'"
  by (simp_all add: trace_cost_def)

lemma spends_mono: "spends cost n act \<Longrightarrow> n \<le> n' \<Longrightarrow> spends cost n' act"
  by (fastforce simp: state_io_rel_def spends_rel_def)

lemma spends_trans: "spends_rel cost n m m' \<Longrightarrow> spends_rel cost k m' m'' \<Longrightarrow> spends_rel cost (n + k) m m''"
  by (fastforce simp: spends_rel_def)

lemma spends_bind:
  assumes "spends cost n act" and "\<And>a. spends cost k (f a)"
  shows "spends cost (n + k) (State_Monad.bind act f)"
proof (rule state_io_relI)
  fix a m m'
  assume "run_state (State_Monad.bind act f) m = (a, m')"
  then obtain b m1 where "run_state act m = (b, m1)" and "run_state (f b) m1 = (a, m')"
    by (auto split: prod.splits)
  with assms show "spends_rel cost (n + k) m m'" by (meson spends_trans state_io_relD)
qed

text \<open>Actions that cost nothing form an instance of the contract for sequences of actions.\<close>

interpretation free: effect_preorder "spends_rel cost 0" for cost
  by unfold_locales (auto simp: spends_rel_def)

lemma free_step:
  "spends cost 0 (outside f)" "spends cost 0 (modify_context g)" "spends cost 0 (modify_storage h)"
  "spends cost 0 (modify_app_set k)" "spends cost 0 (apps_of env)"
  by (auto simp: state_io_rel_def spends_rel_def outside_def modify_context_def modify_storage_def
      modify_app_set_def apps_of_def)

lemma spends_emit: "spends cost (cost e) (emit e)"
  by (auto simp: state_io_rel_def spends_rel_def emit_def)

lemma spends_return: "spends cost n (State_Monad.return x)"
  using free.io_return by (rule spends_mono) simp

lemma spends_if: "(b \<Longrightarrow> spends cost n f) \<Longrightarrow> (\<not> b \<Longrightarrow> spends cost n g) \<Longrightarrow> spends cost n (if b then f else g)"
  by simp

lemma spends_option:
  "spends cost n f \<Longrightarrow> (\<And>x. spends cost n (g x)) \<Longrightarrow> spends cost n (case z of None \<Rightarrow> f | Some x \<Rightarrow> g x)"
  by (cases z) simp_all

lemma spends_sum:
  "(\<And>x. spends cost n (f x)) \<Longrightarrow> (\<And>x. spends cost n (g x)) \<Longrightarrow> spends cost n (case z of Inl x \<Rightarrow> f x | Inr x \<Rightarrow> g x)"
  by (cases z) simp_all

lemma spends_prod: "(\<And>x y. spends cost n (f x y)) \<Longrightarrow> spends cost n (case z of (x, y) \<Rightarrow> f x y)"
  by (cases z) simp

lemma bind_free: "spends cost 0 act \<Longrightarrow> (\<And>a. spends cost n (f a)) \<Longrightarrow> spends cost n (State_Monad.bind act f)"
  using spends_bind [of cost 0 act n f] by simp

text \<open>The two costs: requests sent and timers awaited.\<close>

fun request_cost :: "('pl, 'x) effect \<Rightarrow> nat" where
  "request_cost (SentRequest _) = 1"
| "request_cost _ = 0"

fun wait_cost :: "('pl, 'x) effect \<Rightarrow> nat" where
  "wait_cost (Waited _) = 1"
| "wait_cost _ = 0"

text \<open>A cost that only requests and waits have, with a bound for each.\<close>

locale network_cost =
  fixes cost :: "('pl, 'x) effect \<Rightarrow> nat" and q v :: nat
  assumes cost_request: "cost (SentRequest req) \<le> q"
    and cost_wait: "cost (Waited w) \<le> v"
    and cost_free: "(\<And>req. e \<noteq> SentRequest req) \<Longrightarrow> (\<And>w. e \<noteq> Waited w) \<Longrightarrow> cost e = 0"
begin

lemma free_emit: "(\<And>req. e \<noteq> SentRequest req) \<Longrightarrow> (\<And>w. e \<noteq> Waited w) \<Longrightarrow> spends cost 0 (emit e)"
  using spends_emit [of cost e] by (simp add: cost_free)

lemma spends_effects: "spends cost q (emit (SentRequest req))" "spends cost v (emit (Waited w))"
  by (rule spends_mono, rule spends_emit, rule cost_request, rule spends_mono, rule spends_emit, rule cost_wait)

lemma free_yields:
  "spends cost 0 (yield_event ev)" "spends cost 0 (yield_state st)" "spends cost 0 (report_metrics x)"
  unfolding action_defs by (simp_all add: free_emit)

lemmas free_steps = free.io_intros free_step free_yields

lemma free_persist: "spends cost 0 (persist_data env)"
  unfolding persist_data_def persist_context_def commit_def by (intro free_steps)

lemma free_response: "spends cost 0 (handle_response env cup md resp)"
  unfolding handle_response_def update_poll_interval_def persist_context_def commit_def by (intro free_steps)

text \<open>One request.\<close>

lemma spends_make_request: "spends cost q (make_request env req)"
proof -
  have "spends cost (q + 0) (make_request env req)"
    unfolding make_request_def
    by (intro spends_bind spends_effects free_steps)
  then show ?thesis by simp
qed

lemma spends_do_omaha: "spends cost q (do_omaha_request env b)"
proof -
  have "spends cost (q + 0) (State_Monad.bind (make_request env req) (\<lambda>r. case r of
             Inl e \<Rightarrow> State_Monad.return (Inl (HttpTransport e))
           | Inr resp \<Rightarrow> handle_response env cup md resp))" for req cup md
    by (intro spends_bind spends_make_request free.io_sum free.io_return free_response)
  then have sent: "spends cost q (State_Monad.bind (make_request env req) (\<lambda>r. case r of
             Inl e \<Rightarrow> State_Monad.return (Inl (HttpTransport e))
           | Inr resp \<Rightarrow> handle_response env cup md resp))" for req cup md
    by simp
  have "spends cost 0 (draw_nonce env cup)" for cup unfolding draw_nonce_def by (intro free_steps)
  then show ?thesis
    unfolding do_omaha_request_def
    by (intro bind_free [OF free.io_gets] bind_free [where act = "draw_nonce env cup" for cup] spends_sum spends_prod
        spends_return sent)
qed

lemma spends_then_free:
  assumes "\<And>r. spends cost 0 (f r)"
  shows "spends cost q (State_Monad.bind (do_omaha_request env b) f)"
  using spends_bind [OF spends_do_omaha assms, of env b] by simp

lemma spends_report_event: "spends cost q (report_omaha_event env ps ev as g nv d)"
  unfolding report_omaha_event_def Let_def by (intro bind_free free_steps spends_then_free)

lemma spends_report_results: "spends cost q (report_results env ps g evs)"
  unfolding report_results_def Let_def by (intro bind_free free_steps spends_then_free)

lemma spends_attempt: "spends cost q (omaha_attempt env b)"
  unfolding omaha_attempt_def by (intro bind_free free_steps spends_then_free)

lemma spends_back_off: "spends cost v (back_off env n)"
proof -
  have "spends cost (v + 0) (wait_for_timer env w)" for w
    unfolding wait_for_timer_def by (intro spends_bind spends_effects free_steps)
  then show ?thesis unfolding back_off_def Let_def by (intro bind_free free_steps) simp
qed

text \<open>The attempts: from attempt \<open>n\<close> on there are at most \<open>3 - n\<close> more, each after a wait.\<close>

lemma spends_request_loop:
  "spends cost (q + (MAX_OMAHA_REQUEST_ATTEMPTS - n) * (v + q)) (request_loop env b n)"
proof (induction "MAX_OMAHA_REQUEST_ATTEMPTS - n" arbitrary: n rule: less_induct)
  case less
  have again: "spends cost ((MAX_OMAHA_REQUEST_ATTEMPTS - n) * (v + q))
      (State_Monad.bind (back_off env n) (\<lambda>_. request_loop env b (n + 1)))" if "\<not> gives_up n i e" for i e
  proof -
    from not_gives_up_attempt [OF that] have n: "n < MAX_OMAHA_REQUEST_ATTEMPTS" .
    have "spends cost (v + (q + (MAX_OMAHA_REQUEST_ATTEMPTS - (n + 1)) * (v + q)))
        (State_Monad.bind (back_off env n) (\<lambda>_. request_loop env b (n + 1)))"
      using n by (intro spends_bind spends_back_off less) simp
    moreover have "MAX_OMAHA_REQUEST_ATTEMPTS - n = Suc (MAX_OMAHA_REQUEST_ATTEMPTS - (n + 1))" using n by simp
    ultimately show ?thesis by (simp add: ac_simps)
  qed
  show ?case
    by (subst request_loop.simps)
       (intro spends_bind spends_attempt bind_free [OF free.io_gets] spends_sum spends_if again spends_return
         spends_mono [of cost 0, OF free.io_bind]; (simp add: free_yields free.io_return)?)
qed

text \<open>The rest of a check: at most one report when it ends early, three around an installation.\<close>

lemma spends_bind_le:
  "spends cost n act \<Longrightarrow> (\<And>a. spends cost k (f a)) \<Longrightarrow> n + k \<le> l \<Longrightarrow> spends cost l (State_Monad.bind act f)"
  using spends_mono [OF spends_bind] by blast

lemma spends_then_yield: "spends cost n act \<Longrightarrow> (\<And>a. spends cost 0 (f a)) \<Longrightarrow> spends cost n (State_Monad.bind act f)"
  using spends_bind [of cost n act 0 f] by simp

lemma spends_early:
  "spends cost q (parse_failed env ps as g e)" "spends cost q (plan_failed env ps as g nv x)"
  "spends cost q (plan_deferred env ps as g nv resp)" "spends cost q (plan_denied env ps as g nv resp)"
  unfolding parse_failed_def plan_failed_def plan_deferred_def plan_denied_def
  by (intro bind_free free_yields spends_then_yield spends_report_event free_steps)+

lemma spends_begin_install: "spends cost q (begin_install env ps as g nv pl)"
  unfolding begin_install_def record_update_first_seen_time_def Let_def
  by (intro bind_free [OF free_yields(2)] spends_then_yield spends_report_event free_steps)

lemma free_install_parts:
  "spends cost 0 (run_install env pl)" "spends cost 0 (report_install_duration t t' rs)"
  "spends cost 0 (install_failed ars es)" "spends cost 0 (finish_install env nv pl t t' ir)"
  unfolding run_install_def report_install_duration_def install_failed_def finish_install_def
  by (intro free_steps free_emit; simp)+

lemma spends_report_installed: "spends cost q (report_installed env ps as g nv d)"
  unfolding report_installed_def by (intro spends_if spends_report_event spends_return)

lemma spends_install_update: "spends cost (3 * q) (install_update env ps as g resp pl)"
proof -
  have rest: "spends cost q (State_Monad.bind (report_installed env ps as' g nv d) (\<lambda>_. case z of
        None \<Rightarrow> State_Monad.return None
      | Some (ars, es) \<Rightarrow> if es \<noteq> [] then install_failed ars es
          else State_Monad.bind (finish_install env nv pl t t' ir) (\<lambda>r. State_Monad.return (Some (Inr (ars, r))))))"
    for as' nv d z t t' ir
    by (intro spends_then_yield spends_report_installed free.io_option free.io_prod free.io_if free.io_bind free.io_return
        free_install_parts)
  show ?thesis
    unfolding install_update_def Let_def
    by (intro spends_bind_le [OF spends_begin_install, where k = "2 * q"] spends_prod bind_free [OF free_install_parts(1)]
        bind_free [OF free_step(1)] bind_free [OF free_install_parts(2)]
        spends_bind_le [OF spends_report_results, where k = q] rest) simp_all
qed

lemma spends_process_plan: "spends cost (3 * q) (process_plan env ps as g resp pl)"
proof -
  have "spends cost (3 * q) (case d of UpdateOk \<Rightarrow> install_update env ps as g resp pl
      | UpdateDeferredByPolicy \<Rightarrow> plan_deferred env ps as g nv resp
      | UpdateDeniedByPolicy \<Rightarrow> plan_denied env ps as g nv resp)" for d nv
    by (cases d) (auto intro: spends_install_update spends_mono [OF spends_early(3)] spends_mono [OF spends_early(4)])
  then show ?thesis
    unfolding process_plan_def Let_def by (intro bind_free [OF free_step(1)] bind_free [OF free_emit]) simp_all
qed

lemma spends_process_response: "spends cost (3 * q) (process_response env ps as g rcv resp)"
  unfolding process_response_def Let_def
  by (intro bind_free free_yields free_step spends_if spends_prod spends_sum spends_return spends_process_plan
      spends_mono [OF spends_early(2)]) simp

lemma free_check_interval: "spends cost 0 (report_check_interval env src)"
  unfolding report_check_interval_def
  by (auto intro!: free_steps split: option.splits partial_complex_time.splits)

lemma spends_perform: "spends cost (6 * q + 2 * v) (perform_update_check env ps as)"
proof -
  have loop: "spends cost (3 * q + 2 * v) (request_loop env b 1)" for b
    using spends_request_loop [of 1 env b] by (simp add: MAX_OMAHA_REQUEST_ATTEMPTS_def)
  have rest: "spends cost (3 * q) (State_Monad.bind (report_metrics x) (\<lambda>_. case r of
        Inl e \<Rightarrow> State_Monad.return (Some (Inl (OmahaRequest e)))
      | Inr received \<Rightarrow>
          (case parse_omaha_response env (fst received) of
             Inl e \<Rightarrow> parse_failed env ps as g e
           | Inr resp \<Rightarrow> process_response env ps as g received resp)))" for x r g
    by (intro bind_free free_yields spends_sum spends_return spends_process_response spends_mono [OF spends_early(1)]) simp
  show ?thesis
    unfolding perform_update_check_def
    by (intro bind_free [OF free_yields(2)] bind_free [OF free_check_interval] bind_free [OF free.io_gets]
        bind_free [OF free_step(1)] spends_bind_le [OF loop, where k = "3 * q"] spends_prod rest) simp
qed

lemma spends_start_update_check: "spends cost (6 * q + 2 * v) (start_update_check env ps)"
proof -
  have "spends cost 0 (check_succeeded env ars)" "spends cost 0 (check_failed env x)" "spends cost 0 (yield_outcome r)" for ars x r
    unfolding check_succeeded_def check_failed_def yield_outcome_def touch_last_update_time_def
      report_attempts_to_successful_check_def report_attempts_to_successful_install_def Let_def
    by (intro free_steps)+
  then show ?thesis
    unfolding start_update_check_def
    by (intro bind_free [OF free_step(5)] spends_then_yield spends_perform free_steps free_persist)
qed

lemma spends_ping: "spends cost q (ping_omaha env)"
  unfolding ping_omaha_def ping_failed_def Let_def
  by (intro bind_free [OF free_step(5)] bind_free [OF free.io_gets] bind_free [OF free_step(1)] spends_then_free
      free_steps free_persist)

end

lemma request_cost_other: "(\<And>req. e \<noteq> SentRequest req) \<Longrightarrow> request_cost e = 0"
  by (cases e) auto

lemma wait_cost_other: "(\<And>w. e \<noteq> Waited w) \<Longrightarrow> wait_cost e = 0"
  by (cases e) auto

interpretation requests: network_cost request_cost 1 0
  by unfold_locales (simp, simp, rule request_cost_other)

interpretation waits: network_cost wait_cost 0 1
  by unfold_locales (simp, simp, rule wait_cost_other)

section \<open>How long the waits are\<close>

lemma randomize_unat:
  assumes "0 < unat width" and "unat width div 2 \<le> unat n" and "unat n + unat width < 2 ^ 64"
  shows "unat (randomize r n width) = unat n - unat width div 2 + unat r mod unat width"
proof -
  have half: "unat (width div 2) = unat width div 2" by (simp add: unat_div)
  have rest: "unat (r mod width) = unat r mod unat width" by (simp add: unat_mod)
  have "unat r mod unat width < unat width" using assms(1) by simp
  then have "unat n - unat width div 2 + unat r mod unat width < 2 ^ 64" using assms(3) by linarith
  moreover have "unat (n - width div 2) = unat n - unat width div 2"
    using assms(2) half by (simp add: unat_sub word_le_nat_alt)
  ultimately show ?thesis
    unfolding randomize_def by (simp add: unat_word_ariths(1) rest)
qed

definition waits_in :: "('pl, 'x) effect list \<Rightarrow> requested_wait list" where
  "waits_in es = List.map_filter (\<lambda>e. case e of Waited w \<Rightarrow> Some w | _ \<Rightarrow> None) es"

lemma waits_in_simps [simp]:
  "waits_in [] = []" "waits_in (Waited w # es) = w # waits_in es" "waits_in (Yielded ev # es) = waits_in es"
  "waits_in (es @ es') = waits_in es @ waits_in es'"
  by (simp_all add: waits_in_def map_filter_simps map_filter_def)

lemma waits_in_free: "trace_cost wait_cost es \<le> 0 \<Longrightarrow> waits_in es = []"
proof (induction es)
  case (Cons e es)
  then show ?case by (cases e) (auto simp: waits_in_def map_filter_simps)
qed simp

text \<open>The wait after attempt \<open>k\<close>: \<open>2 ^ (k - 1)\<close> seconds, half a second more or less.\<close>

definition back_off_wait :: "nat \<Rightarrow> requested_wait \<Rightarrow> bool" where
  "back_off_wait k w \<longleftrightarrow>
     (\<exists>ms. w = WaitFor (duration_from_millis ms) \<and> 2 ^ (k - 1) * 1000 - 500 \<le> ms \<and> ms < 2 ^ (k - 1) * 1000 + 500)"

lemma back_off_wp:
  assumes "k = 1 \<or> k = 2"
  shows "wp (back_off env k) (\<lambda>_ m'. \<exists>d w. back_off_wait k d \<and>
    m' = m\<lparr>sm_trace := sm_trace m @ [Waited d], sm_world := w\<rparr>) m"
proof -
  have wait: "back_off_wait k (WaitFor (duration_from_millis (unat (randomize r (2 ^ (k - Suc 0) * 1000) 1000))))" for r
    using assms randomize_unat [of 1000 1000 r] randomize_unat [of 1000 2000 r]
    by (auto simp: back_off_wait_def)
  show ?thesis
    by (simp add: back_off_def wait_for_timer_def wp_simps Let_def push_bit_eq_mult)
       (rule exI, rule conjI, rule wait, rule exI, rule refl)
qed

lemma attempt_wp: "wp (omaha_attempt env b) (\<lambda>_ m'. \<exists>es. sm_trace m' = sm_trace m @ es \<and> waits_in es = []) m"
  using wp_of_io_rel [OF waits.spends_attempt, of env b m]
  by (rule wp_mono) (auto simp: spends_rel_def intro: waits_in_free)

text \<open>The errors after which another attempt may help, as the documentation has it: of the network, and of the status.\<close>

definition retryable :: "omaha_request_error \<Rightarrow> bool" where
  "retryable e \<longleftrightarrow> (\<exists>s. e = HttpStatus s) \<or> e = HttpTransport Transport \<or> e = HttpTransport Timeout"

lemma gives_up_iff: "gives_up k i e \<longleftrightarrow> \<not> (retryable e \<and> i = None \<and> k < 3)"
proof (cases e)
  case (HttpTransport x)
  then show ?thesis by (cases x) (auto simp: retryable_def is_user_def MAX_OMAHA_REQUEST_ATTEMPTS_def)
qed (auto simp: retryable_def MAX_OMAHA_REQUEST_ATTEMPTS_def)

text \<open>The attempts of a loop that starts with attempt \<open>k\<close> in \<open>m\<close>: each with the machine before it, its result and the machine
  after it.  An attempt is followed by another one after its back-off, or ends the loop.\<close>

definition next_attempt ::
  "nat \<Rightarrow> ('w, 's, 'a, 'k, 'd, 'pl, 'x) machine \<Rightarrow> 'd omaha_result \<Rightarrow> ('w, 's, 'a, 'k, 'd, 'pl, 'x) machine
     \<Rightarrow> ('w, 's, 'a, 'k, 'd, 'pl, 'x) machine \<Rightarrow> bool" where
  "next_attempt k m1 res m2 m3 \<longleftrightarrow>
     (\<exists>e. res = Inl e \<and> retryable e) \<and> poll_interval (sm_context m2) = None \<and>
     (\<exists>d w. back_off_wait k d \<and> m3 = m2\<lparr>sm_trace := sm_trace m2 @ [Waited d], sm_world := w\<rparr>)"

definition last_attempt ::
  "nat \<Rightarrow> ('w, 's, 'a, 'k, 'd, 'pl, 'x) machine \<Rightarrow> 'd omaha_result \<Rightarrow> ('w, 's, 'a, 'k, 'd, 'pl, 'x) machine \<Rightarrow> bool" where
  "last_attempt k m2 res m' \<longleftrightarrow>
     (case res of
        Inr _ \<Rightarrow> m' = m2
      | Inl e \<Rightarrow> (k = 3 \<or> \<not> retryable e \<or> poll_interval (sm_context m2) \<noteq> None) \<and>
          m' = m2\<lparr>sm_trace := sm_trace m2 @ [Yielded (StateChange ErrorCheckingForUpdate)]\<rparr>)"

fun attempts ::
  "('w, 's, 'e, 'a, 'd, 'pl, 'ir, 'x) env \<Rightarrow> 'k request_builder \<Rightarrow> nat \<Rightarrow> ('w, 's, 'a, 'k, 'd, 'pl, 'x) machine
     \<Rightarrow> (('w, 's, 'a, 'k, 'd, 'pl, 'x) machine \<times> 'd omaha_result \<times> ('w, 's, 'a, 'k, 'd, 'pl, 'x) machine) list
     \<Rightarrow> 'd omaha_result \<Rightarrow> ('w, 's, 'a, 'k, 'd, 'pl, 'x) machine \<Rightarrow> bool" where
  "attempts env b k m [] r m' \<longleftrightarrow> False"
| "attempts env b k m ((m1, res, m2) # log) r m' \<longleftrightarrow>
     m1 = m \<and> run_state (omaha_attempt env b) m1 = (res, m2) \<and>
     (if log = [] then res = r \<and> last_attempt k m2 r m'
      else next_attempt k m1 res m2 (fst (hd log)) \<and> attempts env b (k + 1) (fst (hd log)) log r m')"

lemma request_loop_attempts:
  "0 < k \<Longrightarrow> k \<le> 3 \<Longrightarrow>
   wp (request_loop env b k) (\<lambda>(n, r) m'. n \<le> 3 \<and> (\<exists>log. n + 1 = k + length log \<and> attempts env b k m log r m')) m"
proof (induction "3 - k" arbitrary: k m rule: less_induct)
  case less
  let ?Q = "\<lambda>(n, r) m'. n \<le> 3 \<and> (\<exists>log. n + 1 = k + length log \<and> attempts env b k m log r m')"
  obtain res m2 where run: "run_state (omaha_attempt env b) m = (res, m2)" by (metis surj_pair)
  have once: "?Q (k, r) m'" if "res = r" "last_attempt k m2 r m'" for r m'
    using that run less.prems by (auto intro!: exI [of _ "[(m, res, m2)]"])
  show ?case
  proof (cases res)
    case (Inr x)
    then show ?thesis using run once [of "Inr x" m2]
      by (simp add: request_loop.simps [of env b k] wp_bind wp_def [of "omaha_attempt env b"] wp_simps action_defs last_attempt_def)
  next
    case (Inl e)
    show ?thesis
    proof (cases "gives_up k (poll_interval (sm_context m2)) e")
      case True
      then have "last_attempt k m2 (Inl e) (m2\<lparr>sm_trace := sm_trace m2 @ [Yielded (StateChange ErrorCheckingForUpdate)]\<rparr>)"
        using less.prems by (auto simp: last_attempt_def gives_up_iff)
      from once [OF Inl this] show ?thesis using run Inl True
        by (simp add: request_loop.simps [of env b k] wp_bind wp_def [of "omaha_attempt env b"] wp_simps action_defs)
    next
      case False
      then have k: "k < 3" and retry: "retryable e" "poll_interval (sm_context m2) = None" by (auto simp: gives_up_iff)
      have "wp (request_loop env b (k + 1)) ?Q m3"
        if "back_off_wait k d" and m3: "m3 = m2\<lparr>sm_trace := sm_trace m2 @ [Waited d], sm_world := w\<rparr>" for d w m3
      proof -
        have "next_attempt k m res m2 m3" using that retry Inl by (auto simp: next_attempt_def)
        moreover have "log \<noteq> [] \<and> fst (hd log) = m3" if "attempts env b (k + 1) m3 log r m'" for log r m'
          using that by (cases log) auto
        ultimately have chained: "log \<noteq> [] \<and> next_attempt k m res m2 (fst (hd log)) \<and> fst (hd log) = m3"
          if "attempts env b (k + 1) m3 log r m'" for log r m' using that by blast
        let ?P = "\<lambda>(n, r) m'. n \<le> 3 \<and> (\<exists>log. n + 1 = k + 1 + length log \<and> attempts env b (k + 1) m3 log r m')"
        have more: "?Q a m'" if "?P a m'" for a m'
        proof -
          obtain n r where a: "a = (n, r)" by (cases a)
          with that obtain log where log: "n \<le> 3" "n + 1 = k + 1 + length log" "attempts env b (k + 1) m3 log r m'" by auto
          moreover have "attempts env b k m ((m, res, m2) # log) r m'"
            using chained [OF log(3)] run log(3) by auto
          ultimately show ?thesis unfolding a prod.case
            by (intro conjI exI [of _ "(m, res, m2) # log"]) (simp_all del: attempts.simps)
        qed
        have "wp (request_loop env b (k + 1)) ?P m3" using k by (intro less.hyps) simp_all
        then show ?thesis by (rule wp_mono) (rule more)
      qed
      moreover have "k = 1 \<or> k = 2" using k less.prems by auto
      ultimately have "wp (back_off env k) (\<lambda>_. wp (request_loop env b (k + 1)) ?Q) m2"
        by (intro wp_mono [OF back_off_wp]) auto
      then show ?thesis using run Inl False
        by (simp add: request_loop.simps [of env b k] wp_bind wp_def [of "omaha_attempt env b"] wp_simps action_defs)
    qed
  qed
qed

lemma request_cost_count: "trace_cost request_cost es = length (filter (\<lambda>e. request_cost e = 1) es)"
proof (induction es)
  case (Cons e es)
  then show ?case by (cases e) auto
qed simp

lemma wait_cost_count: "trace_cost wait_cost es = length (waits_in es)"
proof (induction es)
  case (Cons e es)
  then show ?case by (cases e) (auto simp: waits_in_def map_filter_simps)
qed simp

section \<open>Properties\<close>

lemma attempts_nth:
  assumes "attempts env b k m log r m'"
  shows "log \<noteq> [] \<and> fst (log ! 0) = m \<and>
    (\<forall>i < length log. case log ! i of (m1, res, m2) \<Rightarrow> run_state (omaha_attempt env b) m1 = (res, m2)) \<and>
    (\<forall>i. i + 1 < length log \<longrightarrow> (case log ! i of (m1, res, m2) \<Rightarrow> next_attempt (k + i) m1 res m2 (fst (log ! (i + 1))))) \<and>
    (case last log of (m1, res, m2) \<Rightarrow> res = r \<and> last_attempt (k + length log - 1) m2 r m')"
  using assms
proof (induction log arbitrary: k m)
  case (Cons x log)
  obtain m1 res m2 where x: "x = (m1, res, m2)" by (cases x)
  show ?case
  proof (cases "log = []")
    case True
    with Cons.prems show ?thesis by (auto simp: x)
  next
    case False
    with Cons.prems have "next_attempt k m1 res m2 (fst (log ! 0))" "attempts env b (k + 1) (fst (log ! 0)) log r m'"
      by (auto simp: x hd_conv_nth)
    note next' = this
    from Cons.prems have first: "m1 = m" "run_state (omaha_attempt env b) m1 = (res, m2)" by (auto simp: x)
    note rest = Cons.IH [OF next'(2)]
    note runs = rest [THEN conjunct2, THEN conjunct2, THEN conjunct1]
      and nexts = rest [THEN conjunct2, THEN conjunct2, THEN conjunct2, THEN conjunct1]
      and ends = rest [THEN conjunct2, THEN conjunct2, THEN conjunct2, THEN conjunct2]
    show ?thesis
    proof (intro conjI allI impI)
      fix i assume "i < length (x # log)"
      then show "case (x # log) ! i of (m1, res, m2) \<Rightarrow> run_state (omaha_attempt env b) m1 = (res, m2)"
        using runs first(2) by (cases i) (simp_all add: x)
    next
      fix i assume i: "i + 1 < length (x # log)"
      show "case (x # log) ! i of (m1, res, m2) \<Rightarrow> next_attempt (k + i) m1 res m2 (fst ((x # log) ! (i + 1)))"
      proof (cases i)
        case (Suc j)
        with i have "j + 1 < length log" by simp
        with nexts [THEN spec, of j] show ?thesis by (simp add: Suc)
      qed (use next'(1) in \<open>simp add: x\<close>)
    next
      show "case last (x # log) of (m1, res, m2) \<Rightarrow> res = r \<and> last_attempt (k + length (x # log) - 1) m2 r m'"
        using ends False by simp
    qed (simp_all add: x first)
  qed
qed simp

lemma attempts_waits:
  "attempts env b k m log r m' \<Longrightarrow>
     \<exists>es. sm_trace m' = sm_trace m @ es \<and> list_all2 back_off_wait [k..<k + length log - 1] (waits_in es)"
proof (induction log arbitrary: k m)
  case (Cons x log)
  obtain res m2 where x: "x = (m, res, m2)" and run: "run_state (omaha_attempt env b) m = (res, m2)"
    using Cons.prems by (cases x) auto
  obtain es where es: "sm_trace m2 = sm_trace m @ es" "waits_in es = []" using wpD [OF attempt_wp run] by blast
  show ?case
  proof (cases "log = []")
    case True
    with Cons.prems es show ?thesis by (auto simp: x last_attempt_def split: sum.splits)
  next
    case False
    with Cons.prems have next': "next_attempt k m res m2 (fst (hd log))" "attempts env b (k + 1) (fst (hd log)) log r m'"
      by (simp_all add: x)
    obtain es' where es': "sm_trace m' = sm_trace (fst (hd log)) @ es'" "list_all2 back_off_wait [k + 1..<k + length log] (waits_in es')"
      using Cons.IH [OF next'(2)] by auto
    from next'(1) obtain d where d: "back_off_wait k d" "sm_trace (fst (hd log)) = sm_trace m2 @ [Waited d]"
      by (auto simp: next_attempt_def)
    have "list_all2 back_off_wait [k..<k + length (x # log) - 1] (waits_in (es @ Waited d # es'))"
      using es(2) es'(2) d(1) False by (simp add: upt_conv_Cons)
    then show ?thesis using es(1) es'(1) d(2) by (intro exI [of _ "es @ Waited d # es'"]) simp
  qed
qed simp

text \<open>C12: The retry loop always ends, after one to three attempts, and exactly when it should.  There is a log of its attempts,
  each with the machine before it, its result and the machine after it, such that the first starts in the machine
  of the loop; every attempt but the last failed with a status or with an error of the transport that is not the user's, while
  no poll interval was dictated, and between it and the next one the machine only waited, for \<open>2 ^ (i - 1)\<close> seconds after
  attempt \<open>i\<close>, half a second more or less; the result of the last one is that of the loop, and if it is an error then it is no
  such error, or a poll interval was dictated, or it was the third attempt, and the machine announced the error and did
  nothing else.\<close>

theorem request_loop_spec:
  assumes "run_state (request_loop env b 1) m = ((n, r), m')"
  shows "1 \<le> n \<and> n \<le> 3 \<and>
    (\<exists>log. length log = n \<and> fst (log ! 0) = m \<and>
       (\<forall>i < n. case log ! i of (m1, res, m2) \<Rightarrow> run_state (omaha_attempt env b) m1 = (res, m2)) \<and>
       (\<forall>i. i + 1 < n \<longrightarrow> (case log ! i of (m1, res, m2) \<Rightarrow>
          (\<exists>e. res = Inl e \<and> ((\<exists>s. e = HttpStatus s) \<or> e = HttpTransport Transport \<or> e = HttpTransport Timeout)) \<and>
          poll_interval (sm_context m2) = None \<and>
          (\<exists>d w. back_off_wait (i + 1) d \<and> fst (log ! (i + 1)) = m2\<lparr>sm_trace := sm_trace m2 @ [Waited d], sm_world := w\<rparr>))) \<and>
       (case last log of (m1, res, m2) \<Rightarrow> res = r \<and>
          (case r of
             Inr _ \<Rightarrow> m' = m2
           | Inl e \<Rightarrow>
               (n = 3 \<or> poll_interval (sm_context m2) \<noteq> None \<or>
                \<not> ((\<exists>s. e = HttpStatus s) \<or> e = HttpTransport Transport \<or> e = HttpTransport Timeout)) \<and>
               m' = m2\<lparr>sm_trace := sm_trace m2 @ [Yielded (StateChange ErrorCheckingForUpdate)]\<rparr>))) \<and>
    (\<exists>es. sm_trace m' = sm_trace m @ es \<and> list_all2 back_off_wait [1..<n] (waits_in es))"
proof -
  obtain log where log: "n = length log" "n \<le> 3" "attempts env b 1 m log r m'"
    using wpD [OF request_loop_attempts [of 1 env b m] assms] by auto
  have waits: "\<exists>es. sm_trace m' = sm_trace m @ es \<and> list_all2 back_off_wait [1..<n] (waits_in es)"
    using attempts_waits [OF log(3)] log(1) by simp
  from attempts_nth [OF log(3)] log(1) have parts: "1 \<le> n" "fst (log ! 0) = m"
    "\<forall>i < n. case log ! i of (m1, res, m2) \<Rightarrow> run_state (omaha_attempt env b) m1 = (res, m2)"
    "\<forall>i. i + 1 < n \<longrightarrow> (case log ! i of (m1, res, m2) \<Rightarrow> next_attempt (i + 1) m1 res m2 (fst (log ! (i + 1))))"
    "case last log of (m1, res, m2) \<Rightarrow> res = r \<and> last_attempt n m2 r m'"
    by (auto simp: Suc_le_eq)
  show ?thesis
    by (intro conjI exI [of _ log] waits parts(1-3) log(2) log(1) [symmetric])
       (use parts(4,5) in \<open>auto simp: next_attempt_def last_attempt_def retryable_def split: prod.splits sum.splits\<close>)
qed

theorem request_loop_spec_witness:
  "\<exists>n r m'. run_state (request_loop demo_env (check_builder demo_config request_params_default [] (GUID [])) 1) (demo_machine []) =
     ((n, r), m') \<and> n \<le> 3"
proof -
  obtain n r m' where run: "run_state (request_loop demo_env (check_builder demo_config request_params_default [] (GUID [])) 1)
      (demo_machine []) = ((n, r), m')"
    by (metis surj_pair)
  from request_loop_spec [OF run] run show ?thesis by blast
qed

text \<open>C22: A whole update check, whatever happens in it, sends at most six requests to Omaha (three attempts, and three
  reports around an installation) and waits at most twice.\<close>

theorem requests_per_check_bounded:
  assumes "run_state (start_update_check env ps) m = (reboot, m')"
  shows "\<exists>es. sm_trace m' = sm_trace m @ es \<and>
    length (filter (\<lambda>e. request_cost e = 1) es) \<le> 6 \<and> length (waits_in es) \<le> 2"
proof -
  from state_io_relD [OF requests.spends_start_update_check assms] state_io_relD [OF waits.spends_start_update_check assms]
  show ?thesis by (auto simp: spends_rel_def request_cost_count wait_cost_count)
qed

theorem requests_per_check_bounded_witness:
  "\<exists>es. sm_trace (snd (run_state (start_update_check demo_env request_params_default) (demo_machine []))) =
       sm_trace (demo_machine [] :: (demo_world, mem_storage, vec_app_set, string, string, stub_plan, stub_install_errors) machine) @ es \<and>
     length (filter (\<lambda>e. request_cost e = 1) es) \<le> 6 \<and> length (waits_in es) \<le> 2"
  using requests_per_check_bounded [OF prod.collapse [symmetric], of demo_env request_params_default "demo_machine []"]
  by blast

end
