(* ===== verification/Install_Properties.thy ===== *)
theory Install_Properties imports Check_Properties begin

text \<open>
  The end of an installation in \<open>state_machine.rs\<close>: what the results of the installer become, what is stored for the next
  boot, and what the next boot reports.
\<close>

section \<open>Sequencing with a relation that the first part keeps\<close>

lemma wp_then:
  "state_io_rel R f \<Longrightarrow> (\<And>a m1. R m m1 \<Longrightarrow> wp (g a) Q m1) \<Longrightarrow> wp (State_Monad.bind f g) Q m"
  unfolding wp_bind by (rule wp_mono [OF wp_of_io_rel])

lemma wp_pointfree: "wp (State_Monad.return x) Q = Q x" "wp (State_Monad.bind f g) Q = wp f (\<lambda>a. wp (g a) Q)"
  by (simp_all add: fun_eq_iff wp_return wp_bind)

text \<open>The app set stays and the trace keeps its events: true of everything up to the end of an update check.\<close>

definition stays ::
  "('w, 's, 'a, 'k, 'd, 'pl, 'x) machine \<Rightarrow> ('w, 's, 'a, 'k, 'd, 'pl, 'x) machine \<Rightarrow> bool" where
  "stays m m' \<longleftrightarrow> sm_app_set m' = sm_app_set m \<and> set (sm_trace m) \<subseteq> set (sm_trace m')"

interpretation stays: check_effects stays env for env
  by unfold_locales (auto simp: stays_def)

lemma stays_emit: "state_io_rel stays (emit e)"
  unfolding emit_def by (intro stays.io_modify) (auto simp: stays_def)

lemma stays_then:
  "stays m m1 \<Longrightarrow> state_io_rel stays f \<Longrightarrow> (\<And>a m2. stays m m2 \<Longrightarrow> wp (g a) Q m2) \<Longrightarrow> wp (State_Monad.bind f g) Q m1"
  by (rule wp_then) (blast intro: stays.effect_trans)+

lemma staysD: "stays m m' \<Longrightarrow> sm_app_set m' = sm_app_set m" "stays m m' \<Longrightarrow> e \<in> set (sm_trace m) \<Longrightarrow> e \<in> set (sm_trace m')"
  by (auto simp: stays_def)

section \<open>What a finished installation stores\<close>

text \<open>What the storage remembers of an update that needs a reboot: a time of the clock, and the new version of the system
  app if the response has one.\<close>

definition remembers ::
  "('w, 's, 'e, 'a, 'd, 'pl, 'ir, 'x) env \<Rightarrow> 'a \<Rightarrow> response \<Rightarrow> mem_storage \<Rightarrow> bool" where
  "remembers env a resp s \<longleftrightarrow>
     (\<exists>w. get_time mem_ops s UPDATE_FINISH_TIME = map_option micros_from_epoch_to_system_time
            (checked_system_time_to_micros_from_epoch (fst (now_in_walltime env w)))) \<and>
     (case next_versions_of (filter has_update (resp_apps resp)) (get_system_app_id (apps_api env) a) of
        None \<Rightarrow> True
      | Some v \<Rightarrow> get_string mem_ops s TARGET_VERSION = Some (unwrap_target_version v))"

lemma finish_keys: "UPDATE_FINISH_TIME \<noteq> TARGET_VERSION" "TARGET_VERSION \<noteq> UPDATE_FINISH_TIME"
  by (simp_all add: UPDATE_FINISH_TIME_def TARGET_VERSION_def)

lemma remembers_cong:
  "mem_data s' UPDATE_FINISH_TIME = mem_data s UPDATE_FINISH_TIME \<Longrightarrow> mem_data s' TARGET_VERSION = mem_data s TARGET_VERSION \<Longrightarrow>
   remembers env a resp s' = remembers env a resp s"
  by (simp add: remembers_def get_time_def mem.view_int mem.view_string cong: option.case_cong)

lemma store_finished_remembers:
  assumes "store env = mem_ops"
  shows "remembers env a resp (store_finished env (next_versions_of (filter has_update (resp_apps resp)))
           (fst (now_in_walltime env w)) a s)"
  using assms unfolding remembers_def
  by (intro conjI exI [of _ w])
     (auto simp: store_finished_def Let_def get_time_def mem.view_int mem.view_string mem.view_upds finish_keys
       split: option.splits)

definition reboot_remembered ::
  "('w, mem_storage, 'e, 'a, 'd, 'pl, 'ir, 'x) env \<Rightarrow> 'a \<Rightarrow> ('ir, 'x) check_outcome
     \<Rightarrow> ('w, mem_storage, 'a, 'k, 'd, 'pl, 'x) machine \<Rightarrow> bool" where
  "reboot_remembered env a r m \<longleftrightarrow>
     (\<forall>ars ir. r = Some (Inr (ars, Needed ir)) \<longrightarrow>
        (\<exists>resp. Yielded (OmahaServerResponse resp) \<in> set (sm_trace m) \<and> remembers env a resp (sm_storage m)))"

lemma no_reboot_remembered [simp]:
  "reboot_remembered env a None m" "reboot_remembered env a (Some (Inl e)) m"
  "reboot_remembered env a (Some (Inr (ars, NotNeeded))) m" "reboot_remembered env a (not_updated resp act) m"
  by (simp_all add: reboot_remembered_def not_updated_def)

lemma finish_install_wp:
  assumes "store env = mem_ops" and "Yielded (OmahaServerResponse resp) \<in> set (sm_trace m)"
  shows "wp (finish_install env (next_versions_of (filter has_update (resp_apps resp))) pl (fst (now_in_walltime env w)) t ir)
    (\<lambda>r m'. reboot_remembered env (sm_app_set m) (Some (Inr (ars, r))) m') m"
  using assms(2)
  by (auto simp: finish_install_def wp_simps action_defs reboot_remembered_def store_finished_remembers [OF assms(1)]
      split: sum.splits)

lemma install_update_wp:
  assumes mem: "store env = mem_ops" and resp: "Yielded (OmahaServerResponse resp) \<in> set (sm_trace m)"
  shows "wp (install_update env ps as g resp pl) (reboot_remembered env (sm_app_set m)) m"
proof -
  have finish: "wp (case z of None \<Rightarrow> State_Monad.return None
      | Some (ars, es) \<Rightarrow> if es \<noteq> [] then install_failed ars es
          else State_Monad.bind (finish_install env (next_versions_of (filter has_update (resp_apps resp))) pl
                 (fst (now_in_walltime env w)) t ir) (\<lambda>r. State_Monad.return (Some (Inr (ars, r)))))
      (reboot_remembered env (sm_app_set m)) m1"
    if "stays m m1" for z w t ir m1
  proof (cases z)
    case (Some x)
    obtain ars es where x: "x = (ars, es)" by (cases x)
    have m1: "sm_app_set m1 = sm_app_set m" "Yielded (OmahaServerResponse resp) \<in> set (sm_trace m1)"
      using that resp by (auto dest: staysD)
    have "wp (install_failed ars es) (reboot_remembered env (sm_app_set m)) m1"
      unfolding install_failed_def wp_bind by (rule wp_top, rule wp_top) (simp add: wp_simps)
    then show ?thesis using finish_install_wp [OF mem m1(2), of pl w t ir ars] m1(1)
      by (auto simp: Some x wp_bind wp_return elim!: wp_mono)
  qed (simp add: wp_simps)
  show ?thesis
    unfolding install_update_def Let_def
    apply (rule stays_then [OF stays.effect_refl stays.io_install_parts(1)], simp only: split_paired_all prod.case)
    apply (rule stays_then [OF _ stays.io_run_install [OF stays_emit]], assumption, simp only: split_paired_all prod.case)
    apply (simp only: wp_bind [of "outside _"] wp_outside)
    apply (rule stays_then [OF _ stays.io_install_parts(2)], fastforce simp: stays_def)
    apply (rule stays_then [OF _ stays.io_install_parts(3)], assumption)
    apply (rule stays_then [OF _ stays.io_install_parts(4)], assumption)
    apply (rule finish, assumption)
    done
qed

text \<open>From the response to the end of the check.\<close>

lemma process_plan_wp:
  assumes mem: "store env = mem_ops" and resp: "Yielded (OmahaServerResponse resp) \<in> set (sm_trace m)"
  shows "wp (process_plan env ps as g resp pl) (reboot_remembered env (sm_app_set m)) m"
proof -
  have "wp (case d of UpdateOk \<Rightarrow> install_update env ps as g resp pl
      | UpdateDeferredByPolicy \<Rightarrow> plan_deferred env ps as g nv resp
      | UpdateDeniedByPolicy \<Rightarrow> plan_denied env ps as g nv resp) (reboot_remembered env (sm_app_set m)) m1"
    if "stays m m1" for d nv m1
  proof (cases d)
    case UpdateOk
    have "sm_app_set m1 = sm_app_set m" "Yielded (OmahaServerResponse resp) \<in> set (sm_trace m1)"
      using that resp by (auto dest: staysD)
    with install_update_wp [OF mem, of resp m1] UpdateOk show ?thesis by simp
  next
    case UpdateDeferredByPolicy
    have "wp (plan_deferred env ps as g nv resp) (reboot_remembered env (sm_app_set m)) m1"
      unfolding plan_deferred_def wp_bind by (rule wp_top, rule wp_top) (simp add: wp_simps)
    then show ?thesis using UpdateDeferredByPolicy by simp
  next
    case UpdateDeniedByPolicy
    have "wp (plan_denied env ps as g nv resp) (reboot_remembered env (sm_app_set m)) m1"
      unfolding plan_denied_def wp_bind by (rule wp_top) (simp add: wp_simps)
    then show ?thesis using UpdateDeniedByPolicy by simp
  qed
  then show ?thesis
    unfolding process_plan_def Let_def
    by (intro stays_then [OF stays.effect_refl stays.io_outside] stays_then [OF _ stays_emit])
qed

lemma process_response_wp:
  assumes mem: "store env = mem_ops"
  shows "wp (process_response env ps as g received resp) (reboot_remembered env (sm_app_set m)) m"
proof -
  define m1 where "m1 = m\<lparr>sm_trace := sm_trace m @ [Yielded (OmahaServerResponse resp)]\<rparr>"
  have plan: "wp (case p of
          Inl e \<Rightarrow> plan_failed env ps as g (next_versions_of (filter has_update (resp_apps resp))) e
        | Inr pl \<Rightarrow> process_plan env ps as g resp pl) (reboot_remembered env (sm_app_set m)) m2"
    if "stays m1 m2" for p m2
  proof (cases p)
    case (Inl e)
    have "wp (plan_failed env ps as g nv e) (reboot_remembered env (sm_app_set m)) m2" for nv
      unfolding plan_failed_def wp_bind
      by (rule wp_top, rule wp_top, rule wp_top) (simp add: wp_simps)
    then show ?thesis using Inl by simp
  next
    case (Inr pl)
    have "sm_app_set m2 = sm_app_set m" "Yielded (OmahaServerResponse resp) \<in> set (sm_trace m2)"
      using that by (auto simp: m1_def stays_def)
    with process_plan_wp [OF mem, of resp m2] Inr show ?thesis by simp
  qed
  show ?thesis
    unfolding process_response_def wp_bind [of "yield_event _"] Let_def
    by (simp add: action_defs wp_emit m1_def [symmetric] wp_if)
       (auto simp: wp_simps split_beta intro!: plan stays.on_world)
qed

lemma perform_update_check_wp:
  assumes mem: "store env = mem_ops"
  shows "wp (perform_update_check env ps as) (reboot_remembered env (sm_app_set m)) m"
proof -
  have outcome: "wp (case r of
        Inl e \<Rightarrow> State_Monad.return (Some (Inl (OmahaRequest e)))
      | Inr received \<Rightarrow>
          (case parse_omaha_response env (fst received) of
             Inl e \<Rightarrow> parse_failed env ps as g e
           | Inr resp \<Rightarrow> process_response env ps as g received resp)) (reboot_remembered env (sm_app_set m)) m1"
    if "stays m m1" for r g m1
  proof (cases r)
    case (Inr received)
    have parse: "wp (parse_failed env ps as g e) (reboot_remembered env (sm_app_set m)) m1" for e
      unfolding parse_failed_def wp_bind by (rule wp_top, rule wp_top) (simp add: wp_simps)
    have "wp (process_response env ps as g received resp) (reboot_remembered env (sm_app_set m)) m1" for resp
      using process_response_wp [OF mem, of ps as g received resp m1] staysD(1) [OF that] by simp
    with Inr parse show ?thesis by (simp split: sum.splits)
  qed (simp add: wp_simps)
  show ?thesis
    unfolding perform_update_check_def
    apply (rule stays_then [OF stays.effect_refl stays.io_yields(2)])
    apply (rule stays_then [OF _ stays.io_check_interval], assumption)
    apply (rule stays_then [OF _ stays.io_gets], assumption)
    apply (rule stays_then [OF _ stays.io_outside], assumption)
    apply (rule stays_then [OF _ stays.io_request_loop], assumption, simp only: split_paired_all prod.case)
    apply (rule stays_then [OF _ stays.io_yields(3) [OF other_metrics(7)]], assumption)
    apply (rule outcome, assumption)
    done
qed

text \<open>What follows writes other keys only.\<close>

lemma persisted_keeps:
  assumes "k \<notin> {LAST_UPDATE_TIME, SERVER_DICTATED_POLL_INTERVAL, CONSECUTIVE_FAILED_UPDATE_CHECKS}"
    and "k \<notin> app_id ` set (vas_apps a)"
  shows "mem_data (app_set_persist vec_ops mem_ops to_text a (context_persist mem_ops c s)) k = mem_data s k"
  using assms fold_app_persist_other [of k "vas_apps a" to_text "context_persist mem_ops c s"]
  by (auto simp: app_set_persist_def vec_ops_def context_persist_def Let_def mem.view_upds)

lemma finish_keys_fresh:
  "UPDATE_FINISH_TIME \<notin> {LAST_UPDATE_TIME, SERVER_DICTATED_POLL_INTERVAL, CONSECUTIVE_FAILED_UPDATE_CHECKS, CONSECUTIVE_FAILED_INSTALL_ATTEMPTS}"
  "TARGET_VERSION \<notin> {LAST_UPDATE_TIME, SERVER_DICTATED_POLL_INTERVAL, CONSECUTIVE_FAILED_UPDATE_CHECKS, CONSECUTIVE_FAILED_INSTALL_ATTEMPTS}"
  by (simp_all add: UPDATE_FINISH_TIME_def TARGET_VERSION_def context_keys CONSECUTIVE_FAILED_INSTALL_ATTEMPTS_def)

definition keeps ::
  "('w, mem_storage, 'a, 'k, 'd, 'pl, 'x) machine \<Rightarrow> ('w, mem_storage, 'a, 'k, 'd, 'pl, 'x) machine \<Rightarrow> bool" where
  "keeps m m' \<longleftrightarrow>
     mem_data (sm_storage m') UPDATE_FINISH_TIME = mem_data (sm_storage m) UPDATE_FINISH_TIME \<and>
     mem_data (sm_storage m') TARGET_VERSION = mem_data (sm_storage m) TARGET_VERSION \<and>
     set (sm_trace m) \<subseteq> set (sm_trace m')"

lemma keeps_remembers:
  "keeps m m' \<Longrightarrow> reboot_remembered env a r m \<Longrightarrow> reboot_remembered env a r m'"
  unfolding keeps_def reboot_remembered_def by (metis remembers_cong subsetD)

lemma keeps_trans: "keeps m m' \<Longrightarrow> keeps m' m'' \<Longrightarrow> keeps m m''"
  by (auto simp: keeps_def)

lemma check_succeeded_keeps:
  assumes "store env = mem_ops"
  shows "wp (check_succeeded env ars)
    (\<lambda>_ m'. keeps m m' \<and> sm_app_set m' = update_from_omaha (apps_api env) ars (sm_app_set m)) m"
  using assms finish_keys_fresh
  by (auto simp: wp_simps check_succeeded_def touch_last_update_time_def Let_def report_attempts_to_successful_check_def
      report_attempts_to_successful_install_def action_defs keeps_def mem.view_upds split: option.splits)

lemma yield_outcome_keeps: "wp (yield_outcome r) (\<lambda>_ m'. keeps m m' \<and> sm_app_set m' = sm_app_set m) m"
  by (auto simp: yield_outcome_def wp_simps action_defs keeps_def)

lemma persist_data_keeps:
  assumes "store env = mem_ops" and "apps_api env = vec_ops"
    and "{UPDATE_FINISH_TIME, TARGET_VERSION} \<inter> app_id ` set (vas_apps (sm_app_set m)) = {}"
  shows "wp (persist_data env) (\<lambda>_ m'. keeps m m') m"
proof -
  have "UPDATE_FINISH_TIME \<notin> app_id ` set (vas_apps (sm_app_set m))" "TARGET_VERSION \<notin> app_id ` set (vas_apps (sm_app_set m))"
    using assms(3) by blast+
  then show ?thesis using assms(1,2) finish_keys_fresh
    unfolding persist_data_def persist_context_def commit_def wp_simps keeps_def by (simp add: persisted_keeps)
qed

lemma updated_ids: "app_id ` set (vas_apps (update_from_omaha vec_ops ars a)) = app_id ` set (vas_apps a)"
proof -
  have "app_id (update_app_from ars x) = app_id x" for x by (induction ars) auto
  then show ?thesis by (simp add: vec_update image_image)
qed

lemma start_update_check_wp:
  assumes mem: "store env = mem_ops" and vec: "apps_api env = vec_ops"
    and ids: "{UPDATE_FINISH_TIME, TARGET_VERSION} \<inter> app_id ` set (vas_apps (sm_app_set m)) = {}"
  shows "wp (start_update_check env ps) (\<lambda>r m'. case r of None \<Rightarrow> True
      | Some reboot \<Rightarrow> reboot_remembered env (sm_app_set m) (Some (Inr ([], reboot))) m') m"
    (is "wp _ ?Q m")
proof -
  have ok: "wp (do {
          check_succeeded env ars;
          yield_outcome (Inr ars);
          persist_data env;
          State_Monad.return (Some reboot) }) ?Q m1"
    if before: "reboot_remembered env (sm_app_set m) (Some (Inr (ars, reboot))) m1" "sm_app_set m1 = sm_app_set m"
    for ars reboot m1
  proof -
    let ?R = "reboot_remembered env (sm_app_set m) (Some (Inr ([], reboot)))"
    have last: "wp (persist_data env) (\<lambda>_. ?R) m3" if "keeps m1 m3"
        "sm_app_set m3 = update_from_omaha (apps_api env) ars (sm_app_set m1)" for m3
    proof -
      have "wp (persist_data env) (\<lambda>_ m'. keeps m3 m') m3"
        using ids that(2) before(2) by (intro persist_data_keeps mem vec) (simp add: vec updated_ids)
      then show ?thesis
        using keeps_remembers [OF keeps_trans [OF that(1)] before(1)]
        by (elim wp_mono) (simp add: reboot_remembered_def)
    qed
    have "wp (yield_outcome (Inr ars)) (\<lambda>_. wp (persist_data env) (\<lambda>_. ?R)) m2" if "keeps m1 m2"
        "sm_app_set m2 = update_from_omaha (apps_api env) ars (sm_app_set m1)" for m2
      using that by (intro wp_mono [OF yield_outcome_keeps]) (auto intro!: last keeps_trans [OF that(1)])
    then have "wp (check_succeeded env ars) (\<lambda>_. wp (yield_outcome (Inr ars)) (\<lambda>_. wp (persist_data env) (\<lambda>_. ?R))) m1"
      by (intro wp_mono [OF check_succeeded_keeps [OF mem]]) auto
    then show ?thesis by (simp add: wp_pointfree)
  qed
  have failed: "wp (do {
          check_failed env e;
          yield_outcome (Inl e);
          persist_data env;
          State_Monad.return (Some NotNeeded) }) ?Q m1" for e m1
    unfolding wp_bind by (rule wp_top, rule wp_top, rule wp_top) (simp add: wp_return)
  have "wp (case r of
        None \<Rightarrow> State_Monad.return None
      | Some (Inr (app_responses, reboot)) \<Rightarrow> do {
          check_succeeded env app_responses;
          yield_outcome (Inr app_responses);
          persist_data env;
          State_Monad.return (Some reboot) }
      | Some (Inl e) \<Rightarrow> do {
          check_failed env e;
          yield_outcome (Inl e);
          persist_data env;
          State_Monad.return (Some NotNeeded) }) ?Q m1"
    if "reboot_remembered env (sm_app_set m) r m1" "sm_app_set m1 = sm_app_set m" for r m1
  proof (cases r)
    case (Some x)
    then show ?thesis
    proof (cases x)
      case (Inr y)
      with that Some show ?thesis using ok [of "fst y" "snd y" m1] by (simp add: split_beta)
    qed (simp add: failed)
  qed (simp add: wp_return)
  moreover have "wp (perform_update_check env ps as) (\<lambda>r m1. reboot_remembered env (sm_app_set m) r m1 \<and> check_frame m m1) m" for as
    by (intro wp_conj perform_update_check_wp mem perform_frame)
  ultimately show ?thesis
    unfolding start_update_check_def wp_bind [of "apps_of env"] wp_apps_of wp_bind [of "perform_update_check env ps as" for as]
    by (blast intro: wp_mono dest: iffD1 [OF check_frame_def])
qed

section \<open>The next boot\<close>

lemma run_start_reports:
  assumes mem: "store env = mem_ops" and rem: "remembers env a resp s"
    and valid: "all_valid (apps_api env) (sm_app_set (build_machine env cfg cup s a' w))"
    and target: "next_versions_of (filter has_update (resp_apps resp)) (get_system_app_id (apps_api env) a) =
        Some (Some (os_version (cfg_os cfg)))"
    and fits: "\<And>w. checked_system_time_to_micros_from_epoch (fst (now_in_walltime env w)) \<noteq> None"
  shows "lp_should_report (run_start env (build_machine env cfg cup s a' w)) \<and>
    (\<exists>w' us. checked_system_time_to_micros_from_epoch (fst (now_in_walltime env w')) = Some us \<and>
       lp_finish_time (run_start env (build_machine env cfg cup s a' w)) = Some (micros_from_epoch_to_system_time us))"
proof -
  obtain w' where time: "get_time mem_ops s UPDATE_FINISH_TIME = map_option micros_from_epoch_to_system_time
            (checked_system_time_to_micros_from_epoch (fst (now_in_walltime env w')))"
    and version: "get_string mem_ops s TARGET_VERSION = Some (os_version (cfg_os cfg))"
    using rem target by (auto simp: remembers_def unwrap_target_version_def)
  obtain us where us: "checked_system_time_to_micros_from_epoch (fst (now_in_walltime env w')) = Some us"
    using fits by blast
  have "sm_storage (build_machine env cfg cup s a' w) = s" "sm_config (build_machine env cfg cup s a' w) = cfg"
    by (simp_all add: build_machine_def)
  then have "lp_should_report (run_start env (build_machine env cfg cup s a' w))"
    "lp_finish_time (run_start env (build_machine env cfg cup s a' w)) = Some (micros_from_epoch_to_system_time us)"
    using valid time version us mem by (simp_all add: run_start_def Let_def split_beta)
  with us show ?thesis by blast
qed

text \<open>The waits for a reboot that a trace reports, in order.\<close>

definition reported_waits :: "('pl, 'x) effect list \<Rightarrow> duration list" where
  "reported_waits t = [d. Reported (WaitedForRebootDuration d) \<leftarrow> t]"

lemma reported_waits_append [simp]: "reported_waits (s @ t) = reported_waits s @ reported_waits t"
  by (simp add: reported_waits_def)

lemma schedule_next_check_frame:
  "wp (schedule_next_check env) (\<lambda>_ m'. sm_storage m' = sm_storage m \<and>
     reported_waits (sm_trace m') = reported_waits (sm_trace m)) m"
proof -
  have "wp (make_wait_to_next_check ct) (\<lambda>_ m'. sm_storage m' = sm_storage m \<and>
      reported_waits (sm_trace m') = reported_waits (sm_trace m)) m" for ct m
    by (auto simp: make_wait_to_next_check_def wp_simps reported_waits_def split: option.splits)
  then show ?thesis
    unfolding schedule_next_check_def wp_bind update_next_update_time_def
    by (simp add: wp_simps action_defs) (fastforce simp: reported_waits_def elim: wp_mono)
qed

lemma waited_for_reboot_duration_eq:
  "waited_for_reboot_duration t start now' =
     (let d = (wall now' - t) - (mono now' - start) in
      if t \<le> wall now' \<and> start \<le> mono now' \<and> 0 \<le> d then Some (nat d) else None)"
  by (auto simp: waited_for_reboot_duration_def wall_duration_since_def duration_since_def checked_duration_since_def
      duration_checked_sub_def Let_def nat_diff_distrib)

section \<open>At most one report in a run\<close>

text \<open>Only the head of the loop reports a wait: everything else leaves the reported waits, and what the head looks at, alone.\<close>

lemma reported_waits_other [simp]:
  "(\<And>d. e \<noteq> Reported (WaitedForRebootDuration d)) \<Longrightarrow> reported_waits [e] = []"
  by (auto simp: reported_waits_def split: effect.splits metrics.splits)

lemma auxiliary_not_wait: "auxiliary e \<Longrightarrow> e \<noteq> Reported (WaitedForRebootDuration d)"
  by auto

definition same_waits ::
  "('w, 's, 'a, 'k, 'd, 'pl, 'x) machine \<Rightarrow> ('w, 's, 'a, 'k, 'd, 'pl, 'x) machine \<Rightarrow> bool" where
  "same_waits m m' \<longleftrightarrow> reported_waits (sm_trace m') = reported_waits (sm_trace m)"

interpretation same_waits: quiet_effects same_waits env for env
  by unfold_locales (simp_all add: same_waits_def auxiliary_not_wait)

definition report_part :: "('ir, 'm) loop_state \<Rightarrow> bool \<times> system_time option \<times> instant" where
  "report_part l = (lp_should_report l, lp_finish_time l, lp_start_mono l)"

lemma report_part_moves [simp]:
  "report_part (goto p l) = report_part l" "report_part (answer i r l) = report_part l"
  "report_part (after_reboot_question opts ir done l) = report_part l" "report_part (l\<lparr>lp_machine := m\<rparr>) = report_part l"
  "report_part (l\<lparr>lp_queue := q\<rparr>) = report_part l" "report_part (l\<lparr>lp_queue := q, lp_next_no := n\<rparr>) = report_part l"
  by (auto simp: report_part_def goto_def answer_def after_reboot_question_def split: option.splits)

lemma report_part_acting: "(\<And>r l. report_part (k r l) = report_part l) \<Longrightarrow> report_part (acting act k l) = report_part l"
  by (simp add: acting_def)

lemma report_part_considered: "report_part (consider_check env opts i l) = report_part l"
  unfolding consider_check_def by (rule report_part_acting) (simp split: option.splits)

lemma report_part_completed: "report_part (complete_check env opts ps l) = report_part l"
  unfolding complete_check_def
  by (rule report_part_acting) (auto simp: report_part_acting split: option.splits reboot_after_update.splits)

lemma step_report_part: "step env l l' \<Longrightarrow> report_part l' = report_part l \<or> l' = loop_head env l"
  by (induction rule: step.induct) (auto simp: report_part_acting report_part_considered report_part_completed)

text \<open>What the head of the loop reports.\<close>

definition due ::
  "('w, 's, 'e, 'a, 'd, 'pl, 'ir, 'x) env \<Rightarrow> ('w, 's, 'a, 'k, 'd, 'pl, 'ir, 'x) loop \<Rightarrow> duration list" where
  "due env l =
     (case (if lp_should_report l then lp_finish_time l else None) of
        None \<Rightarrow> []
      | Some t \<Rightarrow>
          (case waited_for_reboot_duration t (lp_start_mono l) (fst (now env (sm_world (lp_machine l)))) of
             None \<Rightarrow> []
           | Some d \<Rightarrow> [d]))"

lemma due_cases:
  obtains (Nothing) "due env l = []"
  | (One) t d where "lp_should_report l" "lp_finish_time l = Some t"
      "waited_for_reboot_duration t (lp_start_mono l) (fst (now env (sm_world (lp_machine l)))) = Some d" "due env l = [d]"
proof (cases "due env l = []")
  case False
  then show ?thesis using that(2) by (auto simp: due_def split: option.splits if_splits)
qed (rule that(1))

lemma loop_head_reports:
  "report_part (loop_head env l) = (lp_should_report l \<and> due env l = [], lp_finish_time l, lp_start_mono l)"
  "reported_waits (sm_trace (lp_machine (loop_head env l))) = reported_waits (sm_trace (lp_machine l)) @ due env l"
proof -
  define l1 where "l1 = (case (if lp_should_report l then lp_finish_time l else None) of None \<Rightarrow> l
    | Some t \<Rightarrow> acting (report_waited_for_reboot env t (lp_start_mono l)) (\<lambda>r l. l\<lparr>lp_should_report := r\<rparr>) l)"
  have head: "loop_head env l = acting (schedule_next_check env) (\<lambda>_. goto WaitingForCheck) l1"
    by (simp add: loop_head_def l1_def)
  have "report_part l1 = (lp_should_report l \<and> due env l = [], lp_finish_time l, lp_start_mono l) \<and>
      reported_waits (sm_trace (lp_machine l1)) = reported_waits (sm_trace (lp_machine l)) @ due env l"
  proof (cases "if lp_should_report l then lp_finish_time l else None")
    case None
    then show ?thesis by (simp add: l1_def due_def report_part_def)
  next
    case (Some t)
    then have due: "lp_should_report l" "lp_finish_time l = Some t" by (auto split: if_splits)
    have "wp (report_waited_for_reboot env t (lp_start_mono l)) (\<lambda>r m'. r = (due env l = []) \<and>
        reported_waits (sm_trace m') = reported_waits (sm_trace (lp_machine l)) @ due env l) (lp_machine l)"
      using due by (simp add: report_waited_for_reboot_def wp_simps action_defs reported_waits_def due_def split: option.splits)
    then show ?thesis using due by (simp add: l1_def report_part_def acting_def wp_fst_snd)
  qed
  moreover have "report_part (loop_head env l) = report_part l1"
    unfolding head by (simp add: report_part_acting)
  moreover have "reported_waits (sm_trace (lp_machine (loop_head env l))) = reported_waits (sm_trace (lp_machine l1))"
    using schedule_next_check_frame [of env "lp_machine l1"] unfolding head wp_fst_snd by (simp add: acting_def goto_def)
  ultimately show "report_part (loop_head env l) = (lp_should_report l \<and> due env l = [], lp_finish_time l, lp_start_mono l)"
    "reported_waits (sm_trace (lp_machine (loop_head env l))) = reported_waits (sm_trace (lp_machine l)) @ due env l"
    by simp_all
qed

text \<open>As long as the report is due nothing was reported, and it falls due at the start only.\<close>

definition reports_once ::
  "('w, 's, 'e, 'a, 'd, 'pl, 'ir, 'x) env \<Rightarrow> ('w, 's, 'a, 'k, 'd, 'pl, 'ir, 'x) loop
     \<Rightarrow> ('w, 's, 'a, 'k, 'd, 'pl, 'ir, 'x) loop \<Rightarrow> bool" where
  "reports_once env l0 l \<longleftrightarrow>
     lp_finish_time l = lp_finish_time l0 \<and> lp_start_mono l = lp_start_mono l0 \<and>
     (reported_waits (sm_trace (lp_machine l)) = [] \<and> lp_should_report l = lp_should_report l0 \<or>
      (\<exists>t d w. lp_should_report l0 \<and> lp_finish_time l0 = Some t \<and> \<not> lp_should_report l \<and>
         waited_for_reboot_duration t (lp_start_mono l0) (fst (now env w)) = Some d \<and>
         reported_waits (sm_trace (lp_machine l)) = [d]))"

lemma reports_once_reachable:
  assumes "reachable env m l" and "reported_waits (sm_trace m) = []"
  shows "reports_once env (run_start env m) l"
  using assms(1)
proof (induction rule: reachable.induct)
  case reachable_start
  show ?case using assms(2) by (auto simp: reports_once_def run_start_def Let_def split: prod.splits)
next
  case (reachable_step l l')
  show ?case
  proof (cases "l' = loop_head env l")
    case True
    show ?thesis
    proof (cases rule: due_cases [of env l])
      case Nothing
      then show ?thesis
        using reachable_step.IH loop_head_reports [of env l] unfolding True reports_once_def report_part_def by simp
    next
      case (One t d)
      then show ?thesis
        using reachable_step.IH loop_head_reports [of env l] unfolding True reports_once_def report_part_def
        by (intro conjI disjI2 exI [of _ t] exI [of _ d] exI [of _ "sm_world (lp_machine l)"]) auto
    qed
  next
    case False
    then have "report_part l' = report_part l" "same_waits (lp_machine l) (lp_machine l')"
      using step_report_part [OF reachable_step.hyps(2)] same_waits.other_step_R [OF reachable_step.hyps(2)] by auto
    then show ?thesis using reachable_step.IH by (simp add: reports_once_def report_part_def same_waits_def)
  qed
qed

section \<open>The results of the installer\<close>

text \<open>What the app at a position of the response gets: the result at the position that counts the apps with an update
  before it.\<close>

definition assigned :: "day_start option \<Rightarrow> response_app list \<Rightarrow> 'x app_install_result list \<Rightarrow> nat \<Rightarrow> app_response" where
  "assigned ds as rs i =
     \<lparr>ar_app_id = rapp_id (as ! i), ar_cohort = rapp_cohort (as ! i),
      ar_user_counting = ClientRegulatedByDate (case ds of None \<Rightarrow> None | Some day \<Rightarrow> elapsed_days day),
      ar_result =
        (if has_update (as ! i)
         then (case rs ! length (filter has_update (take i as)) of
                 Installed \<Rightarrow> Updated | Deferred \<Rightarrow> DeferredByPolicy | Failed _ \<Rightarrow> InstallPlanExecutionError)
         else NoUpdate)\<rparr>"

lemma action_of_cases:
  "action_of r = (case r of Installed \<Rightarrow> Updated | Deferred \<Rightarrow> DeferredByPolicy | Failed _ \<Rightarrow> InstallPlanExecutionError)"
  by (cases r) simp_all

lemma assigned_0:
  "has_update a \<longrightarrow> rs \<noteq> [] \<Longrightarrow>
     assigned ds (a # as) rs 0 = app_response_of ds (if has_update a then action_of (hd rs) else NoUpdate) a"
  by (auto simp: assigned_def app_response_of_def user_counting_from_def action_of_cases hd_conv_nth split: option.splits)

lemma assigned_Suc:
  "assigned ds (a # as) (r # rs) (Suc i) = (if has_update a then assigned ds as rs i else assigned ds as (r # rs) i)"
  "\<not> has_update a \<Longrightarrow> assigned ds (a # as) rs' (Suc i) = assigned ds as rs' i"
  by (simp_all add: assigned_def)

lemma errors_of_cases: "errors_of r = (case r of Failed e \<Rightarrow> [e] | _ \<Rightarrow> [])"
  by (cases r) simp_all

lemma installed_responses_ok:
  "length (filter has_update as) \<le> length rs \<Longrightarrow>
     installed_responses ds as rs =
       Some (map (assigned ds as rs) [0..<length as], [e. Failed e \<leftarrow> take (length (filter has_update as)) rs])"
proof (induction ds as rs rule: installed_responses.induct)
  case (2 ds a as rs)
  show ?case
  proof (cases "has_update a")
    case True
    then obtain r rs' where rs: "rs = r # rs'" using 2(3) by (cases rs) auto
    with 2(1) [OF True rs] 2(3) True show ?thesis
      by (simp del: upt_Suc add: map_upt_Suc assigned_0 assigned_Suc errors_of_cases)
  next
    case False
    with 2(2) [OF False] 2(3) show ?thesis
      by (simp del: upt_Suc add: map_upt_Suc assigned_0 assigned_Suc(2))
  qed
qed simp

lemma installed_responses_short: "length rs < length (filter has_update as) \<Longrightarrow> installed_responses ds as rs = None"
proof (induction ds as rs rule: installed_responses.induct)
  case (2 ds a as rs)
  then show ?case by (cases rs) auto
qed simp

section \<open>Properties\<close>

text \<open>C28: How the results of the installer are assigned.  With at least as many results as apps with an update, the
  response has one entry per app, in order: the app's id and cohort, the day of the server's answer (or none), and as
  result \<open>NoUpdate\<close> for an app without an update; the app with the \<open>n\<close>th update gets the \<open>n\<close>th result, \<open>Updated\<close> for
  an installed, \<open>DeferredByPolicy\<close> for a deferred and \<open>InstallPlanExecutionError\<close> for a failed one.  The
  errors are those of the failed results that were used, in order; results beyond these are dropped.  With fewer results the
  code panics.\<close>

theorem installed_responses_spec:
  "let updating = (\<lambda>a. \<exists>u. rapp_update_check a = Some u \<and> ruc_status u = StatusOk) in
   installed_responses ds as rs =
     (if length rs < length (filter updating as) then None
      else Some
       (map (\<lambda>i. \<lparr>ar_app_id = rapp_id (as ! i), ar_cohort = rapp_cohort (as ! i),
               ar_user_counting = ClientRegulatedByDate (case ds of None \<Rightarrow> None | Some day \<Rightarrow> elapsed_days day),
               ar_result =
                 (if updating (as ! i)
                  then (case rs ! length (filter updating (take i as)) of
                          Installed \<Rightarrow> Updated | Deferred \<Rightarrow> DeferredByPolicy | Failed _ \<Rightarrow> InstallPlanExecutionError)
                  else NoUpdate)\<rparr>)
          [0..<length as],
        [e. Failed e \<leftarrow> take (length (filter updating as)) rs]))"
proof -
  have "(\<lambda>a. \<exists>u. rapp_update_check a = Some u \<and> ruc_status u = StatusOk) = has_update"
    by (auto simp: has_update_def split: option.splits)
  then show ?thesis
    using installed_responses_ok [of as rs ds] installed_responses_short [of rs as ds]
    by (simp add: assigned_def [abs_def])
qed

text \<open>C13: An update that needs a reboot is remembered across it.  When a check asks for a reboot, the storage is committed
  and holds a time of the clock as finish time and, if the response has an update for the system app, its new
  version (the literal \<open>UNKNOWN\<close> if it carries none); and every later start from that storage with a valid
  app set, whose configuration says that this version is now the one that runs, knows that it has to report the wait
  for the reboot, with that finish time to the microsecond.  (The ids of the apps must not be the two keys.)\<close>

theorem reboot_is_remembered:
  assumes "run_state (start_update_check env ps) m = (Some (Needed ir), m')"
    and "store env = mem_ops" and "apps_api env = vec_ops"
    and "{UPDATE_FINISH_TIME, TARGET_VERSION} \<inter> app_id ` set (vas_apps (sm_app_set m)) = {}"
    and "\<And>w. checked_system_time_to_micros_from_epoch (fst (now_in_walltime env w)) \<noteq> None"
  shows "mem_is_committed (sm_storage m') \<and>
    (\<exists>resp. Yielded (OmahaServerResponse resp) \<in> set (sm_trace m') \<and> remembers env (sm_app_set m) resp (sm_storage m') \<and>
       (\<forall>cfg cup a w. let l = run_start env (build_machine env cfg cup (sm_storage m') a w) in
          all_valid (apps_api env) (sm_app_set (build_machine env cfg cup (sm_storage m') a w)) \<and>
          next_versions_of (filter has_update (resp_apps resp)) (get_system_app_id (apps_api env) (sm_app_set m)) =
            Some (Some (os_version (cfg_os cfg))) \<longrightarrow>
          lp_should_report l \<and>
          (\<exists>w' us. checked_system_time_to_micros_from_epoch (fst (now_in_walltime env w')) = Some us \<and>
             lp_finish_time l = Some (micros_from_epoch_to_system_time us))))"
proof -
  have "reboot_remembered env (sm_app_set m) (Some (Inr ([], Needed ir))) m'"
    using wpD [OF start_update_check_wp [OF assms(2-4), of ps] assms(1)] by simp
  then obtain resp where resp: "Yielded (OmahaServerResponse resp) \<in> set (sm_trace m')"
      "remembers env (sm_app_set m) resp (sm_storage m')"
    by (auto simp: reboot_remembered_def)
  have "persisted_by env m'" using wpD [OF check_persists assms(1)] by simp
  then have "mem_is_committed (sm_storage m')" by (auto simp: persisted_by_def assms(2) mem_is_committed_def)
  moreover note run_start_reports [OF assms(2) resp(2) _ _ assms(5)]
  ultimately show ?thesis using resp unfolding Let_def by blast
qed

theorem reboot_is_remembered_witness:
  "\<exists>m'. run_state (start_update_check demo_env request_params_default) (demo_machine []) = (Some (Needed ()), m') \<and>
     mem_is_committed (sm_storage m') \<and>
     (\<exists>resp. Yielded (OmahaServerResponse resp) \<in> set (sm_trace m'))"
proof -
  obtain m' where run: "run_state (start_update_check demo_env request_params_default) (demo_machine []) = (Some (Needed ()), m')"
    using demo_machine_check by blast
  have "checked_system_time_to_micros_from_epoch 1000000 = Some 1000" by (simp add: to_micros_Some_iff)
  then have "checked_system_time_to_micros_from_epoch (fst (now_in_walltime demo_env w)) \<noteq> None" for w
    by (simp add: demo_time_def demo_env_def)
  moreover have "{UPDATE_FINISH_TIME, TARGET_VERSION} \<inter> app_id ` set (vas_apps (sm_app_set (demo_machine [] ::
      (demo_world, mem_storage, vec_app_set, string, string, stub_plan, stub_install_errors) machine))) = {}"
    by (simp add: demo_machine_state demo_app_set_def sample_app_def UPDATE_FINISH_TIME_def TARGET_VERSION_def)
  ultimately show ?thesis using reboot_is_remembered [OF run] run by (simp add: demo_env_def) blast
qed

text \<open>C17: The wait for the reboot is reported once.  At the head of the loop, when there is a wait to report and the clocks
  make sense, exactly one duration is reported, the wall time since the update finished less the monotonic time since the machine
  started, both keys are removed and the removal committed, and it is not tried again.  If nothing has to be
  reported, or the finish time is in the future, the monotonic clock ran backwards or the difference is negative, then
  nothing is reported or stored, and whether a report is due stays as it was for the next turn of the loop.\<close>

theorem reboot_wait_reported_once:
  assumes "store env = mem_ops" and "lp_finish_time l = Some t"
  shows "let l' = loop_head env l; tm = fst (now env (sm_world (lp_machine l)));
      d = (wall tm - t) - (mono tm - lp_start_mono l) in
    if lp_should_report l \<and> t \<le> wall tm \<and> lp_start_mono l \<le> mono tm \<and> 0 \<le> d
    then reported_waits (sm_trace (lp_machine l')) = reported_waits (sm_trace (lp_machine l)) @ [nat d] \<and>
      \<not> lp_should_report l' \<and>
      get_time mem_ops (sm_storage (lp_machine l')) UPDATE_FINISH_TIME = None \<and>
      get_string mem_ops (sm_storage (lp_machine l')) TARGET_VERSION = None \<and>
      mem_is_committed (sm_storage (lp_machine l'))
    else reported_waits (sm_trace (lp_machine l')) = reported_waits (sm_trace (lp_machine l)) \<and>
      lp_should_report l' = lp_should_report l \<and> sm_storage (lp_machine l') = sm_storage (lp_machine l)"
proof -
  let ?tm = "fst (now env (sm_world (lp_machine l)))"
  let ?d = "(wall ?tm - t) - (mono ?tm - lp_start_mono l)"
  define l1 where "l1 = (if lp_should_report l
    then acting (report_waited_for_reboot env t (lp_start_mono l)) (\<lambda>r l. l\<lparr>lp_should_report := r\<rparr>) l else l)"
  have head: "loop_head env l = acting (schedule_next_check env) (\<lambda>_. goto WaitingForCheck) l1"
    using assms(2) by (simp add: loop_head_def l1_def)
  have after: "lp_should_report (loop_head env l) = lp_should_report l1"
      "sm_storage (lp_machine (loop_head env l)) = sm_storage (lp_machine l1)"
      "reported_waits (sm_trace (lp_machine (loop_head env l))) = reported_waits (sm_trace (lp_machine l1))"
    using schedule_next_check_frame [of env "lp_machine l1"] unfolding head wp_fst_snd
    by (simp_all add: acting_def goto_def)
  have dur: "waited_for_reboot_duration t (lp_start_mono l) ?tm =
      (if t \<le> wall ?tm \<and> lp_start_mono l \<le> mono ?tm \<and> 0 \<le> ?d then Some (nat ?d) else None)"
    by (simp add: waited_for_reboot_duration_eq Let_def)
  have "wp (report_waited_for_reboot env t (lp_start_mono l)) (\<lambda>r m'.
      case waited_for_reboot_duration t (lp_start_mono l) ?tm of
        None \<Rightarrow> r \<and> sm_storage m' = sm_storage (lp_machine l) \<and>
          reported_waits (sm_trace m') = reported_waits (sm_trace (lp_machine l))
      | Some d \<Rightarrow> \<not> r \<and> reported_waits (sm_trace m') = reported_waits (sm_trace (lp_machine l)) @ [d] \<and>
          sm_storage m' = forget_finished_update mem_ops (sm_storage (lp_machine l))) (lp_machine l)"
    by (simp add: report_waited_for_reboot_def wp_simps action_defs assms(1) reported_waits_def split: option.splits)
  then show ?thesis using after unfolding wp_fst_snd dur
    by (auto simp: Let_def l1_def acting_def forget_finished_update_def get_time_def mem.view_int mem.view_string
        mem.view_upds finish_keys mem_is_committed_def split: if_splits)
qed

theorem reboot_wait_reported_once_witness:
  "\<exists>l :: demo_loop. lp_should_report l \<and> reported_waits (sm_trace (lp_machine (loop_head demo_env l))) = [999000] \<and>
     \<not> lp_should_report (loop_head demo_env l)"
proof -
  define l :: demo_loop where "l = \<lparr>lp_machine = (demo_machine [])\<lparr>sm_trace := []\<rparr>, lp_phase = AtLoopHead, lp_should_report = True,
    lp_finish_time = Some 1000, lp_start_mono = 5, lp_queue = [], lp_answers = [], lp_next_no = 0\<rparr>"
  have "store demo_env = mem_ops" "fst (now demo_env (sm_world (lp_machine l))) = demo_time"
    by (simp_all add: demo_env_def)
  with reboot_wait_reported_once [of demo_env l 1000] show ?thesis
    by (intro exI [of _ l]) (simp add: l_def demo_time_def Let_def reported_waits_def)
qed

text \<open>C18: A run of the machine reports at most one wait for a reboot, and only one that is true.  In every reachable state either
  none was reported, or exactly one: then the storage that the machine was built on had a finish time and, as target
  version, the version that now runs; the duration is the wall time from that finish time to a later reading of the clock, less
  the monotonic time from the start to that reading; and no report is due any more.\<close>

theorem single_wait_report:
  assumes "reachable env (build_machine env cfg cup s a w) l"
  shows "reported_waits (sm_trace (lp_machine l)) = [] \<or>
    (\<exists>t w'. let tm = fst (now env w'); start = fst (now_in_monotonic env w); d = (wall tm - t) - (mono tm - start) in
       get_time (store env) s UPDATE_FINISH_TIME = Some t \<and>
       get_string (store env) s TARGET_VERSION = Some (os_version (cfg_os cfg)) \<and>
       t \<le> wall tm \<and> start \<le> mono tm \<and> 0 \<le> d \<and>
       reported_waits (sm_trace (lp_machine l)) = [nat d] \<and> \<not> lp_should_report l)"
proof -
  let ?l0 = "run_start env (build_machine env cfg cup s a w)"
  have start: "lp_should_report ?l0 \<Longrightarrow> lp_finish_time ?l0 = get_time (store env) s UPDATE_FINISH_TIME \<and>
      lp_start_mono ?l0 = fst (now_in_monotonic env w) \<and>
      get_string (store env) s TARGET_VERSION = Some (os_version (cfg_os cfg))"
    by (auto simp: run_start_def build_machine_def Let_def split: prod.splits if_splits)
  have "reports_once env ?l0 l"
    by (rule reports_once_reachable [OF assms]) (simp add: build_machine_def reported_waits_def)
  then show ?thesis
    unfolding reports_once_def
  proof (elim conjE disjE exE)
    fix t d w'
    assume "lp_should_report ?l0" "lp_finish_time ?l0 = Some t" "\<not> lp_should_report l"
      "waited_for_reboot_duration t (lp_start_mono ?l0) (fst (now env w')) = Some d"
      "reported_waits (sm_trace (lp_machine l)) = [d]"
    with start show ?thesis
      by (intro disjI2 exI [of _ t] exI [of _ w']) (auto simp: waited_for_reboot_duration_eq Let_def split: if_splits)
  qed simp
qed

text \<open>The demo machine on a storage that remembers an update to the version that runs.\<close>

theorem single_wait_report_witness:
  "\<exists>s (l :: demo_loop). reachable demo_env (build_machine demo_env demo_config None s demo_app_set []) l \<and>
     reported_waits (sm_trace (lp_machine l)) = [999000] \<and> get_time mem_ops s UPDATE_FINISH_TIME = Some 1000 \<and> \<not> lp_should_report l"
proof -
  define s where "s = snd (set_string mem_ops (snd (set_time mem_ops mem_new UPDATE_FINISH_TIME 1000)) TARGET_VERSION
    (os_version (cfg_os demo_config)))"
  define l0 :: demo_loop where "l0 = run_start demo_env (build_machine demo_env demo_config None s demo_app_set [])"
  have "checked_system_time_to_micros_from_epoch 1000 = Some 1" by (simp add: to_micros_Some_iff)
  then have s: "get_time mem_ops s UPDATE_FINISH_TIME = Some 1000"
    "get_string mem_ops s TARGET_VERSION = Some (os_version (cfg_os demo_config))"
    by (simp_all add: s_def get_time_def set_time_def mem.view_int mem.view_string mem.view_upds finish_keys
        micros_from_epoch_to_system_time_def duration_from_micros_def)
  have "app_set_load vec_ops mem_ops (json_from_text demo_env) s demo_app_set = demo_app_set"
    by (simp add: app_set_load_def demo_app_set_def vec_ops_def app_load_def demo_env_def split: option.splits)
  then have m: "sm_app_set (build_machine demo_env demo_config None s demo_app_set []) = demo_app_set"
    by (simp add: build_machine_def)
  have l0: "lp_phase l0 = AtLoopHead" "lp_should_report l0" "lp_finish_time l0 = Some 1000" "lp_start_mono l0 = 5"
      "sm_trace (lp_machine l0) = []"
    using s unfolding l0_def run_start_def m by (simp_all add: demo_valid build_machine_def demo_time_def)
  have "due demo_env l0 = [999000]"
    using l0 by (simp add: due_def waited_for_reboot_duration_eq demo_time_def Let_def)
  then have waits: "reported_waits (sm_trace (lp_machine (loop_head demo_env l0))) = [999000]"
    using loop_head_reports(2) [of demo_env l0] l0(5) by (simp add: reported_waits_def)
  have r: "reachable demo_env (build_machine demo_env demo_config None s demo_app_set []) (loop_head demo_env l0)"
    unfolding l0_def by (rule reachable_step [OF reachable_start step_loop_head]) (simp add: l0(1) [unfolded l0_def])
  from single_wait_report [OF r] waits have "\<not> lp_should_report (loop_head demo_env l0)" by (auto simp: Let_def)
  with r waits s(1) show ?thesis by blast
qed

end
