(* ===== verification/State_Events.thy ===== *)
theory State_Events imports Consent begin

text \<open>
  The states that the machine announces (\<open>StateMachineEvent::StateChange\<close>): a transition graph that an observer may
  rely on, and the proof that every run of the loops announces a path in it that agrees with where the loop is.
\<close>

section \<open>The graph\<close>

fun sm_next :: "sm_state \<Rightarrow> sm_state \<Rightarrow> bool" where
  "sm_next Idle t \<longleftrightarrow> (case t of CheckingForUpdates _ \<Rightarrow> True | _ \<Rightarrow> False)"
| "sm_next (CheckingForUpdates _) t \<longleftrightarrow>
     t \<in> {ErrorCheckingForUpdate, NoUpdateAvailable, InstallationDeferredByPolicy, InstallingUpdate, Idle}"
| "sm_next InstallingUpdate t \<longleftrightarrow> t \<in> {InstallationError, WaitingForReboot, Idle}"
| "sm_next _ t \<longleftrightarrow> t = Idle"

text \<open>The state after a trace, if the states announced in it are a path from the given one.\<close>

fun follows :: "sm_state \<Rightarrow> ('pl, 'x) effect list \<Rightarrow> sm_state option" where
  "follows s [] = Some s"
| "follows s (Yielded (StateChange t) # es) = (if sm_next s t then follows t es else None)"
| "follows s (_ # es) = follows s es"

lemma follows_append: "follows s (xs @ ys) = Option.bind (follows s xs) (\<lambda>t. follows t ys)"
  by (induction s xs rule: follows.induct) auto

fun quiet :: "('pl, 'x) effect \<Rightarrow> bool" where
  "quiet (Yielded (StateChange t)) \<longleftrightarrow> False"
| "quiet _ \<longleftrightarrow> True"

lemma follows_quiet: "list_all quiet es \<Longrightarrow> follows s es = Some s"
  by (induction s es rule: follows.induct) auto

section \<open>Actions that announce nothing\<close>

abbreviation quietly :: "('w, 's, 'a, 'k, 'd, 'pl, 'x, 'r) act \<Rightarrow> bool" where
  "quietly act \<equiv> state_io_rel (trace_rel (list_all quiet)) act"

lemma quiet_yield: "(\<And>t. ev \<noteq> StateChange t) \<Longrightarrow> quietly (yield_event ev)"
  unfolding yield_event_def by (rule every.trace_rel_emit) (cases ev; auto)

lemma quiet_report: "quietly (report_metrics x)"
  unfolding report_metrics_def by (rule every.trace_rel_emit) simp

lemma quiet_emit: "quiet e \<Longrightarrow> quietly (emit e)"
  by (rule every.trace_rel_emit) simp

lemma quiet_wait: "quietly (wait_for_timer env r)"
  unfolding wait_for_timer_def by (intro every.io_bind quiet_emit every.trace_rel_silent) simp

lemmas quiet_steps = every.io_intros every.trace_rel_silent quiet_report quiet_wait

lemma quiet_persist: "quietly (persist_context env)" "quietly (commit env)" "quietly (persist_data env)"
  unfolding persist_data_def persist_context_def commit_def by (intro quiet_steps)+

lemma quiet_do_omaha: "quietly (do_omaha_request env b)"
proof -
  have "quietly (handle_response env cup md resp)" for cup md resp
    unfolding handle_response_def update_poll_interval_def by (intro quiet_steps quiet_persist quiet_yield) simp
  moreover have "quietly (draw_nonce env cup)" for cup unfolding draw_nonce_def by (intro quiet_steps)
  moreover have "quietly (make_request env req)" for req
    unfolding make_request_def by (intro quiet_steps quiet_emit) simp
  ultimately show ?thesis unfolding do_omaha_request_def by (intro quiet_steps)
qed

lemma quiet_parts:
  "quietly (report_omaha_event env ps ev as g nv d)" "quietly (omaha_attempt env b)" "quietly (back_off env n)"
  "quietly (report_install_duration t t' rs)" "quietly (report_results env ps g evs)"
  "quietly (finish_install env nv pl t t' ir)" "quietly (record_update_first_seen_time env p t)"
  unfolding report_omaha_event_def omaha_attempt_def back_off_def report_install_duration_def report_results_def
    finish_install_def record_update_first_seen_time_def Let_def
  by (intro quiet_steps quiet_do_omaha)+

lemma quiet_run_install: "quietly (run_install env pl)"
  unfolding run_install_def by (intro quiet_steps quiet_emit quiet_yield; simp)

lemma quiet_report_installed: "quietly (report_installed env ps as g nv d)"
  unfolding report_installed_def by (intro quiet_steps quiet_parts)

lemma quiet_check_interval: "quietly (report_check_interval env src)"
  unfolding report_check_interval_def
  by (auto intro!: quiet_steps split: option.splits partial_complex_time.splits)

lemma quiet_outcome:
  "quietly (check_succeeded env ars)" "quietly (check_failed env x)" "quietly (yield_outcome r)"
  unfolding check_succeeded_def check_failed_def yield_outcome_def touch_last_update_time_def
    report_attempts_to_successful_check_def report_attempts_to_successful_install_def Let_def
  by (intro quiet_steps quiet_yield; simp)+

lemma quiet_ping: "quietly (ping_omaha env)"
  unfolding ping_omaha_def ping_failed_def Let_def
  by (intro quiet_steps quiet_do_omaha quiet_persist quiet_yield; simp)

lemma quiet_schedule: "quietly (schedule_next_check env)"
  unfolding schedule_next_check_def update_next_update_time_def make_wait_to_next_check_def
  by (intro quiet_steps quiet_emit quiet_yield; simp)

lemma quiet_waited: "quietly (report_waited_for_reboot env t i)"
  unfolding report_waited_for_reboot_def by (intro quiet_steps)

lemma quiet_decide: "quietly (decide_check env opts)"
  unfolding decide_check_def by (intro quiet_steps quiet_emit; simp)

section \<open>Where an action leads\<close>

text \<open>From the announced state \<open>s\<close>, the action announces a path to a state that its result allows.\<close>

definition reaches ::
  "sm_state \<Rightarrow> ('r \<Rightarrow> sm_state set) \<Rightarrow> ('w, 's, 'a, 'k, 'd, 'pl, 'x) machine \<Rightarrow> 'r
     \<Rightarrow> ('w, 's, 'a, 'k, 'd, 'pl, 'x) machine \<Rightarrow> bool" where
  "reaches s B m r m' \<longleftrightarrow> (\<exists>es. sm_trace m' = sm_trace m @ es \<and> follows s es \<in> Some ` B r)"

definition leads :: "sm_state \<Rightarrow> ('r \<Rightarrow> sm_state set) \<Rightarrow> ('w, 's, 'a, 'k, 'd, 'pl, 'x, 'r) act \<Rightarrow> bool" where
  "leads s B act \<longleftrightarrow> (\<forall>m. wp act (reaches s B m) m)"

lemma leadsI: "(\<And>m. wp act (reaches s B m) m) \<Longrightarrow> leads s B act"
  by (simp add: leads_def)

lemma leads_quiet: "quietly act \<Longrightarrow> (\<And>r. s \<in> B r) \<Longrightarrow> leads s B act"
  by (intro leadsI wpI) (auto dest!: state_io_relD simp: reaches_def trace_rel_def follows_quiet)

lemma reaches_trans:
  assumes "reaches s B m r m1" and "\<And>t. t \<in> B r \<Longrightarrow> reaches t C m1 r' m2"
  shows "reaches s C m r' m2"
proof -
  from assms(1) obtain es t where es: "sm_trace m1 = sm_trace m @ es" "follows s es = Some t" "t \<in> B r"
    by (auto simp: reaches_def)
  from assms(2) [OF es(3)] es(1,2) show ?thesis by (auto simp: reaches_def follows_append)
qed

lemma leads_bind:
  assumes "leads s B f" and "\<And>r t. t \<in> B r \<Longrightarrow> leads t C (g r)"
  shows "leads s C (State_Monad.bind f g)"
proof (rule leadsI, unfold wp_bind)
  fix m
  from assms(1) have "wp f (reaches s B m) m" by (simp add: leads_def)
  then show "wp f (\<lambda>r. wp (g r) (reaches s C m)) m"
  proof (rule wp_mono)
    fix r m1 assume m1: "reaches s B m r m1"
    show "wp (g r) (reaches s C m) m1"
    proof (rule wpI)
      fix r' m2 assume "run_state (g r) m1 = (r', m2)"
      then have "t \<in> B r \<Longrightarrow> reaches t C m1 r' m2" for t
        using assms(2) [of t r] by (auto simp: leads_def dest: wpD)
      with m1 show "reaches s C m r' m2" by (rule reaches_trans)
    qed
  qed
qed

lemma leads_then: "quietly f \<Longrightarrow> (\<And>r. leads s C (g r)) \<Longrightarrow> leads s C (State_Monad.bind f g)"
  by (rule leads_bind [OF leads_quiet, where B = "\<lambda>_. {s}"]) auto

lemma leads_yield: "sm_next s t \<Longrightarrow> leads t C (g ()) \<Longrightarrow> leads s C (State_Monad.bind (yield_state t) g)"
  by (rule leads_bind [where B = "\<lambda>_. {t}"])
     (auto intro!: leadsI simp: reaches_def yield_state_def yield_event_def emit_def wp_simps)

lemma leads_return: "s \<in> B x \<Longrightarrow> leads s B (State_Monad.return x)"
  by (intro leadsI) (simp add: reaches_def wp_simps)

lemma leads_mono: "leads s B act \<Longrightarrow> (\<And>r. B r \<subseteq> C r) \<Longrightarrow> leads s C act"
  unfolding leads_def reaches_def by (fastforce elim!: wp_mono)

lemma leads_option:
  "leads s B f \<Longrightarrow> (\<And>x. leads s B (g x)) \<Longrightarrow> leads s B (case z of None \<Rightarrow> f | Some x \<Rightarrow> g x)"
  by (cases z) simp_all

lemma leads_sum:
  "(\<And>x. leads s B (f x)) \<Longrightarrow> (\<And>x. leads s B (g x)) \<Longrightarrow> leads s B (case z of Inl x \<Rightarrow> f x | Inr x \<Rightarrow> g x)"
  by (cases z) simp_all

lemma leads_if: "leads s B f \<Longrightarrow> leads s B g \<Longrightarrow> leads s B (if b then f else g)"
  by simp

section \<open>An update check\<close>

text \<open>The states in which a check may end: with a panic or an update that needs a reboot it is still installing.\<close>

definition check_ends :: "('ir, 'x) check_outcome \<Rightarrow> sm_state set" where
  "check_ends r =
     (case r of
        Some (Inl e) \<Rightarrow> {ErrorCheckingForUpdate, InstallationError}
      | Some (Inr (ars, NotNeeded)) \<Rightarrow> {s. sm_next s Idle}
      | _ \<Rightarrow> {InstallingUpdate})"

lemma check_ends_simps [simp]:
  "check_ends None = {InstallingUpdate}" "check_ends (Some (Inl e)) = {ErrorCheckingForUpdate, InstallationError}"
  "check_ends (Some (Inr (ars, NotNeeded))) = {s. sm_next s Idle}" "check_ends (not_updated resp act) = {s. sm_next s Idle}"
  "InstallingUpdate \<in> check_ends (Some (Inr (ars, r)))"
  by (cases r; simp add: check_ends_def not_updated_def)+

lemma leads_install_failed: "leads InstallingUpdate check_ends (install_failed ars es)"
proof -
  have "quietly (for_each (\<lambda>e. yield_event (InstallerError (Some e))) es)"
    by (intro quiet_steps quiet_yield) simp
  then show ?thesis unfolding install_failed_def
    by (intro leads_then leads_yield leads_return) simp_all
qed

lemma leads_install_update: "leads (CheckingForUpdates src) check_ends (install_update env ps as g resp pl)"
proof -
  have start: "leads (CheckingForUpdates src) (\<lambda>_. {InstallingUpdate}) (begin_install env ps as g nv pl)" for nv
    unfolding begin_install_def
    by (intro leads_yield leads_then [OF quiet_parts(1)] leads_then [OF every.trace_rel_silent(1)]
        leads_then [OF quiet_parts(7)] leads_return) simp_all
  have finish: "leads InstallingUpdate check_ends (case z of None \<Rightarrow> State_Monad.return None
      | Some (ars, es) \<Rightarrow> if es \<noteq> [] then install_failed ars es
          else State_Monad.bind (finish_install env nv pl t t' ir) (\<lambda>r. State_Monad.return (Some (Inr (ars, r)))))"
    for z nv t t' ir
    by (auto split: option.splits intro!: leads_return leads_install_failed leads_then [OF quiet_parts(6)])
  have "leads InstallingUpdate check_ends (State_Monad.bind (run_install env pl) (\<lambda>(ir, rs).
      State_Monad.bind (outside (now_in_walltime env)) (\<lambda>fin. State_Monad.bind (report_install_duration fin st rs) (\<lambda>d.
      State_Monad.bind (report_results env ps g (result_events as d (zip us rs))) (\<lambda>_.
      State_Monad.bind (report_installed env ps (installed_apps_of as (zip us rs)) g nv d) (\<lambda>_.
      case installed_responses ds ras rs of None \<Rightarrow> State_Monad.return None
      | Some (ars, es) \<Rightarrow> if es \<noteq> [] then install_failed ars es
          else State_Monad.bind (finish_install env nv pl fin t' ir) (\<lambda>r. State_Monad.return (Some (Inr (ars, r))))))))))"
    for st us nv ds ras t'
    by (rule leads_then [OF quiet_run_install])
       (auto intro!: leads_then [OF every.trace_rel_silent(1)] leads_then [OF quiet_parts(4)] leads_then [OF quiet_parts(5)]
         leads_then [OF quiet_report_installed] finish split: prod.splits)
  then show ?thesis unfolding install_update_def Let_def
    by (intro leads_bind [OF start]) auto
qed

lemma leads_outcomes:
  "leads (CheckingForUpdates src) check_ends (parse_failed env ps as g e)"
  "leads (CheckingForUpdates src) check_ends (plan_failed env ps as g nv x)"
  "leads (CheckingForUpdates src) check_ends (plan_deferred env ps as g nv resp)"
  "leads (CheckingForUpdates src) check_ends (plan_denied env ps as g nv resp)"
  unfolding parse_failed_def plan_failed_def plan_deferred_def plan_denied_def
  by (intro leads_yield leads_then [OF quiet_parts(1)] leads_return; simp)+

lemma leads_process_plan: "leads (CheckingForUpdates src) check_ends (process_plan env ps as g resp pl)"
  unfolding process_plan_def Let_def
  by (intro leads_then [OF every.trace_rel_silent(1)] leads_then [OF quiet_emit])
     (auto split: update_decision.splits intro: leads_install_update leads_outcomes)

lemma leads_process_response: "leads (CheckingForUpdates src) check_ends (process_response env ps as g rcv resp)"
  unfolding process_response_def
  by (rule leads_then [OF quiet_yield], simp)
     (auto split: prod.splits intro!: leads_yield leads_return leads_then [OF every.trace_rel_silent(1)] leads_sum
       leads_outcomes leads_process_plan)

text \<open>The retry loop announces its error, and nothing otherwise.\<close>

lemma leads_request_loop:
  "leads (CheckingForUpdates src) (\<lambda>(n, r). if is_ok r then {CheckingForUpdates src} else {ErrorCheckingForUpdate})
     (request_loop env b n)"
proof (induction "MAX_OMAHA_REQUEST_ATTEMPTS - n" arbitrary: n rule: less_induct)
  case less
  have "leads (CheckingForUpdates src) (\<lambda>(n, r). if is_ok r then {CheckingForUpdates src} else {ErrorCheckingForUpdate})
      (request_loop env b (n + 1))" if "\<not> gives_up n i e" for i e
    using not_gives_up_attempt [OF that] by (intro less) simp
  then show ?case
    by (subst request_loop.simps)
       (auto intro!: leads_then [OF quiet_parts(2)] leads_then [OF every.trace_rel_silent(5)] leads_sum leads_return
         leads_then [OF quiet_parts(3)] leads_yield)
qed

lemma leads_perform: "leads Idle check_ends (perform_update_check env ps as)"
proof -
  have rest: "leads t check_ends (case r of
        Inl e \<Rightarrow> State_Monad.return (Some (Inl (OmahaRequest e)))
      | Inr received \<Rightarrow>
          (case parse_omaha_response env (fst received) of
             Inl e \<Rightarrow> parse_failed env ps as g e
           | Inr resp \<Rightarrow> process_response env ps as g received resp))"
    if "t \<in> (if is_ok r then {CheckingForUpdates src} else {ErrorCheckingForUpdate})" for t r g src
    using that by (cases r) (auto intro!: leads_return leads_sum leads_outcomes leads_process_response)
  show ?thesis
    unfolding perform_update_check_def
    by (intro leads_yield leads_then [OF quiet_check_interval] leads_then [OF every.io_gets]
        leads_then [OF every.trace_rel_silent(1)] leads_bind [OF leads_request_loop])
      (auto intro!: leads_then [OF quiet_report] rest split: if_splits)
qed

lemma leads_start_update_check:
  fixes env :: "('w, 's, 'e, 'a, 'd, 'pl, 'ir, 'x) env"
  shows "leads Idle (\<lambda>r. case r of Some NotNeeded \<Rightarrow> {s. sm_next s Idle} | _ \<Rightarrow> {InstallingUpdate}) (start_update_check env ps)"
  unfolding start_update_check_def
proof (rule leads_then [OF every.trace_rel_silent(6)], rule leads_bind [OF leads_perform])
  fix result :: "('ir, 'x) check_outcome" and t
  assume t: "t \<in> check_ends result"
  show "leads t (\<lambda>r. case r of Some NotNeeded \<Rightarrow> {s. sm_next s Idle} | _ \<Rightarrow> {InstallingUpdate}) (case result of
        None \<Rightarrow> State_Monad.return None
      | Some (Inr (app_responses, reboot)) \<Rightarrow> do {
          check_succeeded env app_responses;
          yield_outcome (Inr app_responses);
          persist_data env;
          State_Monad.return (Some reboot) }
      | Some (Inl e) \<Rightarrow> do {
          check_failed env e;
          yield_outcome (Inl e);
          persist_data env;
          State_Monad.return (Some NotNeeded) })"
    using t
    by (auto split: option.splits sum.splits prod.splits reboot_after_update.splits simp: check_ends_def
        intro!: leads_return leads_then [OF quiet_outcome(1)] leads_then [OF quiet_outcome(2)]
        leads_then [OF quiet_outcome(3)] leads_then [OF quiet_persist(3)])
qed

section \<open>The loops\<close>

fun phase_state :: "'ir phase \<Rightarrow> sm_state" where
  "phase_state (AwaitingReboot options ir) = WaitingForReboot"
| "phase_state Panicked = InstallingUpdate"
| "phase_state _ = Idle"

definition on_path :: "('w, 's, 'a, 'k, 'd, 'pl, 'ir, 'x) loop \<Rightarrow> bool" where
  "on_path l \<longleftrightarrow> follows Idle (sm_trace (lp_machine l)) = Some (phase_state (lp_phase l))"

lemma leads_runs:
  assumes "leads s B act" and "follows Idle (sm_trace m) = Some s"
  shows "\<exists>t \<in> B (fst (run_state act m)). follows Idle (sm_trace (snd (run_state act m))) = Some t"
proof -
  from assms(1) have "reaches s B m (fst (run_state act m)) (snd (run_state act m))"
    by (simp add: leads_def wp_fst_snd)
  then show ?thesis using assms(2) by (auto simp: reaches_def follows_append)
qed

lemma quiet_runs:
  "quietly act \<Longrightarrow> follows Idle (sm_trace m) = Some s \<Longrightarrow> follows Idle (sm_trace (snd (run_state act m))) = Some s"
  using leads_runs [OF leads_quiet, of act s "\<lambda>_. {s}" m] by simp

text \<open>The questions whether to reboot now.\<close>

lemma leads_reboot_if:
  assumes "quietly otherwise"
  shows "leads WaitingForReboot (\<lambda>finished. {if finished then Idle else WaitingForReboot})
    (State_Monad.bind (ask_reboot env opts ir) (reboot_if env otherwise))"
proof -
  have ask: "quietly (ask_reboot env opts ir)"
    unfolding ask_reboot_def by (intro quiet_steps quiet_emit) simp
  have reboot: "leads WaitingForReboot (\<lambda>finished. {if finished then Idle else WaitingForReboot})
      (State_Monad.bind (do_reboot env) (\<lambda>_. State_Monad.return True))"
    unfolding do_reboot_def State_Monad.bind_assoc
    by (intro leads_then [OF quiet_emit] leads_then [OF every.trace_rel_silent(1)] leads_yield leads_return) simp_all
  have "leads WaitingForReboot (\<lambda>finished. {if finished then Idle else WaitingForReboot}) (reboot_if env otherwise b)" for b
    unfolding reboot_if_def using reboot by (auto intro!: leads_then [OF assms] leads_return)
  then show ?thesis by (intro leads_then [OF ask])
qed

lemma leads_reboot_questions:
  "leads InstallingUpdate (\<lambda>finished. {if finished then Idle else WaitingForReboot}) (enter_reboot_wait env opts ir)"
  "leads WaitingForReboot (\<lambda>finished. {if finished then Idle else WaitingForReboot}) (reboot_timer_fired env opts ir)"
  "leads WaitingForReboot (\<lambda>finished. {if finished then Idle else WaitingForReboot}) (reboot_on_demand env opts ir)"
  unfolding enter_reboot_wait_def reboot_timer_fired_def reboot_on_demand_def
  by (rule leads_yield, simp, rule leads_reboot_if, intro quiet_steps quiet_emit quiet_schedule, simp,
      rule leads_reboot_if, intro quiet_emit, simp, rule leads_reboot_if, intro quiet_steps)

lemma on_path_question:
  assumes "leads s (\<lambda>finished. {if finished then Idle else WaitingForReboot}) act"
    and "follows Idle (sm_trace (lp_machine l)) = Some s"
  shows "on_path (acting act (after_reboot_question opts ir) l)"
  using leads_runs [OF assms(1), of "lp_machine l"] assms(2)
  by (auto simp: on_path_def acting_def after_reboot_question_def goto_def)

lemma on_path_loop_head:
  assumes "on_path l" and "lp_phase l = AtLoopHead"
  shows "on_path (loop_head env l)"
proof -
  let ?l = "if lp_should_report l
        then (case lp_finish_time l of
                Some t \<Rightarrow> acting (report_waited_for_reboot env t (lp_start_mono l)) (\<lambda>r l. l\<lparr>lp_should_report := r\<rparr>) l
              | None \<Rightarrow> l)
        else l"
  have "follows Idle (sm_trace (lp_machine ?l)) = Some Idle"
    using assms quiet_runs [OF quiet_waited] by (auto simp: on_path_def acting_def split: option.splits)
  then have "follows Idle (sm_trace (snd (run_state (schedule_next_check env) (lp_machine ?l)))) = Some Idle"
    by (rule quiet_runs [OF quiet_schedule])
  then show ?thesis by (simp add: on_path_def loop_head_def acting_def goto_def)
qed

lemma on_path_consider:
  assumes "follows Idle (sm_trace (lp_machine l)) = Some Idle"
  shows "on_path (consider_check env opts i l)"
  using quiet_runs [OF quiet_decide assms, of env opts]
  by (auto simp: on_path_def consider_check_def acting_def goto_def answer_def split: option.splits)

lemma on_path_complete:
  assumes "follows Idle (sm_trace (lp_machine l)) = Some Idle"
  shows "on_path (complete_check env opts ps l)"
proof -
  let ?act = "start_update_check env ps"
  define l1 where "l1 = l\<lparr>lp_machine := snd (run_state ?act (lp_machine l))\<rparr>"
  obtain t where t: "t \<in> (case fst (run_state ?act (lp_machine l)) of Some NotNeeded \<Rightarrow> {s. sm_next s Idle} | _ \<Rightarrow> {InstallingUpdate})"
      "follows Idle (sm_trace (lp_machine l1)) = Some t"
    using leads_runs [OF leads_start_update_check assms, of env ps] by (auto simp: l1_def)
  show ?thesis
  proof (cases "fst (run_state ?act (lp_machine l))")
    case None
    with t show ?thesis by (simp add: on_path_def complete_check_def acting_def goto_def l1_def)
  next
    case (Some r)
    show ?thesis
    proof (cases r)
      case (Needed ir)
      with Some t(1) have "t = InstallingUpdate" by simp
      with t(2) have "on_path (acting (enter_reboot_wait env opts ir) (after_reboot_question opts ir) l1)"
        by (intro on_path_question [OF leads_reboot_questions(1)]) simp
      then show ?thesis by (simp add: complete_check_def acting_def [of ?act] Some Needed l1_def)
    next
      case NotNeeded
      with Some t(1) have "sm_next t Idle" by simp
      then show ?thesis using t(2)
        by (simp add: complete_check_def acting_def Some NotNeeded l1_def on_path_def goto_def yield_state_def
            yield_event_def emit_def follows_append)
    qed
  qed
qed

lemma on_path_step: "step env l l' \<Longrightarrow> on_path l \<Longrightarrow> on_path l'"
proof (induction rule: step.induct)
  case (step_ping l options ir)
  have "quietly (ping_timer_fired env)"
    unfolding ping_timer_fired_def by (intro quiet_steps quiet_ping quiet_schedule)
  from quiet_runs [OF this, of "lp_machine l"] step_ping show ?case
    by (simp add: on_path_def acting_def goto_def)
next
  case (step_reboot_timer l options ir)
  then show ?case by (intro on_path_question [OF leads_reboot_questions(2)]) (simp add: on_path_def)
next
  case (step_reboot_on_demand l options ir i new_options q)
  then show ?case by (intro on_path_question [OF leads_reboot_questions(3)]) (simp add: on_path_def answer_def)
qed (auto simp: on_path_def answer_def goto_def intro: on_path_loop_head [unfolded on_path_def]
       on_path_consider [unfolded on_path_def] on_path_complete [unfolded on_path_def])

lemma reachable_on_path: "reachable env (build_machine env cfg cup s a w) l \<Longrightarrow> on_path l"
proof (induction rule: reachable.induct)
  case reachable_start
  then show ?case by (simp add: on_path_def run_start_def build_machine_def Let_def split: prod.splits)
qed (rule on_path_step)

section \<open>Properties\<close>

text \<open>C3: The announced states of any run are a path in the graph \<open>sm_next\<close> from \<open>Idle\<close>, and the path ends where the
  loop is: at \<open>WaitingForReboot\<close> exactly while the machine waits for the permission to reboot, at \<open>Idle\<close> while it
  waits to check for updates (or has ended), and at \<open>InstallingUpdate\<close> if the task panicked.\<close>

theorem announced_states_follow_graph:
  assumes "reachable env (build_machine env cfg cup s a w) l"
  shows "follows Idle (sm_trace (lp_machine l)) = Some (phase_state (lp_phase l))"
  using reachable_on_path [OF assms] by (simp add: on_path_def)

theorem announced_states_follow_graph_witness:
  "\<exists>l. reachable demo_env (demo_machine []) l \<and> Installing StubPlan \<in> set (sm_trace (lp_machine l)) \<and>
     follows Idle (sm_trace (lp_machine l)) = Some (phase_state (lp_phase l))"
proof -
  obtain l where l: "reachable demo_env (demo_machine []) l" and "Installing StubPlan \<in> set (sm_trace (lp_machine l))"
    using demo_run by blast
  with announced_states_follow_graph [OF l [unfolded demo_machine_def]] show ?thesis by blast
qed

end
