(* ===== verification/Async_Generator.thy ===== *)
theory Async_Generator imports Omaha_Prelude begin

text \<open>
  \<open>omaha-client/src/async_generator.rs\<close>: the stream through which the state machine yields its events.  A generator
  owns a task and the receiving end of the channel that the task sends to; polling it polls the task first and
  then the channel, and hands out the task's result last.  The task and the channel are futures of other
  crates, so they are parameters: a record of their operations, with the documented behaviour as the predicate
  \<open>channel_laws\<close>.
\<close>

section \<open>Data\<close>

datatype 'a poll = Pending | Ready 'a

datatype ('i, 'r) generator_state = GenYielded 'i | GenComplete 'r

fun state_into_yielded :: "('i, 'r) generator_state \<Rightarrow> 'i option" where
  "state_into_yielded (GenYielded item) = Some item"
| "state_into_yielded _ = None"

fun state_into_complete :: "('i, 'r) generator_state \<Rightarrow> 'r option" where
  "state_into_complete (GenComplete res) = Some res"
| "state_into_complete _ = None"

text \<open>Polling the fused task may send to the channel; a result is \<open>Ready\<close>.\<close>

record ('t, 'c, 'i, 'r) generator_ops =
  task_poll :: "'t \<Rightarrow> 'c \<Rightarrow> 'r poll \<times> 't \<times> 'c"
  task_terminated :: "'t \<Rightarrow> bool"
  recv_poll :: "'c \<Rightarrow> 'i option poll \<times> 'c"
  recv_terminated :: "'c \<Rightarrow> bool"

record ('t, 'c, 'r) generator =
  gen_task :: 't
  gen_stream :: 'c
  gen_res :: "'r option"

definition generate :: "'t \<Rightarrow> 'c \<Rightarrow> ('t, 'c, 'r) generator" where
  "generate task recv = \<lparr>gen_task = task, gen_stream = recv, gen_res = None\<rparr>"

section \<open>Polling\<close>

definition gen_poll_task :: "('t, 'c, 'i, 'r) generator_ops \<Rightarrow> ('t, 'c, 'r) generator \<Rightarrow> bool \<times> ('t, 'c, 'r) generator" where
  "gen_poll_task ops g =
     (let task_done = task_terminated ops (gen_task g) in
      case task_poll ops (gen_task g) (gen_stream g) of
        (Ready res, t, c) \<Rightarrow> (True, \<lparr>gen_task = t, gen_stream = c, gen_res = Some res\<rparr>)
      | (Pending, t, c) \<Rightarrow> (task_done, \<lparr>gen_task = t, gen_stream = c, gen_res = gen_res g\<rparr>))"

definition gen_flush :: "bool \<Rightarrow> ('t, 'c, 'r) generator \<Rightarrow> ('i, 'r) generator_state option poll \<times> ('t, 'c, 'r) generator" where
  "gen_flush task_done g =
     (if \<not> task_done then (Pending, g)
      else case gen_res g of
        Some res \<Rightarrow> (Ready (Some (GenComplete res)), g\<lparr>gen_res := None\<rparr>)
      | None \<Rightarrow> (Ready None, g))"

definition gen_poll_next ::
  "('t, 'c, 'i, 'r) generator_ops \<Rightarrow> ('t, 'c, 'r) generator
     \<Rightarrow> ('i, 'r) generator_state option poll \<times> ('t, 'c, 'r) generator" where
  "gen_poll_next ops g =
     (let (task_done, g1) = gen_poll_task ops g in
      if recv_terminated ops (gen_stream g1) then gen_flush task_done g1
      else case recv_poll ops (gen_stream g1) of
        (Pending, c) \<Rightarrow> (Pending, g1\<lparr>gen_stream := c\<rparr>)
      | (Ready (Some item), c) \<Rightarrow> (Ready (Some (GenYielded item)), g1\<lparr>gen_stream := c\<rparr>)
      | (Ready None, c) \<Rightarrow> gen_flush task_done (g1\<lparr>gen_stream := c\<rparr>))"

definition gen_is_terminated :: "('t, 'c, 'i, 'r) generator_ops \<Rightarrow> ('t, 'c, 'r) generator \<Rightarrow> bool" where
  "gen_is_terminated ops g \<longleftrightarrow>
     task_terminated ops (gen_task g) \<and> recv_terminated ops (gen_stream g) \<and> gen_res g = None"

section \<open>Streams made of a generator\<close>

text \<open>On the sequence of states that the generator produces; \<open>into_complete\<close> panics without a last one.\<close>

definition into_yielded :: "('i, 'r) generator_state list \<Rightarrow> 'i list" where
  "into_yielded = List.map_filter state_into_yielded"

definition into_complete :: "('i, 'r) generator_state list \<Rightarrow> 'r option" where
  "into_complete states = (case List.map_filter state_into_complete states of [] \<Rightarrow> None | r # _ \<Rightarrow> Some r)"

fun try_state :: "('i, 'e + unit) generator_state \<Rightarrow> ('e + 'i) option" where
  "try_state (GenYielded i) = Some (Inr i)"
| "try_state (GenComplete (Inr _)) = None"
| "try_state (GenComplete (Inl e)) = Some (Inl e)"

definition into_try_stream :: "('i, 'e + unit) generator_state list \<Rightarrow> ('e + 'i) list" where
  "into_try_stream = List.map_filter try_state"

section \<open>Runs\<close>

fun gen_polls ::
  "('t, 'c, 'i, 'r) generator_ops \<Rightarrow> nat \<Rightarrow> ('t, 'c, 'r) generator
     \<Rightarrow> ('i, 'r) generator_state option poll list \<times> ('t, 'c, 'r) generator" where
  "gen_polls ops 0 g = ([], g)"
| "gen_polls ops (Suc n) g =
     (let (p, g1) = gen_poll_next ops g; (ps, g2) = gen_polls ops n g1 in (p # ps, g2))"

text \<open>The states that the consumer of the stream gets.\<close>

definition states_of :: "('i, 'r) generator_state option poll list \<Rightarrow> ('i, 'r) generator_state list" where
  "states_of ps = List.map_filter (\<lambda>p. case p of Ready (Some s) \<Rightarrow> Some s | _ \<Rightarrow> None) ps"

lemma states_of_simps [simp]:
  "states_of [] = []" "states_of (Pending # ps) = states_of ps" "states_of (Ready None # ps) = states_of ps"
  "states_of (Ready (Some s) # ps) = s # states_of ps" "states_of (ps @ ps') = states_of ps @ states_of ps'"
  by (simp_all add: states_of_def map_filter_simps map_filter_def)

section \<open>What is relied on\<close>

text \<open>
  A channel is seen through the items that were sent and not yet received and whether its sender is gone.  The
  documented behaviour: items are received in order; an empty channel whose sender is alive is pending; without a sender
  it ends, and stays ended.  The task only sends, and sends nothing without its sender.  It may drop the sender (its
  \<open>Yield\<close>) in any poll and go on without it; when it returns the sender is dropped with it; a fused task that has returned is
  never ready again and sends nothing.
\<close>

definition channel_laws ::
  "('t, 'c, 'i, 'r) generator_ops \<Rightarrow> ('c \<Rightarrow> 'i list) \<Rightarrow> ('c \<Rightarrow> bool) \<Rightarrow> bool" where
  "channel_laws ops queued closed \<longleftrightarrow>
     (\<forall>c. case queued c of
        x # xs \<Rightarrow> \<not> recv_terminated ops c \<and>
          (\<exists>c'. recv_poll ops c = (Ready (Some x), c') \<and> queued c' = xs \<and> closed c' = closed c)
      | [] \<Rightarrow>
          if closed c then recv_terminated ops c \<or>
            (\<exists>c'. recv_poll ops c = (Ready None, c') \<and> queued c' = [] \<and> closed c' \<and> recv_terminated ops c')
          else \<not> recv_terminated ops c \<and>
            (\<exists>c'. recv_poll ops c = (Pending, c') \<and> queued c' = [] \<and> \<not> closed c')) \<and>
     (\<forall>t c p t' c'. task_poll ops t c = (p, t', c') \<longrightarrow>
        (\<exists>sent. queued c' = queued c @ sent \<and> (task_terminated ops t \<or> closed c \<longrightarrow> sent = [])) \<and>
        (closed c \<or> p \<noteq> Pending \<longrightarrow> closed c') \<and>
        (task_terminated ops t' \<longleftrightarrow> task_terminated ops t \<or> p \<noteq> Pending) \<and>
        (task_terminated ops t \<longrightarrow> p = Pending))"

text \<open>A task that ends: a poll that leaves it pending leaves it with less to do, unless all that it waits for is that its items
  be received.\<close>

definition task_progresses :: "('t, 'c, 'i, 'r) generator_ops \<Rightarrow> ('c \<Rightarrow> 'i list) \<Rightarrow> ('t \<Rightarrow> nat) \<Rightarrow> bool" where
  "task_progresses ops queued work \<longleftrightarrow>
     (\<forall>t c t' c'. \<not> task_terminated ops t \<longrightarrow> task_poll ops t c = (Pending, t', c') \<longrightarrow>
        work t' < work t \<or> work t' = work t \<and> queued c \<noteq> [] \<and> queued c' = queued c)"

section \<open>The invariant of a generator\<close>

text \<open>The items that the task sends, and the results that it returns, when the generator is polled.\<close>

definition newly_sent :: "('t, 'c, 'i, 'r) generator_ops \<Rightarrow> ('c \<Rightarrow> 'i list) \<Rightarrow> ('t, 'c, 'r) generator \<Rightarrow> 'i list" where
  "newly_sent ops queued g = drop (length (queued (gen_stream g))) (queued (gen_stream (snd (gen_poll_task ops g))))"

fun gen_sent :: "('t, 'c, 'i, 'r) generator_ops \<Rightarrow> ('c \<Rightarrow> 'i list) \<Rightarrow> nat \<Rightarrow> ('t, 'c, 'r) generator \<Rightarrow> 'i list" where
  "gen_sent ops queued 0 g = []"
| "gen_sent ops queued (Suc n) g = newly_sent ops queued g @ gen_sent ops queued n (snd (gen_poll_next ops g))"

definition returned :: "('t, 'c, 'i, 'r) generator_ops \<Rightarrow> ('t, 'c, 'r) generator \<Rightarrow> 'r list" where
  "returned ops g = (case fst (task_poll ops (gen_task g) (gen_stream g)) of Ready r \<Rightarrow> [r] | Pending \<Rightarrow> [])"

fun gen_returned :: "('t, 'c, 'i, 'r) generator_ops \<Rightarrow> nat \<Rightarrow> ('t, 'c, 'r) generator \<Rightarrow> 'r list" where
  "gen_returned ops 0 g = []"
| "gen_returned ops (Suc n) g = returned ops g @ gen_returned ops n (snd (gen_poll_next ops g))"

text \<open>Between polls: everything sent was received or is queued; the result is kept until everything was received, and
  handed out once, last.\<close>

definition gen_inv ::
  "('t, 'c, 'i, 'r) generator_ops \<Rightarrow> ('c \<Rightarrow> 'i list) \<Rightarrow> ('c \<Rightarrow> bool) \<Rightarrow> 'i list \<Rightarrow> 'r list \<Rightarrow> ('i, 'r) generator_state list
     \<Rightarrow> ('t, 'c, 'r) generator \<Rightarrow> bool" where
  "gen_inv ops queued closed sent results states g \<longleftrightarrow>
     (task_terminated ops (gen_task g) \<longrightarrow> closed (gen_stream g)) \<and>
     (\<exists>received final. states = map GenYielded received @ final \<and> received @ queued (gen_stream g) = sent \<and>
        (if task_terminated ops (gen_task g)
         then (\<exists>r. results = [r] \<and>
           (final = [] \<and> gen_res g = Some r \<or> final = [GenComplete r] \<and> gen_res g = None \<and> queued (gen_stream g) = []))
         else results = [] \<and> final = [] \<and> gen_res g = None))"

lemma gen_invE:
  assumes "gen_inv ops queued closed sent results states g"
  obtains (Running) received where "\<not> task_terminated ops (gen_task g)" "states = map GenYielded received"
      "received @ queued (gen_stream g) = sent" "results = []" "gen_res g = None"
  | (Draining) received r where "task_terminated ops (gen_task g)" "closed (gen_stream g)" "states = map GenYielded received"
      "received @ queued (gen_stream g) = sent" "results = [r]" "gen_res g = Some r"
  | (Over) received r where "task_terminated ops (gen_task g)" "closed (gen_stream g)"
      "states = map GenYielded received @ [GenComplete r]" "received = sent" "results = [r]" "gen_res g = None"
      "queued (gen_stream g) = []"
  using assms unfolding gen_inv_def by (cases "task_terminated ops (gen_task g)") auto

lemma recv_item:
  assumes "channel_laws ops queued closed" and "queued c = x # xs"
  shows "\<not> recv_terminated ops c \<and> (\<exists>c'. recv_poll ops c = (Ready (Some x), c') \<and> queued c' = xs \<and> closed c' = closed c)"
  using conjunct1 [OF assms(1) [unfolded channel_laws_def], THEN spec, of c] assms(2) by simp

lemma recv_closed:
  assumes "channel_laws ops queued closed" and "queued c = []" and "closed c"
  shows "recv_terminated ops c \<or>
     \<not> recv_terminated ops c \<and> (\<exists>c'. recv_poll ops c = (Ready None, c') \<and> queued c' = [] \<and> closed c')"
  using conjunct1 [OF assms(1) [unfolded channel_laws_def], THEN spec, of c] assms(2,3) by auto

lemma recv_open:
  assumes "channel_laws ops queued closed" and "queued c = []" and "\<not> closed c"
  shows "\<not> recv_terminated ops c \<and> (\<exists>c'. recv_poll ops c = (Pending, c') \<and> queued c' = [] \<and> \<not> closed c')"
  using conjunct1 [OF assms(1) [unfolded channel_laws_def], THEN spec, of c] assms(2,3) by simp

lemma task_law:
  assumes "channel_laws ops queued closed" and "task_poll ops t c = (p, t', c')"
  shows "(\<exists>sent. queued c' = queued c @ sent \<and> (task_terminated ops t \<or> closed c \<longrightarrow> sent = [])) \<and>
        (closed c \<or> p \<noteq> Pending \<longrightarrow> closed c') \<and>
        (task_terminated ops t' \<longleftrightarrow> task_terminated ops t \<or> p \<noteq> Pending) \<and>
        (task_terminated ops t \<longrightarrow> p = Pending)"
  using conjunct2 [OF assms(1) [unfolded channel_laws_def]] assms(2) by simp

lemma gen_poll_task_inv:
  assumes laws: "channel_laws ops queued closed" and inv: "gen_inv ops queued closed sent results states g"
    and poll: "gen_poll_task ops g = (task_done, g1)"
  shows "gen_inv ops queued closed (sent @ newly_sent ops queued g) (results @ returned ops g) states g1 \<and>
    task_done = task_terminated ops (gen_task g1)"
proof -
  obtain p t c where task: "task_poll ops (gen_task g) (gen_stream g) = (p, t, c)" by (metis surj_pair)
  from task_law [OF laws task] obtain new where new: "queued c = queued (gen_stream g) @ new" "task_terminated ops (gen_task g) \<longrightarrow> new = []"
    and closed: "closed (gen_stream g) \<or> p \<noteq> Pending \<longrightarrow> closed c"
    and ended: "task_terminated ops t \<longleftrightarrow> task_terminated ops (gen_task g) \<or> p \<noteq> Pending"
    and fused: "task_terminated ops (gen_task g) \<longrightarrow> p = Pending"
    by blast
  have g1: "g1 = \<lparr>gen_task = t, gen_stream = c, gen_res = (case p of Ready r \<Rightarrow> Some r | Pending \<Rightarrow> gen_res g)\<rparr>"
    and finished: "task_done = (task_terminated ops (gen_task g) \<or> p \<noteq> Pending)"
    and res: "returned ops g = (case p of Ready r \<Rightarrow> [r] | Pending \<Rightarrow> [])"
    using poll task by (auto simp: gen_poll_task_def returned_def split: poll.splits)
  have sent: "newly_sent ops queued g = new" using poll g1 new(1) by (simp add: newly_sent_def)
  from inv show ?thesis
  proof (cases rule: gen_invE)
    case Running
    then show ?thesis using new closed ended fused finished res sent by (cases p) (auto simp: gen_inv_def g1)
  next
    case Draining
    then show ?thesis using new closed ended fused finished res sent by (auto simp: gen_inv_def g1)
  next
    case Over
    then show ?thesis using new closed ended fused finished res sent by (auto simp: gen_inv_def g1)
  qed
qed

text \<open>Without the task being over nothing is flushed; the end of the stream comes only after the result.\<close>

lemma gen_flush_inv:
  assumes inv: "gen_inv ops queued closed sent results states g" and empty: "queued (gen_stream g) = []"
    and flush: "gen_flush (task_terminated ops (gen_task g)) g = (p, g')"
  shows "gen_inv ops queued closed sent results (states @ states_of [p]) g' \<and>
    (p = Ready None \<longrightarrow> (\<exists>r. GenComplete r \<in> set states))"
  using inv
proof (cases rule: gen_invE)
  case Draining
  then show ?thesis using empty flush by (auto simp: gen_inv_def gen_flush_def)
qed (use empty flush in \<open>auto simp: gen_inv_def gen_flush_def\<close>)

lemma gen_inv_stream:
  assumes "gen_inv ops queued closed sent results states g" and "queued (gen_stream g) = queued c"
    and "closed (gen_stream g) \<longrightarrow> closed c"
  shows "gen_inv ops queued closed sent results states (g\<lparr>gen_stream := c\<rparr>)"
  using assms by (cases "task_terminated ops (gen_task g)"; simp add: gen_inv_def)

lemma gen_poll_next_inv:
  assumes laws: "channel_laws ops queued closed" and inv: "gen_inv ops queued closed sent results states g"
    and poll: "gen_poll_next ops g = (p, g')"
  shows "gen_inv ops queued closed (sent @ newly_sent ops queued g) (results @ returned ops g) (states @ states_of [p]) g' \<and>
    (p = Ready None \<longrightarrow> (\<exists>r. GenComplete r \<in> set states))"
proof -
  obtain task_done g1 where task: "gen_poll_task ops g = (task_done, g1)" by (cases "gen_poll_task ops g")
  from gen_poll_task_inv [OF laws inv task]
  have inv1: "gen_inv ops queued closed (sent @ newly_sent ops queued g) (results @ returned ops g) states g1"
    and finished: "task_done = task_terminated ops (gen_task g1)" by simp_all
  show ?thesis
  proof (cases "queued (gen_stream g1)")
    case (Cons x xs)
    with recv_item [OF laws] obtain c where c: "\<not> recv_terminated ops (gen_stream g1)" "recv_poll ops (gen_stream g1) = (Ready (Some x), c)"
        "queued c = xs" "closed c = closed (gen_stream g1)" by blast
    then have p: "p = Ready (Some (GenYielded x))" "g' = g1\<lparr>gen_stream := c\<rparr>" using poll task by (simp_all add: gen_poll_next_def)
    from inv1 show ?thesis
    proof (cases rule: gen_invE)
      case (Running received)
      then show ?thesis using p c Cons by (auto simp: gen_inv_def intro!: exI [of _ "received @ [x]"])
    next
      case (Draining received)
      then show ?thesis using p c Cons by (auto simp: gen_inv_def intro!: exI [of _ "received @ [x]"])
    qed (use Cons in simp)
  next
    case Nil
    consider "recv_terminated ops (gen_stream g1)"
      | c where "\<not> recv_terminated ops (gen_stream g1)" "recv_poll ops (gen_stream g1) = (Ready None, c)" "queued c = []" "closed c"
      | c where "\<not> recv_terminated ops (gen_stream g1)" "recv_poll ops (gen_stream g1) = (Pending, c)" "queued c = []"
          "\<not> closed (gen_stream g1)"
      using recv_closed [OF laws Nil] recv_open [OF laws Nil] by blast
    then show ?thesis
    proof cases
      case 1
      with poll task finished have "gen_flush (task_terminated ops (gen_task g1)) g1 = (p, g')" by (simp add: gen_poll_next_def)
      from gen_flush_inv [OF inv1 Nil this] show ?thesis .
    next
      case (2 c)
      with poll task finished have flush: "gen_flush (task_terminated ops (gen_task (g1\<lparr>gen_stream := c\<rparr>))) (g1\<lparr>gen_stream := c\<rparr>) = (p, g')"
        by (simp add: gen_poll_next_def)
      have "gen_inv ops queued closed (sent @ newly_sent ops queued g) (results @ returned ops g) states (g1\<lparr>gen_stream := c\<rparr>)"
        using 2 Nil by (intro gen_inv_stream [OF inv1]) simp_all
      from gen_flush_inv [OF this _ flush] 2 show ?thesis by simp
    next
      case (3 c)
      with poll task have "p = Pending" "g' = g1\<lparr>gen_stream := c\<rparr>" by (simp_all add: gen_poll_next_def)
      then show ?thesis using gen_inv_stream [OF inv1, of c] 3 Nil by simp
    qed
  qed
qed

lemma gen_polls_Suc:
  "gen_polls ops (Suc n) g = (p # fst (gen_polls ops n (snd (gen_poll_next ops g))), snd (gen_polls ops n (snd (gen_poll_next ops g))))"
    if "fst (gen_poll_next ops g) = p"
  using that by (simp add: split_beta)

lemma gen_polls_length [simp]: "length (fst (gen_polls ops n g)) = n"
  by (induction n arbitrary: g) (simp_all add: split_beta)

lemma gen_polls_inv:
  assumes laws: "channel_laws ops queued closed"
  shows "gen_inv ops queued closed sent results states g \<Longrightarrow> gen_polls ops n g = (ps, g') \<Longrightarrow>
    gen_inv ops queued closed (sent @ gen_sent ops queued n g) (results @ gen_returned ops n g) (states @ states_of ps) g' \<and>
    (\<forall>k<n. ps ! k = Ready None \<longrightarrow> (\<exists>r. GenComplete r \<in> set (states @ states_of (take k ps))))"
proof (induction n arbitrary: g sent results states ps)
  case (Suc n)
  obtain p g1 where p: "gen_poll_next ops g = (p, g1)" by (cases "gen_poll_next ops g")
  obtain ps' where ps: "gen_polls ops n g1 = (ps', g')" "ps = p # ps'"
    using Suc.prems(2) p by (auto split: prod.splits)
  have split: "states_of (p # qs) = states_of [p] @ states_of qs" for qs using states_of_simps(5) [of "[p]" qs] by simp
  from gen_poll_next_inv [OF laws Suc.prems(1) p]
  have next': "gen_inv ops queued closed (sent @ newly_sent ops queued g) (results @ returned ops g) (states @ states_of [p]) g1"
    and ended: "p = Ready None \<longrightarrow> (\<exists>r. GenComplete r \<in> set states)" by simp_all
  from Suc.IH [OF next' ps(1)] ended show ?case
    unfolding ps(2) by (auto simp: p split [of ps'] split [of "take _ ps'"] nth_Cons' less_Suc_eq_0_disj)
qed simp

lemma generate_inv:
  "queued recv = [] \<Longrightarrow> \<not> task_terminated ops task \<Longrightarrow> gen_inv ops queued closed [] [] [] (generate task recv)"
  by (simp add: gen_inv_def generate_def)

lemma into_states [simp]:
  "into_yielded (map GenYielded xs) = xs" "into_yielded (map GenYielded xs @ [GenComplete r]) = xs"
  "into_complete (map GenYielded xs @ [GenComplete r]) = Some r"
  by (simp_all add: into_yielded_def into_complete_def List.map_filter_def)
     (simp_all add: comp_def)

section \<open>Running to completion\<close>

definition completed :: "('t, 'c, 'i, 'r) generator_ops \<Rightarrow> ('t, 'c, 'r) generator \<Rightarrow> bool" where
  "completed ops g \<longleftrightarrow> task_terminated ops (gen_task g) \<and> gen_res g = None"

lemma poll_finished:
  assumes laws: "channel_laws ops queued closed" and g: "task_terminated ops (gen_task g)" "queued (gen_stream g) = []"
    "closed (gen_stream g)" "gen_res g = None"
  shows "\<exists>g'. gen_poll_next ops g = (Ready None, g') \<and> task_terminated ops (gen_task g') \<and> queued (gen_stream g') = [] \<and>
    closed (gen_stream g') \<and> gen_res g' = None"
proof -
  obtain p t c where task: "task_poll ops (gen_task g) (gen_stream g) = (p, t, c)" by (metis surj_pair)
  from task_law [OF laws task] g have "p = Pending" "queued c = []" "closed c" "task_terminated ops t" by auto
  with recv_closed [OF laws \<open>queued c = []\<close>] task g show ?thesis
    by (auto simp: gen_poll_next_def gen_poll_task_def gen_flush_def)
qed

lemma polls_finished:
  assumes laws: "channel_laws ops queued closed"
  shows "task_terminated ops (gen_task g) \<Longrightarrow> queued (gen_stream g) = [] \<Longrightarrow> closed (gen_stream g) \<Longrightarrow> gen_res g = None \<Longrightarrow>
    fst (gen_polls ops k g) = replicate k (Ready None)"
proof (induction k arbitrary: g)
  case (Suc k)
  from poll_finished [OF laws Suc.prems] obtain g' where "gen_poll_next ops g = (Ready None, g')"
    "task_terminated ops (gen_task g')" "queued (gen_stream g') = []" "closed (gen_stream g')" "gen_res g' = None" by blast
  with Suc.IH [of g'] show ?case by (simp add: split_beta)
qed simp

text \<open>A poll completes the generator, or gets the task closer to its end, or takes an item out of the channel.\<close>

definition to_do :: "('t, 'c, 'i, 'r) generator_ops \<Rightarrow> ('c \<Rightarrow> 'i list) \<Rightarrow> ('t \<Rightarrow> nat) \<Rightarrow> ('t, 'c, 'r) generator \<Rightarrow> nat \<times> nat" where
  "to_do ops queued work g =
     (if task_terminated ops (gen_task g) then 0 else Suc (work (gen_task g)), length (queued (gen_stream g)))"

lemma poll_progresses:
  assumes laws: "channel_laws ops queued closed" and progress: "task_progresses ops queued work"
    and inv: "gen_inv ops queued closed sent results states g" and more: "\<not> completed ops g"
    and poll: "gen_poll_next ops g = (p, g')"
  shows "completed ops g' \<or> (to_do ops queued work g', to_do ops queued work g) \<in> less_than <*lex*> less_than"
proof -
  obtain q t c where task: "task_poll ops (gen_task g) (gen_stream g) = (q, t, c)" by (metis surj_pair)
  obtain task_done g1 where polled: "gen_poll_task ops g = (task_done, g1)" by (cases "gen_poll_task ops g")
  then have g1: "gen_task g1 = t" "gen_stream g1 = c"
    using task by (auto simp: gen_poll_task_def split: poll.splits)
  from gen_poll_task_inv [OF laws inv polled]
  have inv1: "gen_inv ops queued closed (sent @ newly_sent ops queued g) (results @ returned ops g) states g1"
    and finished: "task_done = task_terminated ops (gen_task g1)" by simp_all
  have same_task: "gen_task g' = t"
    using poll polled g1 by (auto simp: gen_poll_next_def gen_flush_def split: if_splits prod.splits poll.splits option.splits)
  have popped: "length (queued (gen_stream g')) < length (queued c)" if "queued c \<noteq> []"
  proof -
    from that obtain x xs where "queued c = x # xs" by (cases "queued c") auto
    with recv_item [OF laws this] poll polled g1 show ?thesis by (auto simp: gen_poll_next_def)
  qed
  show ?thesis
  proof (cases "task_terminated ops (gen_task g)")
    case True
    with task_law [OF laws task] have t: "task_terminated ops t" "queued c = queued (gen_stream g)" by auto
    show ?thesis
    proof (cases "queued c = []")
      case False
      with popped t same_task True show ?thesis by (simp add: to_do_def)
    next
      case empty: True
      from inv1 t g1 have "closed c" by (auto simp: gen_inv_def)
      with recv_closed [OF laws empty] poll polled finished t g1 have "gen_res g' = None"
        by (auto simp: gen_poll_next_def gen_flush_def split: option.splits)
      then show ?thesis using t same_task by (simp add: completed_def)
    qed
  next
    case False
    show ?thesis
    proof (cases "q = Pending")
      case True
      with task_law [OF laws task] False have t: "\<not> task_terminated ops t" by auto
      from progress False task True have "work t < work (gen_task g) \<or>
          work t = work (gen_task g) \<and> queued (gen_stream g) \<noteq> [] \<and> queued c = queued (gen_stream g)"
        unfolding task_progresses_def by blast
      then show ?thesis using popped t same_task False by (auto simp: to_do_def)
    next
      case returns: False
      with task_law [OF laws task] have "task_terminated ops t" by auto
      then show ?thesis using same_task False by (simp add: to_do_def)
    qed
  qed
qed

lemma polls_complete:
  assumes laws: "channel_laws ops queued closed" and progress: "task_progresses ops queued work"
  shows "gen_inv ops queued closed sent results states g \<Longrightarrow> \<exists>n. completed ops (snd (gen_polls ops n g))"
proof (induction "to_do ops queued work g" arbitrary: g sent results states rule: wf_induct_rule [OF wf_lex_prod [OF wf_less_than wf_less_than]])
  case (1 g)
  obtain p g' where p: "gen_poll_next ops g = (p, g')" by (cases "gen_poll_next ops g")
  have inv': "gen_inv ops queued closed (sent @ newly_sent ops queued g) (results @ returned ops g) (states @ states_of [p]) g'"
    using gen_poll_next_inv [OF laws 1(2) p] by simp
  have later: "\<exists>n. completed ops (snd (gen_polls ops n g))" if "completed ops (snd (gen_polls ops n g'))" for n
    using that p by (intro exI [of _ "Suc n"]) (simp add: split_beta)
  consider "completed ops g" | "completed ops g'"
    | "(to_do ops queued work g', to_do ops queued work g) \<in> less_than <*lex*> less_than"
    using poll_progresses [OF laws progress 1(2) _ p] by blast
  then show ?case
  proof cases
    case 1
    then show ?thesis by (intro exI [of _ 0]) simp
  next
    case 2
    then show ?thesis by (intro later [of 0]) simp
  next
    case 3
    from 1(1) [OF this inv'] later show ?thesis by blast
  qed
qed

lemma gen_polls_add:
  "gen_polls ops (n + k) g =
     (fst (gen_polls ops n g) @ fst (gen_polls ops k (snd (gen_polls ops n g))), snd (gen_polls ops k (snd (gen_polls ops n g))))"
  by (induction n arbitrary: g) (simp_all add: split_beta)

section \<open>An instance\<close>

text \<open>For examples: a task with the items that it yields and the number of polls for which it goes on after that without its
  sender, and a channel of one item.  Sending after the channel is closed has no effect.\<close>

definition list_task_ops :: "'r \<Rightarrow> ('i list \<times> nat \<times> bool, 'i list \<times> bool \<times> bool, 'i, 'r) generator_ops" where
  "list_task_ops r =
     \<lparr>task_poll = (\<lambda>(xs, k, fin) (q, cl, e).
        if fin then (Pending, (xs, k, fin), (q, cl, e))
        else case (xs, k) of
          ([], 0) \<Rightarrow> (Ready r, ([], 0, True), (q, True, e))
        | ([], Suc k') \<Rightarrow> (Pending, ([], k', False), (q, True, e))
        | (x # xs', _) \<Rightarrow>
            if cl then (Pending, (xs', k, False), (q, cl, e))
            else if q = [] then (Pending, (xs', k, False), ([x], cl, e))
            else (Pending, (xs, k, False), (q, cl, e))),
      task_terminated = (\<lambda>(xs, k, fin). fin),
      recv_poll = (\<lambda>(q, cl, e). case q of
          x # q' \<Rightarrow> (Ready (Some x), (q', cl, e))
        | [] \<Rightarrow> if cl then (Ready None, ([], cl, True)) else (Pending, ([], cl, e))),
      recv_terminated = (\<lambda>(q, cl, e). e \<and> cl \<and> q = [])\<rparr>"

lemma list_task_laws: "channel_laws (list_task_ops r) fst (\<lambda>c. fst (snd c))"
  unfolding channel_laws_def list_task_ops_def by (auto split: list.splits nat.splits if_splits)

lemma list_task_progresses: "task_progresses (list_task_ops r) fst (\<lambda>(xs, k, fin). length xs + k)"
  unfolding task_progresses_def list_task_ops_def by (auto split: list.splits nat.splits if_splits)

definition two_items_task :: "(string list \<times> nat \<times> bool, string list \<times> bool \<times> bool, nat) generator" where
  "two_items_task = generate ([''a'', ''b''], 1, False) ([], False, False)"

section \<open>Properties\<close>

text \<open>C30: A generator loses, repeats and reorders nothing, and its result comes last.  However often it is polled, and
  whenever the task drops its sender, the consumer has got the items that the task sent, in order, but for those still in
  the channel; then, at most once, the result, which is what the task returned, and only when the channel is empty and the
  task is over.  The stream ends, and says that it is terminated, only after the result was handed out.\<close>

theorem generator_delivers_in_order:
  assumes laws: "channel_laws ops queued closed"
    and start: "queued recv = []" "\<not> task_terminated ops task"
    and polls: "gen_polls ops n (generate task recv) = (ps, g)"
  shows "into_yielded (states_of ps) @ queued (gen_stream g) = gen_sent ops queued n (generate task recv) \<and>
    (states_of ps = map GenYielded (into_yielded (states_of ps)) \<or>
     (\<exists>r. states_of ps = map GenYielded (into_yielded (states_of ps)) @ [GenComplete r] \<and>
          gen_returned ops n (generate task recv) = [r] \<and> queued (gen_stream g) = [] \<and> task_terminated ops (gen_task g))) \<and>
    (\<forall>k<n. ps ! k = Ready None \<longrightarrow> (\<exists>r. GenComplete r \<in> set (states_of (take k ps)))) \<and>
    (gen_is_terminated ops g \<longrightarrow> into_complete (states_of ps) \<noteq> None)"
proof -
  from gen_polls_inv [OF laws generate_inv [of queued recv ops task closed, OF start] polls]
  have inv: "gen_inv ops queued closed (gen_sent ops queued n (generate task recv)) (gen_returned ops n (generate task recv))
      (states_of ps) g"
    and ended: "\<forall>k<n. ps ! k = Ready None \<longrightarrow> (\<exists>r. GenComplete r \<in> set (states_of (take k ps)))" by simp_all
  from inv show ?thesis
    by (cases rule: gen_invE) (use ended in \<open>auto simp: gen_is_terminated_def\<close>)
qed

theorem generator_delivers_in_order_witness:
  "\<exists>ps g. gen_polls (list_task_ops 5) 3 two_items_task = (ps, g) \<and>
     into_yielded (states_of ps) @ fst (gen_stream g) = gen_sent (list_task_ops 5) fst 3 two_items_task"
proof -
  obtain ps g where polls: "gen_polls (list_task_ops (5 :: nat)) 3 two_items_task = (ps, g)"
    by (metis surj_pair)
  have "\<not> task_terminated (list_task_ops (5 :: nat)) ([''a'', ''b''], 1, False)" by (simp add: list_task_ops_def)
  from generator_delivers_in_order [OF list_task_laws _ this polls [unfolded two_items_task_def]] polls
  show ?thesis by (simp add: two_items_task_def)
qed

text \<open>C31: A generator whose task ends runs to completion.  If every pending poll leaves the task with less to do, unless it
  only waits for its items to be received, then after finitely many polls the consumer has got every item that the task sent,
  in order, and last the result that the task returned; until then the stream has not ended, though the task may
  have dropped its sender long before; and every later poll gives its end.\<close>

theorem generator_runs_to_completion:
  assumes laws: "channel_laws ops queued closed" and progress: "task_progresses ops queued work"
    and start: "queued recv = []" "\<not> task_terminated ops task"
  shows "\<exists>n r. let ps = fst (gen_polls ops n (generate task recv)) in
    states_of ps = map GenYielded (gen_sent ops queued n (generate task recv)) @ [GenComplete r] \<and>
    gen_returned ops n (generate task recv) = [r] \<and> Ready None \<notin> set ps \<and>
    (\<forall>k. fst (gen_polls ops (n + k) (generate task recv)) = ps @ replicate k (Ready None))"
proof -
  let ?g = "generate task recv"
  let ?done = "\<lambda>n. completed ops (snd (gen_polls ops n ?g))"
  have inv0: "gen_inv ops queued closed [] [] [] ?g" using start by (rule generate_inv)
  have inv: "gen_inv ops queued closed (gen_sent ops queued k ?g) (gen_returned ops k ?g)
      (states_of (fst (gen_polls ops k ?g))) (snd (gen_polls ops k ?g))"
    and ended: "\<forall>j<k. fst (gen_polls ops k ?g) ! j = Ready None \<longrightarrow>
      (\<exists>r. GenComplete r \<in> set (states_of (take j (fst (gen_polls ops k ?g)))))" for k
    using gen_polls_inv [OF laws inv0 prod.collapse [symmetric], of k] by simp_all
  define n where "n = (LEAST n. ?done n)"
  have n: "?done n" unfolding n_def using polls_complete [OF laws progress inv0] by (rule LeastI_ex)
  have least: "\<not> ?done k" if "k < n" for k using that unfolding n_def by (rule not_less_Least)
  from inv [of n] n obtain r where over: "states_of (fst (gen_polls ops n ?g)) = map GenYielded (gen_sent ops queued n ?g) @ [GenComplete r]"
      "gen_returned ops n ?g = [r]" "queued (gen_stream (snd (gen_polls ops n ?g))) = []" "closed (gen_stream (snd (gen_polls ops n ?g)))"
    by (cases rule: gen_invE) (auto simp: completed_def)
  have "fst (gen_polls ops n ?g) ! k \<noteq> Ready None" if k: "k < n" for k
  proof
    assume "fst (gen_polls ops n ?g) ! k = Ready None"
    with ended [of n] k obtain r' where "GenComplete r' \<in> set (states_of (take k (fst (gen_polls ops n ?g))))" by blast
    moreover have "take k (fst (gen_polls ops n ?g)) = fst (gen_polls ops k ?g)"
      using k gen_polls_add [of ops k "n - k" ?g] by simp
    ultimately have "GenComplete r' \<in> set (states_of (fst (gen_polls ops k ?g)))" by simp
    with inv [of k] have "?done k" by (cases rule: gen_invE) (auto simp: completed_def)
    with least [OF k] show False ..
  qed
  then have "Ready None \<notin> set (fst (gen_polls ops n ?g))" by (auto simp: in_set_conv_nth)
  moreover have "fst (gen_polls ops (n + k) ?g) = fst (gen_polls ops n ?g) @ replicate k (Ready None)" for k
    using polls_finished [OF laws _ over(3,4)] n by (simp add: gen_polls_add completed_def)
  ultimately show ?thesis using over unfolding Let_def by blast
qed

theorem generator_runs_to_completion_witness:
  "\<exists>n r. states_of (fst (gen_polls (list_task_ops 5) n two_items_task)) =
       map GenYielded (gen_sent (list_task_ops 5) fst n two_items_task) @ [GenComplete r] \<and>
     Ready None \<notin> set (fst (gen_polls (list_task_ops 5) n two_items_task))"
proof -
  have "\<not> task_terminated (list_task_ops (5 :: nat)) ([''a'', ''b''], 1, False)" by (simp add: list_task_ops_def)
  from generator_runs_to_completion [OF list_task_laws list_task_progresses _ this, of "([], False, False)"]
  show ?thesis by (auto simp: two_items_task_def Let_def)
qed

end
