(* ===== verification/Mock_Server.thy ===== *)
theory Mock_Server imports Cup_Ecdsa Response_Model "HOL-Library.Mapping" begin

text \<open>
  \<open>mock-omaha-server/src/lib.rs\<close>: the server that the integration tests run the client against.  It answers a
  request of the client from a table of responses by app id, and signs the answer for the key id and nonce of the
  request's URI.  Its assertions, \<open>unwrap\<close>s, \<open>expect\<close>s and indexing are panics: the value \<open>None\<close>.  The URL parser, the
  JSON text reader and writer, header values and the cryptographic crates are parameters.
\<close>

section \<open>Configuration\<close>

datatype omaha_response = SendNoUpdate | SendUpdate | SendUrgentUpdate | SendInvalidResponse | SendInvalidURL

datatype update_check_assertion = UpdatesEnabled | UpdatesDisabled

record response_and_metadata =
  ram_response :: omaha_response
  ram_check_assertion :: update_check_assertion
  ram_version :: "string option"
  ram_cohort_assertion :: "string option"
  ram_codebase :: string
  ram_package_name :: string

definition response_and_metadata_default :: response_and_metadata where
  "response_and_metadata_default =
     \<lparr>ram_response = SendNoUpdate, ram_check_assertion = UpdatesEnabled, ram_version = Some ''0.1.2.3'',
      ram_cohort_assertion = None, ram_codebase = ''fuchsia-pkg://integration.test.fuchsia.com/'',
      ram_package_name = ''update?hash=deadbeefdeadbeefdeadbeefdeadbeefdeadbeefdeadbeefdeadbeefdeadbeef''\<rparr>"

record 'p private_key_and_id =
  prk_id :: public_key_id
  prk_key :: 'p

record 'p private_keys =
  prk_latest :: "'p private_key_and_id"
  prk_historical :: "'p private_key_and_id list"

definition find_private_key :: "'p private_keys \<Rightarrow> public_key_id \<Rightarrow> 'p option" where
  "find_private_key keys i =
     (if prk_id (prk_latest keys) = i then Some (prk_key (prk_latest keys))
      else map_option prk_key (find (\<lambda>pair. prk_id pair = i) (prk_historical keys)))"

type_synonym response_map = "(string, response_and_metadata) mapping"

record 'p omaha_server =
  os_responses :: response_map
  os_private_keys :: "'p private_keys"
  os_etag_override :: "string option"
  os_require_cup :: bool

definition set_all_update_check_assertions :: "update_check_assertion \<Rightarrow> 'p omaha_server \<Rightarrow> 'p omaha_server" where
  "set_all_update_check_assertions v server =
     server\<lparr>os_responses := Mapping.map_values (\<lambda>_ r. r\<lparr>ram_check_assertion := v\<rparr>) (os_responses server)\<rparr>"

definition set_all_cohort_assertions :: "string option \<Rightarrow> 'p omaha_server \<Rightarrow> 'p omaha_server" where
  "set_all_cohort_assertions v server =
     server\<lparr>os_responses := Mapping.map_values (\<lambda>_ r. r\<lparr>ram_cohort_assertion := v\<rparr>) (os_responses server)\<rparr>"

text \<open>The derived \<open>Deserialize\<close> of the table.  A variant without data is its name, or an object of its name and null.\<close>

definition unit_variant :: "json \<Rightarrow> string option" where
  "unit_variant j = (case j of JStr s \<Rightarrow> Some s | JObj [(s, JNull)] \<Rightarrow> Some s | _ \<Rightarrow> None)"

definition de_omaha_response :: "json \<Rightarrow> omaha_response option" where
  "de_omaha_response j = Option.bind (unit_variant j)
     (map_of [(''NoUpdate'', SendNoUpdate), (''Update'', SendUpdate), (''UrgentUpdate'', SendUrgentUpdate),
              (''InvalidResponse'', SendInvalidResponse), (''InvalidURL'', SendInvalidURL)])"

definition de_check_assertion :: "json \<Rightarrow> update_check_assertion option" where
  "de_check_assertion j = Option.bind (unit_variant j)
     (map_of [(''UpdatesEnabled'', UpdatesEnabled), (''UpdatesDisabled'', UpdatesDisabled)])"

definition de_response_and_metadata :: "json \<Rightarrow> response_and_metadata option" where
  "de_response_and_metadata j =
     do { kvs \<leftarrow> struct_fields [''response'', ''check_assertion'', ''version'', ''cohort_assertion'', ''codebase'', ''package_name''] j;
          r \<leftarrow> req_field kvs ''response'' de_omaha_response;
          a \<leftarrow> req_field kvs ''check_assertion'' de_check_assertion;
          v \<leftarrow> opt_field kvs ''version'' de_string;
          c \<leftarrow> opt_field kvs ''cohort_assertion'' de_string;
          b \<leftarrow> req_field kvs ''codebase'' de_string;
          n \<leftarrow> req_field kvs ''package_name'' de_string;
          Some \<lparr>ram_response = r, ram_check_assertion = a, ram_version = v, ram_cohort_assertion = c,
                ram_codebase = b, ram_package_name = n\<rparr> }"

definition de_response_map :: "json \<Rightarrow> response_map option" where
  "de_response_map j =
     do { kvs \<leftarrow> map_fields j;
          vs \<leftarrow> sequence (map (\<lambda>(k, v). map_option (Pair k) (de_response_and_metadata v)) kvs);
          Some (fold (\<lambda>(k, r). Mapping.update k r) vs Mapping.empty) }"

section \<open>Parameters and requests\<close>

text \<open>Beside the operations that the client uses: signing, the URL parser, JSON text and header values.\<close>

record ('d, 's, 'p) server_ops =
  sv_sign :: "'p \<Rightarrow> string \<Rightarrow> 's"
  sv_to_der :: "'s \<Rightarrow> 'd"
  sv_query_pairs :: "string \<Rightarrow> (string \<times> string) list option"
  sv_read_json :: "string \<Rightarrow> json option"
  sv_write_json :: "json \<Rightarrow> string"
  sv_header_ok :: "string \<Rightarrow> bool"

text \<open>A request as the server gets it; reading its body may fail.\<close>

record server_request =
  srq_method :: string
  srq_path :: string
  srq_uri :: string
  srq_body :: "unit + string"

datatype server_error = FailedToReadBody

definition assert_that :: "bool \<Rightarrow> unit option" where
  "assert_that b = (if b then Some () else None)"

section \<open>The entity tag\<close>

text \<open>The outer option is the panic, the inner the code's own.\<close>

definition make_etag ::
  "('k, 'd, 's) crypto_ops \<Rightarrow> ('d, 's, 'p) server_ops \<Rightarrow> string \<Rightarrow> string \<Rightarrow> 'p private_keys \<Rightarrow> string \<Rightarrow> string option option" where
  "make_etag lib ops request_body uri private_keys response_data =
     (if uri = ''/'' then Some None
      else do {
        query_pairs \<leftarrow> sv_query_pairs ops (''https://example.com'' @ uri);
        (case query_pairs of
           [] \<Rightarrow> None
         | (cup2key_key, cup2key_val) # _ \<Rightarrow> do {
             assert_that (cup2key_key = ''cup2key'');
             (public_key_id_str, _) \<leftarrow> split_once CHR '':'' cup2key_val;
             public_key_id \<leftarrow> result_ok (parse_u64 public_key_id_str);
             (case find_private_key private_keys (of_nat public_key_id) of
                None \<Rightarrow> Some None
              | Some private_key \<Rightarrow>
                  (let request_hash = sha256 lib request_body;
                       response_hash = sha256 lib response_data;
                       transaction_hash = sha256 lib (request_hash @ response_hash @ cup2key_val);
                       sig = sv_sign ops private_key transaction_hash
                   in Some (Some (hex_encode lib (der_as_bytes lib (sv_to_der ops sig)) @ '':'' @
                                  hex_encode lib request_hash)))) }) })"

section \<open>The answers\<close>

text \<open>The maps of \<open>serde_json\<close> are sorted by key, so the objects that \<open>json!\<close> makes are written in that order.  In a map that is
  read, the last of several equal keys wins.\<close>

definition json_get :: "string \<Rightarrow> json \<Rightarrow> json option" where
  "json_get k j = (case j of JObj kvs \<Rightarrow> map_of (rev kvs) k | _ \<Rightarrow> None)"

fun json_as_array :: "json \<Rightarrow> json list option" where
  "json_as_array (JArr js) = Some js"
| "json_as_array _ = None"

definition installable :: "string \<Rightarrow> string \<Rightarrow> fields" where
  "installable codebase package_name =
     [(''manifest'', JObj [
         (''actions'', JObj [(''action'', JArr [
            JObj [(''event'', JStr ''install''), (''run'', JStr package_name)],
            JObj [(''event'', JStr ''postinstall'')]])]),
         (''packages'', JObj [(''package'', JArr [
            JObj [(''fp'', JStr ''2.0.1.2.3''), (''name'', JStr package_name), (''required'', JBool True)]])]),
         (''version'', JStr ''0.1.2.3'')]),
      (''status'', JStr ''ok''),
      (''urls'', JObj [(''url'', JArr [JObj [(''codebase'', JStr codebase)]])])]"

definition update_check_answer :: "response_and_metadata \<Rightarrow> json" where
  "update_check_answer expected =
     (case ram_response expected of
        SendUpdate \<Rightarrow> JObj (installable (ram_codebase expected) (ram_package_name expected))
      | SendUrgentUpdate \<Rightarrow>
          JObj ((''_urgent_update'', JBool True) # installable (ram_codebase expected) (ram_package_name expected))
      | SendNoUpdate \<Rightarrow> JObj [(''status'', JStr ''noupdate'')]
      | SendInvalidResponse \<Rightarrow> JObj [(''invalid_status'', JStr ''invalid'')]
      | SendInvalidURL \<Rightarrow> JObj (installable ''http://integration.test.fuchsia.com/'' (ram_package_name expected)))"

definition app_answer :: "json \<Rightarrow> json option \<Rightarrow> json" where
  "app_answer appid updatecheck =
     JObj ([(''appid'', appid), (''cohort'', JStr ''1:1:''), (''cohorthint'', JStr ''integration-test''),
            (''cohortname'', JStr ''integration-test''), (''status'', JStr ''ok'')] @
           opt_entry ''updatecheck'' id updatecheck)"

definition answer_app :: "response_map \<Rightarrow> json \<Rightarrow> json option" where
  "answer_app responses app =
     do { appid \<leftarrow> json_get ''appid'' app;
          key \<leftarrow> de_string appid;
          expected \<leftarrow> Mapping.lookup responses key;
          (case ram_version expected of
             None \<Rightarrow> Some ()
           | Some v \<Rightarrow> do { version \<leftarrow> json_get ''version'' app; assert_that (version = JStr v) });
          (case json_get ''updatecheck'' app of
             Some check \<Rightarrow> do {
               disabled \<leftarrow> (case json_get ''updatedisabled'' check of None \<Rightarrow> Some False | Some v \<Rightarrow> de_bool v);
               assert_that (case ram_check_assertion expected of UpdatesEnabled \<Rightarrow> \<not> disabled | UpdatesDisabled \<Rightarrow> disabled);
               (case ram_cohort_assertion expected of
                  None \<Rightarrow> Some ()
                | Some c \<Rightarrow> do { cohort \<leftarrow> json_get ''cohort'' app; s \<leftarrow> de_string cohort; assert_that (s = c) });
               Some (app_answer appid (Some (update_check_answer expected))) }
           | None \<Rightarrow> do {
               assert_that (json_get ''event'' app \<noteq> None);
               Some (app_answer appid None) }) }"

definition server_response_json :: "json list \<Rightarrow> json" where
  "server_response_json apps =
     JObj [(''response'', JObj [
       (''app'', JArr apps),
       (''daystart'', JObj [(''elapsed_days'', JInt 4775), (''elapsed_seconds'', JInt 48810)]),
       (''protocol'', JStr ''3.0''), (''server'', JStr ''prod'')])]"

text \<open>The number of apps with an update check is that of the configured apps, unless it is 0.\<close>

definition check_app_count :: "response_map \<Rightarrow> json list \<Rightarrow> unit option" where
  "check_app_count responses apps =
     (let n = length (filter (\<lambda>app. json_get ''updatecheck'' app \<noteq> None) apps)
      in assert_that (n = 0 \<or> n = Mapping.size responses))"

section \<open>Requests\<close>

definition http_answer :: "nat \<Rightarrow> string option \<Rightarrow> string \<Rightarrow> http_response" where
  "http_answer status etag body =
     \<lparr>http_status = status,
      http_header = (\<lambda>k. if k = ''content-length'' then Some (dec (length body)) else if k = ETAG then etag else None),
      http_body = body\<rparr>"

definition sign_answer ::
  "('k, 'd, 's) crypto_ops \<Rightarrow> ('d, 's, 'p) server_ops \<Rightarrow> 'p omaha_server \<Rightarrow> string \<Rightarrow> string \<Rightarrow> string \<Rightarrow> http_response option" where
  "sign_answer lib ops server uri request_body response_data =
     do { induced_etag \<leftarrow> make_etag lib ops request_body uri (os_private_keys server) response_data;
          assert_that (\<not> (os_require_cup server \<and> induced_etag = None));
          (let etag = (case os_etag_override server of Some e \<Rightarrow> Some e | None \<Rightarrow> induced_etag) in do {
             assert_that (case etag of None \<Rightarrow> True | Some e \<Rightarrow> sv_header_ok ops e);
             Some (http_answer 200 etag response_data) }) }"

definition handle_omaha_request ::
  "('k, 'd, 's) crypto_ops \<Rightarrow> ('d, 's, 'p) server_ops \<Rightarrow> 'p omaha_server \<Rightarrow> server_request \<Rightarrow> (server_error + http_response) option" where
  "handle_omaha_request lib ops server req =
     do { assert_that (srq_method req = ''POST'');
          if Mapping.is_empty (os_responses server) then Some (Inr (http_answer 500 None []))
          else (case srq_body req of
             Inl _ \<Rightarrow> Some (Inl FailedToReadBody)
           | Inr req_body \<Rightarrow> do {
               req_json \<leftarrow> sv_read_json ops req_body;
               request \<leftarrow> json_get ''request'' req_json;
               app_value \<leftarrow> json_get ''app'' request;
               apps \<leftarrow> json_as_array app_value;
               check_app_count (os_responses server) apps;
               answers \<leftarrow> sequence (map (answer_app (os_responses server)) apps);
               resp \<leftarrow> sign_answer lib ops server (srq_uri req) req_body (sv_write_json ops (server_response_json answers));
               Some (Inr resp) }) }"

definition handle_set_responses ::
  "('d, 's, 'p) server_ops \<Rightarrow> 'p omaha_server \<Rightarrow> server_request \<Rightarrow> ((server_error + http_response) \<times> 'p omaha_server) option" where
  "handle_set_responses ops server req =
     do { assert_that (srq_method req = ''POST'');
          (case srq_body req of
             Inl _ \<Rightarrow> Some (Inl FailedToReadBody, server)
           | Inr req_body \<Rightarrow> do {
               j \<leftarrow> sv_read_json ops req_body;
               responses \<leftarrow> de_response_map j;
               Some (Inr (http_answer 200 None []), server\<lparr>os_responses := responses\<rparr>) }) }"

definition handle_server_request ::
  "('k, 'd, 's) crypto_ops \<Rightarrow> ('d, 's, 'p) server_ops \<Rightarrow> 'p omaha_server \<Rightarrow> server_request
     \<Rightarrow> ((server_error + http_response) \<times> 'p omaha_server) option" where
  "handle_server_request lib ops server req =
     (if srq_path req = ''/set_responses_by_appid'' then handle_set_responses ops server req
      else map_option (\<lambda>r. (r, server)) (handle_omaha_request lib ops server req))"

section \<open>Lemmas\<close>

lemma assert_that_Some [simp]: "assert_that b = Some u \<longleftrightarrow> b"
  by (simp add: assert_that_def)

lemma find_private_key_latest [simp]: "find_private_key keys (prk_id (prk_latest keys)) = Some (prk_key (prk_latest keys))"
  by (simp add: find_private_key_def)

text \<open>An etag of hexadecimal text is not quoted.\<close>

lemma parse_etag_hex:
  assumes "CHR 0x22 \<notin> set a" and "CHR 0x22 \<notin> set b"
  shows "parse_etag (a @ '':'' @ b) = a @ '':'' @ b"
  using assms by (intro parse_etag_plain) auto

lemma make_etag_uri:
  assumes "uri \<noteq> ''/''"
    and "sv_query_pairs ops (''https://example.com'' @ uri) = Some ((''cup2key'', cup2_urlparam lib i n) # rest)"
    and "find_private_key keys i = Some p"
  shows "make_etag lib ops body uri keys data =
    Some (Some (hex_encode lib (der_as_bytes lib (sv_to_der ops (sv_sign ops p (make_transaction_hash lib body data i n)))) @
                '':'' @ hex_encode lib (sha256 lib body)))"
proof -
  have "parse_u64 (dec (unat i)) = Inr (unat i)" by (rule parse_key_id)
  then show ?thesis using assms
    by (simp add: make_etag_def cup2_urlparam_split assert_that_def make_transaction_hash_def transaction_bytes_def Let_def)
qed

text \<open>The parameter must be the first of the query: after another one the server panics.  The client appends its
  parameter after those of the service URL.\<close>

lemma make_etag_first:
  "uri \<noteq> ''/'' \<Longrightarrow> sv_query_pairs ops (''https://example.com'' @ uri) = Some ((k, v) # rest) \<Longrightarrow> k \<noteq> ''cup2key'' \<Longrightarrow>
     make_etag lib ops body uri keys data = None"
  by (simp add: make_etag_def assert_that_def)

text \<open>What the client reads from the answers.\<close>

definition answered_manifest :: "string \<Rightarrow> manifest" where
  "answered_manifest package_name =
     \<lparr>man_version = ''0.1.2.3'',
      man_actions = [\<lparr>act_event = Some ''install'', act_run = Some package_name, act_extra = Map.empty\<rparr>,
                     \<lparr>act_event = Some ''postinstall'', act_run = None, act_extra = Map.empty\<rparr>],
      man_packages = [\<lparr>pkg_name = package_name, pkg_required = True, pkg_size = None, pkg_hash = None,
                       pkg_hash_sha256 = None, pkg_fingerprint = ''2.0.1.2.3'', pkg_extra = Map.empty\<rparr>]\<rparr>"

definition installable_check :: "string \<Rightarrow> string \<Rightarrow> (string \<rightharpoonup> json) \<Rightarrow> response_update_check" where
  "installable_check codebase package_name extra =
     \<lparr>ruc_status = StatusOk, ruc_info = None, ruc_urls = Some [codebase],
      ruc_manifest = Some (answered_manifest package_name),
      ruc_extra = extra\<rparr>"

fun answered_check :: "response_and_metadata \<Rightarrow> response_update_check option" where
  "answered_check expected =
     (case ram_response expected of
        SendUpdate \<Rightarrow> Some (installable_check (ram_codebase expected) (ram_package_name expected) Map.empty)
      | SendUrgentUpdate \<Rightarrow> Some (installable_check (ram_codebase expected) (ram_package_name expected) [''_urgent_update'' \<mapsto> JBool True])
      | SendNoUpdate \<Rightarrow> Some update_check_no_update
      | SendInvalidResponse \<Rightarrow> None
      | SendInvalidURL \<Rightarrow> Some (installable_check ''http://integration.test.fuchsia.com/'' (ram_package_name expected) Map.empty))"

lemma de_manifest_answer:
  "de_manifest (JObj [
         (''actions'', JObj [(''action'', JArr [
            JObj [(''event'', JStr ''install''), (''run'', JStr package_name)],
            JObj [(''event'', JStr ''postinstall'')]])]),
         (''packages'', JObj [(''package'', JArr [
            JObj [(''fp'', JStr ''2.0.1.2.3''), (''name'', JStr package_name), (''required'', JBool True)]])]),
         (''version'', JStr ''0.1.2.3'')]) =
     Some (answered_manifest package_name)"
  by (simp add: de_manifest_def de_actions_def de_action_def de_packages_def de_package_def de_simps rest_fields_def
      answered_manifest_def)

lemma de_urls_answer: "de_urls (JObj [(''url'', JArr [JObj [(''codebase'', JStr c)]])]) = Some [c]"
  by (simp add: de_urls_def de_url_def de_simps)

lemma de_update_check_answer: "de_update_check (update_check_answer expected) = answered_check expected"
proof (cases "ram_response expected")
  case SendInvalidResponse
  then show ?thesis by (simp add: update_check_answer_def de_update_check_def de_simps)
next
  case SendNoUpdate
  then show ?thesis
    by (simp add: update_check_answer_def de_update_check_def de_simps de_status_def rest_fields_def
        update_check_no_update_def update_check_default_def)
qed (simp_all add: update_check_answer_def installable_def de_update_check_def de_simps de_status_def rest_fields_def
    de_urls_answer de_manifest_answer installable_check_def)

definition answered_app :: "string \<Rightarrow> response_update_check option \<Rightarrow> response_app" where
  "answered_app appid check =
     \<lparr>rapp_id = appid, rapp_status = StatusOk,
      rapp_cohort = \<lparr>cohort_id = Some ''1:1:'', cohort_hint = Some ''integration-test'', cohort_name = Some ''integration-test''\<rparr>,
      rapp_ping = None, rapp_update_check = check, rapp_events = None, rapp_extra = Map.empty\<rparr>"

lemma de_app_answer_event: "de_response_app (app_answer (JStr i) None) = Some (answered_app i None)"
  by (simp add: app_answer_def de_response_app_def de_simps de_status_def rest_fields_def cohort_of_fields_def
      answered_app_def)

lemma update_check_answer_object [simp]: "update_check_answer expected \<noteq> JNull"
  by (simp add: update_check_answer_def split: omaha_response.splits)

lemma de_app_answer_check:
  "de_response_app (app_answer (JStr i) (Some (update_check_answer expected))) =
     map_option (\<lambda>u. answered_app i (Some u)) (answered_check expected)"
  by (cases "answered_check expected")
     (simp_all add: app_answer_def de_response_app_def de_simps de_status_def rest_fields_def cohort_of_fields_def
      answered_app_def de_update_check_answer del: answered_check.simps)

lemma answer_app_SomeD:
  assumes "answer_app responses app = Some answer"
  shows "\<exists>i expected. json_get ''appid'' app = Some (JStr i) \<and> Mapping.lookup responses i = Some expected \<and>
     answer = app_answer (JStr i) (if json_get ''updatecheck'' app = None then None else Some (update_check_answer expected))"
proof -
  from assms obtain appid i expected where "json_get ''appid'' app = Some appid" and i: "de_string appid = Some i"
    and "Mapping.lookup responses i = Some expected"
    and "answer = app_answer appid (if json_get ''updatecheck'' app = None then None else Some (update_check_answer expected))"
    by (cases "json_get ''updatecheck'' app") (auto simp: answer_app_def bind_eq_Some_conv)
  moreover from i have "appid = JStr i" by (cases appid) simp_all
  ultimately show ?thesis by blast
qed

text \<open>What a requested app is answered, as the client reads it.\<close>

definition expected_answer :: "response_map \<Rightarrow> json \<Rightarrow> response_app option" where
  "expected_answer responses app =
     do { appid \<leftarrow> json_get ''appid'' app;
          i \<leftarrow> de_string appid;
          expected \<leftarrow> Mapping.lookup responses i;
          (if json_get ''updatecheck'' app = None then Some (answered_app i None)
           else map_option (\<lambda>u. answered_app i (Some u)) (answered_check expected)) }"

lemma de_answer: "answer_app responses app = Some answer \<Longrightarrow> de_response_app answer = expected_answer responses app"
  by (auto simp: expected_answer_def de_app_answer_event de_app_answer_check simp del: answered_check.simps
      dest!: answer_app_SomeD)

lemma de_answers:
  "sequence (map (answer_app responses) apps) = Some answers \<Longrightarrow>
     sequence (map de_response_app answers) = sequence (map (expected_answer responses) apps)"
proof (induction apps arbitrary: answers)
  case (Cons a apps)
  then show ?case by (auto simp: de_answer split: option.splits)
qed simp

lemma de_server_response:
  "de_response_wrapper (server_response_json answers) =
     map_option (\<lambda>apps. \<lparr>resp_protocol_version = ''3.0'', resp_server = Some ''prod'',
         resp_daystart = Some \<lparr>elapsed_days = Some 4775, elapsed_seconds = Some 48810\<rparr>, resp_apps = apps\<rparr>)
       (sequence (map de_response_app answers))"
  by (cases "sequence (map de_response_app answers)")
     (simp_all add: server_response_json_def de_response_wrapper_def de_response_def de_day_start_def de_simps de_u32_def)

lemma sign_answer_SomeD: "sign_answer lib ops server uri body data = Some resp \<Longrightarrow> http_status resp = 200 \<and> http_body resp = data"
  by (auto simp: sign_answer_def bind_eq_Some_conv http_answer_def Let_def)

text \<open>The parts of an answered request.\<close>

lemma handle_omaha_requestD:
  assumes "handle_omaha_request lib ops server req = Some (Inr resp)" and "http_status resp = 200"
  obtains body j request apps answers where "srq_body req = Inr body" and "sv_read_json ops body = Some j" and
    "json_get ''request'' j = Some request" and "json_get ''app'' request = Some (JArr apps)" and
    "sequence (map (answer_app (os_responses server)) apps) = Some answers" and
    "sign_answer lib ops server (srq_uri req) body (sv_write_json ops (server_response_json answers)) = Some resp"
proof -
  have array: "json_as_array v = Some apps \<longleftrightarrow> v = JArr apps" for v apps by (cases v) auto
  show ?thesis using assms that
    by (auto simp: handle_omaha_request_def bind_eq_Some_conv http_answer_def array split: if_splits sum.splits)
qed

section \<open>An instance\<close>

text \<open>For examples: bytes written as bits, a signature by a key that is the key before the message, one fixed request.\<close>

fun bits_encode :: "string \<Rightarrow> string" where
  "bits_encode [] = []"
| "bits_encode (Char a b c d e f g h # s) =
     map (\<lambda>x. if x then CHR ''1'' else CHR ''0'') [a, b, c, d, e, f, g, h] @ bits_encode s"

fun bits_decode :: "string \<Rightarrow> string option" where
  "bits_decode [] = Some []"
| "bits_decode (a # b # c # d # e # f # g # h # s) =
     map_option (Cons (Char (a = CHR ''1'') (b = CHR ''1'') (c = CHR ''1'') (d = CHR ''1'') (e = CHR ''1'')
       (f = CHR ''1'') (g = CHR ''1'') (h = CHR ''1''))) (bits_decode s)"
| "bits_decode _ = None"

lemma bits_decode_encode: "bits_decode (bits_encode s) = Some s"
  by (induction s rule: bits_encode.induct) auto

lemma bits_chars: "set (bits_encode s) \<subseteq> {CHR ''0'', CHR ''1''}"
  by (induction s rule: bits_encode.induct) auto

definition bits_crypto :: "(string, string, string) crypto_ops" where
  "bits_crypto = toy_crypto\<lparr>hex_encode := bits_encode, hex_decode := bits_decode\<rparr>"

section \<open>What the client makes of an answer\<close>

text \<open>The client understands the mock server.  When the server answers a request at all, the client's parser reads
  from the answer one app per requested app, in order: its id, and for a request with an update check what the
  table of the server holds for that id (an update with one URL and one package, none, or a bad URL; an
  urgent update differs by an extra attribute), without one no update check; and it reads nothing exactly when
  some app with an update check is configured with an invalid response.\<close>

lemma mock_server_answer_is_read:
  assumes request: "srq_body req = Inr body" "sv_read_json ops body = Some j" "json_get ''request'' j = Some request"
      "json_get ''app'' request = Some (JArr apps)"
    and run: "handle_omaha_request lib ops server req = Some (Inr resp)" "http_status resp = 200"
    and reads: "\<And>answers. sequence (map (answer_app (os_responses server)) apps) = Some answers \<Longrightarrow>
        from_slice (sv_write_json ops (server_response_json answers)) = Some (server_response_json answers)"
    and no_prefix: "\<not> starts_with safety_prefix (http_body resp)"
  shows "map_option resp_apps (parse_json_response from_slice (http_body resp)) =
    sequence (map (expected_answer (os_responses server)) apps)"
proof -
  from handle_omaha_requestD [OF run] request obtain answers where
    answers: "sequence (map (answer_app (os_responses server)) apps) = Some answers"
    and signed: "sign_answer lib ops server (srq_uri req) body (sv_write_json ops (server_response_json answers)) = Some resp"
    by (metis json.inject(5) option.inject sum.inject(2))
  show ?thesis
    using sign_answer_SomeD [OF signed] no_prefix reads [OF answers]
    by (simp add: parse_json_response_def parse_safe_json_def de_server_response de_answers [OF answers] option.map_comp comp_def
        option.map_ident)
qed

text \<open>What the mock server signs, the client accepts.  If the request came with the parameter \<open>cup2key\<close> of a key id and a
  nonce first in its query, the server holds the private key for that id (the latest of its list wins), the client's handler the
  public key that belongs to it, and no etag is forced, then the client's verification of the answer for the
  body it sent, that id and that nonce succeeds, and returns the signature.\<close>

lemma mock_server_signature_accepted:
  assumes sign: "\<And>p k h. belongs p k \<Longrightarrow> key_verify lib k h (sv_sign ops p h)"
    and der: "\<And>d. der_from_bytes lib (der_as_bytes lib d) = Some d" "\<And>s. signature_of_der lib (sv_to_der ops s) = Some s"
    and hex: "\<And>b. hex_decode lib (hex_encode lib b) = Some b" "\<And>b. {CHR 0x22, CHR '':''} \<inter> set (hex_encode lib b) = {}"
    and header: "\<And>a b. header_to_str lib (hex_encode lib a @ '':'' @ hex_encode lib b) = Some (hex_encode lib a @ '':'' @ hex_encode lib b)"
    and run: "sign_answer lib ops server uri body data = Some resp"
    and uri: "uri \<noteq> ''/''" "sv_query_pairs ops (''https://example.com'' @ uri) = Some ((''cup2key'', cup2_urlparam lib i n) # rest)"
    and keys: "find_private_key (os_private_keys server) i = Some p" "parameters_by_id handler i = Some k" "belongs p k"
    and no_override: "os_etag_override server = None"
  shows "verify_response lib handler \<lparr>rm_request_body = body, rm_public_key_id = i, rm_nonce = n\<rparr> resp i =
    Inr (sv_to_der ops (sv_sign ops p (make_transaction_hash lib body data i n)))"
proof -
  let ?hash = "make_transaction_hash lib body data i n"
  let ?sig = "hex_encode lib (der_as_bytes lib (sv_to_der ops (sv_sign ops p ?hash)))"
  let ?tag = "?sig @ '':'' @ hex_encode lib (sha256 lib body)"
  have "http_header resp ETAG = Some ?tag \<and> http_body resp = data"
    using run no_override
    by (auto simp: sign_answer_def make_etag_uri [OF uri keys(1)] http_answer_def Let_def assert_that_def split: if_splits)
  moreover have "parse_etag ?tag = ?tag" using hex(2) by (intro parse_etag_hex) auto
  moreover have "CHR '':'' \<notin> set ?sig" using hex(2) by blast
  moreover note hex(1) [of "sha256 lib body"] hex(1) [of "der_as_bytes lib (sv_to_der ops (sv_sign ops p ?hash))"]
    der(1) [of "sv_to_der ops (sv_sign ops p ?hash)"] der(2) [of "sv_sign ops p ?hash"] sign [OF keys(3), of ?hash]
  ultimately show ?thesis
    using header [of "der_as_bytes lib (sv_to_der ops (sv_sign ops p ?hash))" "sha256 lib body"] keys(2) by (subst verify_accepts_iff) (auto intro!: exI)
qed

end
