(* ===== verification/Client_Server.thy ===== *)
theory Client_Server imports Mock_Server Check_Properties begin

text \<open>
  The client against the mock server: what the server makes of a request that the request builder built, and
  a request of the state machine that the server answers.  The two sides meet in the JSON text, the URL and the
  signature; what is relied on of the crates between them is collected in definitions.
\<close>

section \<open>JSON values that readers cannot tell apart\<close>

text \<open>A reader of JSON text may sort the keys of an object and keeps the last of equal keys.\<close>

lemma rel_option_mono_imp: "(\<And>x y. A x y \<longrightarrow> B x y) \<Longrightarrow> rel_option A a b \<longrightarrow> rel_option B a b"
  by (cases a; cases b) auto

inductive same_value :: "json \<Rightarrow> json \<Rightarrow> bool" where
  same_leaf: "json_as_array j = None \<Longrightarrow> map_fields j = None \<Longrightarrow> same_value j j"
| same_array: "list_all2 same_value js js' \<Longrightarrow> same_value (JArr js) (JArr js')"
| same_object: "(\<And>k. rel_option same_value (map_of (rev kvs) k) (map_of (rev kvs') k)) \<Longrightarrow> same_value (JObj kvs) (JObj kvs')"
monos rel_option_mono_imp

inductive_simps same_value_simps [simp]: "same_value (JArr js) j" "same_value (JStr s) j" "same_value (JBool b) j"

inductive_simps same_value_JObj: "same_value (JObj kvs) j"

lemma same_value_get: "same_value j j' \<Longrightarrow> rel_option same_value (json_get k j) (json_get k j')"
  by (cases rule: same_value.cases) (auto simp: json_get_def map_fields_def split: json.splits)

lemma same_value_get_None: "same_value j j' \<Longrightarrow> json_get k j' = None \<longleftrightarrow> json_get k j = None"
  using same_value_get [of j j' k] by (cases "json_get k j"; cases "json_get k j'") auto

lemma same_value_get_Some: "same_value j j' \<Longrightarrow> json_get k j = Some v \<Longrightarrow> \<exists>v'. json_get k j' = Some v' \<and> same_value v v'"
  using same_value_get [of j j' k] by (cases "json_get k j'") auto

lemma same_value_atoms:
  assumes "same_value j j'"
  shows "de_string j' = de_string j" "de_bool j' = de_bool j" "j' = JStr s \<longleftrightarrow> j = JStr s"
  using assms by (cases rule: same_value.cases; simp)+

lemma same_value_refl: "same_value j j"
proof (induction j)
  case (JArr js)
  then show ?case by (auto simp: list_all2_same)
next
  case (JObj kvs)
  have "rel_option same_value (map_of (rev kvs) k) (map_of (rev kvs) k)" for k
    using JObj by (cases "map_of (rev kvs) k") (fastforce dest: map_of_SomeD)+
  then show ?case by (rule same_object)
qed (auto intro: same_leaf simp: map_fields_def)

text \<open>The server answers values that are the same alike.\<close>

lemma answer_app_same_value:
  assumes "same_value app app'"
  shows "answer_app responses app' = answer_app responses app"
proof -
  have get: "rel_option same_value (json_get k app) (json_get k app')" for k
    by (rule same_value_get [OF assms])
  have read: "Option.bind (json_get k app') f = Option.bind (json_get k app) f"
    if "\<And>v v'. same_value v v' \<Longrightarrow> f v' = f v" for k and f :: "json \<Rightarrow> 'b option"
    using get [of k] that by (cases "json_get k app"; cases "json_get k app'") auto
  have disabled: "(case json_get ''updatedisabled'' v' of None \<Rightarrow> Some False | Some v \<Rightarrow> de_bool v) =
      (case json_get ''updatedisabled'' v of None \<Rightarrow> Some False | Some v \<Rightarrow> de_bool v)" if "same_value v v'" for v v'
    using same_value_get [OF that, of "''updatedisabled''"]
    by (cases "json_get ''updatedisabled'' v"; cases "json_get ''updatedisabled'' v'") (auto simp: same_value_atoms)
  have cohort: "Option.bind (json_get ''cohort'' app') (\<lambda>cohort. Option.bind (de_string cohort) f) =
      Option.bind (json_get ''cohort'' app) (\<lambda>cohort. Option.bind (de_string cohort) f)" for f :: "string \<Rightarrow> unit option"
    by (rule read) (simp add: same_value_atoms)
  have version: "Option.bind (json_get ''version'' app') (\<lambda>version. assert_that (version = JStr v)) =
      Option.bind (json_get ''version'' app) (\<lambda>version. assert_that (version = JStr v))" for v
    by (rule read) (simp add: same_value_atoms)
  have event: "json_get ''event'' app' = None \<longleftrightarrow> json_get ''event'' app = None"
    by (rule same_value_get_None [OF assms])
  have rest: "(case json_get ''updatecheck'' app' of None \<Rightarrow> n | Some check \<Rightarrow> f check) =
      (case json_get ''updatecheck'' app of None \<Rightarrow> n | Some check \<Rightarrow> f check)"
    if "\<And>v v'. same_value v v' \<Longrightarrow> f v' = f v" for n and f :: "json \<Rightarrow> json option"
    using get [of "''updatecheck''"] that
    by (cases "json_get ''updatecheck'' app"; cases "json_get ''updatecheck'' app'") auto
  from get [of "''appid''"] consider "json_get ''appid'' app = None" "json_get ''appid'' app' = None"
    | a a' where "json_get ''appid'' app = Some a" "json_get ''appid'' app' = Some a'" "same_value a a'"
    by (cases "json_get ''appid'' app"; cases "json_get ''appid'' app'") auto
  then show ?thesis
  proof cases
    case 2
    show ?thesis
    proof (cases "de_string a")
      case (Some i)
      then have "a = JStr i" by (cases a) auto
      moreover from this 2 have "a' = JStr i" by simp
      ultimately show ?thesis
        using 2 unfolding answer_app_def
        by (simp, subst rest) (simp_all add: disabled cohort event version cong: option.case_cong)
    qed (use 2 in \<open>simp add: answer_app_def same_value_atoms\<close>)
  qed (simp add: answer_app_def)
qed

section \<open>A request of the builder at the server\<close>

text \<open>An app of the request, and the keys of it that the server looks at.\<close>

definition entry_value :: "app_entry \<Rightarrow> json" where
  "entry_value e = JObj (protocol_app_entries (protocol_app_from e))"

definition server_keys :: "string list" where
  "server_keys = [''appid'', ''version'', ''updatecheck'', ''cohort'', ''event'']"

definition plain_entry :: "app_entry \<Rightarrow> bool" where
  "plain_entry e \<longleftrightarrow> set server_keys \<inter> fst ` set (app_extra_fields (entry_app e)) = {}"

text \<open>The expectations of the table that the entry meets.\<close>

definition meets :: "response_map \<Rightarrow> app_entry \<Rightarrow> bool" where
  "meets responses e \<longleftrightarrow>
     (case Mapping.lookup responses (app_id (entry_app e)) of
        None \<Rightarrow> False
      | Some expected \<Rightarrow>
          ram_version expected \<in> {None, Some (version_to_string (app_version (entry_app e)))} \<and>
          (case entry_update_check e of
             None \<Rightarrow> entry_events e \<noteq> []
           | Some check \<Rightarrow>
               ram_check_assertion expected = (if uc_disabled check then UpdatesDisabled else UpdatesEnabled) \<and>
               ram_cohort_assertion expected \<in> {None, cohort_id (app_cohort (entry_app e))}))"

definition entry_answer :: "response_map \<Rightarrow> app_entry \<Rightarrow> json" where
  "entry_answer responses e =
     app_answer (JStr (app_id (entry_app e)))
       (map_option (\<lambda>_. update_check_answer (the (Mapping.lookup responses (app_id (entry_app e))))) (entry_update_check e))"

lemma json_get_append:
  "k \<notin> fst ` set ys \<Longrightarrow> json_get k (JObj (xs @ ys)) = json_get k (JObj xs)"
  by (auto simp: json_get_def map_add_def map_of_eq_None_iff [THEN iffD2] split: option.splits)

lemma json_get_entry:
  assumes "plain_entry e"
  shows "json_get ''appid'' (entry_value e) = Some (JStr (app_id (entry_app e)))"
    and "json_get ''version'' (entry_value e) = Some (JStr (version_to_string (app_version (entry_app e))))"
    and "json_get ''updatecheck'' (entry_value e) = map_option update_check_json (entry_update_check e)"
    and "json_get ''cohort'' (entry_value e) = map_option JStr (cohort_id (app_cohort (entry_app e)))"
    and "json_get ''event'' (entry_value e) =
      (if entry_events e = [] then None else Some (JArr (map event_json (entry_events e))))"
proof -
  let ?p = "protocol_app_from e"
  have "papp_extra_fields ?p = app_extra_fields (entry_app e)" by (simp add: protocol_app_from_def Let_def)
  then have get: "json_get k (entry_value e) = json_get k (JObj (protocol_app_entries (?p\<lparr>papp_extra_fields := []\<rparr>)))"
    if "k \<in> set server_keys" for k
    unfolding entry_value_def protocol_app_entries_split [of ?p] using that assms
    by (intro json_get_append) (force simp: plain_entry_def)
  show "json_get ''appid'' (entry_value e) = Some (JStr (app_id (entry_app e)))"
    and "json_get ''version'' (entry_value e) = Some (JStr (version_to_string (app_version (entry_app e))))"
    and "json_get ''updatecheck'' (entry_value e) = map_option update_check_json (entry_update_check e)"
    and "json_get ''cohort'' (entry_value e) = map_option JStr (cohort_id (app_cohort (entry_app e)))"
    and "json_get ''event'' (entry_value e) =
      (if entry_events e = [] then None else Some (JArr (map event_json (entry_events e))))"
    by (subst get; simp add: server_keys_def json_get_def protocol_app_entries_def protocol_app_from_def Let_def
        cohort_entries_def opt_entry_def map_add_def split: option.splits)+
qed

lemma json_get_update_check:
  "json_get ''updatedisabled'' (update_check_json c) = (if uc_disabled c then Some (JBool True) else None)"
  by (simp add: update_check_json_def json_get_def)

lemma assert_that_if: "assert_that b = (if b then Some () else None)"
  by (simp add: assert_that_def)

lemma answer_entry:
  assumes "plain_entry e"
  shows "answer_app responses (entry_value e) = (if meets responses e then Some (entry_answer responses e) else None)"
proof (cases "Mapping.lookup responses (app_id (entry_app e))")
  case None
  then show ?thesis by (simp add: answer_app_def json_get_entry [OF assms] meets_def)
next
  case (Some expected)
  show ?thesis
  proof (cases "entry_update_check e")
    case None
    with Some show ?thesis
      by (auto simp: answer_app_def json_get_entry [OF assms] meets_def entry_answer_def assert_that_if split: option.splits)
  next
    case (Some check)
    have cohort: "(case ram_cohort_assertion expected of None \<Rightarrow> Some ()
          | Some c \<Rightarrow> Option.bind (json_get ''cohort'' (entry_value e)) (\<lambda>v. Option.bind (de_string v) (\<lambda>s. assert_that (s = c)))) =
        assert_that (ram_cohort_assertion expected \<in> {None, cohort_id (app_cohort (entry_app e))})"
      by (cases "ram_cohort_assertion expected"; cases "cohort_id (app_cohort (entry_app e))")
        (auto simp: assert_that_if json_get_entry [OF assms])
    have version: "(case ram_version expected of None \<Rightarrow> Some () | Some v \<Rightarrow>
          Option.bind (json_get ''version'' (entry_value e)) (\<lambda>version. assert_that (version = JStr v))) =
        assert_that (ram_version expected \<in> {None, Some (version_to_string (app_version (entry_app e)))})"
      by (cases "ram_version expected") (auto simp: assert_that_if json_get_entry [OF assms])
    show ?thesis
      using \<open>Mapping.lookup responses _ = _\<close> Some
      by (cases "uc_disabled check"; cases "ram_check_assertion expected")
        (simp_all add: answer_app_def json_get_entry(1,3) [OF assms] json_get_update_check cohort version meets_def
          entry_answer_def assert_that_if)
  qed
qed

lemma answer_entries:
  assumes "list_all plain_entry es" and "list_all2 same_value (map entry_value es) apps"
  shows "sequence (map (answer_app responses) apps) =
    (if list_all (meets responses) es then Some (map (entry_answer responses) es) else None)"
  using assms
proof (induction es arbitrary: apps)
  case (Cons e es)
  from Cons.prems obtain app apps' where apps: "apps = app # apps'" "same_value (entry_value e) app"
      "list_all2 same_value (map entry_value es) apps'" by (auto simp: list_all2_Cons1)
  show ?case
    using Cons.IH [OF _ apps(3)] Cons.prems(1) answer_app_same_value [OF apps(2)] answer_entry [of e]
    by (auto simp: apps(1))
qed simp

text \<open>The apps of the request as the server finds them.\<close>

lemma request_apps_value:
  assumes "same_value (request_wrapper_json r) j"
  obtains request apps where "json_get ''request'' j = Some request" and "json_get ''app'' request = Some (JArr apps)" and
    "list_all2 same_value (map (\<lambda>a. JObj (protocol_app_entries a)) (request_apps r)) apps"
proof -
  have "json_get ''request'' (request_wrapper_json r) = Some (request_json r)"
    by (simp add: request_wrapper_json_def json_get_def)
  from same_value_get_Some [OF assms this] obtain request where request: "json_get ''request'' j = Some request"
    and same: "same_value (request_json r) request" by blast
  have "json_get ''app'' (request_json r) = Some (JArr (map (\<lambda>a. JObj (protocol_app_entries a)) (request_apps r)))"
    by (simp add: request_json_def json_get_def)
  from same_value_get_Some [OF same this] obtain v where v: "json_get ''app'' request = Some v"
    and "same_value (JArr (map (\<lambda>a. JObj (protocol_app_entries a)) (request_apps r))) v" by blast
  then obtain apps where "v = JArr apps" "list_all2 same_value (map (\<lambda>a. JObj (protocol_app_entries a)) (request_apps r)) apps"
    by (auto elim: same_value.cases)
  with request v that show ?thesis by blast
qed

text \<open>How many of the entries ask for an update.\<close>

definition count_ok :: "response_map \<Rightarrow> app_entry list \<Rightarrow> bool" where
  "count_ok responses es \<longleftrightarrow>
     (let n = length (filter (\<lambda>e. entry_update_check e \<noteq> None) es) in n = 0 \<or> n = Mapping.size responses)"

lemma check_app_count_entries:
  assumes "list_all plain_entry es" and "list_all2 same_value (map entry_value es) apps"
  shows "check_app_count responses apps = assert_that (count_ok responses es)"
proof -
  have "length (filter (\<lambda>app. json_get ''updatecheck'' app \<noteq> None) apps) = length (filter (\<lambda>e. entry_update_check e \<noteq> None) es)"
    using assms
  proof (induction es arbitrary: apps)
    case (Cons e es)
    from Cons.prems obtain app apps' where apps: "apps = app # apps'" "same_value (entry_value e) app"
        "list_all2 same_value (map entry_value es) apps'" by (auto simp: list_all2_Cons1)
    with Cons show ?case
      using same_value_get_None [OF apps(2), of "''updatecheck''"]
      by (cases "entry_update_check e"; cases "json_get ''updatecheck'' app") (simp_all add: json_get_entry)
  qed simp
  then show ?thesis by (simp add: check_app_count_def count_ok_def)
qed

lemma served_request:
  assumes req: "srq_method req = ''POST''" "srq_body req = Inr body"
    and read: "sv_read_json ops body = Some j" "same_value (request_wrapper_json (request_of b)) j"
    and plain: "list_all plain_entry (rb_app_entries b)"
    and configured: "\<not> Mapping.is_empty (os_responses server)"
  shows "handle_omaha_request lib ops server req =
    (if count_ok (os_responses server) (rb_app_entries b) \<and> list_all (meets (os_responses server)) (rb_app_entries b)
     then map_option Inr (sign_answer lib ops server (srq_uri req) body
            (sv_write_json ops (server_response_json (map (entry_answer (os_responses server)) (rb_app_entries b)))))
     else None)"
proof -
  have entries: "map (\<lambda>a. JObj (protocol_app_entries a)) (request_apps (request_of b)) = map entry_value (rb_app_entries b)"
    by (simp add: request_of_def entry_value_def)
  obtain request apps where
    apps: "json_get ''request'' j = Some request" "json_get ''app'' request = Some (JArr apps)"
      "list_all2 same_value (map entry_value (rb_app_entries b)) apps"
    using request_apps_value [OF read(2)] unfolding entries by blast
  show ?thesis
    using req read(1) configured apps(1,2) answer_entries [OF plain apps(3)] check_app_count_entries [OF plain apps(3)]
    by (auto simp: handle_omaha_request_def assert_that_if map_option_case split: option.splits)
qed

section \<open>A request of the state machine at the server\<close>

text \<open>
  What is relied on of the crates.  A signature of a private key verifies under the public key that belongs to it;
  DER and hexadecimal text read back, the latter uses the hexadecimal digits only, and such text with a colon is a
  header value that reads as text.
\<close>

definition hex_digits :: string where "hex_digits = ''0123456789abcdef''"

definition crypto_agrees :: "('k, 'd, 's) crypto_ops \<Rightarrow> ('d, 's, 'p) server_ops \<Rightarrow> ('p \<Rightarrow> 'k \<Rightarrow> bool) \<Rightarrow> bool" where
  "crypto_agrees lib ops belongs \<longleftrightarrow>
     (\<forall>p k h. belongs p k \<longrightarrow> key_verify lib k h (sv_sign ops p h)) \<and>
     (\<forall>d. der_from_bytes lib (der_as_bytes lib d) = Some d) \<and>
     (\<forall>s. signature_of_der lib (sv_to_der ops s) = Some s) \<and>
     (\<forall>b. hex_decode lib (hex_encode lib b) = Some b \<and> set (hex_encode lib b) \<subseteq> set hex_digits) \<and>
     (\<forall>v. set v \<subseteq> set ('':'' @ hex_digits) \<longrightarrow> sv_header_ok ops v \<and> header_to_str lib v = Some v)"

text \<open>A path and query splits at its first question mark; a request is sent to the path and query of its URI; the
  server's URL parser splits the query at the equals sign.\<close>

definition url_agrees :: "('u, 'b) uri_ops \<Rightarrow> ('d, 's, 'p) server_ops \<Rightarrow> (string \<Rightarrow> string) \<Rightarrow> bool" where
  "url_agrees uris ops target \<longleftrightarrow>
     (\<forall>parts u pq. uri_from_parts uris parts = Inr u \<and> parts_path_and_query parts = Some pq \<longrightarrow>
        target (uri_to_string uris u) = pq_path pq @ (case pq_query pq of None \<Rightarrow> [] | Some q \<Rightarrow> ''?'' @ q)) \<and>
     (\<forall>s pq. CHR ''#'' \<notin> set s \<and> parse_path_and_query uris s = Inr pq \<longrightarrow> pq = pq_of_string s) \<and>
     (\<forall>path v. hd path = CHR ''/'' \<and> {CHR ''?'', CHR ''#''} \<inter> set path = {} \<and> set v \<subseteq> set ('':'' @ hex_digits) \<longrightarrow>
        sv_query_pairs ops (''https://example.com'' @ path @ ''?cup2key='' @ v) = Some [(''cup2key'', v)])"

text \<open>A service URL without a query (the server wants the parameter first) and not the one that configures it.\<close>

fun plain_url :: "path_and_query option \<Rightarrow> bool" where
  "plain_url None \<longleftrightarrow> True"
| "plain_url (Some p) \<longleftrightarrow> pq_query p = None \<and> {CHR ''?'', CHR ''#''} \<inter> set (pq_path p) = {} \<and>
     (pq_path p = [] \<or> hd (pq_path p) = CHR ''/'') \<and> pq_path p \<noteq> ''/set_responses_by_appid''"

text \<open>The network between them.  A server that panics or fails closes the connection, which is a transport error.\<close>

definition served_by ::
  "('k, 'd, 's) crypto_ops \<Rightarrow> ('d, 's, 'p) server_ops \<Rightarrow> 'p omaha_server \<Rightarrow> (string \<Rightarrow> string) \<Rightarrow> http_request \<Rightarrow> 'w
     \<Rightarrow> (http_error + http_response) \<times> 'w" where
  "served_by lib ops server target req w =
     (let uri = target (hreq_uri req) in
      case handle_server_request lib ops server
        \<lparr>srq_method = hreq_method req, srq_path = pq_path (pq_of_string uri), srq_uri = uri, srq_body = Inr (hreq_body req)\<rparr> of
        Some (Inr resp, _) \<Rightarrow> (Inr resp, w)
      | _ \<Rightarrow> (Inl Transport, w))"

text \<open>What the client reads of an app.\<close>

definition entry_read :: "response_map \<Rightarrow> app_entry \<Rightarrow> response_app option" where
  "entry_read responses e =
     (let i = app_id (entry_app e) in
      case entry_update_check e of
        None \<Rightarrow> Some (answered_app i None)
      | Some _ \<Rightarrow> map_option (\<lambda>u. answered_app i (Some u)) (answered_check (the (Mapping.lookup responses i))))"

lemma de_entry_answer: "de_response_app (entry_answer responses e) = entry_read responses e"
  by (cases "entry_update_check e")
     (simp_all add: entry_answer_def entry_read_def de_app_answer_event de_app_answer_check Let_def del: answered_check.simps)

definition server_answer :: "response_map \<Rightarrow> app_entry list \<Rightarrow> json" where
  "server_answer responses es = server_response_json (map (entry_answer responses) es)"

lemma parse_server_answer:
  assumes "from_slice s = Some (server_answer responses es)" and "\<not> starts_with safety_prefix s"
  shows "parse_json_response from_slice s =
    map_option (\<lambda>apps. \<lparr>resp_protocol_version = ''3.0'', resp_server = Some ''prod'',
         resp_daystart = Some \<lparr>elapsed_days = Some 4775, elapsed_seconds = Some 48810\<rparr>, resp_apps = apps\<rparr>)
       (sequence (map (entry_read responses) es))"
  using assms
  by (simp add: parse_json_response_def parse_safe_json_def server_answer_def de_server_response comp_def de_entry_answer)

text \<open>The URI of a decorated request.\<close>

lemma cup2_urlparam_chars:
  assumes "set (hex_encode lib n) \<subseteq> set hex_digits"
  shows "set (cup2_urlparam lib i n) \<subseteq> set ('':'' @ hex_digits)"
proof -
  have "set (dec (unat i)) \<subseteq> set hex_digits"
  proof
    fix c assume "c \<in> set (dec (unat i))"
    then obtain d where d: "digit_val c = Some d" using dec_digits [of c "unat i"] by auto
    then have "d < 10" by (auto simp: digit_val_def Let_def split: if_splits)
    then have "d < 10" "c = digit_char d" using d digit_char_eq_iff [of d c] by simp_all
    moreover from this have "d \<in> {0, 1, 2, 3, 4, 5, 6, 7, 8, 9}" by auto
    ultimately have "c \<in> set (map digit_char [0, 1, 2, 3, 4, 5, 6, 7, 8, 9])" by (simp only: list.set list.map image_insert) blast
    also have "map digit_char [0, 1, 2, 3, 4, 5, 6, 7, 8, 9] = ''0123456789''" by code_simp
    finally show "c \<in> set hex_digits" by (auto simp: hex_digits_def)
  qed
  with assms show ?thesis by (auto simp: cup2_urlparam_def nonce_to_string_def)
qed

lemma decorated_target:
  assumes agree: "url_agrees uris ops target"
    and plain: "plain_url (parts_path_and_query (uri_into_parts uris u))"
    and v: "set v \<subseteq> set ('':'' @ hex_digits)"
    and append: "append_query_parameter uris u ''cup2key'' v = Inr u'"
  shows "\<exists>path. target (uri_to_string uris u') = path @ ''?cup2key='' @ v \<and> path \<noteq> [] \<and> CHR ''?'' \<notin> set path \<and>
     path \<noteq> ''/set_responses_by_appid'' \<and>
     sv_query_pairs ops (''https://example.com'' @ path @ ''?cup2key='' @ v) = Some [(''cup2key'', v)]"
proof -
  define path where "path = (case parts_path_and_query (uri_into_parts uris u) of
     None \<Rightarrow> ''/'' | Some p \<Rightarrow> if pq_path p = [] then ''/'' else pq_path p)"
  have path: "hd path = CHR ''/''" "path \<noteq> []" "{CHR ''?'', CHR ''#''} \<inter> set path = {}" "path \<noteq> ''/set_responses_by_appid''"
    using plain by (cases "parts_path_and_query (uri_into_parts uris u)"; auto simp: path_def)+
  have appended: "appended_query (parts_path_and_query (uri_into_parts uris u)) ''cup2key'' v = path @ ''?cup2key='' @ v"
    using plain by (cases "parts_path_and_query (uri_into_parts uris u)") (auto simp: appended_query_def path_def Let_def)
  from append obtain pq where pq: "parse_path_and_query uris (path @ ''?cup2key='' @ v) = Inr pq"
    and u': "uri_from_parts uris ((uri_into_parts uris u)\<lparr>parts_path_and_query := Some pq\<rparr>) = Inr u'"
    by (auto simp: append_query_parameter_def with_path_and_query_def Let_def appended split: sum.splits)
  have "CHR ''#'' \<notin> set (path @ ''?cup2key='' @ v)" using path v by (auto simp: hex_digits_def)
  with pq agree have "pq = pq_of_string (path @ ''?cup2key='' @ v)" unfolding url_agrees_def by blast
  also have "\<dots> = \<lparr>pq_path = path, pq_query = Some (''cup2key='' @ v)\<rparr>"
    using path pq_of_string_append(1) [of path "''cup2key='' @ v"] by simp
  finally have "target (uri_to_string uris u') = path @ ''?cup2key='' @ v"
    using agree u' unfolding url_agrees_def by fastforce
  moreover have "sv_query_pairs ops (''https://example.com'' @ path @ ''?cup2key='' @ v) = Some [(''cup2key'', v)]"
    using agree path v unfolding url_agrees_def by blast
  ultimately show ?thesis using path by blast
qed

lemma served_by_answer:
  assumes crypto: "crypto_agrees lib ops belongs"
    and uri: "target (hreq_uri req) = path @ ''?cup2key='' @ cup2_urlparam lib i n" "path \<noteq> []" "CHR ''?'' \<notin> set path"
      "path \<noteq> ''/set_responses_by_appid''"
      "sv_query_pairs ops (''https://example.com'' @ path @ ''?cup2key='' @ cup2_urlparam lib i n) = Some [(''cup2key'', cup2_urlparam lib i n)]"
    and req: "hreq_method req = ''POST''"
    and read: "sv_read_json ops (hreq_body req) = Some j" "same_value (request_wrapper_json (request_of b)) j"
    and plain: "list_all plain_entry (rb_app_entries b)"
    and configured: "\<not> Mapping.is_empty (os_responses server)" "count_ok (os_responses server) (rb_app_entries b)"
      "list_all (meets (os_responses server)) (rb_app_entries b)" "os_etag_override server = None"
    and keys: "find_private_key (os_private_keys server) i = Some p" "parameters_by_id handler i = Some k" "belongs p k"
  shows "\<exists>resp sig. served_by lib ops server target req w = (Inr resp, w) \<and> http_status resp = 200 \<and>
    http_header resp X_RETRY_AFTER = None \<and>
    http_body resp = sv_write_json ops (server_answer (os_responses server) (rb_app_entries b)) \<and>
    verify_response lib handler \<lparr>rm_request_body = hreq_body req, rm_public_key_id = i, rm_nonce = n\<rparr> resp i = Inr sig"
proof -
  define uri where "uri = target (hreq_uri req)"
  define data where "data = sv_write_json ops (server_answer (os_responses server) (rb_app_entries b))"
  have not_root: "uri \<noteq> ''/''" using uri(1) by (cases path) (auto simp: uri_def)
  have pairs: "sv_query_pairs ops (''https://example.com'' @ uri) = Some ((''cup2key'', cup2_urlparam lib i n) # [])"
    using uri(5) by (simp add: uri_def uri(1))
  define tag where "tag = hex_encode lib (der_as_bytes lib (sv_to_der ops (sv_sign ops p (make_transaction_hash lib (hreq_body req) data i n)))) @
                '':'' @ hex_encode lib (sha256 lib (hreq_body req))"
  have etag: "make_etag lib ops (hreq_body req) uri (os_private_keys server) data = Some (Some tag)"
    unfolding tag_def by (rule make_etag_uri [OF not_root pairs keys(1)])
  have digits: "set (hex_encode lib b) \<subseteq> set hex_digits" for b using crypto unfolding crypto_agrees_def by blast
  then have chars: "set (hex_encode lib a @ '':'' @ hex_encode lib b) \<subseteq> set ('':'' @ hex_digits)" for a b by auto
  have header_value: "sv_header_ok ops v \<and> header_to_str lib v = Some v" if "set v \<subseteq> set ('':'' @ hex_digits)" for v
    using crypto that unfolding crypto_agrees_def by blast
  have "sv_header_ok ops tag" using header_value [OF chars] unfolding tag_def by blast
  then have signed: "sign_answer lib ops server uri (hreq_body req) data = Some (http_answer 200 (Some tag) data)"
    by (simp add: sign_answer_def etag configured(4) assert_that_def)
  have laws: "\<And>p k h. belongs p k \<Longrightarrow> key_verify lib k h (sv_sign ops p h)" "\<And>d. der_from_bytes lib (der_as_bytes lib d) = Some d"
    "\<And>s. signature_of_der lib (sv_to_der ops s) = Some s" "\<And>b. hex_decode lib (hex_encode lib b) = Some b"
    using crypto unfolding crypto_agrees_def by blast+
  have header: "header_to_str lib (hex_encode lib a @ '':'' @ hex_encode lib b) = Some (hex_encode lib a @ '':'' @ hex_encode lib b)" for a b
    using header_value [OF chars] by blast
  have hex: "{CHR 0x22, CHR '':''} \<inter> set (hex_encode lib b) = {}" for b
  proof -
    note digits [of b]
    moreover have "{CHR 0x22, CHR '':''} \<inter> set hex_digits = {}" by (simp add: hex_digits_def)
    ultimately show ?thesis by blast
  qed
  have "verify_response lib handler \<lparr>rm_request_body = hreq_body req, rm_public_key_id = i, rm_nonce = n\<rparr> (http_answer 200 (Some tag) data) i =
      Inr (sv_to_der ops (sv_sign ops p (make_transaction_hash lib (hreq_body req) data i n)))"
    by (rule mock_server_signature_accepted [where belongs = belongs, OF laws hex header signed not_root pairs keys configured(4)])
  moreover have "pq_path (pq_of_string uri) \<noteq> ''/set_responses_by_appid''"
    using uri(3,4) pq_of_string_append(1) [of path "''cup2key='' @ cup2_urlparam lib i n"] by (simp add: uri_def uri(1))
  then have "served_by lib ops server target req w = (Inr (http_answer 200 (Some tag) data), w)"
    using served_request [OF _ _ read plain configured(1),
        of "\<lparr>srq_method = hreq_method req, srq_path = pq_path (pq_of_string uri), srq_uri = uri, srq_body = Inr (hreq_body req)\<rparr>" lib]
      req configured signed
    by (simp add: served_by_def Let_def uri_def [symmetric] handle_server_request_def data_def server_answer_def)
  ultimately show ?thesis
    by (simp add: http_answer_def data_def X_RETRY_AFTER_def)
qed

lemma status_200 [simp]: "status_is_success 200"
  by (simp add: status_is_success_def)

text \<open>The response to a request that was answered: the poll interval is what the response says, nothing else of
  the machine is looked at.\<close>

lemma do_omaha_answered:
  assumes "sm_cup_handler m = Some cup" and "new_nonce env (sm_world m) = (n, w)"
    and "build (json_to_vec env) (head_ok env) (Some cup) n b = Inr (req, Some meta)"
    and "http_send env req w = (Inr resp, w')" and "ch_verify cup meta resp (rm_public_key_id meta) = Inr d"
    and "http_status resp = 200" and "http_header resp X_RETRY_AFTER = None"
  shows "wp (do_omaha_request env b)
    (\<lambda>r m'. r = Inr (http_body resp, Some meta, Some d) \<and> poll_interval (sm_context m') = None) m"
  using assms
  by (simp add: do_omaha_request_def draw_nonce_def make_request_def handle_response_def check_signature_def
      update_poll_interval_def retry_after_def action_defs wp_simps persist_context_def commit_def set_poll_interval_def)

section \<open>An example\<close>

text \<open>The demo machine with a CUP handler, against a server that has an update for its app.\<close>

definition linked_builder :: "string request_builder" where
  "linked_builder = add_update_check (sample_app ''a'') (request_builder_new demo_config request_params_default)"

definition linked_server_ops :: "(string, string, string) server_ops" where
  "linked_server_ops =
     \<lparr>sv_sign = (\<lambda>p h. p @ h), sv_to_der = (\<lambda>s. s),
      sv_query_pairs = (\<lambda>s. Option.bind (split_once CHR ''?'' s) (\<lambda>(_, q). map_option (\<lambda>kv. [kv]) (split_once CHR ''='' q))),
      sv_read_json = (\<lambda>_. Some (request_wrapper_json (request_of linked_builder))),
      sv_write_json = (\<lambda>_. ''text''), sv_header_ok = (\<lambda>_. True)\<rparr>"

definition linked_server :: "string omaha_server" where
  "linked_server =
     \<lparr>os_responses = Mapping.update ''a'' (response_and_metadata_default\<lparr>ram_response := SendUpdate, ram_version := None\<rparr>) Mapping.empty,
      os_private_keys = \<lparr>prk_latest = \<lparr>prk_id = 7, prk_key = ''k''\<rparr>, prk_historical = []\<rparr>,
      os_etag_override = None, os_require_cup = True\<rparr>"

definition linked_env ::
  "(demo_world, mem_storage, storage_errors, vec_app_set, string, stub_plan, unit, stub_install_errors) env" where
  "linked_env =
     demo_env\<lparr>http_send := served_by bits_crypto linked_server_ops linked_server id,
       json_from_slice := (\<lambda>_. Some (server_answer (os_responses linked_server) (rb_app_entries linked_builder)))\<rparr>"

definition linked_handler :: "string standard_cupv2_handler" where
  "linked_handler = \<lparr>parameters_by_id = [7 \<mapsto> ''k''], latest_public_key_id = 7\<rparr>"

definition linked_machine ::
  "(demo_world, mem_storage, vec_app_set, string, string, stub_plan, stub_install_errors) machine" where
  "linked_machine = (demo_machine [])\<lparr>sm_cup_handler :=
     Some (standard_handler bits_crypto sample_uri_ops (json_to_vec linked_env) linked_handler)\<rparr>"

lemma linked_entries:
  "rb_app_entries linked_builder =
     [(app_entry_new (sample_app ''a''))\<lparr>entry_update_check := Some \<lparr>uc_disabled = False, uc_offer_update_if_same_version = False\<rparr>\<rparr>]"
  by (simp add: linked_builder_def add_update_check_def insert_and_modify_entry_def request_params_default_def)

lemma linked_configured:
  "list_all plain_entry (rb_app_entries linked_builder)" "\<not> Mapping.is_empty (os_responses linked_server)"
  "count_ok (os_responses linked_server) (rb_app_entries linked_builder)"
  "list_all (meets (os_responses linked_server)) (rb_app_entries linked_builder)"
  by (simp_all add: linked_entries plain_entry_def app_entry_new_def sample_app_def linked_server_def count_ok_def
      Mapping.size_update meets_def response_and_metadata_default_def)

lemma linked_crypto: "crypto_agrees bits_crypto linked_server_ops (=)"
  using bits_chars
  by (force simp: crypto_agrees_def bits_crypto_def toy_crypto_def linked_server_ops_def bits_decode_encode hex_digits_def)

lemma linked_url: "url_agrees sample_uri_ops linked_server_ops id"
proof -
  have "sv_query_pairs linked_server_ops (''https://example.com'' @ path @ ''?cup2key='' @ v) = Some [(''cup2key'', v)]"
    if "CHR ''?'' \<notin> set path" for path v
    using that split_once_append [of "CHR ''?''" "''https://example.com'' @ path" "''cup2key='' @ v"]
      split_once_append [of "CHR ''=''" "''cup2key''" v]
    by (simp add: linked_server_ops_def)
  then show ?thesis by (simp add: url_agrees_def sample_uri_ops_def split: option.splits)
qed

section \<open>Properties\<close>

text \<open>C29: Exactly what the mock server makes of a request of the request builder, however the JSON of the body was
  reordered: it answers when no app or as many apps as are configured ask for an update and each app meets the
  expectations configured for it (version, whether updates are disabled, cohort; an event otherwise), with one
  answer per app in order, signed; else an assertion fails.  (The extra fields of the apps must not be keys the
  server looks at.)\<close>

theorem mock_server_answers_builder:
  assumes "srq_method req = ''POST''" "srq_body req = Inr body"
    and "sv_read_json ops body = Some j" "same_value (request_wrapper_json (request_of b)) j"
    and "list_all plain_entry (rb_app_entries b)"
    and "\<not> Mapping.is_empty (os_responses server)"
  shows "handle_omaha_request lib ops server req =
    (if count_ok (os_responses server) (rb_app_entries b) \<and> list_all (meets (os_responses server)) (rb_app_entries b)
     then map_option Inr (sign_answer lib ops server (srq_uri req) body
            (sv_write_json ops (server_response_json (map (entry_answer (os_responses server)) (rb_app_entries b)))))
     else None)"
  using assms by (rule served_request)

theorem mock_server_answers_builder_witness:
  "handle_omaha_request bits_crypto linked_server_ops linked_server
     \<lparr>srq_method = ''POST'', srq_path = ''/'', srq_uri = ''/?cup2key=7:0'', srq_body = Inr ''body''\<rparr> =
   map_option Inr (sign_answer bits_crypto linked_server_ops linked_server ''/?cup2key=7:0'' ''body'' ''text'')"
  using linked_configured
  by (subst mock_server_answers_builder [where b = linked_builder and body = "''body''" and
        j = "request_wrapper_json (request_of linked_builder)"])
     (simp_all add: linked_server_ops_def same_value_refl)

text \<open>C19: A request of the state machine to the mock server, through the network, the CUP handler and both sides' JSON: when
  the client can build the request, the server holds the private key that belongs to the client's latest key, its
  table expects what the request says, and the service URL has no query, then the request succeeds: the server signs
  its answer, the client accepts the signature, the dictated poll interval is cleared, and what the client parses
  is what the table holds for each app (nothing if an invalid response is configured for one).\<close>

theorem omaha_request_served:
  fixes env :: "('w, 's, 'e, 'a, 'd, 'pl, 'ir, 'x) env" and b :: "'k request_builder"
  assumes machine: "sm_cup_handler m = Some (standard_handler lib uris (json_to_vec env) handler)"
    and net: "http_send env = served_by lib ops server target"
    and agree: "crypto_agrees lib ops belongs" "url_agrees uris ops target"
    and url: "uri_parse uris (service_url (rb_config b)) = Inr u" "plain_url (parts_path_and_query (uri_into_parts uris u))"
    and built: "build (json_to_vec env) (head_ok env) (sm_cup_handler m) (fst (new_nonce env (sm_world m))) b = Inr (req, md)"
    and body: "sv_read_json ops (hreq_body req) = Some j" "same_value (request_wrapper_json (request_of b)) j"
    and answer: "data = sv_write_json ops (server_answer (os_responses server) (rb_app_entries b))"
      "json_from_slice env data = Some (server_answer (os_responses server) (rb_app_entries b))"
      "\<not> starts_with safety_prefix data"
    and keys: "find_private_key (os_private_keys server) (latest_public_key_id handler) = Some p"
      "parameters_by_id handler (latest_public_key_id handler) = Some k" "belongs p k"
    and plain: "list_all plain_entry (rb_app_entries b)"
    and configured: "\<not> Mapping.is_empty (os_responses server)" "count_ok (os_responses server) (rb_app_entries b)"
      "list_all (meets (os_responses server)) (rb_app_entries b)" "os_etag_override server = None"
  shows "\<exists>m' sig. run_state (do_omaha_request env b) m = (Inr (data, md, Some sig), m') \<and> poll_interval (sm_context m') = None \<and>
    parse_omaha_response env data = ok_or ResponseJson
      (map_option (\<lambda>apps. \<lparr>resp_protocol_version = ''3.0'', resp_server = Some ''prod'',
           resp_daystart = Some \<lparr>elapsed_days = Some 4775, elapsed_seconds = Some 48810\<rparr>, resp_apps = apps\<rparr>)
         (sequence (map (entry_read (os_responses server)) (rb_app_entries b))))"
proof -
  let ?cup = "standard_handler lib uris (json_to_vec env) handler"
  let ?i = "latest_public_key_id handler"
  obtain n w where n: "new_nonce env (sm_world m) = (n, w)" by fastforce
  from build_standard [OF built [unfolded machine n fst_conv]] url(1) obtain meta u' where
    md: "md = Some meta" and meta: "meta = \<lparr>rm_request_body = hreq_body req, rm_public_key_id = ?i, rm_nonce = n\<rparr>"
    and append: "append_query_parameter uris u ''cup2key'' (cup2_urlparam lib ?i n) = Inr u'"
    and req: "hreq_uri req = uri_to_string uris u'" "hreq_method req = ''POST''"
    by (metis request_metadata.surjective old.unit.exhaust sum.inject(2))
  have chars: "set (cup2_urlparam lib ?i n) \<subseteq> set ('':'' @ hex_digits)"
    using agree(1) unfolding crypto_agrees_def by (intro cup2_urlparam_chars) blast
  from decorated_target [OF agree(2) url(2) chars append] obtain path where
    path: "target (hreq_uri req) = path @ ''?cup2key='' @ cup2_urlparam lib ?i n" "path \<noteq> []" "CHR ''?'' \<notin> set path"
      "path \<noteq> ''/set_responses_by_appid''"
      "sv_query_pairs ops (''https://example.com'' @ path @ ''?cup2key='' @ cup2_urlparam lib ?i n) = Some [(''cup2key'', cup2_urlparam lib ?i n)]"
    unfolding req(1) by blast
  from served_by_answer [where target = target and belongs = belongs, OF agree(1) path req(2) body plain configured keys, of w] obtain resp sig where
    resp: "http_send env req w = (Inr resp, w)" "http_status resp = 200" "http_header resp X_RETRY_AFTER = None"
      "http_body resp = data" and verified: "verify_response lib handler meta resp ?i = Inr sig"
    unfolding net meta answer(1) by blast
  have "wp (do_omaha_request env b)
      (\<lambda>r m'. r = Inr (data, md, Some sig) \<and> poll_interval (sm_context m') = None) m"
    using do_omaha_answered [OF machine n _ resp(1) _ resp(2,3), of b meta sig] built verified
    by (simp add: machine n md resp(4) standard_handler_def) (simp add: meta)
  then obtain m' where "run_state (do_omaha_request env b) m = (Inr (data, md, Some sig), m')"
      "poll_interval (sm_context m') = None"
    by (auto simp: wp_def split: prod.splits)
  then show ?thesis
    using parse_server_answer [where from_slice = "json_from_slice env", OF answer(2,3)] by (auto simp: parse_omaha_response_def)
qed

theorem omaha_request_served_witness:
  "\<exists>m' md sig resp. run_state (do_omaha_request linked_env linked_builder) linked_machine = (Inr (''text'', md, Some sig), m') \<and>
     parse_omaha_response linked_env ''text'' = Inr resp \<and> map rapp_id (resp_apps resp) = [''a'']"
proof -
  let ?es = "rb_app_entries linked_builder" and ?rs = "os_responses linked_server"
  have ops [simp]: "json_to_vec linked_env j = Some ''body''" "head_ok linked_env uri hs" "new_nonce linked_env w = (''n'', w)"
    for j uri hs w by (simp_all add: linked_env_def demo_env_def)
  have url: "service_url (rb_config linked_builder) = ''/''"
    by (simp add: linked_builder_def add_update_check_def request_builder_new_def demo_config_def)
  obtain req md where built: "build (json_to_vec linked_env) (head_ok linked_env) (sm_cup_handler linked_machine)
      (fst (new_nonce linked_env (sm_world linked_machine))) linked_builder = Inr (req, md)"
    by (simp add: linked_machine_def build_def build_intermediate_def standard_handler_def decorate_request_def
        intermediate_request_def http_request_from_def serialize_body_def sample_uri_ops_def append_query_parameter_def
        with_path_and_query_def Let_def)
  have "\<exists>m' sig. run_state (do_omaha_request linked_env linked_builder) linked_machine =
      (Inr (''text'', md, Some sig), m') \<and> poll_interval (sm_context m') = None \<and>
    parse_omaha_response linked_env ''text'' = ok_or ResponseJson
      (map_option (\<lambda>apps. \<lparr>resp_protocol_version = ''3.0'', resp_server = Some ''prod'',
           resp_daystart = Some \<lparr>elapsed_days = Some 4775, elapsed_seconds = Some 48810\<rparr>, resp_apps = apps\<rparr>)
         (sequence (map (entry_read ?rs) ?es)))"
    by (rule omaha_request_served [where handler = linked_handler and p = "''k''" and k = "''k''" and
          j = "request_wrapper_json (request_of linked_builder)" and
          u = "\<lparr>parts_rest = (), parts_path_and_query = Some \<lparr>pq_path = ''/'', pq_query = None\<rparr>\<rparr>",
          OF _ _ linked_crypto linked_url _ _ built _ _ _ _ _ _ _ _ linked_configured])
      (simp_all add: linked_machine_def linked_env_def linked_server_ops_def linked_handler_def linked_server_def url
        same_value_refl starts_with_def safety_prefix_def find_private_key_def sample_uri_ops_def pq_of_string_def)
  moreover have "entry_read ?rs (hd ?es) \<noteq> None" and "map_option rapp_id (entry_read ?rs (hd ?es)) = Some ''a''"
    by (simp_all add: linked_entries entry_read_def linked_server_def response_and_metadata_default_def app_entry_new_def
        sample_app_def answered_app_def Let_def)
  ultimately show ?thesis by (auto simp: linked_entries ok_or_def)
qed

end
