(* ===== verification/Hello_World.thy ===== *)
theory Hello_World imports Consent begin

text \<open>
  \<open>omaha-client/examples/hello-world\<close>: the smallest embedder of the library, with its own policy, installer, app
  set, storage, timer and HTTP client, put together in \<open>main.rs\<close>.  What it takes from the platform (clocks, sleeping,
  hyper, random numbers, JSON text) is the environment \<open>platform\<close> and parameters.
\<close>

section \<open>Policy\<close>

definition UPDATE_DELAY_SECS :: nat where "UPDATE_DELAY_SECS = 15"

definition minimal_compute_next_update_time :: "system_time \<Rightarrow> check_timing" where
  "minimal_compute_next_update_time system_now =
     (let next_update_time = system_now + int (duration_from_secs UPDATE_DELAY_SECS)
      in \<lparr>ct_time = Wall next_update_time, ct_minimum_wait = Some (duration_from_millis 100)\<rparr>)"

definition minimal_policy_engine :: "('w \<Rightarrow> system_time \<times> 'w) \<Rightarrow> ('w, 'pl, 'ir) policy_engine" where
  "minimal_policy_engine system_now =
     \<lparr>compute_next_update_time = (\<lambda>apps scheduling protocol_state w.
        let (t, w') = system_now w in (minimal_compute_next_update_time t, w')),
      update_check_allowed = (\<lambda>apps scheduling protocol_state check_options w. (CheckOk request_params_default, w)),
      update_can_start = (\<lambda>plan w. (UpdateOk, w)),
      reboot_allowed = (\<lambda>check_options install_result w. (True, w)),
      reboot_needed = (\<lambda>plan w. (False, w))\<rparr>"

section \<open>Installer\<close>

datatype minimal_install_errors = MinimalFailed
datatype minimal_install_result = MinimalInstalled | MinimalInstallFailed
datatype minimal_install_plan = MinimalInstallPlan

definition minimal_installer ::
  "bool \<Rightarrow> ('w, minimal_install_plan, minimal_install_result, minimal_install_errors) installer" where
  "minimal_installer should_fail =
     \<lparr>perform_install = (\<lambda>plan w.
        (if should_fail then ([], MinimalInstallFailed, [Failed MinimalFailed]) else ([], MinimalInstalled, [Installed]), w)),
      perform_reboot = (\<lambda>w. (Inr (), w)),
      try_create_install_plan = (\<lambda>params metadata resp bytes signature w.
        (if resp_protocol_version resp \<noteq> ''3.0'' then Inl MinimalFailed else Inr MinimalInstallPlan, w)),
      plan_id = (\<lambda>_. [])\<rparr>"

section \<open>Storage and app set\<close>

datatype minimal_errors = MinimalIntentional

definition minimal_storage_ops :: "(unit, minimal_errors) storage_ops" where
  "minimal_storage_ops =
     \<lparr>get_string = (\<lambda>_ _. None), get_int = (\<lambda>_ _. None), get_bool = (\<lambda>_ _. None),
      set_string = (\<lambda>s _ _. (Inl MinimalIntentional, s)), set_int = (\<lambda>s _ _. (Inl MinimalIntentional, s)),
      set_bool = (\<lambda>s _ _. (Inl MinimalIntentional, s)), remove_value = (\<lambda>s _. (Inl MinimalIntentional, s)),
      commit_values = (\<lambda>s. (Inl MinimalIntentional, s))\<rparr>"

datatype app_id_source = VbMetadata | ChannelConfig | DefaultEmpty

record minimal_app_set =
  mas_system_app :: app
  mas_metadata :: app_id_source

definition minimal_app_set_ops :: "minimal_app_set app_set_ops" where
  "minimal_app_set_ops =
     \<lparr>get_apps = (\<lambda>s. [mas_system_app s]),
      iter_mut_apps = (\<lambda>f s. s\<lparr>mas_system_app := f (mas_system_app s)\<rparr>),
      get_system_app_id = (\<lambda>s. app_id (mas_system_app s))\<rparr>"

definition get_system_product_id :: "minimal_app_set \<Rightarrow> string" where
  "get_system_product_id s =
     (case map_of (app_extra_fields (mas_system_app s)) ''product_id'' of None \<Rightarrow> [] | Some v \<Rightarrow> v)"

definition get_system_current_channel :: "minimal_app_set \<Rightarrow> string" where
  "get_system_current_channel s = get_current_channel (mas_system_app s)"

definition get_system_target_channel :: "minimal_app_set \<Rightarrow> string" where
  "get_system_target_channel s = get_target_channel (mas_system_app s)"

definition set_system_target_channel :: "string option \<Rightarrow> string option \<Rightarrow> minimal_app_set \<Rightarrow> minimal_app_set" where
  "set_system_target_channel channel i s = s\<lparr>mas_system_app := set_target_channel (mas_system_app s) channel i\<rparr>"

interpretation minimal_store: storage_laws minimal_storage_ops "\<lambda>_. Map.empty"
  by unfold_locales (auto simp: minimal_storage_ops_def)

interpretation minimal_apps: app_set_laws minimal_app_set_ops "\<lambda>_. True"
  by unfold_locales (auto simp: minimal_app_set_ops_def)

section \<open>Timer\<close>

definition duration_until_system_time :: "system_time \<Rightarrow> system_time \<Rightarrow> duration" where
  "duration_until_system_time system_now system = (case duration_since system system_now of Inr d \<Rightarrow> d | Inl _ \<Rightarrow> 0)"

definition duration_until_instant :: "instant \<Rightarrow> instant \<Rightarrow> duration" where
  "duration_until_instant instant_now t = (case checked_duration_since t instant_now of Some d \<Rightarrow> d | None \<Rightarrow> 0)"

text \<open>How long \<open>wait_until\<close> sleeps; only the clocks that are needed are read.\<close>

fun minimal_wait_until ::
  "('w \<Rightarrow> system_time \<times> 'w) \<Rightarrow> ('w \<Rightarrow> instant \<times> 'w) \<Rightarrow> partial_complex_time \<Rightarrow> 'w \<Rightarrow> duration \<times> 'w" where
  "minimal_wait_until system_now instant_now (Wall t) w =
     (let (s, w') = system_now w in (duration_until_system_time s t, w'))"
| "minimal_wait_until system_now instant_now (Monotonic t) w =
     (let (i, w') = instant_now w in (duration_until_instant i t, w'))"
| "minimal_wait_until system_now instant_now (Complex c) w =
     (let (s, w1) = system_now w; (i, w2) = instant_now w1
      in (min (duration_until_system_time s (wall c)) (duration_until_instant i (mono c)), w2))"

fun minimal_timer ::
  "('w \<Rightarrow> system_time \<times> 'w) \<Rightarrow> ('w \<Rightarrow> instant \<times> 'w) \<Rightarrow> (duration \<Rightarrow> 'w \<Rightarrow> 'w) \<Rightarrow> requested_wait \<Rightarrow> 'w \<Rightarrow> 'w" where
  "minimal_timer system_now instant_now sleep (WaitFor d) w = sleep d w"
| "minimal_timer system_now instant_now sleep (WaitUntil t) w =
     (let (d, w') = minimal_wait_until system_now instant_now t w in sleep d w')"

section \<open>HTTP\<close>

text \<open>What becomes of a request to hyper within the timeout: nothing in time, no response, a body that cannot be read
  (with hyper's word on whose fault it is), or a response.\<close>

datatype hyper_outcome = TimedOut | NoResponse | BodyError bool | Complete http_response

fun collect_from_future_on_timeout :: "hyper_outcome \<Rightarrow> http_error + http_response" where
  "collect_from_future_on_timeout TimedOut = Inl Timeout"
| "collect_from_future_on_timeout NoResponse = Inl Transport"
| "collect_from_future_on_timeout (BodyError by_user) = Inl (http_error_from_hyper by_user)"
| "collect_from_future_on_timeout (Complete resp) = Inr resp"

definition minimal_request ::
  "(http_request \<Rightarrow> duration \<Rightarrow> 'w \<Rightarrow> hyper_outcome \<times> 'w) \<Rightarrow> http_request \<Rightarrow> 'w \<Rightarrow> (http_error + http_response) \<times> 'w" where
  "minimal_request client req w =
     (let (r, w') = client req (duration_from_secs 30) w in (collect_from_future_on_timeout r, w'))"

section \<open>The program\<close>

definition hello_config :: "string \<Rightarrow> 'k config" where
  "hello_config url =
     \<lparr>cfg_updater = \<lparr>upd_name = ''FuchsiaUpdater'', upd_version = version_from [0, 0, 1, 0]\<rparr>,
      cfg_os = \<lparr>os_platform = ''Fuchsia'', os_version = ''14.20230831.4.72'', os_service_pack = [], os_arch = ''aarch64''\<rparr>,
      service_url = url, omaha_public_keys = None\<rparr>"

definition hello_app :: app where
  "hello_app =
     \<lparr>app_id = ''appid_01'', app_version = version_from [14, 20230831, 4, 72], app_fingerprint = None,
      app_cohort = cohort_from_hint ''stable-channel'', app_user_counting = ClientRegulatedByDate None,
      app_extra_fields = []\<rparr>"

type_synonym ('w, 'd) hello_env =
  "('w, unit, minimal_errors, minimal_app_set, 'd, minimal_install_plan, minimal_install_result, minimal_install_errors) env"

type_synonym ('w, 'k, 'd) hello_machine =
  "('w, unit, minimal_app_set, 'k, 'd, minimal_install_plan, minimal_install_errors) machine"

definition hello_env ::
  "(duration \<Rightarrow> 'w \<Rightarrow> 'w) \<Rightarrow> (http_request \<Rightarrow> duration \<Rightarrow> 'w \<Rightarrow> hyper_outcome \<times> 'w) \<Rightarrow> ('w, 'd) hello_env \<Rightarrow> ('w, 'd) hello_env" where
  "hello_env sleep client platform =
     platform\<lparr>policy := minimal_policy_engine (now_in_walltime platform), inst := minimal_installer False,
       http_send := minimal_request client,
       timer_wait := minimal_timer (now_in_walltime platform) (now_in_monotonic platform) sleep,
       store := minimal_storage_ops, apps_api := minimal_app_set_ops\<rparr>"

text \<open>The public keys are unset, so there is no CUP handler.\<close>

definition hello_machine :: "('w, 'd) hello_env \<Rightarrow> string \<Rightarrow> ('k standard_cupv2_handler \<Rightarrow> 'd cup_handler) \<Rightarrow> 'w \<Rightarrow> ('w, 'k, 'd) hello_machine" where
  "hello_machine env url handler w =
     build_machine env (hello_config url)
       (map_option (\<lambda>keys. handler (standard_cupv2_handler_new keys)) (omaha_public_keys (hello_config url :: 'k config)))
       () \<lparr>mas_system_app = hello_app, mas_metadata = DefaultEmpty\<rparr> w"

section \<open>The timer\<close>

text \<open>After the sleep at least one of the bounds is reached, and not before.\<close>

lemma minimal_wait_reaches:
  "fst (minimal_wait_until (Pair s) (Pair i) t w) \<le> d \<longleftrightarrow> is_after_or_eq_any \<lparr>wall = s + int d, mono = i + int d\<rparr> t"
  by (cases t)
     (auto simp: duration_until_system_time_def duration_until_instant_def duration_since_def checked_duration_since_def
       split: sum.splits option.splits if_splits)

section \<open>Results of actions\<close>

text \<open>What an action returns, whatever the machine.\<close>

definition returns :: "('r \<Rightarrow> bool) \<Rightarrow> ('s, 'r) state \<Rightarrow> bool" where
  "returns P act \<longleftrightarrow> (\<forall>s. P (fst (run_state act s)))"

lemma returns_bind: "(\<And>a. returns P (f a)) \<Longrightarrow> returns P (State_Monad.bind act f)"
  by (simp add: returns_def split_beta)

lemma returns_bind_of: "returns Q act \<Longrightarrow> (\<And>a. Q a \<Longrightarrow> returns P (f a)) \<Longrightarrow> returns P (State_Monad.bind act f)"
  by (simp add: returns_def split_beta)

lemma returnsD: "returns P act \<Longrightarrow> P (fst (run_state act s))"
  by (simp add: returns_def)

lemma returns_return: "P x \<Longrightarrow> returns P (State_Monad.return x)"
  by (simp add: returns_def State_Monad.return_def)

definition no_reboot :: "('ir, 'x) check_outcome \<Rightarrow> bool" where
  "no_reboot r \<longleftrightarrow> (\<forall>ars ir. r \<noteq> Some (Inr (ars, Needed ir)))"

lemma no_reboot_simps [simp]:
  "no_reboot None" "no_reboot (Some (Inl e))" "no_reboot (Some (Inr (ars, NotNeeded)))" "no_reboot (not_updated resp act)"
  "no_reboot (Some (Inr (ars, r))) \<longleftrightarrow> r = NotNeeded"
  by (cases r; simp add: no_reboot_def not_updated_def)+

text \<open>A policy that never needs a reboot never gets one.\<close>

definition needs_no_reboot :: "('w, 's, 'e, 'a, 'd, 'pl, 'ir, 'x) env \<Rightarrow> bool" where
  "needs_no_reboot env \<longleftrightarrow> (\<forall>pl w. \<not> fst (reboot_needed (policy env) pl w))"

lemma returns_finish_install:
  assumes "needs_no_reboot env"
  shows "returns (\<lambda>r. r = NotNeeded) (finish_install env nv pl t t' ir)"
proof -
  have needed: "returns (\<lambda>b. \<not> b) (outside (reboot_needed (policy env) pl))"
    using assms by (simp add: needs_no_reboot_def returns_def outside_def)
  show ?thesis unfolding finish_install_def
    by (intro returns_bind returns_bind_of [OF needed] returns_return) simp
qed

lemma returns_install_update:
  assumes "needs_no_reboot env"
  shows "returns no_reboot (install_update env ps as g resp pl)"
proof -
  have failed: "returns no_reboot (install_failed ars es)" for ars :: "app_response list" and es
    unfolding install_failed_def by (intro returns_bind returns_return) simp
  have "returns no_reboot (case z of None \<Rightarrow> State_Monad.return None
      | Some (ars, es) \<Rightarrow> if es \<noteq> [] then install_failed ars es
          else State_Monad.bind (finish_install env nv pl t t' ir) (\<lambda>r. State_Monad.return (Some (Inr (ars, r)))))"
    for z nv t t' ir
    by (auto split: option.splits intro!: failed returns_return returns_bind_of [OF returns_finish_install [OF assms]])
  then show ?thesis unfolding install_update_def Let_def split_beta
    by (intro returns_bind) (simp add: split_beta)
qed

lemma returns_perform_update_check:
  assumes "needs_no_reboot env"
  shows "returns no_reboot (perform_update_check env ps as)"
proof -
  have outcomes: "returns no_reboot (plan_deferred env ps as g nv resp)" "returns no_reboot (plan_denied env ps as g nv resp)"
    "returns no_reboot (plan_failed env ps as g nv x)" "returns no_reboot (parse_failed env ps as g pe)" for g nv resp x pe
    unfolding plan_deferred_def plan_denied_def plan_failed_def parse_failed_def
    by (intro returns_bind returns_return; simp)+
  have plan: "returns no_reboot (process_plan env ps as g resp pl)" for g resp pl
    unfolding process_plan_def Let_def
    by (intro returns_bind) (auto split: update_decision.splits intro!: outcomes returns_install_update assms)
  have response: "returns no_reboot (process_response env ps as g rcv resp)" for g rcv resp
    unfolding process_response_def
    by (intro returns_bind) (auto split: sum.splits prod.splits intro!: returns_bind returns_return plan outcomes)
  show ?thesis unfolding perform_update_check_def
    by (intro returns_bind) (auto split: sum.splits prod.splits intro!: returns_bind returns_return response outcomes)
qed

lemma returns_start_update_check:
  assumes "needs_no_reboot env"
  shows "returns (\<lambda>r. \<forall>ir. r \<noteq> Some (Needed ir)) (start_update_check env ps)"
  unfolding start_update_check_def
  by (rule returns_bind, rule returns_bind_of [OF returns_perform_update_check [OF assms]])
     (auto split: option.splits sum.splits prod.splits intro!: returns_bind returns_return)

section \<open>The run of the example\<close>

lemma hello_env_ops [simp]:
  "policy (hello_env sleep client platform) = minimal_policy_engine (now_in_walltime platform)"
  "store (hello_env sleep client platform) = minimal_storage_ops"
  "apps_api (hello_env sleep client platform) = minimal_app_set_ops"
  by (simp_all add: hello_env_def)

lemma hello_no_reboot: "needs_no_reboot (hello_env sleep client platform)"
  by (simp add: needs_no_reboot_def minimal_policy_engine_def)

interpretation no_reboots: machine_effects "trace_rel (list_all (\<lambda>e. e \<noteq> Rebooted))" env for env
  by unfold_locales (simp_all, metis auxiliary.simps(4))

definition hello_inv :: "('w, 'd) hello_env \<Rightarrow> (minimal_install_result, ('w, 'k, 'd) hello_machine) loop_state \<Rightarrow> bool" where
  "hello_inv platform l \<longleftrightarrow>
     Rebooted \<notin> set (sm_trace (lp_machine l)) \<and> \<not> lp_should_report l \<and> Throttled \<notin> snd ` set (lp_answers l) \<and>
     (case lp_phase l of
        AwaitingReboot options ir \<Rightarrow> False
      | CheckInProgress options params \<Rightarrow> params = request_params_default
      | WaitingForCheck \<Rightarrow>
          (\<exists>w. next_update_time (ctx_schedule (sm_context (lp_machine l))) =
             Some \<lparr>ct_time = Wall (fst (now_in_walltime platform w) + 15000000000), ct_minimum_wait = Some 100000000\<rparr>)
      | _ \<Rightarrow> True)"

lemma trace_kept:
  assumes "state_io_rel (trace_rel (list_all (\<lambda>e. e \<noteq> Rebooted))) act" and "Rebooted \<notin> set (sm_trace m)"
  shows "Rebooted \<notin> set (sm_trace (snd (run_state act m)))"
proof -
  have "trace_rel (list_all (\<lambda>e. e \<noteq> Rebooted)) m (snd (run_state act m))"
    by (rule state_io_relD [OF assms(1) prod.collapse [symmetric]])
  then show ?thesis using assms(2) by (auto simp: trace_rel_def list_all_iff)
qed

lemma hello_schedule:
  "wp (schedule_next_check (hello_env sleep client platform))
     (\<lambda>_ m'. \<exists>w. next_update_time (ctx_schedule (sm_context m')) =
        Some \<lparr>ct_time = Wall (fst (now_in_walltime platform w) + 15000000000), ct_minimum_wait = Some 100000000\<rparr>) m"
  by (simp add: schedule_next_check_def update_next_update_time_def make_wait_to_next_check_def action_defs wp_simps
      minimal_policy_engine_def split_beta minimal_compute_next_update_time_def context_updates UPDATE_DELAY_SECS_def
      duration_from_secs_def duration_from_millis_def) blast

lemma hello_decide:
  "wp (decide_check (hello_env sleep client platform) options) (\<lambda>r m'. r = Some request_params_default) m"
  by (simp add: decide_check_def action_defs wp_simps minimal_policy_engine_def)

lemma hello_inv_step:
  assumes "step (hello_env sleep client platform) l l'" and "hello_inv platform l"
  shows "hello_inv platform l'"
  using assms
proof (induction rule: step.induct)
  case (step_loop_head l)
  let ?act = "schedule_next_check (hello_env sleep client platform)"
  have "Rebooted \<notin> set (sm_trace (snd (run_state ?act (lp_machine l))))"
    using step_loop_head by (intro trace_kept no_reboots.io_schedule) (simp add: hello_inv_def)
  moreover note hello_schedule [of sleep client platform "lp_machine l", unfolded wp_fst_snd]
  ultimately show ?case using step_loop_head
    by (simp add: hello_inv_def loop_head_def acting_def goto_def)
next
  case (step_timer l)
  let ?act = "decide_check (hello_env sleep client platform) check_options_default"
  have "Rebooted \<notin> set (sm_trace (snd (run_state ?act (lp_machine l))))"
    using step_timer by (intro trace_kept no_reboots.io_decide) (simp add: hello_inv_def)
  moreover note hello_decide [of sleep client platform check_options_default "lp_machine l", unfolded wp_fst_snd]
  ultimately show ?case using step_timer
    by (simp add: hello_inv_def consider_check_def acting_def goto_def answer_def)
next
  case (step_request l i options q)
  let ?act = "decide_check (hello_env sleep client platform) options"
  have "Rebooted \<notin> set (sm_trace (snd (run_state ?act (lp_machine l))))"
    using step_request by (intro trace_kept no_reboots.io_decide) (simp add: hello_inv_def)
  moreover note hello_decide [of sleep client platform options "lp_machine l", unfolded wp_fst_snd]
  ultimately show ?case using step_request
    by (auto simp: hello_inv_def consider_check_def acting_def goto_def answer_def)
next
  case (step_complete l options params)
  let ?act = "start_update_check (hello_env sleep client platform) params"
  have trace: "Rebooted \<notin> set (sm_trace (snd (run_state ?act (lp_machine l))))"
    using step_complete
    by (intro trace_kept no_reboots.io_start_update_check no_reboots.io_process_plan)
      (simp_all add: hello_inv_def every.trace_rel_emit)
  have result: "fst (run_state ?act (lp_machine l)) \<noteq> Some (Needed ir)" for ir
    by (rule returnsD [OF returns_start_update_check [OF hello_no_reboot], THEN spec])
  show ?case
  proof (cases "fst (run_state ?act (lp_machine l))")
    case None
    with trace step_complete show ?thesis by (simp add: hello_inv_def complete_check_def acting_def goto_def)
  next
    case (Some r)
    with result have "r = NotNeeded" by (cases r) auto
    with Some trace step_complete show ?thesis
      by (simp add: hello_inv_def complete_check_def acting_def goto_def yield_state_def yield_event_def emit_def)
  qed
qed (auto simp: hello_inv_def answer_def goto_def cong: phase.case_cong)

lemma hello_inv_reachable:
  assumes "reachable (hello_env sleep client platform) (hello_machine (hello_env sleep client platform) url handler w) l"
  shows "hello_inv platform l"
  using assms
proof (induction rule: reachable.induct)
  case reachable_start
  show ?case
    by (simp add: hello_inv_def run_start_def hello_machine_def build_machine_def Let_def split_beta get_time_def)
       (simp add: minimal_storage_ops_def)
next
  case (reachable_step l l')
  then show ?case by (blast intro: hello_inv_step)
qed

section \<open>An example platform\<close>

definition still_platform :: "(unit, string) hello_env" where
  "still_platform =
     \<lparr>policy = minimal_policy_engine (\<lambda>w. (1000, w)), inst = minimal_installer False,
      http_send = (\<lambda>_ w. (Inl Transport, w)), timer_wait = (\<lambda>_ w. w), now = (\<lambda>w. (demo_time, w)),
      now_in_walltime = (\<lambda>w. (1000, w)), now_in_monotonic = (\<lambda>w. (5, w)), new_guid = (\<lambda>w. (GUID ''g'', w)),
      new_nonce = (\<lambda>w. (''n'', w)), random_u64 = (\<lambda>w. (7, w)), store = minimal_storage_ops, apps_api = minimal_app_set_ops,
      json_to_vec = (\<lambda>_. None), json_to_text = (\<lambda>_. None), json_from_text = (\<lambda>_. None), json_from_slice = (\<lambda>_. None),
      head_ok = (\<lambda>_ _. True), header_text = Some, signature_bytes = id\<rparr>"

abbreviation "still_env \<equiv> hello_env (\<lambda>_ w. w) (\<lambda>_ _ w. (TimedOut, w)) still_platform"

abbreviation still_machine :: "(unit, string, string) hello_machine" where
  "still_machine \<equiv> hello_machine still_env ''http://localhost'' (\<lambda>_. \<lparr>ch_decorate = (\<lambda>_ im. (Inl ParseError, im)), ch_verify = (\<lambda>_ _ _. Inl EtagHeaderMissing)\<rparr>) ()"

lemma hello_app_valid: "app_valid hello_app"
  by (simp add: app_valid_def hello_app_def version_from_def)

lemma still_start: "lp_phase (run_start still_env still_machine) = AtLoopHead"
proof -
  have "all_valid minimal_app_set_ops (sm_app_set still_machine)"
    unfolding hello_machine_def build_machine_def using hello_app_valid
    by (simp add: minimal_apps.all_valid_load) (simp add: all_valid_def minimal_app_set_ops_def)
  then show ?thesis by (simp add: run_start_def split_beta Let_def)
qed

section \<open>Properties\<close>

text \<open>C32: The example program, whatever the server, the clocks and the requests of its control handle do: it never reboots
  and never waits for a reboot, although its policy would allow one; no request is throttled; every check is made with
  the default parameters, also one on demand; and while it waits, the next check is due fifteen seconds after a
  reading of the wall clock and at least a tenth of a second from then.\<close>

theorem hello_world_runs:
  assumes "reachable (hello_env sleep client platform) (hello_machine (hello_env sleep client platform) url handler w) l"
  shows "Rebooted \<notin> set (sm_trace (lp_machine l)) \<and> Throttled \<notin> snd ` set (lp_answers l) \<and>
    (case lp_phase l of
       AwaitingReboot options ir \<Rightarrow> False
     | CheckInProgress options params \<Rightarrow> params = request_params_default
     | WaitingForCheck \<Rightarrow>
         (\<exists>w. next_update_time (ctx_schedule (sm_context (lp_machine l))) =
            Some \<lparr>ct_time = Wall (fst (now_in_walltime platform w) + 15 * 10 ^ 9), ct_minimum_wait = Some (10 ^ 8)\<rparr>)
     | _ \<Rightarrow> True)"
  using hello_inv_reachable [OF assms] by (simp add: hello_inv_def split: phase.splits)

theorem hello_world_runs_witness:
  "\<exists>l. reachable still_env still_machine l \<and> lp_phase l = WaitingForCheck \<and> Rebooted \<notin> set (sm_trace (lp_machine l)) \<and>
     next_update_time (ctx_schedule (sm_context (lp_machine l))) =
       Some \<lparr>ct_time = Wall 15000001000, ct_minimum_wait = Some (10 ^ 8)\<rparr>"
proof -
  define l where "l = loop_head still_env (run_start still_env still_machine)"
  have l: "reachable still_env still_machine l"
    unfolding l_def by (intro reachable_step [OF reachable_start] step_loop_head still_start)
  have "lp_phase l = WaitingForCheck" by (simp add: l_def loop_head_def acting_def goto_def)
  moreover have "now_in_walltime still_platform w = (1000, w)" for w by (simp add: still_platform_def)
  ultimately show ?thesis using hello_world_runs [OF l] l by (intro exI [of _ l]) simp
qed

end
