(* ===== verification/Test_Support.thy ===== *)
theory Test_Support imports Mock_Server Machine_State begin

text \<open>
  What the library offers to the tests of its embedders: the contract tests of \<open>storage.rs\<close> (module \<open>tests\<close>), the CUP
  test support of \<open>cup_ecdsa.rs\<close> and the mocks of HTTP client, policy engine and metrics reporter
  (\<open>http_request/mock.rs\<close>, \<open>policy/mock.rs\<close>, \<open>metrics/mock.rs\<close>).  A failed assertion or \<open>unwrap\<close> is \<open>None\<close>.
\<close>

section \<open>The contract tests of a storage\<close>

text \<open>The \<open>unwrap\<close> of a write.\<close>

fun unwrapped :: "('e + unit) \<times> 's \<Rightarrow> 's option" where
  "unwrapped (Inr _, s) = Some s"
| "unwrapped (Inl _, s) = None"

definition do_test_set_get_remove_string :: "('s, 'e) storage_ops \<Rightarrow> 's \<Rightarrow> 's option" where
  "do_test_set_get_remove_string ops s0 = do {
     assert_that (get_string ops s0 ''some key'' = None);
     s1 \<leftarrow> unwrapped (set_string ops s0 ''some key'' ''some value'');
     s2 \<leftarrow> unwrapped (commit_values ops s1);
     assert_that (get_string ops s2 ''some key'' = Some ''some value'');
     s3 \<leftarrow> unwrapped (set_string ops s2 ''some key'' ''some other value'');
     s4 \<leftarrow> unwrapped (commit_values ops s3);
     assert_that (get_string ops s4 ''some key'' = Some ''some other value'');
     s5 \<leftarrow> unwrapped (remove_value ops s4 ''some key'');
     s6 \<leftarrow> unwrapped (commit_values ops s5);
     assert_that (get_string ops s6 ''some key'' = None);
     Some s6 }"

definition do_test_set_get_remove_int :: "('s, 'e) storage_ops \<Rightarrow> 's \<Rightarrow> 's option" where
  "do_test_set_get_remove_int ops s0 = do {
     assert_that (get_int ops s0 ''some int key'' = None);
     s1 \<leftarrow> unwrapped (set_int ops s0 ''some int key'' 42);
     s2 \<leftarrow> unwrapped (commit_values ops s1);
     assert_that (get_int ops s2 ''some int key'' = Some 42);
     s3 \<leftarrow> unwrapped (set_int ops s2 ''some int key'' 1);
     s4 \<leftarrow> unwrapped (commit_values ops s3);
     assert_that (get_int ops s4 ''some int key'' = Some 1);
     s5 \<leftarrow> unwrapped (remove_value ops s4 ''some int key'');
     s6 \<leftarrow> unwrapped (commit_values ops s5);
     assert_that (get_int ops s6 ''some int key'' = None);
     Some s6 }"

definition do_test_set_option_int :: "('s, 'e) storage_ops \<Rightarrow> 's \<Rightarrow> 's option" where
  "do_test_set_option_int ops s0 = do {
     assert_that (get_int ops s0 ''some int key'' = None);
     s1 \<leftarrow> unwrapped (set_option_int ops s0 ''some int key'' (Some 42));
     s2 \<leftarrow> unwrapped (commit_values ops s1);
     assert_that (get_int ops s2 ''some int key'' = Some 42);
     s3 \<leftarrow> unwrapped (set_option_int ops s2 ''some int key'' None);
     s4 \<leftarrow> unwrapped (commit_values ops s3);
     assert_that (get_int ops s4 ''some int key'' = None);
     Some s4 }"

definition do_test_set_get_remove_bool :: "('s, 'e) storage_ops \<Rightarrow> 's \<Rightarrow> 's option" where
  "do_test_set_get_remove_bool ops s0 = do {
     assert_that (get_bool ops s0 ''some bool key'' = None);
     s1 \<leftarrow> unwrapped (set_bool ops s0 ''some bool key'' False);
     s2 \<leftarrow> unwrapped (commit_values ops s1);
     assert_that (get_bool ops s2 ''some bool key'' = Some False);
     s3 \<leftarrow> unwrapped (set_bool ops s2 ''some bool key'' True);
     s4 \<leftarrow> unwrapped (commit_values ops s3);
     assert_that (get_bool ops s4 ''some bool key'' = Some True);
     s5 \<leftarrow> unwrapped (remove_value ops s4 ''some bool key'');
     s6 \<leftarrow> unwrapped (commit_values ops s5);
     assert_that (get_bool ops s6 ''some bool key'' = None);
     Some s6 }"

definition do_test_set_get_remove_time :: "('s, 'e) storage_ops \<Rightarrow> 's \<Rightarrow> 's option" where
  "do_test_set_get_remove_time ops s0 = do {
     assert_that (get_time ops s0 ''some time key'' = None);
     s1 \<leftarrow> unwrapped (set_time ops s0 ''some time key'' UNIX_EPOCH);
     s2 \<leftarrow> unwrapped (commit_values ops s1);
     assert_that (get_time ops s2 ''some time key'' = Some UNIX_EPOCH);
     let time = UNIX_EPOCH + int (duration_from_secs 1234);
     s3 \<leftarrow> unwrapped (set_time ops s2 ''some time key'' time);
     s4 \<leftarrow> unwrapped (commit_values ops s3);
     assert_that (get_time ops s4 ''some time key'' = Some time);
     s5 \<leftarrow> unwrapped (remove_value ops s4 ''some time key'');
     s6 \<leftarrow> unwrapped (commit_values ops s5);
     assert_that (get_time ops s6 ''some time key'' = None);
     Some s6 }"

definition do_return_none_for_wrong_value_type :: "('s, 'e) storage_ops \<Rightarrow> 's \<Rightarrow> 's option" where
  "do_return_none_for_wrong_value_type ops s0 = do {
     s1 \<leftarrow> unwrapped (set_int ops s0 ''some int key'' 42);
     assert_that (get_string ops s1 ''some int key'' = None);
     Some s1 }"

definition do_ensure_no_error_remove_nonexistent_key :: "('s, 'e) storage_ops \<Rightarrow> 's \<Rightarrow> 's option" where
  "do_ensure_no_error_remove_nonexistent_key ops s0 = do {
     s1 \<leftarrow> unwrapped (set_string ops s0 ''some key'' ''some value'');
     s2 \<leftarrow> unwrapped (commit_values ops s1);
     s3 \<leftarrow> unwrapped (remove_value ops s2 ''some key'');
     unwrapped (remove_value ops s3 ''some key'') }"

lemmas contract_tests =
  do_test_set_get_remove_string_def do_test_set_get_remove_int_def do_test_set_option_int_def
  do_test_set_get_remove_bool_def do_test_set_get_remove_time_def do_return_none_for_wrong_value_type_def
  do_ensure_no_error_remove_nonexistent_key_def

text \<open>A storage whose writes and commits succeed passes them, each exactly when its key is absent at the start.\<close>

locale working_storage = reliable_storage +
  assumes commit_ok: "is_ok (fst (commit_values ops s))"
begin

lemma unwrapped_ok: "is_ok (fst x) \<Longrightarrow> unwrapped x = Some (snd x)"
  by (cases x; cases "fst x") auto

lemma set_bool_upd: "view (snd (set_bool ops s k v)) = (view s)(k \<mapsto> StoredBool v)"
  using set_bool_view [of s k v "fst (set_bool ops s k v)" "snd (set_bool ops s k v)"] set_bool_ok
  by (auto simp: fun_eq_iff)

lemmas unwrapped_writes = unwrapped_ok [OF set_string_ok] unwrapped_ok [OF set_int_ok] unwrapped_ok [OF set_bool_ok]
  unwrapped_ok [OF remove_ok] unwrapped_ok [OF commit_ok]

lemmas views = view_string view_int view_bool set_string_upd set_int_upd set_bool_upd remove_upd commit_view

lemma bind_assert: "Option.bind (assert_that b) f = (if b then f () else None)"
  by (simp add: assert_that_def)

lemma passes_string: "do_test_set_get_remove_string ops s \<noteq> None \<longleftrightarrow> get_string ops s ''some key'' = None"
  by (simp add: do_test_set_get_remove_string_def unwrapped_writes bind_assert views)

lemma passes_int: "do_test_set_get_remove_int ops s \<noteq> None \<longleftrightarrow> get_int ops s ''some int key'' = None"
  by (simp add: do_test_set_get_remove_int_def unwrapped_writes bind_assert views)

lemma passes_option_int: "do_test_set_option_int ops s \<noteq> None \<longleftrightarrow> get_int ops s ''some int key'' = None"
  by (simp add: do_test_set_option_int_def set_option_int_def unwrapped_writes bind_assert views)

lemma passes_bool: "do_test_set_get_remove_bool ops s \<noteq> None \<longleftrightarrow> get_bool ops s ''some bool key'' = None"
  by (simp add: do_test_set_get_remove_bool_def unwrapped_writes bind_assert views)

lemma passes_others:
  "do_return_none_for_wrong_value_type ops s \<noteq> None" "do_ensure_no_error_remove_nonexistent_key ops s \<noteq> None"
  by (simp_all add: do_return_none_for_wrong_value_type_def do_ensure_no_error_remove_nonexistent_key_def
      unwrapped_writes bind_assert views)

lemma passes_time: "do_test_set_get_remove_time ops s \<noteq> None \<longleftrightarrow> get_time ops s ''some time key'' = None"
proof -
  have "checked_system_time_to_micros_from_epoch UNIX_EPOCH = Some 0"
    "checked_system_time_to_micros_from_epoch (int (duration_from_secs 1234)) = Some 1234000000"
    by (simp_all add: to_micros_Some_iff duration_from_secs_def)
  moreover have "micros_from_epoch_to_system_time 0 = UNIX_EPOCH"
    "micros_from_epoch_to_system_time 1234000000 = int (duration_from_secs 1234)"
    by (simp_all add: micros_from_epoch_to_system_time_def duration_from_micros_def duration_from_secs_def)
  ultimately show ?thesis
    by (simp add: do_test_set_get_remove_time_def unwrapped_writes bind_assert views set_time_def set_option_int_def get_time_def)
qed

end

interpretation mem_works: working_storage mem_ops mem_data
  by unfold_locales (simp add: mem_ops_def mem_commit_def)

lemma stub_fails:
  "do_test_set_get_remove_string stub_storage_ops s = None" "do_test_set_get_remove_int stub_storage_ops s = None"
  "do_test_set_option_int stub_storage_ops s = None" "do_test_set_get_remove_bool stub_storage_ops s = None"
  "do_test_set_get_remove_time stub_storage_ops s = None" "do_return_none_for_wrong_value_type stub_storage_ops s = None"
  "do_ensure_no_error_remove_nonexistent_key stub_storage_ops s = None"
  by (simp_all add: contract_tests stub_storage_ops_def set_time_def set_option_int_def split: option.splits)

section \<open>CUP test support\<close>

text \<open>The test keys themselves are files read at compile time, and parameters.\<close>

definition make_default_public_key_id_for_test :: public_key_id where
  "make_default_public_key_id_for_test = 123456789"

definition make_public_keys_for_test :: "public_key_id \<Rightarrow> 'k \<Rightarrow> 'k public_keys" where
  "make_public_keys_for_test public_key_id public_key =
     \<lparr>pk_latest = \<lparr>pk_key = public_key, pk_id = public_key_id\<rparr>, pk_historical = []\<rparr>"

definition make_default_public_keys_for_test :: "'k \<Rightarrow> 'k public_keys" where
  "make_default_public_keys_for_test public_key = make_public_keys_for_test make_default_public_key_id_for_test public_key"

definition make_cup_handler_for_test :: "'k \<Rightarrow> 'k standard_cupv2_handler" where
  "make_cup_handler_for_test public_key =
     standard_cupv2_handler_new (make_public_keys_for_test make_default_public_key_id_for_test public_key)"

definition make_default_private_keys_for_test :: "'p \<Rightarrow> 'p private_keys" where
  "make_default_private_keys_for_test private_key =
     \<lparr>prk_latest = \<lparr>prk_id = make_default_public_key_id_for_test, prk_key = private_key\<rparr>, prk_historical = []\<rparr>"

definition make_expected_signature_for_test ::
  "('k, 'd, 's) crypto_ops \<Rightarrow> ('d, 's, 'p) server_ops \<Rightarrow> 'p \<Rightarrow> request_metadata \<Rightarrow> string \<Rightarrow> string" where
  "make_expected_signature_for_test lib ops signing_key request_metadata response_body =
     (let transaction_hash = make_transaction_hash lib (rm_request_body request_metadata) response_body
            (rm_public_key_id request_metadata) (rm_nonce request_metadata);
          sig = sv_sign ops signing_key transaction_hash
      in der_as_bytes lib (sv_to_der ops sig))"

text \<open>The mock handler; the key it generates to sign with is an argument, a signature that cannot be read a panic.\<close>

record mock_cupv2_handler =
  decoration_error :: "cup_decoration_error option"
  verification_error :: "cup_verification_error option"

definition mock_cupv2_handler_new :: mock_cupv2_handler where
  "mock_cupv2_handler_new = \<lparr>decoration_error = None, verification_error = None\<rparr>"

definition set_decoration_error :: "cup_decoration_error option \<Rightarrow> mock_cupv2_handler \<Rightarrow> mock_cupv2_handler" where
  "set_decoration_error e h = h\<lparr>decoration_error := e\<rparr>"

definition set_verification_error :: "cup_verification_error option \<Rightarrow> mock_cupv2_handler \<Rightarrow> mock_cupv2_handler" where
  "set_verification_error e h = h\<lparr>verification_error := e\<rparr>"

definition mock_decorate_request :: "mock_cupv2_handler \<Rightarrow> 'r \<Rightarrow> (cup_decoration_error + request_metadata) \<times> 'r" where
  "mock_decorate_request h r =
     (case decoration_error h of
        Some e \<Rightarrow> (Inl e, r)
      | None \<Rightarrow> (Inr \<lparr>rm_request_body = [], rm_public_key_id = 0, rm_nonce = replicate 32 (CHR 0x00)\<rparr>, r))"

definition mock_verify_response ::
  "('k, 'd, 's) crypto_ops \<Rightarrow> ('d, 's, 'p) server_ops \<Rightarrow> 'p \<Rightarrow> mock_cupv2_handler \<Rightarrow> request_metadata \<Rightarrow> http_response
     \<Rightarrow> (cup_verification_error + 'd) option" where
  "mock_verify_response lib ops signing_key h request_metadata resp =
     map_option (\<lambda>signature. case verification_error h of Some e \<Rightarrow> Inl e | None \<Rightarrow> Inr signature)
       (der_from_bytes lib (make_expected_signature_for_test lib ops signing_key request_metadata (http_body resp)))"

definition make_standard_intermediate_for_test :: "request \<Rightarrow> intermediate" where
  "make_standard_intermediate_for_test req = \<lparr>im_uri = ''http://fuchsia.dev'', im_headers = [], im_body = req\<rparr>"

text \<open>The test keys agree: what is signed with the private test key verifies with the handler for tests, and the
  server finds the private key under the id the handler uses.\<close>

lemma test_keys_agree:
  assumes "\<And>h. key_verify lib k h (sv_sign ops p h)" and "\<And>d. der_from_bytes lib (der_as_bytes lib d) = Some d"
    and "\<And>s. signature_of_der lib (sv_to_der ops s) = Some s"
    and "rm_public_key_id meta = latest_public_key_id (make_cup_handler_for_test k)"
  shows "\<exists>d. der_from_bytes lib (make_expected_signature_for_test lib ops p meta body) = Some d \<and>
    verify_response_with_signature lib (make_cup_handler_for_test k) d (rm_request_body meta) body (rm_public_key_id meta) (rm_nonce meta) = Inr ()"
    and "find_private_key (make_default_private_keys_for_test p) (latest_public_key_id (make_cup_handler_for_test k)) = Some p"
  using assms
  by (auto simp: make_expected_signature_for_test_def Let_def verify_with_signature_Inr_iff make_cup_handler_for_test_def
      make_public_keys_for_test_def standard_cupv2_handler_new_def make_default_private_keys_for_test_def find_private_key_def)

section \<open>Mocks\<close>

record mock_http_request =
  mock_requests :: "http_request list"
  mock_responses :: "(http_error + http_response) list"

definition mock_http_empty :: mock_http_request where
  "mock_http_empty = \<lparr>mock_requests = [], mock_responses = []\<rparr>"

definition mock_http_new :: "http_response \<Rightarrow> mock_http_request" where
  "mock_http_new res = mock_http_empty\<lparr>mock_responses := [Inr res]\<rparr>"

definition mock_add_response :: "http_response \<Rightarrow> mock_http_request \<Rightarrow> mock_http_request" where
  "mock_add_response res m = m\<lparr>mock_responses := mock_responses m @ [Inr res]\<rparr>"

definition mock_add_error :: "http_error \<Rightarrow> mock_http_request \<Rightarrow> mock_http_request" where
  "mock_add_error e m = m\<lparr>mock_responses := mock_responses m @ [Inl e]\<rparr>"

definition mock_request :: "http_request \<Rightarrow> mock_http_request \<Rightarrow> (http_error + http_response) \<times> mock_http_request" where
  "mock_request req m =
     (case mock_responses m of
        [] \<Rightarrow> (Inr \<lparr>http_status = 500, http_header = Map.empty, http_body = []\<rparr>, m\<lparr>mock_requests := mock_requests m @ [req]\<rparr>)
      | r # rs \<Rightarrow> (r, \<lparr>mock_requests = mock_requests m @ [req], mock_responses = rs\<rparr>))"

definition mock_assert_method :: "string \<Rightarrow> mock_http_request \<Rightarrow> unit option" where
  "mock_assert_method expected m = do {
     assert_that (mock_requests m \<noteq> []);
     assert_that (expected = hreq_method (last (mock_requests m))) }"

definition mock_take_request :: "mock_http_request \<Rightarrow> (http_request \<times> mock_http_request) option" where
  "mock_take_request m = do {
     assert_that (mock_requests m \<noteq> []);
     Some (last (mock_requests m), m\<lparr>mock_requests := butlast (mock_requests m)\<rparr>) }"

definition mock_assert_body :: "string \<Rightarrow> mock_http_request \<Rightarrow> mock_http_request option" where
  "mock_assert_body expected m = do {
     (req, m') \<leftarrow> mock_take_request m;
     assert_that (expected = hreq_body req);
     Some m' }"

record mock_metrics_reporter =
  should_fail :: bool
  mock_metrics :: "metrics list"

definition mock_report_metrics :: "metrics \<Rightarrow> mock_metrics_reporter \<Rightarrow> (unit + unit) \<times> mock_metrics_reporter" where
  "mock_report_metrics x r = (if should_fail r then Inl () else Inr (), r\<lparr>mock_metrics := mock_metrics r @ [x]\<rparr>)"

text \<open>Requests to the mock are answered from its queue in order, the rest with an internal server error, and all recorded.\<close>

fun mock_exchange :: "http_request list \<Rightarrow> mock_http_request \<Rightarrow> (http_error + http_response) list \<times> mock_http_request" where
  "mock_exchange [] m = ([], m)"
| "mock_exchange (req # reqs) m =
     (let (r, m1) = mock_request req m; (rs, m2) = mock_exchange reqs m1 in (r # rs, m2))"

lemma mock_exchange_spec:
  "mock_exchange reqs m =
     (take (length reqs) (mock_responses m) @
        replicate (length reqs - length (mock_responses m)) (Inr \<lparr>http_status = 500, http_header = Map.empty, http_body = []\<rparr>),
      \<lparr>mock_requests = mock_requests m @ reqs, mock_responses = drop (length reqs) (mock_responses m)\<rparr>)"
proof (induction reqs arbitrary: m)
  case (Cons req reqs)
  then show ?case by (cases "mock_responses m") (simp_all add: mock_request_def)
qed simp

section \<open>Properties\<close>

text \<open>C34: The in-memory storage honours the contract tests that the library exports for implementations of its storage trait:
  each passes exactly when the key it uses does not hold a value of its type at the start, the last two always; and the tests
  tell a storage that fails: the stub storage passes none.\<close>

theorem storage_contract:
  "(do_test_set_get_remove_string mem_ops s \<noteq> None \<longleftrightarrow> get_string mem_ops s ''some key'' = None) \<and>
   (do_test_set_get_remove_int mem_ops s \<noteq> None \<longleftrightarrow> get_int mem_ops s ''some int key'' = None) \<and>
   (do_test_set_option_int mem_ops s \<noteq> None \<longleftrightarrow> get_int mem_ops s ''some int key'' = None) \<and>
   (do_test_set_get_remove_bool mem_ops s \<noteq> None \<longleftrightarrow> get_bool mem_ops s ''some bool key'' = None) \<and>
   (do_test_set_get_remove_time mem_ops s \<noteq> None \<longleftrightarrow> get_time mem_ops s ''some time key'' = None) \<and>
   do_return_none_for_wrong_value_type mem_ops s \<noteq> None \<and> do_ensure_no_error_remove_nonexistent_key mem_ops s \<noteq> None \<and>
   do_test_set_get_remove_string stub_storage_ops u = None \<and> do_test_set_get_remove_int stub_storage_ops u = None \<and>
   do_test_set_option_int stub_storage_ops u = None \<and> do_test_set_get_remove_bool stub_storage_ops u = None \<and>
   do_test_set_get_remove_time stub_storage_ops u = None \<and> do_return_none_for_wrong_value_type stub_storage_ops u = None \<and>
   do_ensure_no_error_remove_nonexistent_key stub_storage_ops u = None"
  by (intro conjI mem_works.passes_string mem_works.passes_int mem_works.passes_option_int mem_works.passes_bool
      mem_works.passes_time mem_works.passes_others stub_fails)

end
