(* ===== verification/Session_Properties.thy ===== *)
theory Session_Properties imports Consent begin

text \<open>
  The requests of an update check: all of them belong to one session, and each is either an attempt of the check
  itself or a report that carries nothing but events on apps of the check.
\<close>

section \<open>Requests of a session\<close>

text \<open>An entry that only reports events.\<close>

definition reports_on :: "app list \<Rightarrow> app_entry \<Rightarrow> bool" where
  "reports_on as e \<longleftrightarrow>
     entry_app e \<in> set as \<and> entry_events e \<noteq> [] \<and> entry_update_check e = None \<and> \<not> entry_ping e"

definition report_builder :: "'k config \<Rightarrow> request_params \<Rightarrow> app list \<Rightarrow> 'k request_builder \<Rightarrow> bool" where
  "report_builder cfg ps as b \<longleftrightarrow>
     rb_config b = cfg \<and> rb_params b = ps \<and> list_all (reports_on as) (rb_app_entries b)"

definition in_session ::
  "('w, 's, 'e, 'a, 'd, 'pl, 'ir, 'x) env \<Rightarrow> 'k config \<Rightarrow> 'd cup_handler option \<Rightarrow> request_params \<Rightarrow> app list \<Rightarrow> guid
     \<Rightarrow> http_request \<Rightarrow> bool" where
  "in_session env cfg cup ps as g req \<longleftrightarrow>
     (\<exists>b rid n metadata.
        (b = check_builder cfg ps as g \<or> (\<exists>b'. report_builder cfg ps as b' \<and> b = with_session_id g b')) \<and>
        build (json_to_vec env) (head_ok env) cup n (with_request_id rid b) = Inr (req, metadata))"

fun session_effect ::
  "('w, 's, 'e, 'a, 'd, 'pl, 'ir, 'x) env \<Rightarrow> 'k config \<Rightarrow> 'd cup_handler option \<Rightarrow> request_params \<Rightarrow> app list \<Rightarrow> guid
     \<Rightarrow> ('pl, 'x) effect \<Rightarrow> bool" where
  "session_effect env cfg cup ps as g (SentRequest req) \<longleftrightarrow> in_session env cfg cup ps as g req"
| "session_effect env cfg cup ps as g _ \<longleftrightarrow> True"

text \<open>The reports are built by adding events to an empty builder.\<close>

lemma reports_on_modify_first:
  "list_all (reports_on as) es \<Longrightarrow>
   list_all (reports_on as) (modify_first p (\<lambda>e. e\<lparr>entry_events := entry_events e @ [ev]\<rparr>) es)"
  by (induction es) (auto simp: reports_on_def)

lemma report_builder_add_event:
  "report_builder cfg ps as b \<Longrightarrow> a \<in> set as \<Longrightarrow> report_builder cfg ps as (add_event a ev b)"
  by (auto simp: report_builder_def add_event_def insert_and_modify_entry_def reports_on_modify_first)
     (simp_all add: reports_on_def app_entry_new_def)

lemma report_builder_new [simp]: "report_builder cfg ps as (request_builder_new cfg ps)"
  by (simp add: report_builder_def request_builder_new_def)

lemma report_builder_app_events:
  "set as' \<subseteq> set as \<Longrightarrow> report_builder cfg ps as b \<Longrightarrow> report_builder cfg ps as (fold (add_app_event ev nv d) as' b)"
  by (induction as' arbitrary: b) (auto simp: add_app_event_def report_builder_add_event split: option.split)

lemma report_builder_events:
  "fst ` set evs \<subseteq> set as \<Longrightarrow> report_builder cfg ps as b \<Longrightarrow>
   report_builder cfg ps as (fold (\<lambda>(a, e). add_event a e) evs b)"
  by (induction evs arbitrary: b) (auto simp: report_builder_add_event)

lemma result_events_apps: "fst ` set (result_events as d prs) \<subseteq> set as"
  by (induction as d prs rule: result_events.induct) (auto simp: find_Some_iff split: option.splits)

lemma installed_apps_subset: "set (installed_apps_of as prs) \<subseteq> set as"
proof (induction prs)
  case (Cons p prs)
  then show ?case by (cases p) (auto simp: find_Some_iff split: option.splits app_install_result.splits)
qed simp

section \<open>The relation\<close>

text \<open>What an action of a check in this session may do to a machine with this configuration and handler.\<close>

definition session_rel ::
  "('w, 's, 'e, 'a, 'd, 'pl, 'ir, 'x) env \<Rightarrow> 'k config \<Rightarrow> 'd cup_handler option \<Rightarrow> request_params \<Rightarrow> app list \<Rightarrow> guid
     \<Rightarrow> ('w, 's, 'a, 'k, 'd, 'pl, 'x) machine \<Rightarrow> ('w, 's, 'a, 'k, 'd, 'pl, 'x) machine \<Rightarrow> bool" where
  "session_rel env cfg cup ps as g m m' \<longleftrightarrow>
     (sm_config m = cfg \<and> sm_cup_handler m = cup \<longrightarrow> trace_rel (list_all (session_effect env cfg cup ps as g)) m m')"

interpretation session: effect_preorder "session_rel env cfg cup ps as g" for env cfg cup ps as g
proof
  show "session_rel env cfg cup ps as g m m" for m by (simp add: session_rel_def every.trace_rel_refl)
  show "session_rel env cfg cup ps as g m m''"
    if "session_rel env cfg cup ps as g m m'" "session_rel env cfg cup ps as g m' m''" for m m' m''
    using that every.trace_rel_trans [of "session_effect env cfg cup ps as g" m m' m'']
    by (simp add: session_rel_def trace_rel_def)
qed

lemma session_quiet:
  assumes "state_io_rel (trace_rel (list_all (session_effect env cfg cup ps as g))) act"
  shows "state_io_rel (session_rel env cfg cup ps as g) act"
  using assms by (simp add: state_io_rel_def session_rel_def)

text \<open>What is read from the machine is the configuration and the handler of the session.\<close>

lemma session_gets:
  assumes "\<And>m. sm_config m = cfg \<Longrightarrow> sm_cup_handler m = cup \<Longrightarrow> f m = x"
    and "state_io_rel (session_rel env cfg cup ps as g) (h x)"
  shows "state_io_rel (session_rel env cfg cup ps as g) (State_Monad.bind (gets f) h)"
  using assms by (force simp: state_io_rel_def session_rel_def gets_def)

section \<open>The actions of a check\<close>

definition session_builder :: "'k config \<Rightarrow> request_params \<Rightarrow> app list \<Rightarrow> guid \<Rightarrow> 'k request_builder \<Rightarrow> bool" where
  "session_builder cfg ps as g b \<longleftrightarrow>
     b = check_builder cfg ps as g \<or> (\<exists>b'. report_builder cfg ps as b' \<and> b = with_session_id g b')"

text \<open>Everything but requests may be done without leaving the session.\<close>

lemma session_emit: "session_effect env cfg cup ps as g e \<Longrightarrow> state_io_rel (session_rel env cfg cup ps as g) (emit e)"
  by (intro session_quiet every.trace_rel_emit) simp

lemma session_yields:
  "state_io_rel (session_rel env cfg cup ps as g) (yield_event ev)"
  "state_io_rel (session_rel env cfg cup ps as g) (yield_state st)"
  "state_io_rel (session_rel env cfg cup ps as g) (report_metrics x)"
  unfolding action_defs by (simp_all add: session_emit)

lemma session_wait: "state_io_rel (session_rel env cfg cup ps as g) (wait_for_timer env' r)"
  unfolding action_defs by (intro session.io_bind session_emit session_quiet [OF every.trace_rel_silent(1)]) simp

lemmas session_steps = session.io_intros session_yields session_wait every.trace_rel_silent [THEN session_quiet]

lemma session_persist:
  "state_io_rel (session_rel env cfg cup ps as g) (persist_context env')"
  "state_io_rel (session_rel env cfg cup ps as g) (commit env')"
  unfolding persist_context_def commit_def by (intro session_steps)+

lemma session_do_omaha:
  assumes "session_builder cfg ps as g b"
  shows "state_io_rel (session_rel env cfg cup ps as g) (do_omaha_request env (with_request_id rid b))"
proof -
  have response: "state_io_rel (session_rel env cfg cup ps as g) (handle_response env cup' md resp)" for cup' md resp
    unfolding handle_response_def update_poll_interval_def by (intro session_steps session_persist)
  have nonce: "state_io_rel (session_rel env cfg cup ps as g) (draw_nonce env cup)"
    unfolding draw_nonce_def by (intro session_steps)
  have request: "state_io_rel (session_rel env cfg cup ps as g) (make_request env req)"
    if "build (json_to_vec env) (head_ok env) cup n (with_request_id rid b) = Inr (req, md)" for n req md
    using that assms unfolding make_request_def
    by (intro session.io_bind session_emit session_steps) (auto simp: in_session_def session_builder_def)
  show ?thesis unfolding do_omaha_request_def
  proof (rule session_gets)
    show "state_io_rel (session_rel env cfg cup ps as g) (State_Monad.bind (draw_nonce env cup) (\<lambda>n.
        case build (json_to_vec env) (head_ok env) cup n (with_request_id rid b) of
          Inl e \<Rightarrow> State_Monad.return (Inl (omaha_request_error_from e))
        | Inr (req, metadata) \<Rightarrow> State_Monad.bind (make_request env req) (\<lambda>r. case r of
            Inl e \<Rightarrow> State_Monad.return (Inl (HttpTransport e))
          | Inr resp \<Rightarrow> handle_response env cup metadata resp)))"
      by (rule session.io_bind [OF nonce])
         (auto split: sum.split prod.split intro!: session_steps response request)
  qed simp
qed

lemma session_report_event:
  assumes "set as' \<subseteq> set as"
  shows "state_io_rel (session_rel env cfg cup ps as g) (report_omaha_event env ps ev as' g nv d)"
proof -
  have "session_builder cfg ps as g (with_session_id g (fold (add_app_event ev nv d) as' (request_builder_new cfg ps)))"
    using report_builder_app_events [OF assms report_builder_new] unfolding session_builder_def by blast
  then show ?thesis unfolding report_omaha_event_def Let_def
    by (intro session_gets [where x = cfg] session_steps session_do_omaha) simp_all
qed

lemma session_report_results:
  assumes "fst ` set evs \<subseteq> set as"
  shows "state_io_rel (session_rel env cfg cup ps as g) (report_results env ps g evs)"
proof -
  have "session_builder cfg ps as g (with_session_id g (fold (\<lambda>(a, e). add_event a e) evs (request_builder_new cfg ps)))"
    using report_builder_events [OF assms report_builder_new] unfolding session_builder_def by blast
  then show ?thesis unfolding report_results_def Let_def
    by (intro session_gets [where x = cfg] session_steps session_do_omaha) simp_all
qed

lemma session_attempt:
  "state_io_rel (session_rel env cfg cup ps as g) (omaha_attempt env (check_builder cfg ps as g))"
  unfolding omaha_attempt_def by (intro session_steps session_do_omaha) (simp add: session_builder_def)

lemma session_request_loop:
  "state_io_rel (session_rel env cfg cup ps as g) (request_loop env (check_builder cfg ps as g) n)"
proof (induction "MAX_OMAHA_REQUEST_ATTEMPTS - n" arbitrary: n rule: less_induct)
  case less
  have "state_io_rel (session_rel env cfg cup ps as g) (request_loop env (check_builder cfg ps as g) (n + 1))"
    if "\<not> gives_up n i e" for i e
    using not_gives_up_attempt [OF that] by (intro less) simp
  then show ?case
    by (subst request_loop.simps) (intro session_steps session_attempt; simp add: back_off_def session_steps)
qed

lemma session_install_parts:
  "state_io_rel (session_rel env cfg cup ps as g) (begin_install env ps as g nv pl)"
  "state_io_rel (session_rel env cfg cup ps as g) (run_install env pl)"
  "state_io_rel (session_rel env cfg cup ps as g) (report_install_duration t t' rs)"
  "state_io_rel (session_rel env cfg cup ps as g) (finish_install env nv pl t t' ir)"
  "state_io_rel (session_rel env cfg cup ps as g) (install_failed ars es)"
  unfolding begin_install_def run_install_def report_install_duration_def finish_install_def install_failed_def
    record_update_first_seen_time_def Let_def
  by (intro session_steps session_report_event session_emit; simp)+

lemma session_report_installed:
  "state_io_rel (session_rel env cfg cup ps as g) (report_installed env ps (installed_apps_of as prs) g nv d)"
  unfolding report_installed_def by (intro session_steps session_report_event installed_apps_subset)

lemma session_install_update: "state_io_rel (session_rel env cfg cup ps as g) (install_update env ps as g resp pl)"
  unfolding install_update_def Let_def
  by (intro session_steps session_install_parts session_report_installed session_report_results result_events_apps)

lemma session_plan_outcomes:
  "state_io_rel (session_rel env cfg cup ps as g) (parse_failed env ps as g e)"
  "state_io_rel (session_rel env cfg cup ps as g) (plan_failed env ps as g nv x)"
  "state_io_rel (session_rel env cfg cup ps as g) (plan_deferred env ps as g nv resp)"
  "state_io_rel (session_rel env cfg cup ps as g) (plan_denied env ps as g nv resp)"
  unfolding parse_failed_def plan_failed_def plan_deferred_def plan_denied_def
  by (intro session_steps session_report_event subset_refl)+

lemma session_process_response: "state_io_rel (session_rel env cfg cup ps as g) (process_response env ps as g rcv resp)"
proof -
  have "state_io_rel (session_rel env cfg cup ps as g) (process_plan env ps as g resp pl)" for pl
    unfolding process_plan_def Let_def
    by (auto split: update_decision.split
        intro!: session_steps session_emit session_install_update session_plan_outcomes)
  then show ?thesis unfolding process_response_def Let_def by (intro session_steps session_plan_outcomes)
qed

section \<open>The property\<close>

text \<open>A check up to the drawing of its session id sends nothing.\<close>

lemma session_check_interval:
  "state_io_rel (session_rel env cfg cup ps as g) (report_check_interval env src)"
  unfolding report_check_interval_def
  by (auto intro!: session_steps split: option.splits partial_complex_time.splits)

text \<open>What follows the drawing.\<close>

definition after_guid ::
  "('w, 's, 'e, 'a, 'd, 'pl, 'ir, 'x) env \<Rightarrow> 'k config \<Rightarrow> request_params \<Rightarrow> app list \<Rightarrow> guid
     \<Rightarrow> ('w, 's, 'a, 'k, 'd, 'pl, 'x, ('ir, 'x) check_outcome) act" where
  "after_guid env cfg ps as g = do {
     (attempts, result) \<leftarrow> request_loop env (check_builder cfg ps as g) 1;
     report_metrics (RequestsPerCheck attempts (is_ok result));
     (case result of
        Inl e \<Rightarrow> State_Monad.return (Some (Inl (OmahaRequest e)))
      | Inr received \<Rightarrow>
          (case parse_omaha_response env (fst received) of
             Inl e \<Rightarrow> parse_failed env ps as g e
           | Inr resp \<Rightarrow> process_response env ps as g received resp)) }"

lemma session_after_guid: "state_io_rel (session_rel env cfg cup ps as g) (after_guid env cfg ps as g)"
  unfolding after_guid_def by (intro session_steps session_request_loop session_plan_outcomes session_process_response)

lemma perform_update_check_unfold:
  "perform_update_check env ps as = do {
     yield_state (CheckingForUpdates (rp_source ps));
     report_check_interval env (rp_source ps);
     cfg \<leftarrow> gets sm_config;
     g \<leftarrow> outside (new_guid env);
     after_guid env cfg ps as g }"
  by (simp add: perform_update_check_def after_guid_def)

text \<open>C7: All requests of an update check belong to one session, whose id is one new GUID: each is an attempt of the check
  itself (an update check and a ping for every app, a request id of its own) or a report, which carries only
  events, on apps of the check, under the same session id.\<close>

theorem check_is_one_session:
  "\<exists>w es. sm_trace (snd (run_state (perform_update_check env ps as) m)) = sm_trace m @ es \<and>
     list_all (session_effect env (sm_config m) (sm_cup_handler m) ps as (fst (new_guid env w))) es"
proof -
  let ?S = "\<lambda>g. session_rel env (sm_config m) (sm_cup_handler m) ps as g"
  let ?pre = "State_Monad.bind (yield_state (CheckingForUpdates (rp_source ps))) (\<lambda>_. report_check_interval env (rp_source ps))"
  define m1 where "m1 = snd (run_state ?pre m)"
  define g where "g = fst (new_guid env (sm_world m1))"
  define m2 where "m2 = m1\<lparr>sm_world := snd (new_guid env (sm_world m1))\<rparr>"
  have "state_io_rel (?S g) ?pre" for g by (intro session_steps session_check_interval)
  then have m1: "?S g m m1" by (simp add: state_io_rel_def m1_def)
  then have "?S g m m2" by (simp add: session_rel_def trace_rel_def m2_def)
  moreover have "run_state (perform_update_check env ps as) m = run_state (after_guid env (sm_config m) ps as g) m2"
    using m1 by (simp add: perform_update_check_unfold m2_def g_def m1_def gets_def outside_def split_beta
        session_rel_def trace_rel_def)
  then have "?S g m2 (snd (run_state (perform_update_check env ps as) m))"
    using session_after_guid [of env "sm_config m" "sm_cup_handler m" ps as g] by (simp add: state_io_rel_def)
  ultimately have "?S g m (snd (run_state (perform_update_check env ps as) m))" by (rule session.effect_trans)
  then show ?thesis by (auto simp: session_rel_def trace_rel_def g_def)
qed

end
