(* ===== verification/Stub_Machine.thy ===== *)
theory Stub_Machine imports Test_Support Loop_Moves begin

text \<open>
  \<open>StateMachineBuilder\<close> of \<open>state_machine/builder.rs\<close> with its setters, its stub (\<open>new_stub\<close>), the mock policy engine of
  \<open>policy/mock.rs\<close> and the installers of the tests of \<open>state_machine.rs\<close>: the machines that those tests run.
\<close>

section \<open>The world of the tests\<close>

text \<open>What the mocks share with the test: the time source, the HTTP mock, the counter of GUIDs, what the mock policy
  engine answers about reboots and what it was asked, whether the installer rebooted, its failures and
  results still to come, the mock timer, and whether a mock panicked.\<close>

record test_world =
  tw_clock :: mock_time_source
  tw_http :: mock_http_request
  tw_guid :: nat
  tw_reboot_allowed :: bool
  tw_reboot_needed :: bool
  tw_reboot_options :: "check_options list"
  tw_reboot_called :: bool
  tw_install_fails :: nat
  tw_install_results :: "stub_install_errors app_install_result list list"
  tw_timer :: mock_timer
  tw_panicked :: bool

text \<open>\<open>MockTimeSource::new_from_now\<close>; any time would do.\<close>

definition test_now :: complex_time where
  "test_now = \<lparr>wall = 1600000000123456789, mono = 5000000321\<rparr>"

definition test_world_new :: "mock_http_request \<Rightarrow> test_world" where
  "test_world_new http =
     \<lparr>tw_clock = mts_new test_now, tw_http = http, tw_guid = 0, tw_reboot_allowed = True, tw_reboot_needed = True,
      tw_reboot_options = [], tw_reboot_called = False, tw_install_fails = 0, tw_install_results = [],
      tw_timer = mock_timer_new, tw_panicked = False\<rparr>"

text \<open>\<open>unwrap\<close> and \<open>assert!\<close> of the mocks: a failure is recorded, and the world stays.\<close>

definition or_panic :: "test_world option \<Rightarrow> test_world \<Rightarrow> test_world" where
  "or_panic r w = (case r of None \<Rightarrow> w\<lparr>tw_panicked := True\<rparr> | Some w' \<Rightarrow> w')"

definition tw_advance :: "duration \<Rightarrow> test_world \<Rightarrow> test_world" where
  "tw_advance d w = or_panic (map_option (\<lambda>c. w\<lparr>tw_clock := c\<rparr>) (mts_advance (tw_clock w) d)) w"

text \<open>\<open>GUID::new\<close> of the tests counts; \<open>from_u128\<close> is printed as the braced form of a UUID.\<close>

definition hex_digit :: "nat \<Rightarrow> char" where
  "hex_digit n = ''0123456789abcdef'' ! n"

definition guid_from_u128 :: "nat \<Rightarrow> guid" where
  "guid_from_u128 n =
     (let digits = rev (map (\<lambda>i. hex_digit (n div 16 ^ i mod 16)) [0..<32]);
          part = (\<lambda>i k. take k (drop i digits))
      in GUID (''{'' @ part 0 8 @ ''-'' @ part 8 4 @ ''-'' @ part 12 4 @ ''-'' @ part 16 4 @ ''-'' @ part 20 12 @ ''}''))"

definition tw_new_guid :: "test_world \<Rightarrow> guid \<times> test_world" where
  "tw_new_guid w = (guid_from_u128 (tw_guid w), w\<lparr>tw_guid := tw_guid w + 1\<rparr>)"

section \<open>JSON text\<close>

text \<open>A compact printer, and the reader of the documents that a test prints, its inverse on them.\<close>

fun json_quote :: "string \<Rightarrow> string" where
  "json_quote s = CHR 0x22 # s @ [CHR 0x22]"

fun json_print :: "json \<Rightarrow> string" and json_print_list :: "json list \<Rightarrow> string" and
  json_print_fields :: "fields \<Rightarrow> string" where
  "json_print JNull = ''null''"
| "json_print (JBool b) = (if b then ''true'' else ''false'')"
| "json_print (JInt n) = (if n < 0 then CHR ''-'' # dec (nat (- n)) else dec (nat n))"
| "json_print (JFloat s) = s"
| "json_print (JStr s) = json_quote s"
| "json_print (JArr xs) = ''['' @ json_print_list xs @ '']''"
| "json_print (JObj kvs) = ''{'' @ json_print_fields kvs @ ''}''"
| "json_print_list [] = []"
| "json_print_list [x] = json_print x"
| "json_print_list (x # xs) = json_print x @ '','' @ json_print_list xs"
| "json_print_fields [] = []"
| "json_print_fields [(k, v)] = json_quote k @ '':'' @ json_print v"
| "json_print_fields ((k, v) # kvs) = json_quote k @ '':'' @ json_print v @ '','' @ json_print_fields kvs"

definition json_read :: "json list \<Rightarrow> string \<Rightarrow> json option" where
  "json_read docs s = find (\<lambda>j. json_print j = s) docs"

section \<open>The builder\<close>

record ('s, 'e) state_machine_builder =
  sb_policy_engine :: "(test_world, stub_plan, unit) policy_engine"
  sb_time_source :: "test_world \<Rightarrow> complex_time"
  sb_http :: "http_request \<Rightarrow> test_world \<Rightarrow> (http_error + http_response) \<times> test_world"
  sb_installer :: "(test_world, stub_plan, unit, stub_install_errors) installer"
  sb_timer :: "requested_wait \<Rightarrow> test_world \<Rightarrow> test_world"
  sb_storage :: "('s, 'e) storage_ops \<times> 's"
  sb_config :: "string config"
  sb_app_set :: vec_app_set
  sb_cup_handler :: "string cup_handler option"

definition sb_new ::
  "(test_world, stub_plan, unit) policy_engine \<times> (test_world \<Rightarrow> complex_time)
     \<Rightarrow> (http_request \<Rightarrow> test_world \<Rightarrow> (http_error + http_response) \<times> test_world)
     \<Rightarrow> (test_world, stub_plan, unit, stub_install_errors) installer \<Rightarrow> (requested_wait \<Rightarrow> test_world \<Rightarrow> test_world)
     \<Rightarrow> ('s, 'e) storage_ops \<times> 's \<Rightarrow> string config \<Rightarrow> vec_app_set \<Rightarrow> string cup_handler option
     \<Rightarrow> ('s, 'e) state_machine_builder" where
  "sb_new policy_engine http installer timer storage config app_set cup_handler =
     \<lparr>sb_policy_engine = fst policy_engine, sb_time_source = snd policy_engine, sb_http = http, sb_installer = installer,
      sb_timer = timer, sb_storage = storage, sb_config = config, sb_app_set = app_set, sb_cup_handler = cup_handler\<rparr>"

definition with_policy_engine ::
  "(test_world, stub_plan, unit) policy_engine \<times> (test_world \<Rightarrow> complex_time)
     \<Rightarrow> ('s, 'e) state_machine_builder \<Rightarrow> ('s, 'e) state_machine_builder" where
  "with_policy_engine p b = b\<lparr>sb_policy_engine := fst p, sb_time_source := snd p\<rparr>"

definition with_http ::
  "(http_request \<Rightarrow> test_world \<Rightarrow> (http_error + http_response) \<times> test_world)
     \<Rightarrow> ('s, 'e) state_machine_builder \<Rightarrow> ('s, 'e) state_machine_builder" where
  "with_http http b = b\<lparr>sb_http := http\<rparr>"

definition with_installer ::
  "(test_world, stub_plan, unit, stub_install_errors) installer
     \<Rightarrow> ('s, 'e) state_machine_builder \<Rightarrow> ('s, 'e) state_machine_builder" where
  "with_installer i b = b\<lparr>sb_installer := i\<rparr>"

definition with_timer ::
  "(requested_wait \<Rightarrow> test_world \<Rightarrow> test_world) \<Rightarrow> ('s, 'e) state_machine_builder \<Rightarrow> ('s, 'e) state_machine_builder" where
  "with_timer t b = b\<lparr>sb_timer := t\<rparr>"

definition with_storage ::
  "('s2, 'e2) storage_ops \<times> 's2 \<Rightarrow> ('s, 'e) state_machine_builder \<Rightarrow> ('s2, 'e2) state_machine_builder" where
  "with_storage s b =
     sb_new (sb_policy_engine b, sb_time_source b) (sb_http b) (sb_installer b) (sb_timer b) s (sb_config b)
       (sb_app_set b) (sb_cup_handler b)"

definition with_config :: "string config \<Rightarrow> ('s, 'e) state_machine_builder \<Rightarrow> ('s, 'e) state_machine_builder" where
  "with_config c b = b\<lparr>sb_config := c\<rparr>"

definition with_app_set :: "vec_app_set \<Rightarrow> ('s, 'e) state_machine_builder \<Rightarrow> ('s, 'e) state_machine_builder" where
  "with_app_set a b = b\<lparr>sb_app_set := a\<rparr>"

definition with_cup_handler ::
  "string cup_handler option \<Rightarrow> ('s, 'e) state_machine_builder \<Rightarrow> ('s, 'e) state_machine_builder" where
  "with_cup_handler c b = b\<lparr>sb_cup_handler := c\<rparr>"

section \<open>Collaborators\<close>

text \<open>The HTTP clients: the stub and the mock of the world.\<close>

definition empty_http_response :: http_response where
  "empty_http_response = \<lparr>http_status = 200, http_header = Map.empty, http_body = []\<rparr>"

definition stub_http_request :: "http_request \<Rightarrow> test_world \<Rightarrow> (http_error + http_response) \<times> test_world" where
  "stub_http_request req w = (Inr empty_http_response, w)"

definition mock_http :: "http_request \<Rightarrow> test_world \<Rightarrow> (http_error + http_response) \<times> test_world" where
  "mock_http req w = (let (r, m) = mock_request req (tw_http w) in (r, w\<lparr>tw_http := m\<rparr>))"

text \<open>The timers of a check: the stub, and the mock, which panics on a wait that is not expected.\<close>

definition stub_timer :: "requested_wait \<Rightarrow> test_world \<Rightarrow> test_world" where
  "stub_timer r w = (if stub_timer_wait r = WaitReady then w else w\<lparr>tw_panicked := True\<rparr>)"

definition mock_timer_waits :: "requested_wait \<Rightarrow> test_world \<Rightarrow> test_world" where
  "mock_timer_waits r w =
     (let (res, t) = handle_wait (tw_timer w) r
      in or_panic (if res = WaitReady then Some (w\<lparr>tw_timer := t\<rparr>) else None) w)"

text \<open>The stub policy engine on the mock time source.\<close>

definition tw_now :: "test_world \<Rightarrow> complex_time" where
  "tw_now w = mts_now (tw_clock w)"

definition stub_policy :: "(test_world, stub_plan, unit) policy_engine \<times> (test_world \<Rightarrow> complex_time)" where
  "stub_policy = (stub_policy_engine (\<lambda>w. (tw_now w, w)), tw_now)"

text \<open>The mock policy engine; what it shares with the test is in the world, and a missing timing is a panic.\<close>

record mock_policy_engine =
  mpe_check_timing :: "check_timing option"
  mpe_check_decision :: check_decision
  mpe_update_decision :: update_decision

definition mock_policy_default :: mock_policy_engine where
  "mock_policy_default =
     \<lparr>mpe_check_timing = None, mpe_check_decision = CheckOk request_params_default, mpe_update_decision = UpdateOk\<rparr>"

definition mock_compute_next_update_time :: "mock_policy_engine \<Rightarrow> test_world \<Rightarrow> check_timing \<times> test_world" where
  "mock_compute_next_update_time e w =
     (case mpe_check_timing e of
        Some t \<Rightarrow> (t, w)
      | None \<Rightarrow> (\<lparr>ct_time = Complex (tw_now w), ct_minimum_wait = None\<rparr>, w\<lparr>tw_panicked := True\<rparr>))"

definition mock_reboot_allowed :: "check_options \<Rightarrow> test_world \<Rightarrow> bool \<times> test_world" where
  "mock_reboot_allowed options w = (tw_reboot_allowed w, w\<lparr>tw_reboot_options := tw_reboot_options w @ [options]\<rparr>)"

definition mock_policy ::
  "mock_policy_engine \<Rightarrow> (test_world, stub_plan, unit) policy_engine \<times> (test_world \<Rightarrow> complex_time)" where
  "mock_policy e =
     (\<lparr>compute_next_update_time = (\<lambda>apps scheduling protocol_state. mock_compute_next_update_time e),
       update_check_allowed = (\<lambda>apps scheduling protocol_state options w. (mpe_check_decision e, w)),
       update_can_start = (\<lambda>plan w. (mpe_update_decision e, w)),
       reboot_allowed = (\<lambda>options ir. mock_reboot_allowed options),
       reboot_needed = (\<lambda>plan w. (tw_reboot_needed w, w))\<rparr>, tw_now)"

text \<open>The installers of the tests: one that fails a number of times and then takes a while and reports progress (the bits
  of 0.0, 0.3, 0.9 and 1.0), and one that waits for the results that the test sends it.\<close>

definition INSTALL_DURATION :: duration where
  "INSTALL_DURATION = duration_from_micros 98765433"

definition test_perform_install ::
  "test_world \<Rightarrow> (u32 list \<times> unit \<times> stub_install_errors app_install_result list) \<times> test_world" where
  "test_perform_install w =
     (if tw_install_fails w > 0
      then (([], (), [Failed StubFailed]), w\<lparr>tw_install_fails := tw_install_fails w - 1\<rparr>)
      else (([0x00000000, 0x3e99999a, 0x3f666666, 0x3f800000], (), [Installed]), tw_advance INSTALL_DURATION w))"

definition test_installer :: "(test_world, stub_plan, unit, stub_install_errors) installer" where
  "test_installer =
     \<lparr>perform_install = (\<lambda>plan. test_perform_install),
      perform_reboot = (\<lambda>w. (Inr (), w\<lparr>tw_reboot_called := True\<rparr>)),
      try_create_install_plan = (\<lambda>params metadata resp bytes signature w. (Inr StubPlan, w)),
      plan_id = (\<lambda>_. [])\<rparr>"

definition blocking_perform_install ::
  "test_world \<Rightarrow> (u32 list \<times> unit \<times> stub_install_errors app_install_result list) \<times> test_world" where
  "blocking_perform_install w =
     (case tw_install_results w of
        [] \<Rightarrow> (([], (), []), w\<lparr>tw_panicked := True\<rparr>)
      | r # rs \<Rightarrow> (([], (), r), w\<lparr>tw_install_results := rs\<rparr>))"

definition blocking_installer :: "(test_world, stub_plan, unit, stub_install_errors) installer" where
  "blocking_installer =
     \<lparr>perform_install = (\<lambda>plan. blocking_perform_install),
      perform_reboot = (\<lambda>w. (Inr (), w\<lparr>tw_reboot_called := True\<rparr>)),
      try_create_install_plan = (\<lambda>params metadata resp bytes signature w. (Inr StubPlan, w)),
      plan_id = (\<lambda>_. [])\<rparr>"

text \<open>The mock CUP handler, on some cryptography: it never looks at the keys or the signature.\<close>

definition test_crypto :: "(unit, string, string) crypto_ops" where
  "test_crypto =
     \<lparr>sha256 = (\<lambda>_. []), hex_encode = id, hex_decode = Some, der_from_bytes = Some, der_as_bytes = id,
      signature_of_der = Some, key_verify = (\<lambda>_ _ _. True), header_to_str = Some\<rparr>"

definition test_signing :: "(string, string, unit) server_ops" where
  "test_signing =
     \<lparr>sv_sign = (\<lambda>_ bytes. bytes), sv_to_der = id, sv_query_pairs = (\<lambda>_. None), sv_read_json = (\<lambda>_. None),
      sv_write_json = json_print, sv_header_ok = (\<lambda>_. True)\<rparr>"

definition mock_cup :: "mock_cupv2_handler \<Rightarrow> string cup_handler" where
  "mock_cup h =
     \<lparr>ch_decorate = (\<lambda>_ im. mock_decorate_request h im),
      ch_verify = (\<lambda>metadata resp _. case mock_verify_response test_crypto test_signing () h metadata resp of
         Some r \<Rightarrow> r | None \<Rightarrow> Inl SignatureError)\<rparr>"

lemma mock_cup_never_panics: "mock_verify_response test_crypto test_signing () h metadata resp \<noteq> None"
  by (simp add: mock_verify_response_def test_crypto_def)

text \<open>The configuration of the tests, and the stub of the whole machine.\<close>

definition config_generator :: "string config" where
  "config_generator =
     \<lparr>cfg_updater = \<lparr>upd_name = ''updater'', upd_version = version_from [1, 2, 3, 4]\<rparr>,
      cfg_os = \<lparr>os_platform = ''platform'', os_version = ''0.1.2.3'', os_service_pack = ''sp'', os_arch = ''test_arch''\<rparr>,
      service_url = ''http://example.com/'',
      omaha_public_keys = Some \<lparr>pk_latest = \<lparr>pk_key = ''key'', pk_id = 42\<rparr>, pk_historical = []\<rparr>\<rparr>"

definition test_app :: "string \<Rightarrow> u32 list \<Rightarrow> cohort \<Rightarrow> app" where
  "test_app i v c =
     \<lparr>app_id = i, app_version = version_from v, app_fingerprint = None, app_cohort = c,
      app_user_counting = ClientRegulatedByDate None, app_extra_fields = []\<rparr>"

definition test_app_id :: string where
  "test_app_id = ''{00000000-0000-0000-0000-000000000001}''"

definition make_test_app_set :: vec_app_set where
  "make_test_app_set =
     \<lparr>vas_apps = [test_app test_app_id [1, 2, 3, 4] (cohort_new ''stable-channel'')]\<rparr>"

definition sb_new_stub :: "(unit, stub_errors) state_machine_builder" where
  "sb_new_stub =
     sb_new stub_policy stub_http_request (stub_installer False) stub_timer (stub_storage_ops, ()) config_generator
       make_test_app_set (Some (mock_cup mock_cupv2_handler_new))"

section \<open>Building and running\<close>

type_synonym 's test_machine =
  "(test_world, 's, vec_app_set, string, string, stub_plan, stub_install_errors) machine"

definition sb_env ::
  "json list \<Rightarrow> ('s, 'e) state_machine_builder
     \<Rightarrow> (test_world, 's, 'e, vec_app_set, string, stub_plan, unit, stub_install_errors) env" where
  "sb_env docs b =
     \<lparr>policy = sb_policy_engine b, inst = sb_installer b, http_send = sb_http b, timer_wait = sb_timer b,
      now = (\<lambda>w. (sb_time_source b w, w)), now_in_walltime = (\<lambda>w. (wall (sb_time_source b w), w)),
      now_in_monotonic = (\<lambda>w. (mono (sb_time_source b w), w)), new_guid = tw_new_guid,
      new_nonce = (\<lambda>w. (replicate 32 (CHR 0x00), w)), random_u64 = (\<lambda>w. (417, w)),
      store = fst (sb_storage b), apps_api = vec_ops,
      json_to_vec = (\<lambda>j. Some (json_print j)), json_to_text = (\<lambda>j. Some (json_print j)),
      json_from_text = json_read docs, json_from_slice = json_read docs,
      head_ok = (\<lambda>_ _. True), header_text = Some, signature_bytes = id\<rparr>"

definition sb_build :: "json list \<Rightarrow> ('s, 'e) state_machine_builder \<Rightarrow> test_world \<Rightarrow> 's test_machine" where
  "sb_build docs b w =
     build_machine (sb_env docs b) (sb_config b) (sb_cup_handler b) (snd (sb_storage b)) (sb_app_set b) w"

text \<open>\<open>oneshot\<close> and \<open>run_once\<close> of the test build.\<close>

definition sb_oneshot ::
  "json list \<Rightarrow> ('s, 'e) state_machine_builder \<Rightarrow> test_world
     \<Rightarrow> (unit, stub_install_errors) check_outcome \<times> 's test_machine" where
  "sb_oneshot docs b w =
     (let m = sb_build docs b w
      in run_state (perform_update_check (sb_env docs b) request_params_default (get_apps vec_ops (sm_app_set m))) m)"

definition sb_run_once :: "json list \<Rightarrow> ('s, 'e) state_machine_builder \<Rightarrow> 's test_machine \<Rightarrow> 's test_machine" where
  "sb_run_once docs b m = oneshot_check (sb_env docs b) m"

text \<open>What the observers and mocks of a test see of the trace.\<close>

fun reported :: "('pl, 'x) effect \<Rightarrow> metrics option" where
  "reported (Reported x) = Some x"
| "reported _ = None"

fun announced :: "('pl, 'x) effect \<Rightarrow> sm_state option" where
  "announced (Yielded (StateChange s)) = Some s"
| "announced _ = None"

fun timer_set :: "('pl, 'x) effect \<Rightarrow> requested_wait option" where
  "timer_set (TimerSet r) = Some r"
| "timer_set _ = None"

definition metrics_of :: "'s test_machine \<Rightarrow> metrics list" where
  "metrics_of m = List.map_filter reported (sm_trace m)"

definition states_of :: "'s test_machine \<Rightarrow> sm_state list" where
  "states_of m = List.map_filter announced (sm_trace m)"

definition timers_of :: "'s test_machine \<Rightarrow> requested_wait list" where
  "timers_of m = List.map_filter timer_set (sm_trace m)"

text \<open>\<open>assert_request\<close>: the last request not yet asserted has the body that the builder gives.\<close>

definition assert_request :: "string request_builder \<Rightarrow> mock_http_request \<Rightarrow> mock_http_request option" where
  "assert_request b m =
     (case build (\<lambda>j. Some (json_print j)) (\<lambda>_ _. True) (None :: string cup_handler option) [] b of
        Inl _ \<Rightarrow> None
      | Inr (req, _) \<Rightarrow> mock_assert_body (hreq_body req) m)"

end
