(* ===== verification/Test_Runs.thy ===== *)
theory Test_Runs imports Stub_Machine begin

text \<open>
  How the tests of the state machine are run here: rewriting executes the actions of the machine from left to right on
  a concrete state; and the documents that the tests send, with what the machine reads from them.
\<close>

section \<open>Evaluation\<close>

text \<open>Actions are run from left to right: nothing under a binder is simplified before it is applied.\<close>

named_theorems run_simps

lemma bind_weak_cong: "f = f' \<Longrightarrow> State_Monad.bind f g = State_Monad.bind f' g"
  by simp

lemma run_prims [run_simps]:
  "run_state (State_Monad.return x) s = (x, s)"
  "run_state (State_Monad.bind f g) s = (case run_state f s of (a, s') \<Rightarrow> run_state (g a) s')"
  "run_state (gets h) s = (h s, s)"
  "run_state (apps_of env) m = (get_apps (apps_api env) (sm_app_set m), m)"
  by (simp_all add: gets_def apps_of_def split_beta)

text \<open>A machine is kept as the record of its fields.\<close>

abbreviation fields_of where
  "fields_of cfg cup ctx st a w tr \<equiv>
     \<lparr>sm_config = cfg, sm_cup_handler = cup, sm_context = ctx, sm_storage = st, sm_app_set = a, sm_world = w, sm_trace = tr\<rparr>"

lemma run_updates [run_simps]:
  "run_state (emit e) (fields_of cfg cup ctx st a w tr) = ((), fields_of cfg cup ctx st a w (tr @ [e]))"
  "run_state (outside k) (fields_of cfg cup ctx st a w tr) =
     (case k w of (r, w') \<Rightarrow> (r, fields_of cfg cup ctx st a w' tr))"
  "run_state (modify_context c) (fields_of cfg cup ctx st a w tr) = ((), fields_of cfg cup (c ctx) st a w tr)"
  "run_state (modify_storage t) (fields_of cfg cup ctx st a w tr) = ((), fields_of cfg cup ctx (t st) a w tr)"
  "run_state (modify_app_set f) (fields_of cfg cup ctx st a w tr) = ((), fields_of cfg cup ctx st (f a) w tr)"
  by (simp_all add: emit_def outside_def modify_context_def modify_storage_def modify_app_set_def modify_def split_beta)

text \<open>What was emitted or requested is not looked at again before it is asked for.\<close>

lemma machine_weak_cong:
  "cfg = cfg' \<Longrightarrow> cup = cup' \<Longrightarrow> ctx = ctx' \<Longrightarrow> st = st' \<Longrightarrow> a = a' \<Longrightarrow> w = w' \<Longrightarrow>
     fields_of cfg cup ctx st a w tr = fields_of cfg' cup' ctx' st' a' w' tr"
  by simp

lemma http_weak_cong:
  "res = res' \<Longrightarrow> \<lparr>mock_requests = req, mock_responses = res\<rparr> = \<lparr>mock_requests = req, mock_responses = res'\<rparr>"
  by simp

lemma mock_request_runs [run_simps]:
  "mock_request req \<lparr>mock_requests = rs, mock_responses = []\<rparr> =
     (Inr \<lparr>http_status = 500, http_header = Map.empty, http_body = []\<rparr>, \<lparr>mock_requests = rs @ [req], mock_responses = []\<rparr>)"
  "mock_request req \<lparr>mock_requests = rs, mock_responses = r # rest\<rparr> =
     (r, \<lparr>mock_requests = rs @ [req], mock_responses = rest\<rparr>)"
  by (simp_all add: mock_request_def)

lemmas action_runs [run_simps] = action_defs persist_context_def commit_def update_poll_interval_def draw_nonce_def
  make_request_def handle_response_def do_omaha_request_def report_omaha_event_def persist_data_def
  report_attempts_to_successful_check_def report_attempts_to_successful_install_def record_update_first_seen_time_def
  report_check_interval_def ping_failed_def ping_omaha_def omaha_attempt_def back_off_def parse_failed_def plan_failed_def
  plan_deferred_def plan_denied_def begin_install_def run_install_def report_install_duration_def report_results_def
  report_installed_def finish_install_def install_failed_def install_update_def process_plan_def process_response_def
  perform_update_check_def touch_last_update_time_def check_succeeded_def check_failed_def yield_outcome_def
  start_update_check_def request_loop.simps

lemmas pure_runs [run_simps] = status_is_success_def retry_after_def check_signature_def
  build_def build_intermediate_def http_request_from_def serialize_body_def result_bind_def ok_or_def
  result_map_err_def not_updated_def make_app_responses_def app_response_of_def next_versions_of_def
  wall_duration_since_def duration_since_def checked_duration_since_def context_updates

lemma sb_env_sels [run_simps]:
  "policy (sb_env docs b) = sb_policy_engine b" "inst (sb_env docs b) = sb_installer b"
  "http_send (sb_env docs b) = sb_http b" "timer_wait (sb_env docs b) = sb_timer b"
  "now (sb_env docs b) = (\<lambda>w. (sb_time_source b w, w))"
  "now_in_walltime (sb_env docs b) = (\<lambda>w. (wall (sb_time_source b w), w))"
  "now_in_monotonic (sb_env docs b) = (\<lambda>w. (mono (sb_time_source b w), w))"
  "new_guid (sb_env docs b) = tw_new_guid" "new_nonce (sb_env docs b) = (\<lambda>w. (replicate 32 (CHR 0x00), w))"
  "random_u64 (sb_env docs b) = (\<lambda>w. (417, w))" "store (sb_env docs b) = fst (sb_storage b)"
  "apps_api (sb_env docs b) = vec_ops" "json_to_vec (sb_env docs b) j = Some (json_print j)"
  "json_to_text (sb_env docs b) = (\<lambda>j. Some (json_print j))" "json_from_text (sb_env docs b) = json_read docs"
  "json_from_slice (sb_env docs b) = json_read docs" "head_ok (sb_env docs b) u h" "header_text (sb_env docs b) t = Some t"
  "signature_bytes (sb_env docs b) = id"
  by (simp_all add: sb_env_def)

text \<open>Builders and collaborators stay folded: only what is asked of them is computed.\<close>

lemma builder_sels [run_simps]:
  "sb_policy_engine (with_policy_engine p b) = fst p" "sb_time_source (with_policy_engine p b) = snd p"
  "sb_policy_engine (with_http h b) = sb_policy_engine b" "sb_time_source (with_http h b) = sb_time_source b"
  "sb_policy_engine (with_installer i b) = sb_policy_engine b" "sb_time_source (with_installer i b) = sb_time_source b"
  "sb_policy_engine (with_timer t b) = sb_policy_engine b" "sb_time_source (with_timer t b) = sb_time_source b"
  "sb_policy_engine (with_storage st b) = sb_policy_engine b" "sb_time_source (with_storage st b) = sb_time_source b"
  "sb_policy_engine (with_config c b) = sb_policy_engine b" "sb_time_source (with_config c b) = sb_time_source b"
  "sb_policy_engine (with_app_set a b) = sb_policy_engine b" "sb_time_source (with_app_set a b) = sb_time_source b"
  "sb_policy_engine (with_cup_handler k b) = sb_policy_engine b" "sb_time_source (with_cup_handler k b) = sb_time_source b"
  "sb_http (with_policy_engine p b) = sb_http b" "sb_http (with_http h b) = h" "sb_http (with_installer i b) = sb_http b"
  "sb_http (with_timer t b) = sb_http b" "sb_http (with_storage st b) = sb_http b" "sb_http (with_config c b) = sb_http b"
  "sb_http (with_app_set a b) = sb_http b" "sb_http (with_cup_handler k b) = sb_http b"
  "sb_installer (with_policy_engine p b) = sb_installer b" "sb_installer (with_http h b) = sb_installer b"
  "sb_installer (with_installer i b) = i" "sb_installer (with_timer t b) = sb_installer b"
  "sb_installer (with_storage st b) = sb_installer b" "sb_installer (with_config c b) = sb_installer b"
  "sb_installer (with_app_set a b) = sb_installer b" "sb_installer (with_cup_handler k b) = sb_installer b"
  "sb_timer (with_policy_engine p b) = sb_timer b" "sb_timer (with_http h b) = sb_timer b"
  "sb_timer (with_installer i b) = sb_timer b" "sb_timer (with_timer t b) = t" "sb_timer (with_storage st b) = sb_timer b"
  "sb_timer (with_config c b) = sb_timer b" "sb_timer (with_app_set a b) = sb_timer b"
  "sb_timer (with_cup_handler k b) = sb_timer b"
  "sb_storage (with_policy_engine p b) = sb_storage b" "sb_storage (with_http h b) = sb_storage b"
  "sb_storage (with_installer i b) = sb_storage b" "sb_storage (with_timer t b) = sb_storage b"
  "sb_storage (with_storage st b) = st" "sb_storage (with_config c b) = sb_storage b"
  "sb_storage (with_app_set a b) = sb_storage b" "sb_storage (with_cup_handler k b) = sb_storage b"
  "sb_config (with_policy_engine p b) = sb_config b" "sb_config (with_http h b) = sb_config b"
  "sb_config (with_installer i b) = sb_config b" "sb_config (with_timer t b) = sb_config b"
  "sb_config (with_storage st b) = sb_config b" "sb_config (with_config c b) = c"
  "sb_config (with_app_set a b) = sb_config b" "sb_config (with_cup_handler k b) = sb_config b"
  "sb_app_set (with_policy_engine p b) = sb_app_set b" "sb_app_set (with_http h b) = sb_app_set b"
  "sb_app_set (with_installer i b) = sb_app_set b" "sb_app_set (with_timer t b) = sb_app_set b"
  "sb_app_set (with_storage st b) = sb_app_set b" "sb_app_set (with_config c b) = sb_app_set b"
  "sb_app_set (with_app_set a b) = a" "sb_app_set (with_cup_handler k b) = sb_app_set b"
  "sb_cup_handler (with_policy_engine p b) = sb_cup_handler b" "sb_cup_handler (with_http h b) = sb_cup_handler b"
  "sb_cup_handler (with_installer i b) = sb_cup_handler b" "sb_cup_handler (with_timer t b) = sb_cup_handler b"
  "sb_cup_handler (with_storage st b) = sb_cup_handler b" "sb_cup_handler (with_config c b) = sb_cup_handler b"
  "sb_cup_handler (with_app_set a b) = sb_cup_handler b" "sb_cup_handler (with_cup_handler k b) = k"
  by (simp_all add: with_policy_engine_def with_http_def with_installer_def with_timer_def with_storage_def with_config_def
      with_app_set_def with_cup_handler_def sb_new_def)

lemma stub_sels [run_simps]:
  "sb_policy_engine sb_new_stub = fst stub_policy" "sb_time_source sb_new_stub = snd stub_policy"
  "sb_http sb_new_stub = stub_http_request" "sb_installer sb_new_stub = stub_installer False"
  "sb_timer sb_new_stub = stub_timer" "sb_storage sb_new_stub = (stub_storage_ops, ())"
  "sb_config sb_new_stub = config_generator" "sb_app_set sb_new_stub = make_test_app_set"
  "sb_cup_handler sb_new_stub = Some (mock_cup mock_cupv2_handler_new)"
  by (simp_all add: sb_new_stub_def sb_new_def)

lemma policy_sels [run_simps]:
  "snd stub_policy w = mts_time (tw_clock w)" "snd (mock_policy e) w = mts_time (tw_clock w)"
  "update_can_start (fst stub_policy) pl w = (UpdateOk, w)" "update_can_start (fst (mock_policy e)) pl w = (mpe_update_decision e, w)"
  "reboot_needed (fst stub_policy) pl w = (True, w)" "reboot_needed (fst (mock_policy e)) pl w = (tw_reboot_needed w, w)"
  "reboot_allowed (fst stub_policy) opts ir w = (True, w)"
  "reboot_allowed (fst (mock_policy e)) opts ir w = (tw_reboot_allowed w, w\<lparr>tw_reboot_options := tw_reboot_options w @ [opts]\<rparr>)"
  "update_check_allowed (fst stub_policy) as sch st opts w = (stub_update_check_allowed opts, w)"
  "update_check_allowed (fst (mock_policy e)) as sch st opts w = (mpe_check_decision e, w)"
  "compute_next_update_time (fst stub_policy) as sch st w = (\<lparr>ct_time = Complex (mts_time (tw_clock w)), ct_minimum_wait = None\<rparr>, w)"
  "compute_next_update_time (fst (mock_policy e)) as sch st w = mock_compute_next_update_time e w"
  "mpe_update_decision mock_policy_default = UpdateOk" "mpe_check_decision mock_policy_default = CheckOk request_params_default"
  "mpe_check_timing mock_policy_default = None"
  by (simp_all add: stub_policy_def stub_policy_engine_def mock_policy_def tw_now_def mts_now_def mock_reboot_allowed_def
      stub_compute_next_update_time_def mock_policy_default_def)

lemma stub_installer_runs [run_simps]:
  "perform_install (stub_installer f) pl w = (([], (), if f then [Failed StubFailed] else [Installed]), w)"
  "perform_reboot (stub_installer f) w = (Inr (), w)" "plan_id (stub_installer f) pl = []"
  "try_create_install_plan (stub_installer f) params metadata resp bytes signature w =
     (if resp_protocol_version resp \<noteq> ''3.0'' then Inl StubFailed else Inr StubPlan, w)"
  by (simp_all add: stub_installer_def)

lemma vec_sels [run_simps]:
  "get_apps vec_ops s = vas_apps s" "iter_mut_apps vec_ops f s = s\<lparr>vas_apps := map f (vas_apps s)\<rparr>"
  "get_system_app_id vec_ops s = app_id (vas_apps s ! 0)"
  by (simp_all add: vec_ops_def)

lemma storage_sels [run_simps]:
  "get_string stub_storage_ops u k = None" "get_int stub_storage_ops u k = None" "get_bool stub_storage_ops u k = None"
  "set_string stub_storage_ops u k x = (Inl Intentional, ())" "set_int stub_storage_ops u k i = (Inl Intentional, ())"
  "remove_value stub_storage_ops u k = (Inl Intentional, ())" "commit_values stub_storage_ops u = (Inl Intentional, ())"
  "get_string mem_ops = mem_get_string" "get_int mem_ops = mem_get_int" "set_string mem_ops = mem_set_string"
  "set_int mem_ops = mem_set_int" "remove_value mem_ops = mem_remove" "commit_values mem_ops = mem_commit"
  by (simp_all add: stub_storage_ops_def mem_ops_def)

lemma mem_runs [run_simps]:
  "mem_get_string \<lparr>mem_data = d, mem_committed = c\<rparr> k = (case d k of Some (StoredString v) \<Rightarrow> Some v | _ \<Rightarrow> None)"
  "mem_get_int \<lparr>mem_data = d, mem_committed = c\<rparr> k = (case d k of Some (StoredInt v) \<Rightarrow> Some v | _ \<Rightarrow> None)"
  "mem_set_string \<lparr>mem_data = d, mem_committed = c\<rparr> k s =
     (Inr (), \<lparr>mem_data = d(k \<mapsto> StoredString s), mem_committed = False\<rparr>)"
  "mem_set_int \<lparr>mem_data = d, mem_committed = c\<rparr> k i =
     (Inr (), \<lparr>mem_data = d(k \<mapsto> StoredInt i), mem_committed = False\<rparr>)"
  "mem_remove \<lparr>mem_data = d, mem_committed = c\<rparr> k = (Inr (), \<lparr>mem_data = d(k := None), mem_committed = False\<rparr>)"
  "mem_commit \<lparr>mem_data = d, mem_committed = c\<rparr> = (Inr (), \<lparr>mem_data = d, mem_committed = True\<rparr>)"
  by (simp_all add: mem_get_string_def mem_get_int_def mem_set_string_def mem_set_int_def mem_remove_def mem_commit_def)

lemmas builder_runs [run_simps] = sb_build_def sb_oneshot_def build_machine_def

lemmas world_runs [run_simps] = mock_http_def mock_http_new_def mock_http_empty_def test_world_new_def
  stub_http_request_def empty_http_response_def tw_now_def mts_now_def mts_new_def tw_new_guid_def mock_timer_new_def

lemma mock_cup_sels [run_simps]:
  "ch_decorate (mock_cup h) n im = mock_decorate_request h im"
  "ch_verify (mock_cup h) metadata resp k = (case verification_error h of Some e \<Rightarrow> Inl e | None \<Rightarrow> Inr [])"
  by (simp_all add: mock_cup_def mock_verify_response_def test_crypto_def make_expected_signature_for_test_def
      make_transaction_hash_def test_signing_def Let_def)

text \<open>The clock of the tests stays far from its bounds.\<close>

definition in_range :: "complex_time \<Rightarrow> duration \<Rightarrow> bool" where
  "in_range t d \<longleftrightarrow> 0 \<le> wall t \<and> wall t + int d < 9223372036854775807000000000 \<and>
     0 \<le> mono t \<and> mono t + int d < 9223372036854775807000000000"

lemma tw_advance_run [run_simps]:
  "in_range (mts_time (tw_clock w)) d \<Longrightarrow> tw_advance d w = w\<lparr>tw_clock := \<lparr>mts_time =
     \<lparr>wall = wall (mts_time (tw_clock w)) + int d, mono = mono (mts_time (tw_clock w)) + int d\<rparr>\<rparr>\<rparr>"
  by (simp add: in_range_def tw_advance_def or_panic_def mts_advance_def complex_time_add_def checked_time_add_def
      representable_def)

lemma test_installer_runs [run_simps]:
  "try_create_install_plan test_installer params metadata resp bytes signature w = (Inr StubPlan, w)"
  "plan_id test_installer pl = []" "perform_reboot test_installer w = (Inr (), w\<lparr>tw_reboot_called := True\<rparr>)"
  "tw_install_fails w = 0 \<Longrightarrow> perform_install test_installer pl w =
     (([0x00000000, 0x3e99999a, 0x3f666666, 0x3f800000], (), [Installed]), tw_advance INSTALL_DURATION w)"
  "tw_install_fails w \<noteq> 0 \<Longrightarrow> perform_install test_installer pl w =
     (([], (), [Failed StubFailed]), w\<lparr>tw_install_fails := tw_install_fails w - 1\<rparr>)"
  "INSTALL_DURATION = 98765433000"
  by (simp_all add: test_installer_def test_perform_install_def INSTALL_DURATION_def duration_from_micros_def)

declare in_range_def [run_simps]

lemma test_app_sels [run_simps]:
  "app_id (test_app i v c) = i" "app_version (test_app i v c) = version_from v" "app_cohort (test_app i v c) = c"
  "app_user_counting (test_app i v c) = ClientRegulatedByDate None" "vas_apps make_test_app_set =
     [test_app test_app_id [1, 2, 3, 4] (cohort_new ''stable-channel'')]"
  "verification_error mock_cupv2_handler_new = None" "decoration_error mock_cupv2_handler_new = None"
  "mock_decorate_request mock_cupv2_handler_new im =
     (Inr \<lparr>rm_request_body = [], rm_public_key_id = 0, rm_nonce = replicate 32 (CHR 0x00)\<rparr>, im)"
  by (simp_all add: test_app_def make_test_app_set_def mock_cupv2_handler_new_def mock_decorate_request_def)

lemma cohort_sels [run_simps]:
  "cohort_id (cohort_new i) = Some i" "cohort_hint (cohort_new i) = None" "cohort_name (cohort_new i) = None"
  by (simp_all add: cohort_new_def)

text \<open>The keys of the storage stay folded too.\<close>

lemmas storage_keys = INSTALL_PLAN_ID_def UPDATE_FIRST_SEEN_TIME_def UPDATE_FINISH_TIME_def TARGET_VERSION_def
  CONSECUTIVE_FAILED_INSTALL_ATTEMPTS_def CONSECUTIVE_FAILED_UPDATE_CHECKS_def LAST_UPDATE_TIME_def
  SERVER_DICTATED_POLL_INTERVAL_def test_app_id_def

definition key_list :: "string list" where
  "key_list = [INSTALL_PLAN_ID, UPDATE_FIRST_SEEN_TIME, UPDATE_FINISH_TIME, TARGET_VERSION,
     CONSECUTIVE_FAILED_INSTALL_ATTEMPTS, CONSECUTIVE_FAILED_UPDATE_CHECKS, LAST_UPDATE_TIME,
     SERVER_DICTATED_POLL_INTERVAL, test_app_id]"

lemma keys_distinct: "distinct key_list" "distinct (rev key_list)"
  by (simp_all add: key_list_def storage_keys)

lemmas key_neqs [run_simps] = keys_distinct [unfolded key_list_def, simplified]

lemmas data_runs [run_simps] = Let_def get_time_def context_load_def app_set_load_def app_load_def
  u64_try_from_i64_def u32_try_from_i64_def test_now_def cohort_default_def
  request_params_default_def install_source_default_def complete_with_def cohort_update_from_omaha_def
  user_counting_from_def

section \<open>Documents\<close>

definition http_ok :: "string \<Rightarrow> http_response" where
  "http_ok body = \<lparr>http_status = 200, http_header = Map.empty, http_body = body\<rparr>"

text \<open>The parts of the documents: the answer to an update check with the version of its manifest, an app with its cohort,
  the whole with its day start.\<close>

definition update_doc :: "string \<Rightarrow> string option \<Rightarrow> string option \<Rightarrow> json" where
  "update_doc st info version =
     JObj ([(''status'', JStr st)] @ opt_entry ''info'' JStr info @
       opt_entry ''manifest'' (\<lambda>v. JObj [(''version'', JStr v), (''actions'', JObj [(''action'', JArr [])]),
         (''packages'', JObj [(''package'', JArr [])])]) version)"

definition app_doc :: "string \<Rightarrow> (string \<times> string) option \<Rightarrow> json option \<Rightarrow> json" where
  "app_doc i cohort update =
     JObj ([(''appid'', JStr i), (''status'', JStr ''ok'')] @
       (case cohort of None \<Rightarrow> [] | Some (c, n) \<Rightarrow> [(''cohort'', JStr c), (''cohortname'', JStr n)]) @
       opt_entry ''updatecheck'' id update)"

definition response_doc :: "string \<Rightarrow> (nat \<times> nat) option \<Rightarrow> json list \<Rightarrow> json" where
  "response_doc protocol daystart apps =
     JObj [(''response'', JObj ([(''server'', JStr ''prod''), (''protocol'', JStr protocol)] @
       opt_entry ''daystart'' (\<lambda>(d, s). JObj [(''elapsed_days'', JInt (int d)), (''elapsed_seconds'', JInt (int s))]) daystart @
       [(''app'', JArr apps)]))]"

text \<open>What is read from them.\<close>

definition read_update :: "omaha_status \<Rightarrow> string option \<Rightarrow> string option \<Rightarrow> response_update_check" where
  "read_update st info version =
     \<lparr>ruc_status = st, ruc_info = info, ruc_urls = None,
      ruc_manifest = map_option (\<lambda>v. \<lparr>man_version = v, man_actions = [], man_packages = []\<rparr>) version,
      ruc_extra = Map.empty\<rparr>"

definition read_app :: "string \<Rightarrow> (string \<times> string) option \<Rightarrow> response_update_check option \<Rightarrow> response_app" where
  "read_app i cohort update =
     \<lparr>rapp_id = i, rapp_status = StatusOk,
      rapp_cohort = \<lparr>cohort_id = map_option fst cohort, cohort_hint = None, cohort_name = map_option snd cohort\<rparr>,
      rapp_ping = None, rapp_update_check = update, rapp_events = None, rapp_extra = Map.empty\<rparr>"

definition read_response :: "string \<Rightarrow> (nat \<times> nat) option \<Rightarrow> response_app list \<Rightarrow> response" where
  "read_response protocol daystart apps =
     \<lparr>resp_protocol_version = protocol, resp_server = Some ''prod'',
      resp_daystart = map_option (\<lambda>(d, s). \<lparr>elapsed_days = Some (of_nat d), elapsed_seconds = Some (of_nat s)\<rparr>) daystart,
      resp_apps = apps\<rparr>"

lemma de_update_doc: "de_update_check (update_doc st info version) = Some (read_update (status_of_string st) info version)"
  by (cases info; cases version)
     (simp_all add: update_doc_def read_update_def de_update_check_def de_manifest_def de_actions_def de_packages_def
       de_simps rest_fields_def de_status_def)

lemma cohort_fields_doc:
  "cohort_of_fields ([(''appid'', JStr i), (''status'', st)] @
       (case cohort of None \<Rightarrow> [] | Some (c, n) \<Rightarrow> [(''cohort'', JStr c), (''cohortname'', JStr n)]) @
       opt_entry ''updatecheck'' id update) =
     Some \<lparr>cohort_id = map_option fst cohort, cohort_hint = None, cohort_name = map_option snd cohort\<rparr>"
  by (cases cohort; cases update) (auto simp: cohort_of_fields_def de_simps)

lemma de_app_doc:
  "de_response_app (app_doc i cohort None) = Some (read_app i cohort None)"
  "de_update_check u = Some u' \<Longrightarrow> de_response_app (app_doc i cohort (Some u)) = Some (read_app i cohort (Some u'))"
proof -
  show "de_response_app (app_doc i cohort None) = Some (read_app i cohort None)"
    unfolding app_doc_def de_response_app_def map_fields_def json.case Option.bind_lunit cohort_fields_doc
    by (cases cohort) (auto simp: read_app_def de_simps de_status_def rest_fields_def)
  assume u: "de_update_check u = Some u'"
  then have "u \<noteq> JNull" by (auto simp: de_update_check_def map_fields_def)
  with u show "de_response_app (app_doc i cohort (Some u)) = Some (read_app i cohort (Some u'))"
    unfolding app_doc_def de_response_app_def map_fields_def json.case Option.bind_lunit cohort_fields_doc
    by (cases cohort) (auto simp: read_app_def de_simps de_status_def rest_fields_def)
qed

lemma de_response_doc:
  assumes "\<And>d s. daystart = Some (d, s) \<Longrightarrow> d < 2 ^ 32 \<and> s < 2 ^ 32"
  shows "de_response_wrapper (response_doc protocol daystart apps) =
    map_option (read_response protocol daystart) (sequence (map de_response_app apps))"
  using assms
  by (cases daystart; cases "sequence (map de_response_app apps)")
     (auto simp: response_doc_def read_response_def de_response_wrapper_def de_response_def de_day_start_def de_simps de_u32_def
       split: prod.splits)

lemma parse_doc [run_simps]:
  "parse_omaha_response env (json_print (response_doc protocol None apps)) =
     ok_or ResponseJson (Option.bind (json_from_slice env (json_print (response_doc protocol None apps))) de_response_wrapper)"
  "parse_omaha_response env (json_print (response_doc protocol (Some ds) apps)) =
     ok_or ResponseJson (Option.bind (json_from_slice env (json_print (response_doc protocol (Some ds) apps))) de_response_wrapper)"
  "parse_omaha_response env [] = ok_or ResponseJson (Option.bind (json_from_slice env []) de_response_wrapper)"
  "parse_omaha_response env ''invalid response'' =
     ok_or ResponseJson (Option.bind (json_from_slice env ''invalid response'') de_response_wrapper)"
  by (simp_all add: parse_omaha_response_def parse_json_response_def parse_safe_json_def starts_with_def safety_prefix_def
      response_doc_def)

lemma json_read_docs [run_simps]:
  "json_read [j] (json_print j) = Some j" "json_read [] b = None" "json_read [response_doc p ds apps] [] = None"
  by (simp_all add: json_read_def response_doc_def)

lemma de_response_docs [run_simps]:
  "de_response_wrapper (response_doc protocol None apps) =
     map_option (read_response protocol None) (sequence (map de_response_app apps))"
  "d < 2 ^ 32 \<Longrightarrow> s < 2 ^ 32 \<Longrightarrow> de_response_wrapper (response_doc protocol (Some (d, s)) apps) =
     map_option (read_response protocol (Some (d, s))) (sequence (map de_response_app apps))"
  by (rule de_response_doc; simp)+

lemmas doc_runs [run_simps] = de_app_doc(1) de_app_doc(2) [OF de_update_doc]

lemma read_sels [run_simps]:
  "resp_apps (read_response p ds apps) = apps" "resp_protocol_version (read_response p ds apps) = p"
  "resp_daystart (read_response p ds apps) =
     map_option (\<lambda>(d, s). \<lparr>elapsed_days = Some (of_nat d), elapsed_seconds = Some (of_nat s)\<rparr>) ds"
  "rapp_id (read_app i c u) = i" "rapp_update_check (read_app i c u) = u"
  "rapp_cohort (read_app i c u) = \<lparr>cohort_id = map_option fst c, cohort_hint = None, cohort_name = map_option snd c\<rparr>"
  "ruc_status (read_update st info v) = st"
  "get_manifest_version (read_app i c None) = None" "get_manifest_version (read_app i c (Some (read_update st info v))) = v"
  by (cases v; simp add: read_response_def read_app_def read_update_def get_manifest_version_def)+

lemma has_update_read [run_simps]:
  "has_update (read_app i c None) = False" "has_update (read_app i c (Some (read_update st info v))) = (st = StatusOk)"
  by (simp_all add: has_update_def read_app_def read_update_def)

lemma waits [run_simps]:
  "stub_timer r w = w" "is_user Transport = False" "randomize 417 1000 1000 = 917" "randomize 417 2000 1000 = 1917"
  by (simp_all add: stub_timer_def stub_timer_wait_def is_user_def randomize_def)

lemma micros_run [run_simps]:
  assumes "0 \<le> t" "t div 1000 < 9223372036854775808"
  shows "checked_system_time_to_micros_from_epoch t = Some (of_int (t div 1000))"
proof -
  have "sint (of_int (t div 1000) :: i64) = t div 1000"
    using assms by (simp add: signed_of_int signed_take_bit_int_eq_self)
  with assms show ?thesis by (simp add: to_micros_Some_iff sgn_if)
qed

declare micros_from_epoch_eq [run_simps]

lemma persisted_times_run [run_simps]:
  "checked_to_micros_since_epoch (Wall t) = checked_system_time_to_micros_from_epoch t"
  "checked_to_micros_since_epoch (Complex c) = checked_system_time_to_micros_from_epoch (wall c)"
  by (simp_all add: checked_to_micros_since_epoch_def checked_to_system_time_def)

lemma parse_retry_after [run_simps]: "parse_u64 ''1234'' = Inr 1234" "parse_u64 ''123456789'' = Inr 123456789"
  by (simp_all add: parse_uint_def digit_val_def)

lemmas number_runs [run_simps] = mts_now_in_walltime_def i64_try_from_nat_def duration_as_micros_def duration_from_secs_def duration_from_micros_def

lemma truncate_test_now [run_simps]:
  "mts_truncate \<lparr>mts_time = \<lparr>wall = 1600000000123456789, mono = 5000000321\<rparr>\<rparr> =
     Some \<lparr>mts_time = \<lparr>wall = 1600000000123456000, mono = 5000000321\<rparr>\<rparr>"
  by (simp add: mts_truncate_def truncate_submicrosecond_walltime_def checked_time_sub_def representable_def
      wall_duration_since_def duration_since_def)

lemma two [run_simps]: "Suc (Suc 0) = 2"
  by simp

lemmas report_runs [run_simps] = map_filter_simps sb_run_once_def oneshot_check_def metrics_of_def states_of_def timers_of_def add_app_event_def collect_map_def event_of_error_def event_of_success_def event_default_def
  download_time_def duration_as_millis_def first_seen_def set_time_def set_option_int_def remove_or_log_def commit_or_log_def
  store_finished_def unwrap_target_version_def mem_is_committed_def mem_new_def update_from_omaha_def context_persist_def
  app_set_persist_def app_persist_def install_success_def is_ok_def

lemmas run_congs = bind_weak_cong machine_weak_cong http_weak_cong

declare json_print.simps [simp del]

text \<open>The versions of the tests as they are printed.\<close>

lemma version_texts [run_simps]:
  "version_to_string (version_from [1, 2, 3, 4]) = ''1.2.3.4''" "version_to_string (version_from [1, 2, 3, 3]) = ''1.2.3.3''"
  "version_to_string (version_from [5, 6, 7, 7]) = ''5.6.7.7''"
  by code_simp+

section \<open>Scenarios\<close>

text \<open>The builder with a mock HTTP client that answers in this order, and the outcome of one check in a fresh world.\<close>

definition responses :: "(http_error + http_response) list \<Rightarrow> test_world" where
  "responses rs = test_world_new \<lparr>mock_requests = [], mock_responses = rs\<rparr>"

definition the_app :: "'s test_machine \<Rightarrow> app" where
  "the_app m = hd (vas_apps (sm_app_set m))"

definition event_request :: "nat \<Rightarrow> nat \<Rightarrow> (app \<times> event) list \<Rightarrow> string request_builder" where
  "event_request session request events =
     with_request_id (guid_from_u128 request) (with_session_id (guid_from_u128 session)
       (fold (\<lambda>(a, e). add_event a e) events (request_builder_new config_generator request_params_default)))"

definition requested :: "string request_builder \<Rightarrow> 's test_machine \<Rightarrow> bool" where
  "requested b m \<longleftrightarrow> assert_request b (tw_http (sm_world m)) \<noteq> None"

lemmas scenario_runs [run_simps] = responses_def the_app_def event_request_def requested_def assert_request_def
  mock_assert_body_def mock_take_request_def assert_that_def

definition update_available :: json where
  "update_available = response_doc ''3.0'' None [app_doc test_app_id None (Some (update_doc ''ok'' None None))]"

definition no_update :: json where
  "no_update = response_doc ''3.0'' None [app_doc test_app_id None (Some (update_doc ''noupdate'' None None))]"

lemmas document_runs [run_simps] = update_available_def no_update_def http_ok_def

text \<open>One check from the stub machine with some changes, as the stream of \<open>oneshot_check\<close> gives it.\<close>

definition sb_check ::
  "json list \<Rightarrow> ('s, 'e) state_machine_builder \<Rightarrow> test_world \<Rightarrow> 's test_machine" where
  "sb_check docs b w = sb_run_once docs b (sb_build docs b w)"

declare sb_check_def [run_simps]

section \<open>Patterns\<close>

text \<open>What a pattern of the tests leaves open is set to a fixed value: response times and the details of events; and with
  \<open>any_time\<close> every duration.\<close>

fun any_response_time :: "metrics \<Rightarrow> metrics" where
  "any_response_time (UpdateCheckResponseTime _ ok) = UpdateCheckResponseTime 0 ok"
| "any_response_time x = x"

fun any_details :: "metrics \<Rightarrow> metrics" where
  "any_details (OmahaEventLost e) =
     OmahaEventLost (event_default\<lparr>event_type := event_type e, event_result := event_result e\<rparr>)"
| "any_details x = x"

fun any_time :: "metrics \<Rightarrow> metrics" where
  "any_time (UpdateCheckInterval _ c s) = UpdateCheckInterval 0 c s"
| "any_time (SuccessfulUpdateDuration _) = SuccessfulUpdateDuration 0"
| "any_time (SuccessfulUpdateFromFirstSeen _) = SuccessfulUpdateFromFirstSeen 0"
| "any_time (FailedUpdateDuration _) = FailedUpdateDuration 0"
| "any_time x = x"

definition succeeded :: "event_type \<Rightarrow> event" where
  "succeeded t = event_default\<lparr>event_type := t, event_result := EventSuccess\<rparr>"

lemmas pattern_runs [run_simps] = succeeded_def MAX_OMAHA_REQUEST_ATTEMPTS_def

definition after :: "duration \<Rightarrow> 's test_machine \<Rightarrow> 's test_machine" where
  "after d m = m\<lparr>sm_world := tw_advance d (sm_world m)\<rparr>"

declare after_def [run_simps]

end
