(* ===== verification/Check_Tests.thy ===== *)
theory Check_Tests imports Test_Runs begin

text \<open>
  The tests of \<open>state_machine.rs\<close> on single update checks: results, reports to Omaha, the policy's decisions.
\<close>

definition run_simple_check_with_noupdate_result :: bool where
  "run_simple_check_with_noupdate_result \<longleftrightarrow>
     (case sb_oneshot [no_update] (with_http mock_http sb_new_stub) (responses [Inr (http_ok (json_print no_update))]) of
        (Some (Inr _), m) \<Rightarrow> True | _ \<Rightarrow> False)"

lemma run_simple_check_with_noupdate_result_holds: run_simple_check_with_noupdate_result
  by (simp add: run_simple_check_with_noupdate_result_def run_simps cong: run_congs)

definition cohort_doc :: "string \<Rightarrow> json" where
  "cohort_doc st = response_doc ''3.0'' None [app_doc test_app_id (Some (''1'', ''stable-channel'')) (Some (update_doc st None None))]"

definition test_cohort_returned_with_noupdate_result :: bool where
  "test_cohort_returned_with_noupdate_result \<longleftrightarrow>
     (let doc = cohort_doc ''noupdate'' in
      case sb_oneshot [doc] (with_http mock_http sb_new_stub) (responses [Inr (http_ok (json_print doc))]) of
        (Some (Inr (r # _, NotNeeded)), m) \<Rightarrow>
          ar_app_id r = test_app_id \<and> cohort_id (ar_cohort r) = Some ''1'' \<and>
          cohort_name (ar_cohort r) = Some ''stable-channel'' \<and> cohort_hint (ar_cohort r) = None
      | _ \<Rightarrow> False)"

lemma test_cohort_returned_with_noupdate_result_holds: test_cohort_returned_with_noupdate_result
  by (simp add: test_cohort_returned_with_noupdate_result_def cohort_doc_def run_simps cong: run_congs)

definition test_cohort_returned_with_update_result :: bool where
  "test_cohort_returned_with_update_result \<longleftrightarrow>
     (let doc = cohort_doc ''ok'' in
      case sb_oneshot [doc] (with_http mock_http sb_new_stub) (responses [Inr (http_ok (json_print doc))]) of
        (Some (Inr (r # _, reboot)), m) \<Rightarrow>
          reboot = Needed () \<and> ar_app_id r = test_app_id \<and> cohort_id (ar_cohort r) = Some ''1'' \<and>
          cohort_name (ar_cohort r) = Some ''stable-channel'' \<and> cohort_hint (ar_cohort r) = None
      | _ \<Rightarrow> False)"

lemma test_cohort_returned_with_update_result_holds: test_cohort_returned_with_update_result
  by (simp add: test_cohort_returned_with_update_result_def cohort_doc_def run_simps cong: run_congs)

definition test_report_parse_response_error :: bool where
  "test_report_parse_response_error \<longleftrightarrow>
     (case sb_oneshot [] (with_http mock_http sb_new_stub) (responses [Inr (http_ok ''invalid response'')]) of
        (Some (Inl (ResponseParser _)), m) \<Rightarrow>
          requested (event_request 0 2
            [(the_app m, (event_of_error ParseResponse)\<lparr>previous_version := Some ''1.2.3.4''\<rparr>)]) m
      | _ \<Rightarrow> False)"

lemma test_report_parse_response_error_holds: test_report_parse_response_error
  by (simp add: test_report_parse_response_error_def run_simps cong: run_congs)

definition test_report_construct_install_plan_error :: bool where
  "test_report_construct_install_plan_error \<longleftrightarrow>
     (let doc = response_doc ''4.0'' None [app_doc test_app_id None (Some (update_doc ''ok'' None None))] in
      case sb_oneshot [doc] (with_http mock_http sb_new_stub) (responses [Inr (http_ok (json_print doc))]) of
        (Some (Inl (InstallPlan _)), m) \<Rightarrow>
          requested (event_request 0 2
            [(the_app m, (event_of_error ConstructInstallPlan)\<lparr>previous_version := Some ''1.2.3.4''\<rparr>)]) m
      | _ \<Rightarrow> False)"

lemma test_report_construct_install_plan_error_holds: test_report_construct_install_plan_error
  by (simp add: test_report_construct_install_plan_error_def run_simps cong: run_congs)

definition test_report_installation_error :: bool where
  "test_report_installation_error \<longleftrightarrow>
     (let doc = response_doc ''3.0'' None [app_doc test_app_id None (Some (update_doc ''ok'' None (Some ''5.6.7.8'')))] in
      case sb_oneshot [doc] (with_installer (stub_installer True) (with_http mock_http sb_new_stub))
          (responses [Inr (http_ok (json_print doc))]) of
        (Some (Inr (r # _, NotNeeded)), m) \<Rightarrow>
          ar_result r = InstallPlanExecutionError \<and>
          requested (event_request 0 3
            [(the_app m, (event_of_error Installation)\<lparr>previous_version := Some ''1.2.3.4'', next_version := Some ''5.6.7.8'',
               download_time_ms := Some 0\<rparr>)]) m
      | _ \<Rightarrow> False)"

lemma test_report_installation_error_holds: test_report_installation_error
  by (simp add: test_report_installation_error_def run_simps cong: run_congs)

text \<open>The order of the apps in the response is not that of the app set.\<close>

definition multi_app_doc :: json where
  "multi_app_doc = response_doc ''3.0'' None
     [app_doc ''appid_3'' None (Some (update_doc ''ok'' None (Some ''5.6.7.8''))),
      app_doc ''appid_1'' None (Some (update_doc ''ok'' None (Some ''1.2.3.4''))),
      app_doc ''appid_2'' None (Some (update_doc ''noupdate'' None None))]"

definition multi_app_set :: vec_app_set where
  "multi_app_set = \<lparr>vas_apps = [test_app ''appid_1'' [1, 2, 3, 3] cohort_default,
     test_app ''appid_2'' [9, 9, 9, 9] cohort_default, test_app ''appid_3'' [5, 6, 7, 7] cohort_default]\<rparr>"

definition test_report_installation_error_multi_app :: bool where
  "test_report_installation_error_multi_app \<longleftrightarrow>
     (case sb_oneshot [multi_app_doc]
          (with_app_set multi_app_set (with_installer blocking_installer (with_http mock_http sb_new_stub)))
          ((responses [Inr (http_ok (json_print multi_app_doc)), Inr (http_ok [])])\<lparr>tw_install_results := [[Deferred, Installed]]\<rparr>) of
        (Some (Inr ([r1, r2, r3], reboot)), m) \<Rightarrow>
          reboot = Needed () \<and> ar_app_id r1 = ''appid_3'' \<and> ar_result r1 = DeferredByPolicy \<and>
          ar_app_id r2 = ''appid_1'' \<and> ar_result r2 = Updated \<and>
          ar_app_id r3 = ''appid_2'' \<and> ar_result r3 = NoUpdate \<and>
          (case get_apps vec_ops (sm_app_set m) of
             [a1, a2, a3] \<Rightarrow>
               (case assert_request (event_request 0 4
                   [(a1, (event_of_success UpdateComplete)\<lparr>previous_version := Some ''1.2.3.3'', next_version := Some ''1.2.3.4'',
                      download_time_ms := Some 0\<rparr>)]) (tw_http (sm_world m)) of
                  None \<Rightarrow> False
                | Some http \<Rightarrow> assert_request (event_request 0 3
                   [(a3, event_default\<lparr>event_type := UpdateComplete, event_result := UpdateDeferred,
                      previous_version := Some ''5.6.7.7'', next_version := Some ''5.6.7.8'', download_time_ms := Some 0\<rparr>),
                    (a1, (event_of_success UpdateDownloadFinished)\<lparr>previous_version := Some ''1.2.3.3'',
                      next_version := Some ''1.2.3.4'', download_time_ms := Some 0\<rparr>)]) http \<noteq> None)
           | _ \<Rightarrow> False)
      | _ \<Rightarrow> False)"

lemma test_report_installation_error_multi_app_holds: test_report_installation_error_multi_app
  by (simp add: test_report_installation_error_multi_app_def multi_app_doc_def multi_app_set_def blocking_installer_def
      blocking_perform_install_def run_simps cong: run_congs)

fun installer_error :: "('pl, 'x) effect \<Rightarrow> 'x option" where
  "installer_error (Yielded (InstallerError e)) = e"
| "installer_error _ = None"

definition test_observe_installation_error :: bool where
  "test_observe_installation_error \<longleftrightarrow>
     (let b = with_installer (stub_installer True) (with_http mock_http sb_new_stub);
          m = sb_run_once [update_available] b
            (sb_build [update_available] b (responses [Inr (http_ok (json_print update_available))]))
      in List.map_filter installer_error (sm_trace m) = [StubFailed])"

lemma test_observe_installation_error_holds: test_observe_installation_error
  by (simp add: test_observe_installation_error_def run_simps cong: run_congs)

definition test_report_deferred_by_policy :: bool where
  "test_report_deferred_by_policy \<longleftrightarrow>
     (case sb_oneshot [update_available]
          (with_policy_engine (mock_policy (mock_policy_default\<lparr>mpe_update_decision := UpdateDeferredByPolicy\<rparr>))
            (with_http mock_http sb_new_stub)) (responses [Inr (http_ok (json_print update_available))]) of
        (Some (Inr (r # _, NotNeeded)), m) \<Rightarrow>
          ar_result r = DeferredByPolicy \<and>
          requested (event_request 0 2
            [(the_app m, event_default\<lparr>event_type := UpdateComplete, event_result := UpdateDeferred,
               previous_version := Some ''1.2.3.4''\<rparr>)]) m
      | _ \<Rightarrow> False)"

lemma test_report_deferred_by_policy_holds: test_report_deferred_by_policy
  by (simp add: test_report_deferred_by_policy_def run_simps cong: run_congs)

definition test_report_denied_by_policy :: bool where
  "test_report_denied_by_policy \<longleftrightarrow>
     (case sb_oneshot [update_available]
          (with_policy_engine (mock_policy (mock_policy_default\<lparr>mpe_update_decision := UpdateDeniedByPolicy\<rparr>))
            (with_http mock_http sb_new_stub)) (responses [Inr (http_ok (json_print update_available))]) of
        (Some (Inr (r # _, NotNeeded)), m) \<Rightarrow>
          ar_result r = DeniedByPolicy \<and>
          requested (event_request 0 2
            [(the_app m, (event_of_error ErrDeniedByPolicy)\<lparr>previous_version := Some ''1.2.3.4''\<rparr>)]) m
      | _ \<Rightarrow> False)"

lemma test_report_denied_by_policy_holds: test_report_denied_by_policy
  by (simp add: test_report_denied_by_policy_def run_simps cong: run_congs)

section \<open>Cohorts and user counting\<close>

definition counting_doc :: json where
  "counting_doc = response_doc ''3.0'' (Some (1234567, 3645))
     [app_doc test_app_id (Some (''1'', ''stable-channel'')) (Some (update_doc ''noupdate'' None None))]"

definition test_cohort_and_user_counting_updates_are_used_in_subsequent_requests :: bool where
  "test_cohort_and_user_counting_updates_are_used_in_subsequent_requests \<longleftrightarrow>
     (let b = with_app_set make_test_app_set (with_http mock_http sb_new_stub); r = Inr (http_ok (json_print counting_doc))
      in case fst (run_state (do {
             start_update_check (sb_env [counting_doc] b) request_params_default;
             app \<leftarrow> gets the_app;
             start_update_check (sb_env [counting_doc] b) request_params_default;
             m \<leftarrow> State_Monad.get;
             State_Monad.return (app, m) })
           (sb_build [counting_doc] b (responses [r, r]))) of
           (app, m) \<Rightarrow>
             cohort_id (app_cohort app) = Some ''1'' \<and> cohort_hint (app_cohort app) = None \<and>
             cohort_name (app_cohort app) = Some ''stable-channel'' \<and>
             app_user_counting app = ClientRegulatedByDate (Some 1234567) \<and>
             requested (with_request_id (guid_from_u128 3) (with_session_id (guid_from_u128 2)
               (add_ping app (add_update_check app (request_builder_new (sm_config m) request_params_default))))) m)"

lemma test_cohort_and_user_counting_updates_are_used_in_subsequent_requests_holds: test_cohort_and_user_counting_updates_are_used_in_subsequent_requests
  by (simp add: test_cohort_and_user_counting_updates_are_used_in_subsequent_requests_def counting_doc_def check_builder_def State_Monad.get_def
      run_simps
      cong: run_congs)

definition test_user_counting_returned :: bool where
  "test_user_counting_returned \<longleftrightarrow>
     (case sb_oneshot [counting_doc] (with_http mock_http sb_new_stub) (responses [Inr (http_ok (json_print counting_doc))]) of
        (Some (Inr (r # _, NotNeeded)), m) \<Rightarrow> ar_user_counting r = ClientRegulatedByDate (Some 1234567)
      | _ \<Rightarrow> False)"

lemma test_user_counting_returned_holds: test_user_counting_returned
  by (simp add: test_user_counting_returned_def counting_doc_def run_simps cong: run_congs)

section \<open>CUP\<close>

definition cup_oneshot :: "mock_cupv2_handler \<Rightarrow> (unit, stub_install_errors) check_outcome" where
  "cup_oneshot h = fst (sb_oneshot [no_update] (with_cup_handler (Some (mock_cup h)) (with_http mock_http sb_new_stub))
     (responses [Inr (http_ok (json_print no_update))]))"

lemma mock_cup_errors [run_simps]:
  "mock_decorate_request (set_decoration_error (Some e) h) r = (Inl e, r)"
  "verification_error (set_verification_error v h) = v" "decoration_error (set_verification_error v h) = decoration_error h"
  "decoration_error h = None \<Longrightarrow> mock_decorate_request (set_verification_error v h) r = mock_decorate_request h r"
  by (simp_all add: mock_decorate_request_def set_decoration_error_def set_verification_error_def)

definition run_cup_but_decoration_error :: bool where
  "run_cup_but_decoration_error \<longleftrightarrow>
     cup_oneshot (set_decoration_error (Some cup_decoration_error.ParseError) mock_cupv2_handler_new) =
       Some (Inl (OmahaRequest (CupDecoration cup_decoration_error.ParseError)))"

lemma run_cup_but_decoration_error_holds: run_cup_but_decoration_error
  by (simp add: run_cup_but_decoration_error_def cup_oneshot_def run_simps cong: run_congs)

definition run_cup_but_verification_error :: bool where
  "run_cup_but_verification_error \<longleftrightarrow>
     cup_oneshot (set_verification_error (Some EtagHeaderMissing) mock_cupv2_handler_new) =
       Some (Inl (OmahaRequest (CupValidation EtagHeaderMissing)))"

lemma run_cup_but_verification_error_holds: run_cup_but_verification_error
  by (simp add: run_cup_but_verification_error_def cup_oneshot_def run_simps cong: run_congs)

definition run_cup_valid :: bool where
  "run_cup_valid \<longleftrightarrow> (case cup_oneshot mock_cupv2_handler_new of Some (Inr _) \<Rightarrow> True | _ \<Rightarrow> False)"

lemma run_cup_valid_holds: run_cup_valid
  by (simp add: run_cup_valid_def cup_oneshot_def run_simps cong: run_congs)

lemmas check_tests = run_simple_check_with_noupdate_result_holds test_cohort_returned_with_noupdate_result_holds
  test_cohort_returned_with_update_result_holds test_report_parse_response_error_holds
  test_report_construct_install_plan_error_holds test_report_installation_error_holds
  test_report_installation_error_multi_app_holds test_observe_installation_error_holds
  test_report_deferred_by_policy_holds test_report_denied_by_policy_holds
  test_cohort_and_user_counting_updates_are_used_in_subsequent_requests_holds test_user_counting_returned_holds
  run_cup_but_decoration_error_holds run_cup_but_verification_error_holds run_cup_valid_holds

end
