(* ===== verification/Observer_Tests.thy ===== *)
theory Observer_Tests imports Test_Runs begin

text \<open>
  The tests of \<open>state_machine.rs\<close> on what a check yields to its observers and reports as metrics.
\<close>

section \<open>Events\<close>

definition test_observe_state :: bool where
  "test_observe_state \<longleftrightarrow>
     states_of (sb_check [] sb_new_stub (responses [])) = [CheckingForUpdates ScheduledTask, ErrorCheckingForUpdate]"

lemma test_observe_state_holds: test_observe_state
  by (simp add: test_observe_state_def run_simps cong: run_congs)

fun schedule_change :: "('pl, 'x) effect \<Rightarrow> update_check_schedule option" where
  "schedule_change (Yielded (ScheduleChange s)) = Some s"
| "schedule_change _ = None"

definition test_observe_schedule :: bool where
  "test_observe_schedule \<longleftrightarrow>
     (let m = sb_check [] (with_policy_engine stub_policy sb_new_stub) (responses []);
          now = tw_now (sm_world m)
      in List.map_filter schedule_change (sm_trace m) =
           [\<lparr>last_update_time = Some (Complex now), last_update_check_time = Some (Complex now), next_update_time = None\<rparr>])"

lemma test_observe_schedule_holds: test_observe_schedule
  by (simp add: test_observe_schedule_def run_simps cong: run_congs)

fun protocol_state_change :: "('pl, 'x) effect \<Rightarrow> protocol_state option" where
  "protocol_state_change (Yielded (ProtocolStateChange s)) = Some s"
| "protocol_state_change _ = None"

definition test_observe_protocol_state :: bool where
  "test_observe_protocol_state \<longleftrightarrow>
     List.map_filter protocol_state_change (sm_trace (sb_check [] sb_new_stub (responses []))) =
       [protocol_state_default\<lparr>consecutive_failed_update_checks := 1\<rparr>]"

lemma test_observe_protocol_state_holds: test_observe_protocol_state
  by (simp add: test_observe_protocol_state_def protocol_state_default_def run_simps cong: run_congs)

fun server_response :: "('pl, 'x) effect \<Rightarrow> response option" where
  "server_response (Yielded (OmahaServerResponse r)) = Some r"
| "server_response _ = None"

definition test_observe_omaha_server_response :: bool where
  "test_observe_omaha_server_response \<longleftrightarrow>
     (let doc = response_doc ''3.0'' None
            [app_doc test_app_id (Some (''1'', ''stable-channel'')) (Some (update_doc ''noupdate'' None None))];
          m = sb_check [doc] (with_http mock_http sb_new_stub) (responses [Inr (http_ok (json_print doc))])
      in map Some (List.map_filter server_response (sm_trace m)) =
           [parse_json_response (json_read [doc]) (json_print doc)])"

lemma test_observe_omaha_server_response_holds: test_observe_omaha_server_response
proof -
  have "parse_json_response fs (json_print (response_doc p None apps)) =
      Option.bind (fs (json_print (response_doc p None apps))) de_response_wrapper" for fs p apps
    by (simp add: parse_json_response_def parse_safe_json_def starts_with_def safety_prefix_def response_doc_def json_print.simps)
  then show ?thesis by (simp add: test_observe_omaha_server_response_def run_simps cong: run_congs)
qed

fun install_progress :: "('pl, 'x) effect \<Rightarrow> u32 option" where
  "install_progress (Yielded (InstallProgressChange p)) = Some p"
| "install_progress _ = None"

definition test_progress_observer :: bool where
  "test_progress_observer \<longleftrightarrow>
     List.map_filter install_progress (sm_trace (sb_check [update_available]
       (with_policy_engine stub_policy (with_installer test_installer (with_http mock_http sb_new_stub)))
       (responses [Inr (http_ok (json_print update_available))]))) =
     [0x00000000, 0x3e99999a, 0x3f666666, 0x3f800000]"

lemma test_progress_observer_holds: test_progress_observer
  by (simp add: test_progress_observer_def run_simps cong: run_congs)

lemmas observer_tests = test_observe_state_holds test_observe_schedule_holds test_observe_protocol_state_holds
  test_observe_omaha_server_response_holds test_progress_observer_holds

end
