(* ===== verification/Metrics_Tests.thy ===== *)
theory Metrics_Tests imports Test_Runs begin

text \<open>
  The tests of \<open>state_machine.rs\<close> on the metrics of a check, its retries and their waits.
\<close>

text \<open>Transport errors, and then a default response.\<close>

definition transport_errors :: "nat \<Rightarrow> test_world" where
  "transport_errors n = responses (replicate n (Inl Transport) @ [Inr empty_http_response])"

lemma transport_errors_simps [run_simps]:
  "transport_errors 2 = responses [Inl Transport, Inl Transport, Inr empty_http_response]"
  "transport_errors 3 = responses [Inl Transport, Inl Transport, Inl Transport, Inr empty_http_response]"
  by (simp_all add: transport_errors_def numeral_2_eq_2 numeral_3_eq_3)

section \<open>Lost events, response times and requests per check\<close>

definition test_metrics_report_omaha_event_lost :: bool where
  "test_metrics_report_omaha_event_lost \<longleftrightarrow>
     (let m = snd (sb_oneshot [] (with_http mock_http sb_new_stub) (responses [Inr (http_ok ''invalid response'')]))
      in map any_response_time (metrics_of m) =
           [UpdateCheckResponseTime 0 True, RequestsPerCheck 1 True,
            OmahaEventLost \<lparr>event_type = UpdateComplete, event_result = EventError, errorcode = Some ParseResponse,
              previous_version = None, next_version = None, download_time_ms = None\<rparr>])"

lemma test_metrics_report_omaha_event_lost_holds: test_metrics_report_omaha_event_lost
  by (simp add: test_metrics_report_omaha_event_lost_def run_simps cong: run_congs)

definition test_metrics_report_update_check_response_time :: bool where
  "test_metrics_report_update_check_response_time \<longleftrightarrow>
     (let m = snd (sb_oneshot [] sb_new_stub (responses []))
      in map any_response_time (metrics_of m) = [UpdateCheckResponseTime 0 True, RequestsPerCheck 1 True])"

lemma test_metrics_report_update_check_response_time_holds: test_metrics_report_update_check_response_time
  by (simp add: test_metrics_report_update_check_response_time_def run_simps cong: run_congs)

definition test_metrics_report_update_check_response_time_on_failure :: bool where
  "test_metrics_report_update_check_response_time_on_failure \<longleftrightarrow>
     (let m = snd (sb_oneshot [] (with_http mock_http sb_new_stub) (transport_errors MAX_OMAHA_REQUEST_ATTEMPTS))
      in map any_response_time (metrics_of m) =
           [UpdateCheckResponseTime 0 False, UpdateCheckResponseTime 0 False, UpdateCheckResponseTime 0 False,
            RequestsPerCheck 3 False])"

lemma test_metrics_report_update_check_response_time_on_failure_holds: test_metrics_report_update_check_response_time_on_failure
  by (simp add: test_metrics_report_update_check_response_time_on_failure_def run_simps cong: run_congs)

definition test_metrics_report_update_check_response_time_on_failure_followed_by_success :: bool where
  "test_metrics_report_update_check_response_time_on_failure_followed_by_success \<longleftrightarrow>
     (let m = snd (sb_oneshot [] (with_http mock_http sb_new_stub) (transport_errors (MAX_OMAHA_REQUEST_ATTEMPTS - 1)))
      in map any_response_time (metrics_of m) =
           [UpdateCheckResponseTime 0 False, UpdateCheckResponseTime 0 False, UpdateCheckResponseTime 0 True,
            RequestsPerCheck 3 True,
            OmahaEventLost \<lparr>event_type = UpdateComplete, event_result = EventError, errorcode = Some ParseResponse,
              previous_version = None, next_version = None, download_time_ms = None\<rparr>])"

lemma test_metrics_report_update_check_response_time_on_failure_followed_by_success_holds: test_metrics_report_update_check_response_time_on_failure_followed_by_success
  by (simp add: test_metrics_report_update_check_response_time_on_failure_followed_by_success_def run_simps cong: run_congs)

definition test_metrics_report_requests_per_check :: bool where
  "test_metrics_report_requests_per_check \<longleftrightarrow>
     RequestsPerCheck 1 True \<in> set (metrics_of (snd (sb_oneshot [] sb_new_stub (responses []))))"

lemma test_metrics_report_requests_per_check_holds: test_metrics_report_requests_per_check
  by (simp add: test_metrics_report_requests_per_check_def run_simps cong: run_congs)

definition test_metrics_report_requests_per_check_on_failure_followed_by_success :: bool where
  "test_metrics_report_requests_per_check_on_failure_followed_by_success \<longleftrightarrow>
     RequestsPerCheck MAX_OMAHA_REQUEST_ATTEMPTS True \<in> set (metrics_of (snd
       (sb_oneshot [] (with_http mock_http sb_new_stub) (transport_errors (MAX_OMAHA_REQUEST_ATTEMPTS - 1)))))"

lemma test_metrics_report_requests_per_check_on_failure_followed_by_success_holds: test_metrics_report_requests_per_check_on_failure_followed_by_success
  by (simp add: test_metrics_report_requests_per_check_on_failure_followed_by_success_def run_simps cong: run_congs)

definition test_metrics_report_requests_per_check_on_failure :: bool where
  "test_metrics_report_requests_per_check_on_failure \<longleftrightarrow>
     RequestsPerCheck MAX_OMAHA_REQUEST_ATTEMPTS False \<in> set (metrics_of (snd
       (sb_oneshot [] (with_http mock_http sb_new_stub) (transport_errors MAX_OMAHA_REQUEST_ATTEMPTS))))"

lemma test_metrics_report_requests_per_check_on_failure_holds: test_metrics_report_requests_per_check_on_failure
  by (simp add: test_metrics_report_requests_per_check_on_failure_def run_simps cong: run_congs)

section \<open>Waits and failure reasons\<close>

definition test_requests_per_check_backoff_with_mock_timer :: bool where
  "test_requests_per_check_backoff_with_mock_timer \<longleftrightarrow>
     (let timer = expect_for_range (expect_for_range mock_timer_new (duration_from_millis 500) (duration_from_millis 1500))
            (duration_from_millis 1500) (duration_from_millis 2500)
      in case sb_oneshot [] (with_timer mock_timer_waits (with_http mock_http sb_new_stub)) ((responses [])\<lparr>tw_timer := timer\<rparr>) of
           (Some (Inl (OmahaRequest (HttpStatus _))), m) \<Rightarrow>
             (case requested_waits (tw_timer (sm_world m)) of
                [WaitFor d1, WaitFor d2] \<Rightarrow>
                  duration_from_millis 500 \<le> d1 \<and> d1 \<le> duration_from_millis 1500 \<and>
                  duration_from_millis 1500 \<le> d2 \<and> d2 \<le> duration_from_millis 2500
              | _ \<Rightarrow> False) \<and>
             mock_timer_drop_ok (tw_timer (sm_world m)) \<and> \<not> tw_panicked (sm_world m)
         | _ \<Rightarrow> False)"

lemma test_requests_per_check_backoff_with_mock_timer_holds: test_requests_per_check_backoff_with_mock_timer
  by (simp add: test_requests_per_check_backoff_with_mock_timer_def mock_timer_waits_def handle_wait_def or_panic_def
      expect_for_range_def mock_timer_drop_ok_def duration_from_millis_def run_simps cong: run_congs)

definition test_metrics_report_update_check_failure_reason_omaha :: bool where
  "test_metrics_report_update_check_failure_reason_omaha \<longleftrightarrow>
     UpdateCheckFailureReason ReasonOmaha \<in> set (metrics_of (sb_check [] sb_new_stub (responses [])))"

lemma test_metrics_report_update_check_failure_reason_omaha_holds: test_metrics_report_update_check_failure_reason_omaha
  by (simp add: test_metrics_report_update_check_failure_reason_omaha_def run_simps cong: run_congs)

definition test_metrics_report_update_check_failure_reason_network :: bool where
  "test_metrics_report_update_check_failure_reason_network \<longleftrightarrow>
     UpdateCheckFailureReason ReasonNetwork \<in> set (metrics_of (sb_check [] (with_http mock_http sb_new_stub) (responses [])))"

lemma test_metrics_report_update_check_failure_reason_network_holds: test_metrics_report_update_check_failure_reason_network
  by (simp add: test_metrics_report_update_check_failure_reason_network_def run_simps cong: run_congs)

lemmas metrics_tests = test_metrics_report_omaha_event_lost_holds
  test_metrics_report_update_check_response_time_holds
  test_metrics_report_update_check_response_time_on_failure_holds
  test_metrics_report_update_check_response_time_on_failure_followed_by_success_holds
  test_metrics_report_requests_per_check_holds
  test_metrics_report_requests_per_check_on_failure_followed_by_success_holds
  test_metrics_report_requests_per_check_on_failure_holds test_requests_per_check_backoff_with_mock_timer_holds
  test_metrics_report_update_check_failure_reason_omaha_holds
  test_metrics_report_update_check_failure_reason_network_holds

end
