(* ===== verification/Storage_Tests.thy ===== *)
theory Storage_Tests imports Test_Runs begin

text \<open>
  The tests of \<open>state_machine.rs\<close> on what the machine stores and loads.
\<close>

definition test_persist_last_update_time :: bool where
  "test_persist_last_update_time \<longleftrightarrow>
     (let s = sm_storage (sb_check [] (with_storage (mem_ops, mem_new) sb_new_stub) (responses []))
      in get_int mem_ops s LAST_UPDATE_TIME \<noteq> None \<and> mem_is_committed s)"

lemma test_persist_last_update_time_holds: test_persist_last_update_time
  by (simp add: test_persist_last_update_time_def run_simps cong: run_congs)

definition retry_header :: "string \<Rightarrow> string \<Rightarrow> string option" where
  "retry_header v = [X_RETRY_AFTER \<mapsto> v]"

lemma retry_header_run [run_simps]: "retry_header v X_RETRY_AFTER = Some v"
  by (simp add: retry_header_def)

definition poll_interval_stored :: "mem_storage test_machine \<Rightarrow> nat \<Rightarrow> i64 \<Rightarrow> bool" where
  "poll_interval_stored m secs stored \<longleftrightarrow>
     poll_interval (sm_context m) = Some (duration_from_secs secs) \<and>
     get_int mem_ops (sm_storage m) SERVER_DICTATED_POLL_INTERVAL = Some stored \<and> mem_is_committed (sm_storage m)"

declare poll_interval_stored_def [run_simps]

definition test_persist_server_dictated_poll_interval :: bool where
  "test_persist_server_dictated_poll_interval \<longleftrightarrow>
     (case sb_oneshot [no_update] (with_storage (mem_ops, mem_new) (with_http mock_http sb_new_stub))
        (responses [Inr \<lparr>http_status = 200, http_header = retry_header ''1234'', http_body = json_print no_update\<rparr>]) of
        (Some (Inr _), m) \<Rightarrow> poll_interval_stored m 1234 1234000000
      | _ \<Rightarrow> False)"

lemma test_persist_server_dictated_poll_interval_holds: test_persist_server_dictated_poll_interval
  by (simp add: test_persist_server_dictated_poll_interval_def run_simps cong: run_congs)

definition test_persist_server_dictated_poll_interval_http_error :: bool where
  "test_persist_server_dictated_poll_interval_http_error \<longleftrightarrow>
     (case sb_oneshot [] (with_storage (mem_ops, mem_new) (with_http mock_http sb_new_stub))
        (responses [Inr \<lparr>http_status = 500, http_header = retry_header ''1234'', http_body = []\<rparr>]) of
        (Some (Inl (OmahaRequest (HttpStatus _))), m) \<Rightarrow> poll_interval_stored m 1234 1234000000
      | _ \<Rightarrow> False)"

lemma test_persist_server_dictated_poll_interval_http_error_holds: test_persist_server_dictated_poll_interval_http_error
  by (simp add: test_persist_server_dictated_poll_interval_http_error_def run_simps cong: run_congs)

definition test_persist_server_dictated_poll_interval_max_duration :: bool where
  "test_persist_server_dictated_poll_interval_max_duration \<longleftrightarrow>
     (case sb_oneshot [] (with_storage (mem_ops, mem_new) (with_http mock_http sb_new_stub))
        (responses [Inr \<lparr>http_status = 500, http_header = retry_header ''123456789'', http_body = []\<rparr>]) of
        (Some (Inl (OmahaRequest (HttpStatus _))), m) \<Rightarrow> poll_interval_stored m 86400 86400000000
      | _ \<Rightarrow> False)"

lemma test_persist_server_dictated_poll_interval_max_duration_holds: test_persist_server_dictated_poll_interval_max_duration
  by (simp add: test_persist_server_dictated_poll_interval_max_duration_def run_simps cong: run_congs)

text \<open>The storage before the machine is built.\<close>

definition stored_ints :: "(string \<times> i64) list \<Rightarrow> mem_storage" where
  "stored_ints kvs = snd (mem_commit (fold (\<lambda>(k, v) s. snd (set_int mem_ops s k v)) kvs mem_new))"

declare stored_ints_def [run_simps]

definition test_server_dictated_poll_interval_with_transport_error_no_retry :: bool where
  "test_server_dictated_poll_interval_with_transport_error_no_retry \<longleftrightarrow>
     (case sb_oneshot [] (with_storage (mem_ops, stored_ints [(SERVER_DICTATED_POLL_INTERVAL, 1234000000)])
          (with_http mock_http sb_new_stub)) (responses [Inl Transport]) of
        (Some (Inl (OmahaRequest (HttpTransport _))), m) \<Rightarrow> poll_interval (sm_context m) = Some (duration_from_secs 1234)
      | _ \<Rightarrow> False)"

lemma test_server_dictated_poll_interval_with_transport_error_no_retry_holds: test_server_dictated_poll_interval_with_transport_error_no_retry
  by (simp add: test_server_dictated_poll_interval_with_transport_error_no_retry_def run_simps cong: run_congs)

definition test_persist_app :: bool where
  "test_persist_app \<longleftrightarrow>
     (let m = sb_check [] (with_app_set make_test_app_set (with_storage (mem_ops, mem_new) sb_new_stub)) (responses [])
      in get_string mem_ops (sm_storage m) (app_id (the_app m)) \<noteq> None \<and> mem_is_committed (sm_storage m))"

lemma test_persist_app_holds: test_persist_app
  by (simp add: test_persist_app_def run_simps cong: run_congs)

definition test_load_last_update_time :: bool where
  "test_load_last_update_time \<longleftrightarrow>
     (case mts_truncate (mts_new test_now) of
        None \<Rightarrow> False
      | Some mock_time \<Rightarrow>
          (let t = mts_now_in_walltime mock_time - int (duration_from_secs 999)
           in case set_time mem_ops mem_new LAST_UPDATE_TIME t of
                (Inl _, _) \<Rightarrow> False
              | (Inr _, storage) \<Rightarrow>
                  last_update_time (ctx_schedule (sm_context (sb_build [] (with_storage (mem_ops, storage)
                    (with_policy_engine stub_policy sb_new_stub)) ((responses [])\<lparr>tw_clock := mock_time\<rparr>)))) = Some (Wall t)))"

lemma test_load_last_update_time_holds: test_load_last_update_time
  by (simp add: test_load_last_update_time_def run_simps cong: run_congs)

definition test_load_server_dictated_poll_interval :: bool where
  "test_load_server_dictated_poll_interval \<longleftrightarrow>
     poll_interval (sm_context (sb_build []
       (with_storage (mem_ops, stored_ints [(SERVER_DICTATED_POLL_INTERVAL, 56789)]) sb_new_stub) (responses []))) =
     Some (duration_from_micros 56789)"

lemma test_load_server_dictated_poll_interval_holds: test_load_server_dictated_poll_interval
  by (simp add: test_load_server_dictated_poll_interval_def run_simps cong: run_congs)

definition test_persisted_app :: persisted_app where
  "test_persisted_app =
     \<lparr>pers_cohort = \<lparr>cohort_id = Some ''cohort_id'', cohort_hint = Some ''test_channel'', cohort_name = None\<rparr>,
      pers_user_counting = ClientRegulatedByDate (Some 22222)\<rparr>"

definition test_load_app :: bool where
  "test_load_app \<longleftrightarrow>
     (let app_set = \<lparr>vas_apps = [test_app test_app_id [1, 2, 3, 4] cohort_default]\<rparr>;
          doc = persisted_app_json test_persisted_app;
          storage = snd (set_string mem_ops mem_new test_app_id (json_print doc));
          a = the_app (sb_build [doc] (with_app_set app_set (with_storage (mem_ops, storage) sb_new_stub)) (responses []))
      in app_cohort a = pers_cohort test_persisted_app \<and> app_user_counting a = ClientRegulatedByDate (Some 22222))"

lemma test_load_app_holds: test_load_app
proof -
  have "app_merge_persisted (test_app i v cohort_default) test_persisted_app =
      (test_app i v cohort_default)\<lparr>app_cohort := pers_cohort test_persisted_app,
        app_user_counting := ClientRegulatedByDate (Some 22222)\<rparr>" for i v
    by (simp add: app_merge_persisted_def test_persisted_app_def test_app_def cohort_default_def)
  then show ?thesis by (simp add: test_load_app_def run_simps cong: run_congs)
qed

lemmas storage_tests = test_persist_last_update_time_holds test_persist_server_dictated_poll_interval_holds
  test_persist_server_dictated_poll_interval_http_error_holds
  test_persist_server_dictated_poll_interval_max_duration_holds
  test_server_dictated_poll_interval_with_transport_error_no_retry_holds test_persist_app_holds
  test_load_last_update_time_holds test_load_server_dictated_poll_interval_holds test_load_app_holds

end
