(* ===== verification/Bookkeeping_Tests.thy ===== *)
theory Bookkeeping_Tests imports Test_Runs begin

text \<open>
  The tests of \<open>state_machine.rs\<close> on intervals, durations, attempts and pings.
\<close>

section \<open>The interval between checks\<close>

definition test_report_check_interval_with_no_storage :: bool where
  "test_report_check_interval_with_no_storage \<longleftrightarrow>
     (let interval = duration_from_micros 999999;
          run = (\<lambda>m. snd (run_state (report_check_interval (sb_env [] sb_new_stub) ScheduledTask) m));
          m1 = run (sb_build [] (with_policy_engine stub_policy sb_new_stub) (responses []));
          m2 = run (after interval m1)
      in metrics_of m1 = [] \<and> metrics_of m2 = [UpdateCheckInterval interval MonotonicClock ScheduledTask])"

lemma test_report_check_interval_with_no_storage_holds: test_report_check_interval_with_no_storage
  by (simp add: test_report_check_interval_with_no_storage_def run_simps cong: run_congs)

definition test_report_check_interval_mono_transition :: bool where
  "test_report_check_interval_mono_transition \<longleftrightarrow>
     (let initial_duration = duration_from_secs 999; interval = duration_from_micros 999999;
          run = (\<lambda>m. snd (run_state (report_check_interval (sb_env [] sb_new_stub) ScheduledTask) m));
          m = sb_build [] (with_policy_engine stub_policy sb_new_stub) (responses []);
          initial_time = wall (tw_now (sm_world m)) - int initial_duration;
          m0 = m\<lparr>sm_context := set_schedule (\<lambda>s. s\<lparr>last_update_check_time := Some (Wall initial_time)\<rparr>) (sm_context m)\<rparr>;
          m3 = run (after interval (run (after interval (run m0))))
      in metrics_of m3 =
           [UpdateCheckInterval initial_duration WallClock ScheduledTask,
            UpdateCheckInterval interval MonotonicClock ScheduledTask,
            UpdateCheckInterval interval MonotonicClock ScheduledTask])"

lemma test_report_check_interval_mono_transition_holds: test_report_check_interval_mono_transition
  by (simp add: test_report_check_interval_mono_transition_def run_simps cong: run_congs)

section \<open>Durations and attempts of installations\<close>

definition installing_builder ::
  "('s, 'e) storage_ops \<times> 's \<Rightarrow> ('s, 'e) state_machine_builder" where
  "installing_builder storage =
     with_storage storage (with_policy_engine stub_policy (with_installer test_installer (with_http mock_http sb_new_stub)))"

declare installing_builder_def [run_simps]

definition truncated_clock :: mock_time_source where
  "truncated_clock = the (mts_truncate (mts_new test_now))"

definition test_report_successful_update_duration :: bool where
  "test_report_successful_update_duration \<longleftrightarrow>
     (let env = sb_env [update_available] (installing_builder (mem_ops, mem_new));
          first_seen = mts_now_in_walltime truncated_clock - int (duration_from_micros 1000)
      in map (any_details \<circ> any_response_time) (fst (run_state (do {
           modify_storage (\<lambda>s. snd (set_string mem_ops s INSTALL_PLAN_ID []));
           modify_storage (\<lambda>s. snd (set_time mem_ops s UPDATE_FIRST_SEEN_TIME first_seen));
           modify_storage (\<lambda>s. snd (mem_commit s));
           start_update_check env request_params_default;
           gets metrics_of })
         (sb_build [update_available] (installing_builder (mem_ops, mem_new))
           ((responses [Inr (http_ok (json_print update_available))])\<lparr>tw_clock := truncated_clock\<rparr>)))) =
         [UpdateCheckResponseTime 0 True, RequestsPerCheck 1 True, OmahaEventLost (succeeded UpdateDownloadStarted),
          SuccessfulUpdateDuration INSTALL_DURATION, OmahaEventLost (succeeded UpdateDownloadFinished),
          OmahaEventLost (succeeded UpdateComplete),
          SuccessfulUpdateFromFirstSeen (INSTALL_DURATION + duration_from_micros 1000),
          AttemptsToSuccessfulCheck 1, AttemptsToSuccessfulInstall 1 True])"

lemma test_report_successful_update_duration_holds: test_report_successful_update_duration
  unfolding test_report_successful_update_duration_def Let_def
  by (simp add: truncated_clock_def run_simps cong: run_congs)

definition test_report_failed_update_duration :: bool where
  "test_report_failed_update_duration \<longleftrightarrow>
     FailedUpdateDuration (duration_from_micros 0) \<in> set (metrics_of (sb_check [update_available]
       (with_installer (stub_installer True) (with_http mock_http sb_new_stub))
       (responses [Inr (http_ok (json_print update_available))])))"

lemma test_report_failed_update_duration_holds: test_report_failed_update_duration
  by (simp add: test_report_failed_update_duration_def run_simps cong: run_congs)

definition first_seen_stored :: "mem_storage \<Rightarrow> string \<Rightarrow> system_time \<Rightarrow> bool" where
  "first_seen_stored s plan t \<longleftrightarrow>
     get_string mem_ops s INSTALL_PLAN_ID = Some plan \<and> get_time mem_ops s UPDATE_FIRST_SEEN_TIME = Some t \<and>
     mem_len s = 2 \<and> mem_is_committed s"

definition test_record_update_first_seen_time :: bool where
  "test_record_update_first_seen_time \<longleftrightarrow>
     (let now = mts_now_in_walltime truncated_clock; now2 = now + int (duration_from_secs 1000);
          record_time = (\<lambda>plan t. do {
            r \<leftarrow> record_update_first_seen_time (sb_env [] (with_storage (mem_ops, mem_new) sb_new_stub)) plan t;
            s \<leftarrow> gets sm_storage;
            State_Monad.return (r, s) })
      in case fst (run_state (do {
             x1 \<leftarrow> record_time ''id'' now; x2 \<leftarrow> record_time ''id'' now2; x3 \<leftarrow> record_time ''id2'' now2;
             State_Monad.return (x1, x2, x3) })
           (sb_build [] (with_storage (mem_ops, mem_new) sb_new_stub) (responses []))) of
           ((r1, s1), (r2, s2), (r3, s3)) \<Rightarrow>
             r1 = now \<and> first_seen_stored s1 ''id'' now \<and> r2 = now \<and> first_seen_stored s2 ''id'' now \<and>
             r3 = now2 \<and> first_seen_stored s3 ''id2'' now2)"

lemma test_record_update_first_seen_time_holds: test_record_update_first_seen_time
  unfolding test_record_update_first_seen_time_def Let_def
  by (simp add: truncated_clock_def first_seen_stored_def mem_len_def run_simps cong: run_congs)

definition test_report_attempts_to_successful_check :: bool where
  "test_report_attempts_to_successful_check \<longleftrightarrow>
     fst (run_state (do {
         report_attempts_to_successful_check True;
         x1 \<leftarrow> gets (\<lambda>m. (failed_checks (sm_context m), metrics_of m));
         report_attempts_to_successful_check False;
         n2 \<leftarrow> gets (\<lambda>m. failed_checks (sm_context m));
         report_attempts_to_successful_check False;
         n3 \<leftarrow> gets (\<lambda>m. failed_checks (sm_context m));
         report_attempts_to_successful_check True;
         x4 \<leftarrow> gets (\<lambda>m. (failed_checks (sm_context m), metrics_of m));
         State_Monad.return (x1, n2, n3, x4) })
       (sb_build [] (with_storage (mem_ops, mem_new) (with_installer (stub_installer True) sb_new_stub)) (responses []))) =
     ((0, [AttemptsToSuccessfulCheck 1]), 1, 2, (0, [AttemptsToSuccessfulCheck 1, AttemptsToSuccessfulCheck 3]))"

lemma test_report_attempts_to_successful_check_holds: test_report_attempts_to_successful_check
  by (simp add: test_report_attempts_to_successful_check_def run_simps cong: run_congs)

definition ping_doc :: json where
  "ping_doc = response_doc ''3.0'' None [app_doc test_app_id None None]"

definition failed_once :: mem_storage where
  "failed_once = snd (mem_commit (snd (set_int mem_ops mem_new CONSECUTIVE_FAILED_UPDATE_CHECKS 1)))"

definition test_ping_omaha_updates_consecutive_failed_update_checks_and_persists :: bool where
  "test_ping_omaha_updates_consecutive_failed_update_checks_and_persists \<longleftrightarrow>
     (let b = with_http mock_http (with_storage (mem_ops, failed_once) sb_new_stub);
          ping = (do {
            ping_omaha (sb_env [ping_doc] b);
            gets (\<lambda>m. (failed_checks (sm_context m), get_int mem_ops (sm_storage m) CONSECUTIVE_FAILED_UPDATE_CHECKS)) })
      in fst (run_state (do { x1 \<leftarrow> ping; x2 \<leftarrow> ping; x3 \<leftarrow> ping; State_Monad.return (x1, x2, x3) })
           (sb_build [ping_doc] b (responses [Inl Transport, Inr (http_ok []), Inr (http_ok (json_print ping_doc))]))) =
         ((2, Some 2), (3, Some 3), (0, None)))"

lemma test_ping_omaha_updates_consecutive_failed_update_checks_and_persists_holds: test_ping_omaha_updates_consecutive_failed_update_checks_and_persists
  unfolding test_ping_omaha_updates_consecutive_failed_update_checks_and_persists_def Let_def
  by (simp add: ping_doc_def failed_once_def run_simps cong: run_congs)

section \<open>Attempts until an installation\<close>

definition installing_run :: "nat list \<Rightarrow> nat \<Rightarrow> json \<Rightarrow> (http_error + http_response) list \<Rightarrow> metrics list" where
  "installing_run checks fails doc rs =
     (let b = installing_builder (mem_ops, mem_new);
          m = sb_build [doc] b ((responses rs)\<lparr>tw_install_fails := fails\<rparr>)
      in map (any_time \<circ> any_details \<circ> any_response_time) (metrics_of (fold (\<lambda>_. sb_run_once [doc] b) checks m)))"

declare installing_run_def [run_simps]

definition test_report_attempts_to_successful_install :: bool where
  "test_report_attempts_to_successful_install \<longleftrightarrow>
     installing_run [1] 0 update_available [Inr (http_ok (json_print update_available))] =
       [UpdateCheckResponseTime 0 True, RequestsPerCheck 1 True, OmahaEventLost (succeeded UpdateDownloadStarted),
        SuccessfulUpdateDuration 0, OmahaEventLost (succeeded UpdateDownloadFinished),
        OmahaEventLost (succeeded UpdateComplete), SuccessfulUpdateFromFirstSeen 0,
        AttemptsToSuccessfulCheck 1, AttemptsToSuccessfulInstall 1 True]"

lemma test_report_attempts_to_successful_install_holds: test_report_attempts_to_successful_install
  by (simp add: test_report_attempts_to_successful_install_def run_simps cong: run_congs)

definition test_report_attempts_to_successful_install_fails_then_succeeds :: bool where
  "test_report_attempts_to_successful_install_fails_then_succeeds \<longleftrightarrow>
     (let available = Inr (http_ok (json_print update_available)); ok = Inr (http_ok [])
      in installing_run [1, 2] 1 update_available [available, ok, ok, available, ok, ok] =
       [UpdateCheckResponseTime 0 True, RequestsPerCheck 1 True, FailedUpdateDuration 0, AttemptsToSuccessfulCheck 1,
        AttemptsToSuccessfulInstall 1 False, UpdateCheckInterval 0 MonotonicClock ScheduledTask,
        UpdateCheckResponseTime 0 True, RequestsPerCheck 1 True, SuccessfulUpdateDuration 0,
        OmahaEventLost (succeeded UpdateComplete), SuccessfulUpdateFromFirstSeen 0, AttemptsToSuccessfulCheck 1,
        AttemptsToSuccessfulInstall 2 True])"

lemma test_report_attempts_to_successful_install_fails_then_succeeds_holds: test_report_attempts_to_successful_install_fails_then_succeeds
  by (simp add: test_report_attempts_to_successful_install_fails_then_succeeds_def run_simps cong: run_congs)

definition no_update_for_you :: json where
  "no_update_for_you = response_doc ''3.0'' None
     [app_doc test_app_id None (Some (update_doc ''noupdate'' (Some ''no update for you'') None))]"

definition test_report_attempts_to_successful_install_does_not_report_for_no_update :: bool where
  "test_report_attempts_to_successful_install_does_not_report_for_no_update \<longleftrightarrow>
     installing_run [1] 0 no_update_for_you [Inr (http_ok (json_print no_update_for_you))] =
       [UpdateCheckResponseTime 0 True, RequestsPerCheck 1 True, AttemptsToSuccessfulCheck 1]"

lemma test_report_attempts_to_successful_install_does_not_report_for_no_update_holds: test_report_attempts_to_successful_install_does_not_report_for_no_update
  by (simp add: test_report_attempts_to_successful_install_does_not_report_for_no_update_def no_update_for_you_def
      run_simps cong: run_congs)

lemmas bookkeeping_tests = test_report_check_interval_with_no_storage_holds
  test_report_check_interval_mono_transition_holds test_report_successful_update_duration_holds
  test_report_failed_update_duration_holds test_record_update_first_seen_time_holds
  test_report_attempts_to_successful_check_holds
  test_ping_omaha_updates_consecutive_failed_update_checks_and_persists_holds
  test_report_attempts_to_successful_install_holds
  test_report_attempts_to_successful_install_fails_then_succeeds_holds
  test_report_attempts_to_successful_install_does_not_report_for_no_update_holds

end
