(* ===== verification/Loop_Tests.thy ===== *)
theory Loop_Tests imports Test_Runs begin

text \<open>
  The tests of \<open>state_machine.rs\<close> that drive the loops through a control handle and a blocked timer, as sequences of moves.
\<close>

section \<open>Evaluation\<close>

type_synonym 's test_loop =
  "(test_world, 's, vec_app_set, string, string, stub_plan, unit, stub_install_errors) loop"

abbreviation loop_of where
  "loop_of m p report finish start_mono queue answers n \<equiv>
     \<lparr>lp_machine = m, lp_phase = p, lp_should_report = report, lp_finish_time = finish, lp_start_mono = start_mono,
      lp_queue = queue, lp_answers = answers, lp_next_no = n\<rparr>"

lemma loop_runs [run_simps]:
  "acting act k (loop_of m p report finish start_mono queue answers n) =
     (case run_state act m of (r, m') \<Rightarrow> k r (loop_of m' p report finish start_mono queue answers n))"
  "goto p' (loop_of m p report finish start_mono queue answers n) = loop_of m p' report finish start_mono queue answers n"
  "answer (Some i) r (loop_of m p report finish start_mono queue answers n) =
     loop_of m p report finish start_mono queue (answers @ [(i, r)]) n"
  "answer None r l = l"
  by (simp_all add: acting_def goto_def answer_def split_beta)

lemma app_valid_test [run_simps]: "app_valid (test_app test_app_id [1, 2, 3, 4] c)"
  by (simp add: app_valid_def test_app_def test_app_id_def version_from_def)

lemmas loop_defs [run_simps] = run_start_def loop_head_def consider_check_def after_reboot_question_def complete_check_def
  take_request_def update_next_update_time_def make_wait_to_next_check_def schedule_next_check_def decide_check_def
  ask_reboot_def do_reboot_def reboot_if_def enter_reboot_wait_def reboot_timer_fired_def ping_timer_fired_def
  reboot_on_demand_def merge_options_def report_waited_for_reboot_def waited_for_reboot_duration_def
  forget_finished_update_def check_options_default_def all_valid_def
  stub_update_check_allowed_def

lemma option_bind_weak_cong: "r = r' \<Longrightarrow> Option.bind r f = Option.bind r' f"
  by simp

lemmas loop_congs = run_congs option_bind_weak_cong

text \<open>A loop from its start, some moves, and what the test changes outside.\<close>

definition test_loop ::
  "json list \<Rightarrow> ('s, 'e) state_machine_builder \<Rightarrow> test_world \<Rightarrow> test_world loop_move list \<Rightarrow> 's test_loop option" where
  "test_loop docs b w mvs = moves (sb_env docs b) mvs (run_start (sb_env docs b) (sb_build docs b w))"

definition then_moves ::
  "json list \<Rightarrow> ('s, 'e) state_machine_builder \<Rightarrow> (test_world \<Rightarrow> test_world) \<Rightarrow> test_world loop_move list
     \<Rightarrow> 's test_loop \<Rightarrow> 's test_loop option" where
  "then_moves docs b change mvs l =
     moves (sb_env docs b) (WorldChanges (change (sm_world (lp_machine l))) # mvs) l"

definition timing_at :: "partial_complex_time \<Rightarrow> mock_policy_engine" where
  "timing_at t = mock_policy_default\<lparr>mpe_check_timing := Some \<lparr>ct_time = t, ct_minimum_wait = None\<rparr>\<rparr>"

definition now_plus :: "duration \<Rightarrow> partial_complex_time" where
  "now_plus d = Complex (the (complex_time_add test_now d))"

lemma timings [run_simps]:
  "mock_compute_next_update_time (timing_at t) w = (\<lparr>ct_time = t, ct_minimum_wait = None\<rparr>, w)"
  "mpe_check_decision (timing_at t) = CheckOk request_params_default" "mpe_update_decision (timing_at t) = UpdateOk"
  by (simp_all add: timing_at_def mock_compute_next_update_time_def mock_policy_default_def)

declare test_loop_def [run_simps] then_moves_def [run_simps]

section \<open>Timers and reboots\<close>

definition test_wait_timer :: bool where
  "test_wait_timer \<longleftrightarrow>
     (let t = now_plus (duration_from_secs 111) in
      case test_loop [] (with_policy_engine (mock_policy (timing_at t)) sb_new_stub) (responses []) [EnterLoop] of
        Some l \<Rightarrow> timers_of (lp_machine l) = [WaitUntil t] | None \<Rightarrow> False)"

lemma test_wait_timer_holds: test_wait_timer
  by (simp add: test_wait_timer_def run_simps cong: loop_congs)

definition rebooting_builder :: "(unit, stub_errors) state_machine_builder" where
  "rebooting_builder = with_policy_engine stub_policy (with_installer test_installer (with_http mock_http sb_new_stub))"

definition test_successful_update_triggers_reboot :: bool where
  "test_successful_update_triggers_reboot \<longleftrightarrow>
     (case test_loop [update_available] rebooting_builder (responses [Inr (http_ok (json_print update_available))])
        [EnterLoop, CheckTimer, FinishCheck] of
        Some l \<Rightarrow> timers_of (lp_machine l) = [WaitUntil (Complex test_now)] \<and> tw_reboot_called (sm_world (lp_machine l))
      | None \<Rightarrow> False)"

lemma test_successful_update_triggers_reboot_holds: test_successful_update_triggers_reboot
  by (simp add: test_successful_update_triggers_reboot_def rebooting_builder_def run_simps cong: loop_congs)

definition test_skip_reboot_if_not_needed :: bool where
  "test_skip_reboot_if_not_needed \<longleftrightarrow>
     (let t = Complex test_now in
      case test_loop [update_available]
        (with_policy_engine (mock_policy (timing_at t)) (with_installer test_installer (with_http mock_http sb_new_stub)))
        ((responses [Inr (http_ok (json_print update_available))])\<lparr>tw_reboot_needed := False\<rparr>)
        [EnterLoop, CheckTimer, FinishCheck] of
        Some l \<Rightarrow>
          timers_of (lp_machine l) = [WaitUntil t] \<and>
          states_of (lp_machine l) = [CheckingForUpdates ScheduledTask, InstallingUpdate, Idle] \<and>
          tw_reboot_options (sm_world (lp_machine l)) = [] \<and> \<not> tw_reboot_called (sm_world (lp_machine l))
      | None \<Rightarrow> False)"

lemma test_skip_reboot_if_not_needed_holds: test_skip_reboot_if_not_needed
  by (simp add: test_skip_reboot_if_not_needed_def run_simps cong: loop_congs)

definition test_failed_update_does_not_trigger_reboot :: bool where
  "test_failed_update_does_not_trigger_reboot \<longleftrightarrow>
     (case test_loop [update_available] rebooting_builder
        ((responses [Inr (http_ok (json_print update_available))])\<lparr>tw_install_fails := 1\<rparr>)
        [EnterLoop, CheckTimer, FinishCheck] of
        Some l \<Rightarrow> timers_of (lp_machine l) = [WaitUntil (Complex test_now)] \<and> \<not> tw_reboot_called (sm_world (lp_machine l))
      | None \<Rightarrow> False)"

lemma test_failed_update_does_not_trigger_reboot_holds: test_failed_update_does_not_trigger_reboot
  by (simp add: test_failed_update_does_not_trigger_reboot_def rebooting_builder_def run_simps cong: loop_congs)

text \<open>A check is one move here: the request that arrives during the installation is taken before the check completes.\<close>

definition on_demand :: check_options where
  "on_demand = \<lparr>opt_source = OnDemand\<rparr>"

declare on_demand_def [run_simps]

definition test_reboots_immediately_if_user_initiated_update_requests_occurs_during_install :: bool where
  "test_reboots_immediately_if_user_initiated_update_requests_occurs_during_install \<longleftrightarrow>
     (case test_loop [update_available]
        (with_policy_engine (mock_policy (timing_at (Complex test_now)))
          (with_installer blocking_installer (with_http mock_http sb_new_stub)))
        ((responses [Inr (http_ok (json_print update_available))])\<lparr>tw_install_results := [[Installed]]\<rparr>)
        [EnterLoop, CheckTimer, SendRequest on_demand, TakeRequest, FinishCheck] of
        Some l \<Rightarrow>
          lp_answers l = [(0, AlreadyRunning)] \<and>
          states_of (lp_machine l) = [CheckingForUpdates ScheduledTask, InstallingUpdate, WaitingForReboot, Idle] \<and>
          tw_reboot_options (sm_world (lp_machine l)) = [on_demand]
      | None \<Rightarrow> False)"

lemma blocking_installer_runs [run_simps]:
  "try_create_install_plan blocking_installer params metadata resp bytes signature w = (Inr StubPlan, w)"
  "plan_id blocking_installer pl = []" "perform_reboot blocking_installer w = (Inr (), w\<lparr>tw_reboot_called := True\<rparr>)"
  "tw_install_results w = r # rs \<Longrightarrow>
     perform_install blocking_installer pl w = (([], (), r), w\<lparr>tw_install_results := rs\<rparr>)"
  by (simp_all add: blocking_installer_def blocking_perform_install_def)

lemma test_reboots_immediately_if_user_initiated_update_requests_occurs_during_install_holds: test_reboots_immediately_if_user_initiated_update_requests_occurs_during_install
  by (simp add: test_reboots_immediately_if_user_initiated_update_requests_occurs_during_install_def run_simps
      cong: loop_congs)

section \<open>While waiting for the reboot\<close>

definition waiting_next :: partial_complex_time where
  "waiting_next = Complex (the (complex_time_add (mts_time (the (mts_truncate (mts_new test_now)))) (duration_from_secs 1000)))"

lemma waiting_next_eq [run_simps]: "waiting_next = Complex \<lparr>wall = 1600001000123456000, mono = 1005000000321\<rparr>"
  by (simp add: waiting_next_def mts_new_def test_now_def truncate_test_now complex_time_add_def checked_time_add_def
      representable_def duration_from_secs_def)

definition waiting_builder :: "(mem_storage, storage_errors) state_machine_builder" where
  "waiting_builder =
     with_storage (mem_ops, mem_new) (with_policy_engine (mock_policy (timing_at waiting_next))
       (with_installer test_installer (with_http mock_http (with_app_set make_test_app_set sb_new_stub))))"

definition waiting_world :: test_world where
  "waiting_world =
     (responses ([Inr (http_ok (json_print update_available)), Inr (http_ok []), Inr (http_ok []), Inr (http_ok []),
       Inr (http_ok (json_print update_available))]))
       \<lparr>tw_clock := the (mts_truncate (mts_new test_now)), tw_reboot_allowed := False\<rparr>"

definition test_reboots_immediately_when_check_now_comes_in_during_wait :: bool where
  "test_reboots_immediately_when_check_now_comes_in_during_wait \<longleftrightarrow>
     Option.bind (test_loop [update_available] waiting_builder waiting_world [EnterLoop, CheckTimer, FinishCheck]) (\<lambda>l1.
     Option.bind (then_moves [update_available] waiting_builder (\<lambda>w. w\<lparr>tw_reboot_allowed := True\<rparr>)
       [SendRequest on_demand, TakeRequest] l1) (\<lambda>l2.
     Some (timers_of (lp_machine l1) =
             [WaitUntil waiting_next, WaitFor CHECK_REBOOT_ALLOWED_INTERVAL, WaitUntil waiting_next] \<and>
           \<not> tw_reboot_called (sm_world (lp_machine l1)) \<and>
           lp_answers l2 = [(0, AlreadyRunning)] \<and> tw_reboot_called (sm_world (lp_machine l2)) \<and>
           tw_reboot_options (sm_world (lp_machine l2)) = [check_options_default, on_demand]))) = Some True"

lemma test_reboots_immediately_when_check_now_comes_in_during_wait_holds: test_reboots_immediately_when_check_now_comes_in_during_wait
  by (simp add: test_reboots_immediately_when_check_now_comes_in_during_wait_def waiting_builder_def waiting_world_def
      run_simps cong: loop_congs)

text \<open>The last change of \<open>test_wait_for_reboot\<close> is a parameter: see below.\<close>

definition ping_requested :: "nat \<Rightarrow> mem_storage test_loop \<Rightarrow> bool" where
  "ping_requested session l \<longleftrightarrow>
     requested (with_request_id (guid_from_u128 (session + 1)) (with_session_id (guid_from_u128 session)
       (fold add_ping (vas_apps (sm_app_set (lp_machine l)))
         (request_builder_new config_generator request_params_default)))) (lp_machine l)"

definition called_after :: "(test_world \<Rightarrow> test_world) \<Rightarrow> mem_storage test_loop \<Rightarrow> bool option" where
  "called_after change l =
     map_option (\<lambda>l'. tw_reboot_called (sm_world (lp_machine l')))
       (then_moves [update_available] waiting_builder change [RebootTimer] l)"

definition pings_while_waiting :: "(test_world \<Rightarrow> test_world) \<Rightarrow> bool option" where
  "pings_while_waiting change =
     Option.bind (test_loop [update_available] waiting_builder waiting_world [EnterLoop, CheckTimer, FinishCheck]) (\<lambda>l1.
     Option.bind (then_moves [update_available] waiting_builder (tw_advance (duration_from_secs 1000)) [PingTimer] l1) (\<lambda>l2.
     Option.bind (then_moves [update_available] waiting_builder id
       [SendRequest check_options_default, TakeRequest] l2) (\<lambda>l3.
     Option.bind (then_moves [update_available] waiting_builder id [RebootTimer] l3) (\<lambda>l4.
     Option.bind (then_moves [update_available] waiting_builder id [PingTimer] l4) (\<lambda>l5.
     Option.bind (called_after change l5) (\<lambda>called.
     Some (timers_of (lp_machine l1) =
             [WaitUntil waiting_next, WaitFor CHECK_REBOOT_ALLOWED_INTERVAL, WaitUntil waiting_next] \<and>
           ping_requested 5 l2 \<and> lp_answers l3 = [(0, AlreadyRunning)] \<and>
           last_update_time (ctx_schedule (context_load mem_ops (sm_storage (lp_machine l3)))) =
             Some (Wall (mts_now_in_walltime (tw_clock (sm_world (lp_machine l3))))) \<and>
           timers_of (lp_machine l4) = timers_of (lp_machine l1) @
             [WaitUntil waiting_next, WaitFor CHECK_REBOOT_ALLOWED_INTERVAL] \<and>
           \<not> tw_reboot_called (sm_world (lp_machine l4)) \<and>
           ping_requested 7 l5 \<and> \<not> tw_reboot_called (sm_world (lp_machine l5)) \<and> called)))))))"

text \<open>A ping uses the configured proxies, which is no part of the request.\<close>

lemma ping_without_proxies [run_simps]:
  "request_of (with_request_id i (with_session_id j (add_ping a (request_builder_new cfg ping_params)))) =
     request_of (with_request_id i (with_session_id j (add_ping a (request_builder_new cfg request_params_default))))"
  by (simp add: request_of_def with_request_id_def with_session_id_def add_ping_def insert_and_modify_entry_def
      request_builder_new_def ping_params_def request_params_default_def install_source_default_def)

lemmas waiting_defs = pings_while_waiting_def called_after_def ping_requested_def waiting_builder_def
  waiting_world_def

text \<open>As it is written, the test sets what it then asserts; with the permission to reboot in its place it holds as well.\<close>

definition test_wait_for_reboot :: bool where
  "test_wait_for_reboot \<longleftrightarrow> pings_while_waiting (\<lambda>w. w\<lparr>tw_reboot_called := True\<rparr>) = Some True"

lemma test_wait_for_reboot_holds: test_wait_for_reboot
  by (simp add: test_wait_for_reboot_def waiting_defs run_simps cong: loop_congs)

lemma reboots_once_allowed: "pings_while_waiting (\<lambda>w. w\<lparr>tw_reboot_allowed := True\<rparr>) = Some True"
  by (simp add: waiting_defs run_simps cong: loop_congs)

section \<open>Requests to start a check\<close>

definition test_start_update_during_update_replies_with_in_progress :: bool where
  "test_start_update_during_update_replies_with_in_progress \<longleftrightarrow>
     (case test_loop [update_available] (with_installer blocking_installer (with_http mock_http sb_new_stub))
        ((responses [Inr (http_ok (json_print update_available))])\<lparr>tw_install_results := [[Installed]]\<rparr>)
        [EnterLoop, CheckTimer, SendRequest check_options_default, TakeRequest, FinishCheck] of
        Some l \<Rightarrow>
          lp_answers l = [(0, AlreadyRunning)] \<and>
          take 3 (states_of (lp_machine l)) = [CheckingForUpdates ScheduledTask, InstallingUpdate, WaitingForReboot]
      | None \<Rightarrow> False)"

lemma test_start_update_during_update_replies_with_in_progress_holds: test_start_update_during_update_replies_with_in_progress
  by (simp add: test_start_update_during_update_replies_with_in_progress_def run_simps cong: loop_congs)

definition timer_builder :: "check_decision \<Rightarrow> (unit, stub_errors) state_machine_builder" where
  "timer_builder decision = with_policy_engine
     (mock_policy ((timing_at (now_plus (duration_from_secs 321)))\<lparr>mpe_check_decision := decision\<rparr>)) sb_new_stub"

lemma deciding [run_simps]:
  "mock_compute_next_update_time (e\<lparr>mpe_check_decision := d\<rparr>) w = mock_compute_next_update_time e w"
  "mpe_update_decision (e\<lparr>mpe_check_decision := d\<rparr>) = mpe_update_decision e"
  by (simp_all add: mock_compute_next_update_time_def)

definition test_start_update_during_timer_starts_update :: bool where
  "test_start_update_during_timer_starts_update \<longleftrightarrow>
     (let b = timer_builder (CheckOk request_params_default); t = now_plus (duration_from_secs 321);
          failed_check = [CheckingForUpdates ScheduledTask, ErrorCheckingForUpdate, Idle]
      in Option.bind (test_loop [] b (responses []) [EnterLoop]) (\<lambda>l1.
         Option.bind (then_moves [] b (tw_advance (duration_from_secs 200)) [CheckTimer, FinishCheck, EnterLoop] l1) (\<lambda>l2.
         Option.bind (then_moves [] b id [SendRequest check_options_default, TakeRequest, FinishCheck] l2) (\<lambda>l3.
         Some (timers_of (lp_machine l1) = [WaitUntil t] \<and> states_of (lp_machine l1) = [] \<and>
               timers_of (lp_machine l2) = [WaitUntil t, WaitUntil t] \<and> states_of (lp_machine l2) = failed_check \<and>
               lp_answers l3 = [(0, Started)] \<and> states_of (lp_machine l3) = failed_check @ failed_check)))) = Some True)"

lemma test_start_update_during_timer_starts_update_holds: test_start_update_during_timer_starts_update
  by (simp add: test_start_update_during_timer_starts_update_def timer_builder_def run_simps cong: loop_congs)

definition test_start_update_check_returns_throttled :: bool where
  "test_start_update_check_returns_throttled \<longleftrightarrow>
     (let b = timer_builder ThrottledByPolicy; t = now_plus (duration_from_secs 321)
      in Option.bind (test_loop [] b (responses []) [EnterLoop]) (\<lambda>l1.
         Option.bind (then_moves [] b (tw_advance (duration_from_secs 200))
           [SendRequest check_options_default, TakeRequest] l1) (\<lambda>l2.
         Some (timers_of (lp_machine l1) = [WaitUntil t] \<and> states_of (lp_machine l1) = [] \<and>
               lp_answers l2 = [(0, Throttled)] \<and> states_of (lp_machine l2) = []))) = Some True)"

lemma test_start_update_check_returns_throttled_holds: test_start_update_check_returns_throttled
  by (simp add: test_start_update_check_returns_throttled_def timer_builder_def run_simps cong: loop_congs)

section \<open>After the reboot\<close>

definition test_report_waited_for_reboot_duration_doesnt_panic_on_wrong_current_time :: bool where
  "test_report_waited_for_reboot_duration_doesnt_panic_on_wrong_current_time \<longleftrightarrow>
     (let t = \<lparr>wall = wall test_now + int (duration_from_secs 1), mono = mono test_now + int (duration_from_secs 10)\<rparr>;
          (outstanding, m) = run_state (report_waited_for_reboot (sb_env [] sb_new_stub) (wall test_now) (mono test_now))
            (sb_build [] sb_new_stub ((responses [])\<lparr>tw_clock := mts_new t\<rparr>))
      in waited_for_reboot_duration (wall test_now) (mono test_now) t = None \<and> outstanding \<and> metrics_of m = [])"

declare duration_checked_sub_def [run_simps]

lemma test_report_waited_for_reboot_duration_doesnt_panic_on_wrong_current_time_holds: test_report_waited_for_reboot_duration_doesnt_panic_on_wrong_current_time
  by (simp add: test_report_waited_for_reboot_duration_doesnt_panic_on_wrong_current_time_def run_simps cong: loop_congs)

definition versioned_update :: json where
  "versioned_update = response_doc ''3.0'' None [app_doc test_app_id None (Some (update_doc ''ok'' None (Some ''1.2.3.5'')))]"

definition rebooted_config :: "string config" where
  "rebooted_config =
     \<lparr>cfg_updater = \<lparr>upd_name = ''updater'', upd_version = version_from [0, 1]\<rparr>,
      cfg_os = \<lparr>os_platform = [], os_version = ''1.2.3.5'', os_service_pack = [], os_arch = []\<rparr>,
      service_url = ''http://example.com/'', omaha_public_keys = None\<rparr>"

fun waited_for_reboot :: "metrics \<Rightarrow> bool" where
  "waited_for_reboot (WaitedForRebootDuration _) = True"
| "waited_for_reboot _ = False"

definition run_after_reboot :: "mem_storage test_machine \<Rightarrow> mem_storage test_loop option" where
  "run_after_reboot m =
     test_loop [] (with_config rebooted_config (with_policy_engine stub_policy (with_storage (mem_ops, sm_storage m) sb_new_stub)))
       ((responses [])\<lparr>tw_clock := tw_clock (tw_advance (duration_from_secs 999) (sm_world m))\<rparr>) [EnterLoop]"

definition test_report_waited_for_reboot_duration :: bool where
  "test_report_waited_for_reboot_duration \<longleftrightarrow>
     (case sb_oneshot [versioned_update] (with_http mock_http (with_policy_engine stub_policy (with_storage (mem_ops, mem_new) sb_new_stub)))
        ((responses [Inr (http_ok (json_print versioned_update))])\<lparr>tw_clock := the (mts_truncate (mts_new test_now))\<rparr>) of
        (Some (Inr _), m) \<Rightarrow>
          (case run_after_reboot m of
             Some l \<Rightarrow>
               (let s = sm_storage (lp_machine l)
                in filter waited_for_reboot (metrics_of (lp_machine l)) = [WaitedForRebootDuration (duration_from_secs 999)] \<and>
                   get_time mem_ops s UPDATE_FINISH_TIME = None \<and> get_string mem_ops s TARGET_VERSION = None \<and>
                   mem_is_committed s)
           | None \<Rightarrow> False)
      | _ \<Rightarrow> False)"

lemma test_report_waited_for_reboot_duration_holds: test_report_waited_for_reboot_duration
  by (simp add: test_report_waited_for_reboot_duration_def versioned_update_def run_after_reboot_def rebooted_config_def
      run_simps cong: loop_congs)

lemmas loop_tests = test_wait_timer_holds test_successful_update_triggers_reboot_holds
  test_skip_reboot_if_not_needed_holds test_failed_update_does_not_trigger_reboot_holds
  test_reboots_immediately_if_user_initiated_update_requests_occurs_during_install_holds
  test_reboots_immediately_when_check_now_comes_in_during_wait_holds test_wait_for_reboot_holds
  test_start_update_during_update_replies_with_in_progress_holds test_start_update_during_timer_starts_update_holds
  test_start_update_check_returns_throttled_holds
  test_report_waited_for_reboot_duration_doesnt_panic_on_wrong_current_time_holds
  test_report_waited_for_reboot_duration_holds

end
