(* ===== verification/Storage_Schema.thy ===== *)
theory Storage_Schema imports Check_Properties Demo_Environment begin

text \<open>
  The schema of the storage: which keys the machine uses, of which type, and that it touches no others.
\<close>

section \<open>Keys and their types\<close>

definition integer_keys :: "string set" where
  "integer_keys = {LAST_UPDATE_TIME, SERVER_DICTATED_POLL_INTERVAL, CONSECUTIVE_FAILED_UPDATE_CHECKS,
     UPDATE_FIRST_SEEN_TIME, UPDATE_FINISH_TIME, CONSECUTIVE_FAILED_INSTALL_ATTEMPTS}"

definition string_keys :: "string set" where
  "string_keys = {INSTALL_PLAN_ID, TARGET_VERSION}"

fun is_stored_int :: "stored \<Rightarrow> bool" where
  "is_stored_int (StoredInt _) = True"
| "is_stored_int _ = False"

fun is_stored_string :: "stored \<Rightarrow> bool" where
  "is_stored_string (StoredString _) = True"
| "is_stored_string _ = False"

text \<open>An app is stored under its id.\<close>

definition key_accepts :: "string set \<Rightarrow> string \<Rightarrow> stored \<Rightarrow> bool" where
  "key_accepts ids k v \<longleftrightarrow> (k \<in> integer_keys \<longrightarrow> is_stored_int v) \<and> (k \<in> string_keys \<union> ids \<longrightarrow> is_stored_string v)"

definition well_typed :: "string set \<Rightarrow> (string \<rightharpoonup> stored) \<Rightarrow> bool" where
  "well_typed ids d \<longleftrightarrow> (\<forall>k v. d k = Some v \<longrightarrow> key_accepts ids k v)"

definition own_keys :: "string set \<Rightarrow> string set" where
  "own_keys ids = integer_keys \<union> string_keys \<union> ids"

text \<open>What a write may do: give keys of the machine values of their types, or remove them.\<close>

definition schema_step :: "string set \<Rightarrow> (string \<rightharpoonup> stored) \<Rightarrow> (string \<rightharpoonup> stored) \<Rightarrow> bool" where
  "schema_step ids d d' \<longleftrightarrow>
     (\<forall>k. d' k \<noteq> d k \<longrightarrow> k \<in> own_keys ids \<and> (case d' k of None \<Rightarrow> True | Some v \<Rightarrow> key_accepts ids k v))"

lemma schema_refl [simp]: "schema_step ids d d"
  by (simp add: schema_step_def)

lemma schema_trans: "schema_step ids d1 d2 \<Longrightarrow> schema_step ids d2 d3 \<Longrightarrow> schema_step ids d1 d3"
  unfolding schema_step_def by (metis option.case(1))

lemma schema_typed: "schema_step ids d d' \<Longrightarrow> well_typed ids d \<Longrightarrow> well_typed ids d'"
  unfolding schema_step_def well_typed_def by (metis option.simps(5))

lemma schema_upd:
  "schema_step ids d0 d \<Longrightarrow> k \<in> own_keys ids \<Longrightarrow> (\<And>v. x = Some v \<Longrightarrow> key_accepts ids k v) \<Longrightarrow>
     schema_step ids d0 (d(k := x))"
  unfolding schema_step_def by (auto split: option.splits)

lemmas key_defs = LAST_UPDATE_TIME_def SERVER_DICTATED_POLL_INTERVAL_def CONSECUTIVE_FAILED_UPDATE_CHECKS_def
  UPDATE_FIRST_SEEN_TIME_def UPDATE_FINISH_TIME_def CONSECUTIVE_FAILED_INSTALL_ATTEMPTS_def INSTALL_PLAN_ID_def
  TARGET_VERSION_def

lemma integer_not_string: "integer_keys \<inter> string_keys = {}"
  by (simp add: integer_keys_def string_keys_def key_defs)

section \<open>Every write keeps to the schema\<close>

context reliable_storage
begin

lemma schema_int:
  "ids \<inter> integer_keys = {} \<Longrightarrow> k \<in> integer_keys \<Longrightarrow> schema_step ids d0 d \<Longrightarrow>
     schema_step ids d0 (d(k := map_option StoredInt i))"
  using integer_not_string by (intro schema_upd) (auto simp: own_keys_def key_accepts_def)

lemma schema_string:
  "ids \<inter> integer_keys = {} \<Longrightarrow> k \<in> string_keys \<union> ids \<Longrightarrow> schema_step ids d0 d \<Longrightarrow>
     schema_step ids d0 (d(k \<mapsto> StoredString x))"
  using integer_not_string by (intro schema_upd) (auto simp: own_keys_def key_accepts_def)

lemma schema_none: "k \<in> own_keys ids \<Longrightarrow> schema_step ids d0 d \<Longrightarrow> schema_step ids d0 (d(k := None))"
  by (intro schema_upd) auto

lemma keys_in [simp]:
  "LAST_UPDATE_TIME \<in> integer_keys" "SERVER_DICTATED_POLL_INTERVAL \<in> integer_keys"
  "CONSECUTIVE_FAILED_UPDATE_CHECKS \<in> integer_keys" "UPDATE_FIRST_SEEN_TIME \<in> integer_keys"
  "UPDATE_FINISH_TIME \<in> integer_keys" "CONSECUTIVE_FAILED_INSTALL_ATTEMPTS \<in> integer_keys"
  "INSTALL_PLAN_ID \<in> string_keys" "TARGET_VERSION \<in> string_keys"
  by (simp_all add: integer_keys_def string_keys_def)

lemma schema_context: "ids \<inter> integer_keys = {} \<Longrightarrow> schema_step ids (view s) (view (context_persist ops c s))"
  by (simp add: context_persist_def Let_def set_option_int_upd schema_int)

lemma schema_apps:
  assumes "ids \<inter> integer_keys = {}" and "app_id ` set as \<subseteq> ids"
  shows "schema_step ids d (view s) \<Longrightarrow> schema_step ids d (view (fold (app_persist ops to_text) as s))"
  using assms(2)
proof (induction as arbitrary: s)
  case (Cons a as)
  then have "schema_step ids d (view (app_persist ops to_text a s))"
    using assms(1) by (auto simp: app_persist_def set_string_upd schema_string split: option.splits)
  with Cons show ?case by simp
qed simp

lemma schema_first_seen: "ids \<inter> integer_keys = {} \<Longrightarrow> schema_step ids (view s) (view (snd (first_seen ops plan t s)))"
proof -
  assume "ids \<inter> integer_keys = {}"
  moreover obtain r1 s1 where s1: "set_string ops s INSTALL_PLAN_ID plan = (r1, s1)" by fastforce
  moreover obtain r2 s2 where s2: "set_time ops s1 UPDATE_FIRST_SEEN_TIME t = (r2, s2)" by fastforce
  ultimately show ?thesis
    using set_string_upd [of s INSTALL_PLAN_ID plan] set_time_upd [of s1 UPDATE_FIRST_SEEN_TIME t]
    by (auto simp: first_seen_def remove_upd commit_or_log_view own_keys_def intro!: schema_none schema_int schema_string
        split: sum.splits)
qed

lemma schema_finish: "ids \<inter> integer_keys = {} \<Longrightarrow> store env = ops \<Longrightarrow>
    schema_step ids (view s) (view (store_finished env next_versions t a s))"
  by (auto simp: store_finished_def Let_def view_upds schema_int schema_string split: option.splits)

lemma schema_write:
  assumes "storage_write env m s" and "store env = ops" and "app_id ` set (get_apps (apps_api env) (sm_app_set m)) = ids"
    and "ids \<inter> integer_keys = {}"
  shows "schema_step ids (view (sm_storage m)) (view s)"
  using assms(1)
proof cases
  case (counts_attempt n)
  have "schema_step ids (view (sm_storage m)) ((view (sm_storage m))
      (CONSECUTIVE_FAILED_INSTALL_ATTEMPTS := map_option StoredInt (Some n)))"
    by (intro schema_int assms) simp_all
  with counts_attempt show ?thesis using assms(2) by (simp add: set_int_upd)
qed (use assms in \<open>auto simp: schema_context app_set_persist_def schema_apps commit_or_log_view schema_first_seen
      schema_finish forget_finished_update_def remove_or_log_upd own_keys_def intro!: schema_none\<close>)

end

section \<open>Every state of a run\<close>

definition app_ids :: "('w, 's, 'e, 'a, 'd, 'pl, 'ir, 'x) env \<Rightarrow> 'a \<Rightarrow> string set" where
  "app_ids env a = app_id ` set (get_apps (apps_api env) a)"

definition schema_rel ::
  "('w, 's, 'e, 'a, 'd, 'pl, 'ir, 'x) env \<Rightarrow> ('w, 's, 'a, 'k, 'd, 'pl, 'x) machine
     \<Rightarrow> ('w, 's, 'a, 'k, 'd, 'pl, 'x) machine \<Rightarrow> bool" where
  "schema_rel env m m' \<longleftrightarrow>
     (\<forall>view proper. reliable_storage (store env) view \<and> app_set_laws (apps_api env) proper \<longrightarrow>
        app_ids env (sm_app_set m') = app_ids env (sm_app_set m) \<and>
        (app_ids env (sm_app_set m) \<inter> integer_keys = {} \<longrightarrow>
           schema_step (app_ids env (sm_app_set m)) (view (sm_storage m)) (view (sm_storage m'))))"

lemma app_ids_update: "app_set_laws (apps_api env) proper \<Longrightarrow>
    app_ids env (update_from_omaha (apps_api env) rs a) = app_ids env a"
  by (simp add: app_ids_def app_set_laws.get_apps_update app_set_laws.update_app_from_id image_image)

lemma schema_rel_write:
  assumes "storage_write env m s" shows "schema_rel env m (m\<lparr>sm_storage := s\<rparr>)"
  using assms reliable_storage.schema_write by (fastforce simp: schema_rel_def app_ids_def)

lemma schema_relD:
  assumes "schema_rel env m m'" and "reliable_storage (store env) view" and "app_set_laws (apps_api env) proper"
  shows "app_ids env (sm_app_set m') = app_ids env (sm_app_set m)"
    and "app_ids env (sm_app_set m) \<inter> integer_keys = {} \<Longrightarrow>
      schema_step (app_ids env (sm_app_set m)) (view (sm_storage m)) (view (sm_storage m'))"
  using assms unfolding schema_rel_def by blast+

lemma schema_rel_trans:
  assumes "schema_rel env m1 m2" and "schema_rel env m2 m3" shows "schema_rel env m1 m3"
  unfolding schema_rel_def
proof (intro allI impI, elim conjE)
  fix view proper
  assume laws: "reliable_storage (store env) view" "app_set_laws (apps_api env) proper"
  have ids: "app_ids env (sm_app_set m2) = app_ids env (sm_app_set m1)"
    "app_ids env (sm_app_set m3) = app_ids env (sm_app_set m1)"
    using schema_relD(1) [OF assms(1) laws] schema_relD(1) [OF assms(2) laws] by simp_all
  moreover have "schema_step (app_ids env (sm_app_set m1)) (view (sm_storage m1)) (view (sm_storage m3))"
    if "app_ids env (sm_app_set m1) \<inter> integer_keys = {}"
    using schema_relD(2) [OF assms(1) laws that] schema_relD(2) [OF assms(2) laws] that unfolding ids
    by (blast intro: schema_trans)
  ultimately show "app_ids env (sm_app_set m3) = app_ids env (sm_app_set m1) \<and>
      (app_ids env (sm_app_set m1) \<inter> integer_keys = {} \<longrightarrow>
         schema_step (app_ids env (sm_app_set m1)) (view (sm_storage m1)) (view (sm_storage m3)))"
    by blast
qed

lemma schema_rel_same:
  "sm_storage m' = sm_storage m \<Longrightarrow> sm_app_set m' = sm_app_set m \<Longrightarrow> schema_rel env m m'"
  by (simp add: schema_rel_def)

interpretation schema: any_effects "schema_rel env" env for env
  by unfold_locales
     (auto intro: schema_rel_write schema_rel_trans schema_rel_same, auto simp: schema_rel_def app_ids_update)

section \<open>Properties\<close>

text \<open>C6: The machine keeps the schema of its storage.  In every reachable state of the loops, whatever was stored at the start,
  only its own keys (the eight of the library and the ids of the apps) may have changed; and if each of them held a value of
  its type at the start, or nothing, each still does: reading one as the other type never hides a stored value.\<close>

theorem machine_keeps_schema:
  assumes "reachable env m l" and "reliable_storage (store env) view" and "app_set_laws (apps_api env) proper"
    and "ids = app_ids env (sm_app_set m)" and "ids \<inter> integer_keys = {}"
  shows "(\<forall>k. k \<notin> own_keys ids \<longrightarrow> view (sm_storage (lp_machine l)) k = view (sm_storage m) k) \<and>
    (well_typed ids (view (sm_storage m)) \<longrightarrow> well_typed ids (view (sm_storage (lp_machine l))))"
proof -
  have "schema_step ids (view (sm_storage m)) (view (sm_storage (lp_machine l)))"
    using schema.reachable_R [OF assms(1)] assms(2-) by (auto simp: schema_rel_def)
  then show ?thesis using schema_typed by (auto simp: schema_step_def)
qed

theorem machine_keeps_schema_witness:
  "\<exists>l. reachable demo_env (demo_machine []) l \<and> Rebooted \<in> set (sm_trace (lp_machine l)) \<and>
       mem_data (sm_storage (lp_machine l)) ''b'' = None \<and> well_typed {''a''} (mem_data (sm_storage (lp_machine l)))"
proof -
  obtain l where l: "reachable demo_env (demo_machine []) l" "Rebooted \<in> set (sm_trace (lp_machine l))"
    using demo_run by blast
  have ids: "{''a''} = app_ids demo_env (sm_app_set (demo_machine []))" "{''a''} \<inter> integer_keys = {}"
    by (simp_all add: demo_machine_state app_ids_def demo_app_set_def vec_ops_def sample_app_def integer_keys_def key_defs)
  have start: "mem_data (sm_storage (demo_machine [])) = Map.empty" "''b'' \<notin> own_keys {''a''}"
    by (simp_all add: demo_machine_state mem_new_def own_keys_def integer_keys_def string_keys_def key_defs)
  then have "well_typed {''a''} (mem_data (sm_storage (demo_machine [])))" by (simp add: well_typed_def)
  moreover have laws: "reliable_storage (store demo_env) mem_data" "app_set_laws (apps_api demo_env) (\<lambda>s. vas_apps s \<noteq> [])"
    using mem.reliable_storage_axioms vec.app_set_laws_axioms by simp_all
  ultimately show ?thesis
    using machine_keeps_schema [OF l(1) laws ids] l start by (intro exI [of _ l]) simp
qed

end
