(* ===== verification/Request_Tests.thy ===== *)
theory Request_Tests imports Stub_Machine begin

text \<open>
  The tests of \<open>protocol/request/tests.rs\<close>: what the request structs look like as JSON.
\<close>

section \<open>JSON values\<close>

text \<open>\<open>serde_json::to_value\<close>: objects are maps sorted by key, in which the last of repeated fields wins.\<close>

fun key_less :: "string \<Rightarrow> string \<Rightarrow> bool" where
  "key_less [] ys \<longleftrightarrow> ys \<noteq> []"
| "key_less (x # xs) [] \<longleftrightarrow> False"
| "key_less (x # xs) (y # ys) \<longleftrightarrow> (of_char x :: nat) < of_char y \<or> x = y \<and> key_less xs ys"

fun map_insert :: "string \<Rightarrow> json \<Rightarrow> fields \<Rightarrow> fields" where
  "map_insert k v [] = [(k, v)]"
| "map_insert k v ((k', v') # kvs) =
     (if k = k' then (k, v) # kvs else if key_less k k' then (k, v) # (k', v') # kvs else (k', v') # map_insert k v kvs)"

fun to_value :: "json \<Rightarrow> json" where
  "to_value (JArr xs) = JArr (map to_value xs)"
| "to_value (JObj kvs) = JObj (fold (\<lambda>(k, v). map_insert k v) (map (\<lambda>(k, v). (k, to_value v)) kvs) [])"
| "to_value j = j"

lemma map_of_map_insert: "map_of (map_insert k v kvs) = (map_of kvs)(k \<mapsto> v)"
  by (induction kvs) auto

lemma to_value_lookup:
  "to_value (JObj kvs) = JObj kvs' \<Longrightarrow> map_of kvs' k = map_option to_value (map_of (rev kvs) k)"
proof -
  have "map_of (fold (\<lambda>(k, v). map_insert k v) kvs acc) = map_of acc ++ map_of (rev kvs)" for kvs acc
    by (induction kvs arbitrary: acc) (auto simp: map_of_map_insert)
  moreover assume "to_value (JObj kvs) = JObj kvs'"
  ultimately show ?thesis by (auto simp: map_of_map rev_map simp flip: map_map)
qed

section \<open>Requests of the tests\<close>

definition guid_default :: guid where
  "guid_default = guid_from_u128 0"

lemma guid_default_text: "guid_default = GUID ''{00000000-0000-0000-0000-000000000000}''"
proof -
  have "rev (map (\<lambda>i. hex_digit (0 div 16 ^ i mod 16)) [0..<32]) = replicate 32 (CHR ''0'')"
    by (simp add: hex_digit_def map_replicate_const)
  moreover have "replicate 4 (CHR ''0'') = ''0000''" "replicate 8 (CHR ''0'') = ''00000000''"
    "replicate 12 (CHR ''0'') = ''000000000000''"
    by code_simp+
  ultimately show ?thesis by (simp add: guid_default_def guid_from_u128_def Let_def)
qed

definition protocol_app_default :: protocol_app where
  "protocol_app_default =
     \<lparr>papp_id = [], papp_version = [], papp_fingerprint = None, papp_cohort = None, papp_update_check = None,
      papp_events = [], papp_ping = None, papp_extra_fields = []\<rparr>"

definition some_os :: os where
  "some_os = \<lparr>os_platform = ''some_platform'', os_version = ''4.5'', os_service_pack = ''0.1'',
     os_arch = ''some_architecture''\<rparr>"

definition some_request :: "install_source \<Rightarrow> guid option \<Rightarrow> protocol_app \<Rightarrow> request" where
  "some_request source g a =
     \<lparr>protocol_version = ''3.0'', updater = ''some_updater'', updater_version = ''1.0'', req_install_source = source,
      is_machine = True, request_id = g, session_id = g, request_os = some_os, request_apps = [a]\<rparr>"

definition some_app :: protocol_app where
  "some_app = protocol_app_default\<lparr>papp_id := test_app_id, papp_version := ''1.2.3.4''\<rparr>"

text \<open>The expected JSON, around the one of the app.\<close>

definition some_json :: "string \<Rightarrow> bool \<Rightarrow> fields \<Rightarrow> json" where
  "some_json source ids app =
     (let guid = JStr ''{00000000-0000-0000-0000-000000000000}'' in
      JObj [(''request'', JObj ([(''protocol'', JStr ''3.0''), (''updater'', JStr ''some_updater''),
        (''updaterversion'', JStr ''1.0''), (''installsource'', JStr source), (''ismachine'', JBool True)] @
        (if ids then [(''requestid'', guid), (''sessionid'', guid)] else []) @
        [(''os'', JObj [(''platform'', JStr ''some_platform''), (''version'', JStr ''4.5''), (''sp'', JStr ''0.1''),
           (''arch'', JStr ''some_architecture'')]),
         (''app'', JArr [JObj ((''appid'', JStr ''{00000000-0000-0000-0000-000000000001}'') # app)])]))])"

definition serializes_to :: "request \<Rightarrow> json \<Rightarrow> bool" where
  "serializes_to r j \<longleftrightarrow> to_value (request_wrapper_json r) = to_value j"

definition update_check_default_request :: update_check where
  "update_check_default_request = \<lparr>uc_disabled = False, uc_offer_update_if_same_version = False\<rparr>"

section \<open>Tests\<close>

definition basic_serialization_test :: bool where
  "basic_serialization_test \<longleftrightarrow>
     serializes_to
       (some_request OnDemand (Some guid_default) (some_app\<lparr>papp_update_check := Some update_check_default_request\<rparr>))
       (some_json ''ondemand'' True [(''version'', JStr ''1.2.3.4''), (''updatecheck'', JObj [])])"

lemma basic_serialization_test_holds: basic_serialization_test
  unfolding basic_serialization_test_def guid_default_text by code_simp

definition basic_serialization_test_app_with_extras :: bool where
  "basic_serialization_test_app_with_extras \<longleftrightarrow>
     serializes_to
       (some_request OnDemand (Some guid_default) (some_app\<lparr>papp_update_check := Some update_check_default_request,
          papp_extra_fields := [(''key1'', ''value1''), (''key2'', ''value2'')]\<rparr>))
       (some_json ''ondemand'' True [(''version'', JStr ''1.2.3.4''), (''updatecheck'', JObj []),
          (''key1'', JStr ''value1''), (''key2'', JStr ''value2'')])"

lemma basic_serialization_test_app_with_extras_holds: basic_serialization_test_app_with_extras
  unfolding basic_serialization_test_app_with_extras_def guid_default_text by code_simp

definition basic_serialization_test_app_with_extras_will_overwrite_protocol_fields :: bool where
  "basic_serialization_test_app_with_extras_will_overwrite_protocol_fields \<longleftrightarrow>
     serializes_to (some_request OnDemand None (some_app\<lparr>papp_extra_fields := [(''version'', ''5.6.7.8'')]\<rparr>))
       (some_json ''ondemand'' False [(''version'', JStr ''5.6.7.8'')])"

lemma basic_serialization_test_app_with_extras_will_overwrite_protocol_fields_holds:
  basic_serialization_test_app_with_extras_will_overwrite_protocol_fields
  by code_simp

definition basic_ping_serialization_test :: bool where
  "basic_ping_serialization_test \<longleftrightarrow>
     serializes_to
       (some_request ScheduledTask None
         (some_app\<lparr>papp_ping := Some \<lparr>date_last_active = Some 2000, date_last_roll_call = Some 2001\<rparr>\<rparr>))
       (some_json ''scheduledtask'' False [(''version'', JStr ''1.2.3.4''),
          (''ping'', JObj [(''ad'', JInt 2000), (''rd'', JInt 2001)])])"

lemma basic_ping_serialization_test_holds: basic_ping_serialization_test
  by code_simp

definition install_complete :: event where
  "install_complete = event_default
     \<lparr>event_type := InstallComplete, event_result := EventSuccess, errorcode := Some ParseResponse\<rparr>"

definition update_complete :: event where
  "update_complete = event_default\<lparr>event_type := UpdateComplete, event_result := SuccessAndRestartRequired\<rparr>"

definition rebooted :: event where
  "rebooted = event_default
     \<lparr>event_type := RebootedAfterUpdate, event_result := EventSuccess, previous_version := Some ''3.4.5.6''\<rparr>"

definition basic_event_serialization_test :: bool where
  "basic_event_serialization_test \<longleftrightarrow>
     serializes_to (some_request OnDemand None (some_app\<lparr>papp_events := [install_complete]\<rparr>))
       (some_json ''ondemand'' False [(''version'', JStr ''1.2.3.4''),
          (''event'', JArr [JObj [(''eventtype'', JInt 2), (''eventresult'', JInt 1), (''errorcode'', JInt 0)]])])"

lemma basic_event_serialization_test_holds: basic_event_serialization_test
  by code_simp

definition multiple_event_serialization_test :: bool where
  "multiple_event_serialization_test \<longleftrightarrow>
     serializes_to
       (some_request OnDemand None (some_app\<lparr>papp_events := [install_complete, update_complete,
          rebooted\<lparr>next_version := Some ''4.5.6.7'', download_time_ms := Some 42\<rparr>]\<rparr>))
       (some_json ''ondemand'' False [(''version'', JStr ''1.2.3.4''),
          (''event'', JArr [
            JObj [(''eventtype'', JInt 2), (''eventresult'', JInt 1), (''errorcode'', JInt 0)],
            JObj [(''eventtype'', JInt 3), (''eventresult'', JInt 2)],
            JObj [(''eventtype'', JInt 54), (''eventresult'', JInt 1), (''previousversion'', JStr ''3.4.5.6''),
              (''nextversion'', JStr ''4.5.6.7''), (''download_time_ms'', JInt 42)]])])"

lemma multiple_event_serialization_test_holds: multiple_event_serialization_test
  by code_simp

definition all_fields_serialization_test :: bool where
  "all_fields_serialization_test \<longleftrightarrow>
     serializes_to
       (some_request OnDemand (Some guid_default) (some_app\<lparr>papp_fingerprint := Some ''some_fingerprint'',
          papp_cohort := Some \<lparr>cohort_id = Some ''1'', cohort_hint = Some ''stable'', cohort_name = Some ''Production''\<rparr>,
          papp_update_check := Some update_check_disabled,
          papp_ping := Some \<lparr>date_last_active = Some 300, date_last_roll_call = Some 45\<rparr>,
          papp_events := [install_complete, update_complete, rebooted]\<rparr>))
       (some_json ''ondemand'' True [(''version'', JStr ''1.2.3.4''), (''fp'', JStr ''some_fingerprint''),
          (''cohort'', JStr ''1''), (''cohorthint'', JStr ''stable''), (''cohortname'', JStr ''Production''),
          (''updatecheck'', JObj [(''updatedisabled'', JBool True)]),
          (''ping'', JObj [(''ad'', JInt 300), (''rd'', JInt 45)]),
          (''event'', JArr [
            JObj [(''eventtype'', JInt 2), (''eventresult'', JInt 1), (''errorcode'', JInt 0)],
            JObj [(''eventtype'', JInt 3), (''eventresult'', JInt 2)],
            JObj [(''eventtype'', JInt 54), (''eventresult'', JInt 1), (''previousversion'', JStr ''3.4.5.6'')]])])"

lemma all_fields_serialization_test_holds: all_fields_serialization_test
  unfolding all_fields_serialization_test_def guid_default_text by code_simp

end
