(* ===== verification/Response_Tests.thy ===== *)
theory Response_Tests imports Stub_Machine begin

text \<open>
  The tests of \<open>protocol/response/tests.rs\<close>.  A JSON text is the printed form of the value it denotes.
\<close>

section \<open>Reading\<close>

definition reads :: "json \<Rightarrow> response option" where
  "reads doc = parse_json_response (json_read [doc]) (json_print doc)"

declare json_print.simps [simp del]

lemma reads_object: "reads (JObj kvs) = de_response_wrapper (JObj kvs)"
  by (simp add: reads_def parse_json_response_def parse_safe_json_def starts_with_def safety_prefix_def json_read_def
      json_print.simps(7))

lemmas de_runs = de_response_wrapper_def de_response_def de_response_app_def de_update_check_def de_manifest_def de_actions_def
  de_action_def de_packages_def de_package_def de_urls_def de_url_def de_status_struct_def de_status_def de_day_start_def
  de_u32_def de_u64_def cohort_of_fields_def struct_fields_def map_fields_def req_field_def opt_field_def de_option_def
  de_list_def rest_fields_def

section \<open>Defaults\<close>

definition response_app_default :: response_app where
  "response_app_default =
     \<lparr>rapp_id = [], rapp_status = StatusOk, rapp_cohort = cohort_default, rapp_ping = None, rapp_update_check = None,
      rapp_events = None, rapp_extra = Map.empty\<rparr>"

definition manifest_default :: manifest where
  "manifest_default = \<lparr>man_version = [], man_actions = [], man_packages = []\<rparr>"

lemmas defaults = response_app_default_def manifest_default_def cohort_default_def update_check_default_def
  update_check_no_update_def update_check_ok_def

text \<open>A response with these apps, and its JSON.\<close>

definition prod_response :: "string \<Rightarrow> response_app list \<Rightarrow> response" where
  "prod_response protocol apps =
     \<lparr>resp_protocol_version = protocol, resp_server = Some ''prod'', resp_daystart = None, resp_apps = apps\<rparr>"

definition prod_json :: "string \<Rightarrow> fields list \<Rightarrow> json" where
  "prod_json protocol apps =
     JObj [(''response'', JObj [(''server'', JStr ''prod''), (''protocol'', JStr protocol), (''app'', JArr (map JObj apps))])]"

lemmas run_reads = reads_object de_runs defaults prod_response_def prod_json_def test_app_id_def

section \<open>Tests\<close>

definition test_invalid_json :: bool where
  "test_invalid_json \<longleftrightarrow> parse_json_response (json_read []) ''invalid_json'' = None"

lemma test_invalid_json_holds: test_invalid_json
  by (simp add: test_invalid_json_def parse_json_response_def parse_safe_json_def starts_with_def safety_prefix_def json_read_def)

definition test_empty_json :: bool where
  "test_empty_json \<longleftrightarrow> reads (JObj []) = None"

lemma test_empty_json_holds: test_empty_json
  by (simp add: test_empty_json_def run_reads)

definition test_minimal :: bool where
  "test_minimal \<longleftrightarrow>
     reads (prod_json ''3.0'' [[(''appid'', JStr test_app_id), (''status'', JStr ''ok'')]]) =
       Some (prod_response ''3.0'' [response_app_default\<lparr>rapp_id := test_app_id\<rparr>])"

lemma test_minimal_holds: test_minimal
  by (simp add: test_minimal_def run_reads)

definition test_new_cohort :: bool where
  "test_new_cohort \<longleftrightarrow>
     reads (prod_json ''3.0'' [[(''appid'', JStr test_app_id), (''cohort'', JStr ''1:3:''), (''status'', JStr ''ok''),
         (''cohortname'', JStr ''stable''), (''updatecheck'', JObj [(''status'', JStr ''noupdate'')]),
         (''ping'', JObj [(''status'', JStr ''ok'')])]]) =
       Some (prod_response ''3.0'' [response_app_default\<lparr>rapp_id := test_app_id,
         rapp_cohort := \<lparr>cohort_id = Some ''1:3:'', cohort_hint = None, cohort_name = Some ''stable''\<rparr>,
         rapp_ping := Some StatusOk, rapp_update_check := Some update_check_no_update\<rparr>])"

lemma test_new_cohort_holds: test_new_cohort
  by (simp add: test_new_cohort_def run_reads)

definition test_unknown_app_id :: bool where
  "test_unknown_app_id \<longleftrightarrow>
     reads (prod_json ''3.0'' [[(''appid'', JStr test_app_id), (''status'', JStr ''error-unknownApplication'')]]) =
       Some (prod_response ''3.0'' [response_app_default
         \<lparr>rapp_id := test_app_id, rapp_status := StatusError ''error-unknownApplication''\<rparr>])"

lemma test_unknown_app_id_holds: test_unknown_app_id
  by (simp add: test_unknown_app_id_def run_reads)

definition test_no_update :: bool where
  "test_no_update \<longleftrightarrow>
     reads (prod_json ''3.0'' [[(''appid'', JStr ''no-update-appid''), (''status'', JStr ''ok''),
         (''updatecheck'', JObj [(''status'', JStr ''noupdate'')])]]) =
       Some (prod_response ''3.0'' [response_app_default
         \<lparr>rapp_id := ''no-update-appid'', rapp_update_check := Some update_check_no_update\<rparr>])"

lemma test_no_update_holds: test_no_update
  by (simp add: test_no_update_def run_reads)

definition test_unsupported_protocol_version :: bool where
  "test_unsupported_protocol_version \<longleftrightarrow>
     reads (prod_json ''2.0'' [[(''appid'', JStr test_app_id), (''status'', JStr ''ok'')]]) =
       Some (prod_response ''2.0'' [response_app_default\<lparr>rapp_id := test_app_id\<rparr>])"

lemma test_unsupported_protocol_version_holds: test_unsupported_protocol_version
  by (simp add: test_unsupported_protocol_version_def run_reads)

definition test_missing_app :: bool where
  "test_missing_app \<longleftrightarrow>
     reads (JObj [(''response'', JObj [(''server'', JStr ''prod''), (''protocol'', JStr ''3.0'')])]) = None"

lemma test_missing_app_holds: test_missing_app
  by (simp add: test_missing_app_def run_reads)

definition bs :: string where
  "bs = replicate 64 (CHR ''b'')"

definition single_url_package :: fields where
  "single_url_package = [(''hash_sha256'', JStr bs), (''size'', JInt 100000000), (''name'', JStr ''full.payload''),
     (''fp'', JStr (''1.'' @ bs)), (''required'', JBool True)]"

definition test_single_url :: bool where
  "test_single_url \<longleftrightarrow>
     reads (prod_json ''3.0'' [[(''appid'', JStr ''single-url-appid''), (''status'', JStr ''ok''),
         (''updatecheck'', JObj [(''status'', JStr ''ok''),
            (''urls'', JObj [(''url'', JArr [JObj [(''codebase'', JStr ''http://url/base/'')]])]),
            (''manifest'', JObj [(''version'', JStr ''1.0''),
               (''actions'', JObj [(''action'',
                  JArr [JObj [(''event'', JStr ''install''), (''run'', JStr ''full.payload'')]])]),
               (''packages'', JObj [(''package'', JArr [JObj single_url_package])])])])]]) =
       Some (prod_response ''3.0'' [response_app_default
         \<lparr>rapp_id := ''single-url-appid'', rapp_status := StatusOk, rapp_update_check := Some
            \<lparr>ruc_status = StatusOk, ruc_info = None, ruc_urls = Some [''http://url/base/''],
             ruc_manifest = Some
               \<lparr>man_version = ''1.0'',
                man_actions = [\<lparr>act_event = Some ''install'', act_run = Some ''full.payload'', act_extra = Map.empty\<rparr>],
                man_packages = [\<lparr>pkg_name = ''full.payload'', pkg_required = True, pkg_size = Some 100000000,
                  pkg_hash = None, pkg_hash_sha256 = Some bs, pkg_fingerprint = ''1.'' @ bs, pkg_extra = Map.empty\<rparr>]\<rparr>,
             ruc_extra = Map.empty\<rparr>\<rparr>])"

lemma test_single_url_holds: test_single_url
  by (simp add: test_single_url_def single_url_package_def run_reads)

text \<open>The document with every field.\<close>

definition ok_json :: json where
  "ok_json = JObj [(''status'', JStr ''ok'')]"

definition quoted :: "string \<Rightarrow> string" where
  "quoted s = [CHR 0x22] @ s @ [CHR 0x22]"

definition data_json :: json where
  "data_json = JObj [(''name'', JStr ''install''), (''index'', JStr ''default''), (''status'', JStr ''ok''),
     (''#text'', JStr (''{'' @ [CHR 0x0A] @ ''  '' @ quoted ''distribution'' @ '' : {'' @ [CHR 0x0A] @ ''    '' @
        quoted ''some_flag'' @ '' : true'' @ [CHR 0x0A] @ ''  }'' @ [CHR 0x0A] @ ''}'' @ [CHR 0x0A]))]"

definition plain_app_json :: fields where
  "plain_app_json =
     [(''appid'', JStr ''{00000000-0000-0000-0000-000000000001}''), (''cohort'', JStr []), (''status'', JStr ''ok''),
      (''cohorthint'', JStr []), (''cohortname'', JStr []),
      (''updatecheck'', JObj [(''status'', JStr ''noupdate''), (''info'', JStr ''no update for you'')]),
      (''ping'', ok_json), (''event'', JArr [ok_json, ok_json]), (''data'', data_json)]"

definition plain_app :: response_app where
  "plain_app =
     \<lparr>rapp_id = ''{00000000-0000-0000-0000-000000000001}'', rapp_status = StatusOk,
      rapp_cohort = \<lparr>cohort_id = Some [], cohort_hint = Some [], cohort_name = Some []\<rparr>, rapp_ping = Some StatusOk,
      rapp_update_check = Some (update_check_no_update\<lparr>ruc_info := Some ''no update for you''\<rparr>),
      rapp_events = Some [StatusOk, StatusOk], rapp_extra = [''data'' \<mapsto> data_json]\<rparr>"

definition manifest_json :: json where
  "manifest_json =
     JObj [(''version'', JStr ''1.3.33.17''),
       (''actions'', JObj [(''action'', JArr
          [JObj [(''run'', JStr ''update_package''), (''arguments'', JStr ''/update''), (''event'', JStr ''update'')],
           JObj [(''event'', JStr ''postinstall'')], JObj [(''run'', JStr ''ChromeRecovery.crx'')]])]),
       (''packages'', JObj [(''package'', JArr [JObj [(''hash_sha256'', JStr (replicate 64 (CHR ''a''))),
          (''size'', JInt 2000000), (''name'', JStr ''update_package''), (''fp'', JStr (''1.'' @ replicate 64 (CHR ''a''))),
          (''required'', JBool True), (''hash'', JStr (replicate 32 (CHR ''q'')))]])])]"

definition expected_manifest :: manifest where
  "expected_manifest =
     \<lparr>man_version = ''1.3.33.17'',
      man_actions =
        [\<lparr>act_event = Some ''update'', act_run = Some ''update_package'', act_extra = [''arguments'' \<mapsto> JStr ''/update'']\<rparr>,
         \<lparr>act_event = Some ''postinstall'', act_run = None, act_extra = Map.empty\<rparr>,
         \<lparr>act_event = None, act_run = Some ''ChromeRecovery.crx'', act_extra = Map.empty\<rparr>],
      man_packages =
        [\<lparr>pkg_name = ''update_package'', pkg_required = True, pkg_size = Some 2000000,
          pkg_hash = Some (replicate 32 (CHR ''q'')), pkg_hash_sha256 = Some (replicate 64 (CHR ''a'')),
          pkg_fingerprint = ''1.'' @ replicate 64 (CHR ''a''), pkg_extra = Map.empty\<rparr>]\<rparr>"

definition urgent_app_json :: fields where
  "urgent_app_json =
     [(''appid'', JStr ''{11111111-1111-1111-1111-111111111111}''), (''cohort'', JStr []), (''status'', JStr ''ok''),
      (''cohortname'', JStr []),
      (''updatecheck'', JObj [(''_urgent_update'', JStr ''true''), (''status'', JStr ''ok''),
         (''urls'', JObj [(''url'', JArr [JObj [(''codebase'', JStr ''http://url/base/'')],
            JObj [(''codebase'', JStr ''https://url/base/'')]])]),
         (''manifest'', manifest_json)]),
      (''ping'', ok_json), (''event'', JArr [ok_json])]"

definition urgent_app :: response_app where
  "urgent_app =
     \<lparr>rapp_id = ''{11111111-1111-1111-1111-111111111111}'', rapp_status = StatusOk,
      rapp_cohort = \<lparr>cohort_id = Some [], cohort_hint = None, cohort_name = Some []\<rparr>, rapp_ping = Some StatusOk,
      rapp_update_check = Some
        \<lparr>ruc_status = StatusOk, ruc_info = None, ruc_urls = Some [''http://url/base/'', ''https://url/base/''],
         ruc_manifest = Some expected_manifest, ruc_extra = [''_urgent_update'' \<mapsto> JStr ''true'']\<rparr>,
      rapp_events = Some [StatusOk], rapp_extra = Map.empty\<rparr>"

lemma de_all_fields_apps:
  "de_response_app (JObj plain_app_json) = Some plain_app" "de_manifest manifest_json = Some expected_manifest"
  "de_response_app (JObj urgent_app_json) = Some urgent_app"
proof -
  show "de_response_app (JObj plain_app_json) = Some plain_app"
    by (simp add: plain_app_json_def plain_app_def ok_json_def de_runs defaults)
  show manifest: "de_manifest manifest_json = Some expected_manifest"
    by (simp add: manifest_json_def expected_manifest_def de_runs)
  have "manifest_json \<noteq> JNull" by (simp add: manifest_json_def)
  then show "de_response_app (JObj urgent_app_json) = Some urgent_app"
    using manifest
    by (simp add: urgent_app_json_def urgent_app_def ok_json_def de_response_app_def de_update_check_def de_urls_def de_url_def
        de_status_struct_def de_status_def cohort_of_fields_def struct_fields_def map_fields_def req_field_def opt_field_def
        de_option_def de_list_def rest_fields_def)
qed

definition test_all_fields :: bool where
  "test_all_fields \<longleftrightarrow>
     reads (JObj [(''response'', JObj [(''messagetype'', JStr ''response''), (''server'', JStr ''test''),
         (''protocol'', JStr ''3.0''), (''daystart'', JObj [(''elapsed_seconds'', JInt 54956), (''elapsed_days'', JInt 4242)]),
         (''app'', JArr [JObj plain_app_json, JObj urgent_app_json])])]) =
       Some \<lparr>resp_protocol_version = ''3.0'', resp_server = Some ''test'',
             resp_daystart = Some \<lparr>elapsed_days = Some 4242, elapsed_seconds = Some 54956\<rparr>,
             resp_apps = [plain_app, urgent_app]\<rparr>"

lemma test_all_fields_holds: test_all_fields
  by (simp add: test_all_fields_def reads_object de_response_wrapper_def de_response_def de_all_fields_apps de_day_start_def
      de_u32_def struct_fields_def req_field_def opt_field_def de_option_def de_list_def)

text \<open>The same value with and without the prefix.\<close>

definition valid_json :: json where
  "valid_json = JObj [(''this'', JArr [JStr ''is'', JStr ''valid'', JStr ''json''])]"

definition test_no_safe_json :: bool where
  "test_no_safe_json \<longleftrightarrow> parse_safe_json (json_read [valid_json]) Some (json_print valid_json) = Some valid_json"

lemma test_no_safe_json_holds: test_no_safe_json
  by (simp add: test_no_safe_json_def valid_json_def parse_safe_json_def starts_with_def safety_prefix_def json_read_def
      json_print.simps(7))

definition test_safe_json :: bool where
  "test_safe_json \<longleftrightarrow>
     parse_safe_json (json_read [valid_json]) Some (safety_prefix @ json_print valid_json) = Some valid_json"

lemma test_safe_json_holds: test_safe_json
  by (simp add: test_safe_json_def parse_safe_json_prefix json_read_def)

definition test_update_check :: bool where
  "test_update_check \<longleftrightarrow>
     (let all_packages = [package_with_name ''update_package'', package_with_name ''update_package2''];
          u = (update_check_ok [''http://url/base/'', ''https://url/base/''])
            \<lparr>ruc_manifest := Some (manifest_default\<lparr>man_packages := all_packages\<rparr>)\<rparr>
      in get_all_url_codebases u = [''http://url/base/'', ''https://url/base/''] \<and> get_all_packages u = all_packages \<and>
         get_all_full_urls u =
           [''http://url/base/update_package'', ''http://url/base/update_package2'',
            ''https://url/base/update_package'', ''https://url/base/update_package2''])"

lemma test_update_check_holds: test_update_check
  by (simp add: test_update_check_def defaults get_all_url_codebases_def get_all_packages_def get_all_full_urls_def
      package_with_name_def)

end
