(* ===== verification/Builder_Tests.thy ===== *)
theory Builder_Tests imports Request_Tests begin

text \<open>
  The tests of \<open>request_builder/tests.rs\<close>, with the sample URI library and the cryptography of the other tests.
\<close>

section \<open>Building\<close>

definition params_from :: "install_source \<Rightarrow> request_params" where
  "params_from source = request_params_default\<lparr>rp_source := source\<rparr>"

definition test_handler :: "string cup_handler" where
  "test_handler = standard_handler test_crypto sample_uri_ops (\<lambda>j. Some (json_print j)) (make_cup_handler_for_test ())"

definition test_nonce :: nonce where
  "test_nonce = replicate 32 (CHR ''n'')"

text \<open>\<open>build_intermediate(..).unwrap()\<close>; \<open>None\<close> is the panic.\<close>

definition intermediate_of :: "string cup_handler option \<Rightarrow> string request_builder \<Rightarrow> intermediate option" where
  "intermediate_of cup b = (case build_intermediate cup test_nonce b of Inl _ \<Rightarrow> None | Inr (im, _) \<Rightarrow> Some im)"

definition apps_of_built :: "string request_builder \<Rightarrow> protocol_app list" where
  "apps_of_built b = (case intermediate_of None b of None \<Rightarrow> [] | Some im \<Rightarrow> request_apps (im_body im))"

abbreviation new_builder :: "request_params \<Rightarrow> string request_builder" where
  "new_builder params \<equiv> request_builder_new config_generator params"

text \<open>The fields of the request that come from the configuration and the parameters.\<close>

definition common_fields :: "request \<Rightarrow> bool" where
  "common_fields r \<longleftrightarrow>
     protocol_version r = ''3.0'' \<and> updater r = upd_name (cfg_updater config_generator) \<and>
     updater_version r = version_to_string (upd_version (cfg_updater config_generator)) \<and>
     req_install_source r = OnDemand \<and> is_machine r \<and> session_id r = Some (guid_from_u128 1) \<and>
     request_id r = Some (guid_from_u128 2) \<and> request_os r = cfg_os config_generator"

text \<open>Identity of an app in the request.\<close>

definition is_app :: "string \<Rightarrow> string \<Rightarrow> string \<Rightarrow> protocol_app \<Rightarrow> bool" where
  "is_app i v c a \<longleftrightarrow> papp_id a = i \<and> papp_version a = v \<and> papp_cohort a = Some (cohort_new c)"

definition headers_are :: "string \<Rightarrow> string \<Rightarrow> intermediate \<Rightarrow> bool" where
  "headers_are main_id interactivity im \<longleftrightarrow>
     length (im_headers im) = 4 \<and> (''content-type'', ''application/json'') \<in> set (im_headers im) \<and>
     (HEADER_UPDATER_NAME, upd_name (cfg_updater config_generator)) \<in> set (im_headers im) \<and>
     (HEADER_APP_ID, main_id) \<in> set (im_headers im) \<and> (HEADER_INTERACTIVITY, interactivity) \<in> set (im_headers im)"

lemmas builds = intermediate_of_def apps_of_built_def build_intermediate_def request_of_def request_headers_def
  protocol_app_from_def insert_and_modify_entry_def add_update_check_def add_ping_def add_event_def
  app_entry_new_def request_builder_new_def with_request_id_def with_session_id_def
  test_app_def params_from_def request_params_default_def common_fields_def is_app_def headers_are_def

section \<open>Update checks\<close>

definition test_simple_request :: bool where
  "test_simple_request \<longleftrightarrow>
     (case intermediate_of (Some test_handler) (with_request_id (guid_from_u128 2) (with_session_id (guid_from_u128 1)
         (add_update_check ((test_app ''app id'' [5, 6, 7, 8] (cohort_new ''some-channel''))\<lparr>app_fingerprint := Some ''fp''\<rparr>)
           (new_builder (params_from OnDemand))))) of
        None \<Rightarrow> False
      | Some im \<Rightarrow>
          common_fields (im_body im) \<and>
          (let app = request_apps (im_body im) ! 0
           in is_app ''app id'' ''5.6.7.8'' ''some-channel'' app \<and> papp_fingerprint app = Some ''fp'' \<and>
              papp_update_check app = Some update_check_default_request \<and> papp_events app = [] \<and> papp_ping app = None) \<and>
          headers_are ''app id'' ''fg'' im \<and>
          (case pq_query (pq_of_string (im_uri im)) of
             None \<Rightarrow> False | Some q \<Rightarrow> starts_with ''cup2key='' q \<and> CHR ''&'' \<notin> set q))"

lemma request_version_texts:
  "version_to_string (version_from [5, 6, 7, 8]) = ''5.6.7.8''" "version_to_string (version_from [1, 2, 3, 4]) = ''1.2.3.4''"
  "version_to_string (version_from [6, 7, 8, 9]) = ''6.7.8.9''"
  by code_simp+

text \<open>The handler changes nothing but the URI.\<close>

definition cup_parameter :: string where
  "cup_parameter = cup2_urlparam test_crypto make_default_public_key_id_for_test test_nonce"

lemma test_handler_decorates:
  assumes "im_uri im = ''http://example.com/''"
  shows "ch_decorate test_handler test_nonce im =
    (Inr \<lparr>rm_request_body = json_print (request_wrapper_json (im_body im)),
          rm_public_key_id = make_default_public_key_id_for_test, rm_nonce = test_nonce\<rparr>,
     im\<lparr>im_uri := ''http://example.com/?cup2key='' @ cup_parameter\<rparr>)"
  using assms
  by (simp add: test_handler_def standard_handler_def decorate_request_def intermediate_request_def Let_def serialize_body_def
      append_query_parameter_def with_path_and_query_def appended_query_def sample_uri_ops_def pq_of_string_def ok_or_def
      make_cup_handler_for_test_def make_public_keys_for_test_def standard_cupv2_handler_new_def cup_parameter_def)

lemma cup_parameter_clean: "CHR ''&'' \<notin> set cup_parameter"
  using dec_digits [of "CHR ''&''"]
  by (auto simp: cup_parameter_def cup2_urlparam_def nonce_to_string_def test_crypto_def test_nonce_def digit_val_def)

lemma cup_query: "pq_query (pq_of_string (''http://example.com/?cup2key='' @ cup_parameter)) = Some (''cup2key='' @ cup_parameter)"
  by (simp add: pq_of_string_def)

lemma config_generator_sels:
  "service_url config_generator = ''http://example.com/''" "upd_name (cfg_updater config_generator) = ''updater''"
  "upd_version (cfg_updater config_generator) = version_from [1, 2, 3, 4]"
  by (simp_all add: config_generator_def)

lemmas built = builds test_handler_decorates cup_query config_generator_sels request_version_texts PROTOCOL_V3_def
  update_check_default_request_def

lemma test_simple_request_holds: test_simple_request
  by (simp add: test_simple_request_def built cup_parameter_clean starts_with_def pq_of_string_def)

text \<open>Two apps, the first with a fingerprint, checked with the given parameters.\<close>

definition two_checks :: "request_params \<Rightarrow> string request_builder" where
  "two_checks params =
     add_update_check (test_app ''app id 2'' [5, 6, 7, 8] (cohort_new ''some-channel''))
       (add_update_check ((test_app ''app id 1'' [1, 2, 3, 4] (cohort_new ''some-channel''))\<lparr>app_fingerprint := Some ''fp''\<rparr>)
         (new_builder params))"

definition two_checks_carry :: "update_check \<Rightarrow> protocol_app list \<Rightarrow> bool" where
  "two_checks_carry uc apps \<longleftrightarrow>
     (let app = apps ! 0
      in is_app ''app id 1'' ''1.2.3.4'' ''some-channel'' app \<and> papp_fingerprint app = Some ''fp'' \<and>
         papp_update_check app = Some uc \<and> papp_events app = [] \<and> papp_ping app = None) \<and>
     papp_update_check (apps ! 1) = Some uc"

definition test_updates_disabled_request :: bool where
  "test_updates_disabled_request \<longleftrightarrow>
     (case intermediate_of None (with_request_id (guid_from_u128 2) (with_session_id (guid_from_u128 1)
         (two_checks ((params_from OnDemand)\<lparr>disable_updates := True\<rparr>)))) of
        None \<Rightarrow> False
      | Some im \<Rightarrow> common_fields (im_body im) \<and> two_checks_carry update_check_disabled (request_apps (im_body im)))"

lemma test_updates_disabled_request_holds: test_updates_disabled_request
  by (simp add: test_updates_disabled_request_def two_checks_def two_checks_carry_def update_check_disabled_def built)

definition test_same_version_update_request :: bool where
  "test_same_version_update_request \<longleftrightarrow>
     two_checks_carry (update_check_default_request\<lparr>uc_offer_update_if_same_version := True\<rparr>)
       (apps_of_built (two_checks ((params_from OnDemand)\<lparr>offer_update_if_same_version := True\<rparr>)))"

lemma test_same_version_update_request_holds: test_same_version_update_request
  by (simp add: test_same_version_update_request_def two_checks_def two_checks_carry_def built)

definition test_app_includes_extras :: bool where
  "test_app_includes_extras \<longleftrightarrow>
     (let app = apps_of_built (add_update_check
         ((test_app ''app id'' [5, 6, 7, 8] cohort_default)\<lparr>app_extra_fields := [(''key'', ''value'')]\<rparr>)
         (new_builder (params_from OnDemand))) ! 0
      in papp_id app = ''app id'' \<and> length (papp_extra_fields app) = 1 \<and>
         map_of (papp_extra_fields app) ''key'' = Some ''value'')"

lemma test_app_includes_extras_holds: test_app_includes_extras
  by (simp add: test_app_includes_extras_def built)

text \<open>The expected body; its text is the only one that the reader of the test knows.\<close>

definition single_request_json :: json where
  "single_request_json =
     JObj [(''request'', JObj [(''protocol'', JStr ''3.0''), (''updater'', JStr (upd_name (cfg_updater config_generator))),
       (''updaterversion'', JStr (version_to_string (upd_version (cfg_updater config_generator)))),
       (''installsource'', JStr ''ondemand''), (''ismachine'', JBool True),
       (''os'', JObj [(''platform'', JStr (os_platform (cfg_os config_generator))),
          (''version'', JStr (os_version (cfg_os config_generator))),
          (''sp'', JStr (os_service_pack (cfg_os config_generator))),
          (''arch'', JStr (os_arch (cfg_os config_generator)))]),
       (''app'', JArr [JObj [(''appid'', JStr ''app id''), (''version'', JStr ''5.6.7.8''),
          (''cohort'', JStr ''some-channel''), (''updatecheck'', JObj [])]])])]"

definition test_single_request :: bool where
  "test_single_request \<longleftrightarrow>
     (case build (\<lambda>j. Some (json_print j)) (\<lambda>_ _. True) (Some test_handler) test_nonce
         (add_update_check (test_app ''app id'' [5, 6, 7, 8] (cohort_new ''some-channel''))
           (new_builder (params_from OnDemand))) of
        Inl _ \<Rightarrow> False
      | Inr (r, _) \<Rightarrow>
          hreq_method r = ''POST'' \<and> starts_with (service_url config_generator) (hreq_uri r) \<and>
          (case pq_query (pq_of_string (hreq_uri r)) of None \<Rightarrow> False | Some q \<Rightarrow> starts_with ''cup2key='' q) \<and>
          json_read [single_request_json] (hreq_body r) = Some single_request_json \<and>
          length (hreq_headers r) = 4 \<and> map_of (hreq_headers r) ''content-type'' = Some ''application/json'' \<and>
          map_of (hreq_headers r) HEADER_UPDATER_NAME = Some (upd_name (cfg_updater config_generator)) \<and>
          map_of (hreq_headers r) HEADER_APP_ID = Some ''app id'' \<and>
          map_of (hreq_headers r) HEADER_INTERACTIVITY = Some ''fg'')"

lemma single_request_body:
  "request_wrapper_json (request_of (add_update_check (test_app ''app id'' [5, 6, 7, 8] (cohort_new ''some-channel''))
     (new_builder (params_from OnDemand)))) = single_request_json"
  by code_simp

lemma test_single_request_holds: test_single_request
proof -
  let ?b = "add_update_check (test_app ''app id'' [5, 6, 7, 8] (cohort_new ''some-channel''))
    (new_builder (params_from OnDemand))"
  have uri: "service_url (rb_config ?b) = ''http://example.com/''"
    by (simp add: built)
  have headers: "request_headers ?b = [(''content-type'', ''application/json''), (HEADER_UPDATER_NAME, ''updater''),
      (HEADER_INTERACTIVITY, ''fg''), (HEADER_APP_ID, ''app id'')]"
    by (simp add: built)
  have "build (\<lambda>j. Some (json_print j)) (\<lambda>_ _. True) (Some test_handler) test_nonce ?b =
      Inr (\<lparr>hreq_method = ''POST'', hreq_uri = ''http://example.com/?cup2key='' @ cup_parameter,
             hreq_headers = request_headers ?b, hreq_body = json_print single_request_json\<rparr>,
           Some \<lparr>rm_request_body = json_print single_request_json,
             rm_public_key_id = make_default_public_key_id_for_test, rm_nonce = test_nonce\<rparr>)"
    by (simp add: build_def build_intermediate_def uri test_handler_decorates http_request_from_def serialize_body_def
        single_request_body)
  then show ?thesis
    by (simp add: test_single_request_def headers config_generator_sels pq_of_string_def starts_with_def json_read_def
        HEADER_UPDATER_NAME_def HEADER_APP_ID_def HEADER_INTERACTIVITY_def)
qed

section \<open>Pings and events\<close>

definition with_days :: "app \<Rightarrow> app" where
  "with_days a = a\<lparr>app_user_counting := ClientRegulatedByDate (Some 34)\<rparr>"

definition ping_of_34 :: "protocol_app \<Rightarrow> bool" where
  "ping_of_34 a \<longleftrightarrow> (case papp_ping a of None \<Rightarrow> False
     | Some p \<Rightarrow> date_last_active p = Some 34 \<and> date_last_roll_call p = Some 34)"

definition some_event :: "event_type \<Rightarrow> event_result \<Rightarrow> event_error_code \<Rightarrow> event" where
  "some_event t r e = event_default\<lparr>event_type := t, event_result := r, errorcode := Some e\<rparr>"

definition event_is :: "event_type \<Rightarrow> event_result \<Rightarrow> event_error_code \<Rightarrow> event \<Rightarrow> bool" where
  "event_is t r e ev \<longleftrightarrow> event_type ev = t \<and> event_result ev = r \<and> errorcode ev = Some e"

lemmas additions = built with_days_def ping_of_34_def some_event_def event_is_def

definition test_simple_ping :: bool where
  "test_simple_ping \<longleftrightarrow>
     (case intermediate_of None (add_ping (with_days (test_app ''ping app id'' [6, 7, 8, 9] (cohort_new ''ping-channel'')))
         (new_builder (params_from ScheduledTask))) of
        None \<Rightarrow> False
      | Some im \<Rightarrow>
          (let app = request_apps (im_body im) ! 0
           in is_app ''ping app id'' ''6.7.8.9'' ''ping-channel'' app \<and> ping_of_34 app) \<and>
          headers_are ''ping app id'' ''bg'' im)"

lemma test_simple_ping_holds: test_simple_ping
  by (simp add: test_simple_ping_def additions)

definition event_app :: app where
  "event_app = test_app ''event app id'' [6, 7, 8, 9] (cohort_new ''event-channel'')"

definition test_simple_event :: bool where
  "test_simple_event \<longleftrightarrow>
     (let app = apps_of_built (add_event event_app (some_event UpdateDownloadStarted EventSuccess Installation)
         (new_builder (params_from ScheduledTask))) ! 0
      in is_app ''event app id'' ''6.7.8.9'' ''event-channel'' app \<and>
         event_is UpdateDownloadStarted EventSuccess Installation (papp_events app ! 0))"

lemma test_simple_event_holds: test_simple_event
  by (simp add: test_simple_event_def event_app_def additions)

definition test_multiple_events :: bool where
  "test_multiple_events \<longleftrightarrow>
     (let app = apps_of_built
         (add_event event_app (some_event UpdateDownloadFinished EventError ErrDeniedByPolicy)
           (add_event event_app (some_event UpdateDownloadStarted EventSuccess Installation)
             (new_builder (params_from ScheduledTask)))) ! 0
      in is_app ''event app id'' ''6.7.8.9'' ''event-channel'' app \<and>
         event_is UpdateDownloadStarted EventSuccess Installation (papp_events app ! 0) \<and>
         event_is UpdateDownloadFinished EventError ErrDeniedByPolicy (papp_events app ! 1))"

lemma test_multiple_events_holds: test_multiple_events
  by (simp add: test_multiple_events_def event_app_def additions)

section \<open>Two apps\<close>

definition first_app :: app where
  "first_app = test_app ''first app id'' [1, 2, 3, 4] (cohort_new ''some-channel'')"

definition second_app :: app where
  "second_app = test_app ''second app id'' [5, 6, 7, 8] (cohort_new ''some-other-channel'')"

definition is_first :: "protocol_app \<Rightarrow> bool" where
  "is_first = is_app ''first app id'' ''1.2.3.4'' ''some-channel''"

definition is_second :: "protocol_app \<Rightarrow> bool" where
  "is_second = is_app ''second app id'' ''5.6.7.8'' ''some-other-channel''"

definition two_updates :: "app \<Rightarrow> app \<Rightarrow> string request_builder" where
  "two_updates a b = add_update_check b (add_update_check a (new_builder (params_from ScheduledTask)))"

definition download_finished :: event where
  "download_finished = some_event UpdateDownloadFinished EventSuccess Installation"

definition is_download_finished :: "event \<Rightarrow> bool" where
  "is_download_finished = event_is UpdateDownloadFinished EventSuccess Installation"

lemmas two_apps = additions first_app_def second_app_def is_first_def is_second_def two_updates_def download_finished_def
  is_download_finished_def

definition test_ping_added_to_first_app_update_entry :: bool where
  "test_ping_added_to_first_app_update_entry \<longleftrightarrow>
     (let apps = apps_of_built (add_ping (with_days first_app) (two_updates (with_days first_app) second_app))
      in length apps = 2 \<and> is_first (apps ! 0) \<and> ping_of_34 (apps ! 0) \<and> is_second (apps ! 1) \<and> papp_ping (apps ! 1) = None)"

lemma test_ping_added_to_first_app_update_entry_holds: test_ping_added_to_first_app_update_entry
  by (simp add: test_ping_added_to_first_app_update_entry_def two_apps)

definition test_ping_added_to_second_app_update_entry :: bool where
  "test_ping_added_to_second_app_update_entry \<longleftrightarrow>
     (let apps = apps_of_built (add_ping (with_days second_app) (two_updates first_app (with_days second_app)))
      in length apps = 2 \<and> is_first (apps ! 0) \<and> is_second (apps ! 1) \<and> ping_of_34 (apps ! 1))"

lemma test_ping_added_to_second_app_update_entry_holds: test_ping_added_to_second_app_update_entry
  by (simp add: test_ping_added_to_second_app_update_entry_def two_apps)

definition test_event_added_to_first_app_update_entry :: bool where
  "test_event_added_to_first_app_update_entry \<longleftrightarrow>
     (let apps = apps_of_built (add_event first_app download_finished (two_updates first_app second_app))
      in length apps = 2 \<and> is_first (apps ! 0) \<and> is_download_finished (papp_events (apps ! 0) ! 0) \<and>
         is_second (apps ! 1) \<and> papp_events (apps ! 1) = [])"

lemma test_event_added_to_first_app_update_entry_holds: test_event_added_to_first_app_update_entry
  by (simp add: test_event_added_to_first_app_update_entry_def two_apps)

definition test_event_added_to_second_app_update_entry :: bool where
  "test_event_added_to_second_app_update_entry \<longleftrightarrow>
     (let apps = apps_of_built (add_event second_app download_finished (two_updates first_app second_app))
      in length apps = 2 \<and> is_first (apps ! 0) \<and> papp_events (apps ! 0) = [] \<and> is_second (apps ! 1) \<and>
         length (papp_events (apps ! 1)) = 1 \<and> is_download_finished (papp_events (apps ! 1) ! 0))"

lemma test_event_added_to_second_app_update_entry_holds: test_event_added_to_second_app_update_entry
  by (simp add: test_event_added_to_second_app_update_entry_def two_apps)

end
