(* ===== verification/Time_Tests.thy ===== *)
theory Time_Tests imports Time_Model begin

text \<open>
  The tests of \<open>time/complex.rs\<close>, \<open>time/time_source.rs\<close> and \<open>time/timers.rs\<close>.  The readings of the
  clocks are the argument \<open>now\<close> of a test; the tests pass for every reading that is not before the epoch and leaves a day of room in the range of the time types (\<open>clock_reading\<close>).
\<close>

section \<open>Vocabulary\<close>

definition clock_reading :: "complex_time \<Rightarrow> bool" where
  "clock_reading now \<longleftrightarrow> 0 \<le> wall now \<and> representable (wall now + int (duration_from_secs 86400)) \<and>
     - (2 ^ 62 * 1000000000) \<le> mono now \<and> representable (mono now + int (duration_from_secs 86400))"

text \<open>The rest of a test after a computation that may panic.\<close>

fun on_value :: "'a option \<Rightarrow> ('a \<Rightarrow> bool) \<Rightarrow> bool" where
  "on_value None P = False"
| "on_value (Some x) P = P x"

text \<open>\<open>Instant::duration_since\<close> saturates at zero.\<close>

definition instant_duration_since :: "instant \<Rightarrow> instant \<Rightarrow> duration" where
  "instant_duration_since t earlier = nat (t - earlier)"

text \<open>The two times lie \<open>dur\<close> apart on both timelines.\<close>

definition apart :: "duration \<Rightarrow> complex_time \<Rightarrow> complex_time \<Rightarrow> bool" where
  "apart dur later earlier \<longleftrightarrow>
     duration_since (wall later) (wall earlier) = Inr dur \<and> instant_duration_since (mono later) (mono earlier) = dur"

definition an_hour :: duration where
  "an_hour = duration_from_secs (60 * 60)"

text \<open>A monotonic time at least a day after the origin of the clock.\<close>

definition a_day_in :: "complex_time \<Rightarrow> complex_time option" where
  "a_day_in now = map_option (\<lambda>m. \<lparr>wall = wall now, mono = m\<rparr>)
     (checked_time_add (mono now) (duration_from_secs (24 * 60 * 60)))"

lemmas time_test_simps = clock_reading_def apart_def an_hour_def a_day_in_def instant_duration_since_def duration_since_def
  duration_from_secs_def duration_from_micros_def representable_def checked_time_add_def checked_time_sub_def
  complex_time_add_def complex_time_sub_def complex_time_from_def wall_duration_since_def

section \<open>Complex times\<close>

definition test_truncate_submicrosecond_walltime :: "complex_time \<Rightarrow> bool" where
  "test_truncate_submicrosecond_walltime now \<longleftrightarrow>
     on_value (truncate_submicrosecond_walltime now) (\<lambda>truncated.
     on_value (checked_system_time_to_micros_from_epoch (wall now)) (\<lambda>micros.
       wall truncated = micros_from_epoch_to_system_time micros))"

lemma truncated_clock_reading:
  assumes "clock_reading now"
  shows "truncate_submicrosecond_walltime now = Some \<lparr>wall = 1000 * (wall now div 1000), mono = mono now\<rparr>"
proof -
  have nonneg: "0 \<le> wall now" and below: "wall now < 2 ^ 63 * 1000000000"
    using assms by (simp_all add: clock_reading_def representable_def duration_from_secs_def)
  have "int (nat (wall now) mod 1000) = wall now mod 1000" using nonneg by (simp add: zmod_int)
  moreover have "wall now - wall now mod 1000 = 1000 * (wall now div 1000)" by (simp add: minus_mod_eq_mult_div)
  moreover have "representable (wall now - wall now mod 1000)"
  proof -
    have "0 \<le> wall now mod 1000" "wall now mod 1000 \<le> wall now" using nonneg by (simp_all add: zmod_le_nonneg_dividend)
    then have "- (2 ^ 63 * 1000000000) \<le> wall now - wall now mod 1000"
      and "wall now - wall now mod 1000 < 2 ^ 63 * 1000000000" using below by linarith+
    then show ?thesis by (simp add: representable_def)
  qed
  ultimately show ?thesis using nonneg
    by (simp add: truncate_submicrosecond_walltime_def wall_duration_since_def duration_since_def checked_time_sub_def)
qed

lemma clock_reading_micros:
  assumes "clock_reading now" and "wall now < 2 ^ 63 * 1000"
  shows "\<exists>m. checked_system_time_to_micros_from_epoch (wall now) = Some m \<and> sint m = wall now div 1000"
proof -
  have nonneg: "0 \<le> wall now" using assms(1) by (simp add: clock_reading_def)
  have "wall now div 1000 < 2 ^ 63" using assms(2) by simp
  then have "nat (wall now) div 1000 < 2 ^ 63" using nonneg by (simp add: nat_less_iff flip: nat_div_distrib)
  then have "sint (of_nat (nat (wall now) div 1000) :: i64) = wall now div 1000"
    and "checked_system_time_to_micros_from_epoch (wall now) = Some (of_nat (nat (wall now) div 1000))"
    using nonneg by (simp_all add: sint_of_nat_63 to_micros_of_nonneg i64_try_from_nat_def zdiv_int)
  then show ?thesis by blast
qed

lemma test_truncate_submicrosecond_walltime_holds:
  assumes "clock_reading now" and "wall now < 2 ^ 63 * 1000"
  shows "test_truncate_submicrosecond_walltime now"
  using clock_reading_micros [OF assms] truncated_clock_reading [OF assms(1)]
  by (auto simp: test_truncate_submicrosecond_walltime_def micros_from_epoch_eq)

definition test_wall_duration_since :: "complex_time \<Rightarrow> bool" where
  "test_wall_duration_since early \<longleftrightarrow>
     on_value (checked_time_add (wall early) (duration_from_secs 200)) (\<lambda>w.
       let later = early\<lparr>wall := w\<rparr> in wall_duration_since later (wall early) = Inr (duration_from_secs 200))"

lemma test_wall_duration_since_holds: "clock_reading now \<Longrightarrow> test_wall_duration_since now"
  by (simp add: test_wall_duration_since_def time_test_simps)

definition test_is_after_or_eq_any :: "complex_time \<Rightarrow> bool" where
  "test_is_after_or_eq_any c \<longleftrightarrow>
     (let dur = duration_from_secs 60 in
      on_value (checked_time_add (wall c) dur) (\<lambda>wall_after.
      on_value (checked_time_add (mono c) dur) (\<lambda>mono_after.
      on_value (complex_time_add c dur) (\<lambda>comp_after.
        let comp_wall_after_mono_not = complex_time_from (wall_after, mono c);
            comp_mono_after_wall_not = complex_time_from (wall c, mono_after)
        in is_after_or_eq_any comp_after (Complex c) \<and> is_after_or_eq_any comp_after (Wall (wall c)) \<and>
           is_after_or_eq_any comp_after (Monotonic (mono c)) \<and>
           \<not> is_after_or_eq_any c (Complex comp_after) \<and> \<not> is_after_or_eq_any c (Wall wall_after) \<and>
           \<not> is_after_or_eq_any c (Monotonic mono_after) \<and>
           is_after_or_eq_any comp_after (Complex comp_after) \<and> is_after_or_eq_any comp_after (Wall wall_after) \<and>
           is_after_or_eq_any comp_after (Monotonic mono_after) \<and>
           is_after_or_eq_any comp_wall_after_mono_not (Complex c) \<and>
           is_after_or_eq_any comp_mono_after_wall_not (Complex c)))))"

lemma test_is_after_or_eq_any_holds: "clock_reading now \<Longrightarrow> test_is_after_or_eq_any now"
  by (simp add: test_is_after_or_eq_any_def time_test_simps)

text \<open>\<open>+=\<close> and \<open>-=\<close> are \<open>+\<close> and \<open>-\<close>, so their tests compute the same.\<close>

definition test_complex_time_impl_add :: "complex_time \<Rightarrow> bool" where
  "test_complex_time_impl_add earlier \<longleftrightarrow>
     on_value (complex_time_add earlier an_hour) (\<lambda>later. apart an_hour later earlier)"

definition test_complex_time_impl_add_assign :: "complex_time \<Rightarrow> bool" where
  "test_complex_time_impl_add_assign earlier \<longleftrightarrow>
     on_value (complex_time_add earlier an_hour) (\<lambda>time. apart an_hour time earlier)"

definition test_complex_time_impl_sub :: "complex_time \<Rightarrow> bool" where
  "test_complex_time_impl_sub now \<longleftrightarrow>
     on_value (a_day_in now) (\<lambda>time. on_value (complex_time_sub time an_hour) (\<lambda>earlier. apart an_hour time earlier))"

definition test_complex_time_impl_sub_assign :: "complex_time \<Rightarrow> bool" where
  "test_complex_time_impl_sub_assign now \<longleftrightarrow>
     on_value (a_day_in now) (\<lambda>before_sub.
     on_value (complex_time_sub before_sub an_hour) (\<lambda>time. apart an_hour before_sub time))"

lemma complex_arithmetic_tests_hold:
  "clock_reading now \<Longrightarrow> test_complex_time_impl_add now"
  "clock_reading now \<Longrightarrow> test_complex_time_impl_add_assign now"
  "clock_reading now \<Longrightarrow> test_complex_time_impl_sub now"
  "clock_reading now \<Longrightarrow> test_complex_time_impl_sub_assign now"
  by (simp_all add: test_complex_time_impl_add_def test_complex_time_impl_add_assign_def test_complex_time_impl_sub_def
      test_complex_time_impl_sub_assign_def time_test_simps)

section \<open>Partial times\<close>

text \<open>The same kind of time, later by the duration on each of its timelines.\<close>

fun after_by :: "duration \<Rightarrow> partial_complex_time \<Rightarrow> partial_complex_time \<Rightarrow> bool" where
  "after_by dur (Wall w) (Wall w') = (duration_since w w' = Inr dur)"
| "after_by dur (Monotonic m) (Monotonic m') = (instant_duration_since m m' = dur)"
| "after_by dur (Complex c) (Complex c') = apart dur c c'"
| "after_by dur _ _ = False"

definition partial_times :: "complex_time \<Rightarrow> partial_complex_time list" where
  "partial_times c = [Wall (wall c), Monotonic (mono c), Complex c]"

definition test_partial_complex_time_impl_add :: "complex_time \<Rightarrow> bool" where
  "test_partial_complex_time_impl_add now \<longleftrightarrow>
     list_all (\<lambda>p. on_value (partial_time_add p an_hour) (\<lambda>later. after_by an_hour later p)) (partial_times now)"

definition test_partial_complex_time_impl_add_assign :: "complex_time \<Rightarrow> bool" where
  "test_partial_complex_time_impl_add_assign now \<longleftrightarrow>
     list_all (\<lambda>p. on_value (partial_time_add p an_hour) (\<lambda>p'. after_by an_hour p' p)) (partial_times now)"

definition test_partial_complex_time_impl_sub :: "complex_time \<Rightarrow> bool" where
  "test_partial_complex_time_impl_sub now \<longleftrightarrow>
     on_value (a_day_in now) (\<lambda>c.
       list_all (\<lambda>p. on_value (partial_time_sub p an_hour) (\<lambda>earlier. after_by an_hour p earlier)) (partial_times c))"

definition test_partial_complex_time_impl_sub_assign :: "complex_time \<Rightarrow> bool" where
  "test_partial_complex_time_impl_sub_assign now \<longleftrightarrow>
     on_value (a_day_in now) (\<lambda>c.
       list_all (\<lambda>p. on_value (partial_time_sub p an_hour) (\<lambda>p'. after_by an_hour p p')) (partial_times c))"

lemma partial_arithmetic_tests_hold:
  "clock_reading now \<Longrightarrow> test_partial_complex_time_impl_add now"
  "clock_reading now \<Longrightarrow> test_partial_complex_time_impl_add_assign now"
  "clock_reading now \<Longrightarrow> test_partial_complex_time_impl_sub now"
  "clock_reading now \<Longrightarrow> test_partial_complex_time_impl_sub_assign now"
  by (simp_all add: test_partial_complex_time_impl_add_def test_partial_complex_time_impl_add_assign_def
      test_partial_complex_time_impl_sub_def test_partial_complex_time_impl_sub_assign_def partial_times_def time_test_simps)

definition test_checked_to_system_time :: "complex_time \<Rightarrow> bool" where
  "test_checked_to_system_time now \<longleftrightarrow>
     checked_to_system_time (Wall (wall now)) = Some (wall now) \<and> checked_to_system_time (Monotonic (mono now)) = None \<and>
     checked_to_system_time (Complex (complex_time_from (wall now, mono now))) = Some (wall now)"

text \<open>The epoch, moved by a duration.\<close>

definition after_epoch :: "duration \<Rightarrow> system_time option" where
  "after_epoch d = checked_time_add UNIX_EPOCH d"

definition before_epoch :: "duration \<Rightarrow> system_time option" where
  "before_epoch d = checked_time_sub UNIX_EPOCH d"

text \<open>The microseconds of a wall time, alone and in a complex time; a monotonic time has none.\<close>

definition all_micros_are :: "i64 \<Rightarrow> system_time \<Rightarrow> instant \<Rightarrow> bool" where
  "all_micros_are n system_time instant \<longleftrightarrow>
     checked_to_micros_since_epoch (Wall system_time) = Some n \<and>
     checked_to_micros_since_epoch (Complex (complex_time_from (system_time, instant))) = Some n \<and>
     checked_to_micros_since_epoch (Monotonic instant) = None"

definition test_checked_to_micros_from_partial_complex_time :: "complex_time \<Rightarrow> bool" where
  "test_checked_to_micros_from_partial_complex_time now \<longleftrightarrow>
     on_value (after_epoch (duration_from_micros 123456789)) (\<lambda>t. all_micros_are 123456789 t (mono now))"

definition test_checked_to_micros_from_partial_complex_time_before_epoch :: "complex_time \<Rightarrow> bool" where
  "test_checked_to_micros_from_partial_complex_time_before_epoch now \<longleftrightarrow>
     on_value (before_epoch (duration_from_micros 123456789)) (\<lambda>t. all_micros_are (- 123456789) t (mono now))"

definition test_checked_to_micros_from_partial_complex_time_overflow_is_none :: bool where
  "test_checked_to_micros_from_partial_complex_time_overflow_is_none \<longleftrightarrow>
     on_value (after_epoch (2 * duration_from_micros (2 ^ 64 - 1))) (\<lambda>t. checked_to_micros_since_epoch (Wall t) = None)"

definition test_checked_to_micros_from_partial_complex_time_negative_overflow_is_none :: bool where
  "test_checked_to_micros_from_partial_complex_time_negative_overflow_is_none \<longleftrightarrow>
     on_value (before_epoch (2 * duration_from_micros (2 ^ 64 - 1))) (\<lambda>t. checked_to_micros_since_epoch (Wall t) = None)"

lemmas micros_simps = time_test_simps after_epoch_def before_epoch_def all_micros_are_def checked_to_micros_since_epoch_def
  checked_to_system_time_def checked_system_time_to_micros_from_epoch_def duration_as_micros_def i64_try_from_nat_def
  i64_checked_neg_def

lemma partial_conversion_tests_hold:
  "test_checked_to_system_time now"
  "test_checked_to_micros_from_partial_complex_time now"
  "test_checked_to_micros_from_partial_complex_time_before_epoch now"
  test_checked_to_micros_from_partial_complex_time_overflow_is_none
  test_checked_to_micros_from_partial_complex_time_negative_overflow_is_none
  by (simp_all add: test_checked_to_system_time_def test_checked_to_micros_from_partial_complex_time_def
      test_checked_to_micros_from_partial_complex_time_before_epoch_def
      test_checked_to_micros_from_partial_complex_time_overflow_is_none_def
      test_checked_to_micros_from_partial_complex_time_negative_overflow_is_none_def micros_simps)

definition test_complete_with :: "complex_time \<Rightarrow> bool" where
  "test_complete_with now \<longleftrightarrow>
     on_value (before_epoch (duration_from_micros 100)) (\<lambda>system_time.
       let complex = complex_time_from (system_time, mono now) in
       on_value (complex_time_add complex (duration_from_micros 500)) (\<lambda>other.
         complete_with (Wall system_time) other = complex_time_from (system_time, mono other) \<and>
         complete_with (Monotonic (mono now)) other = complex_time_from (wall other, mono now) \<and>
         complete_with (Complex complex) other = complex))"

lemma test_complete_with_holds: "clock_reading now \<Longrightarrow> test_complete_with now"
  by (simp add: test_complete_with_def complete_with_def before_epoch_def time_test_simps)

definition test_destructure :: "complex_time \<Rightarrow> bool" where
  "test_destructure now \<longleftrightarrow>
     destructure (Wall (wall now)) = (Some (wall now), None) \<and> destructure (Monotonic (mono now)) = (None, Some (mono now)) \<and>
     destructure (Complex (complex_time_from (wall now, mono now))) = (Some (wall now), Some (mono now))"

lemma test_destructure_holds: "test_destructure now"
  by (simp add: test_destructure_def complex_time_from_def)

section \<open>Microseconds\<close>

definition test_system_time_to_micros :: bool where
  "test_system_time_to_micros \<longleftrightarrow>
     on_value (after_epoch (duration_from_micros 123456789)) (\<lambda>t. checked_system_time_to_micros_from_epoch t = Some 123456789)"

definition test_system_time_to_micros_negative :: bool where
  "test_system_time_to_micros_negative \<longleftrightarrow>
     on_value (before_epoch (duration_from_micros 123456789)) (\<lambda>t.
       checked_system_time_to_micros_from_epoch t = Some (- 123456789))"

definition test_system_time_to_micros_overflow_is_none :: bool where
  "test_system_time_to_micros_overflow_is_none \<longleftrightarrow>
     on_value (after_epoch (2 * duration_from_micros (2 ^ 64 - 1))) (\<lambda>t. checked_system_time_to_micros_from_epoch t = None)"

definition test_system_time_to_micros_negative_overflow_is_none :: bool where
  "test_system_time_to_micros_negative_overflow_is_none \<longleftrightarrow>
     on_value (before_epoch (2 * duration_from_micros (2 ^ 64 - 1))) (\<lambda>t. checked_system_time_to_micros_from_epoch t = None)"

definition test_system_time_from_micros :: bool where
  "test_system_time_from_micros \<longleftrightarrow>
     on_value (after_epoch (duration_from_micros 123456789)) (\<lambda>t. micros_from_epoch_to_system_time 123456789 = t)"

definition test_system_time_from_micros_negative :: bool where
  "test_system_time_from_micros_negative \<longleftrightarrow>
     on_value (before_epoch (duration_from_micros 123456789)) (\<lambda>t. micros_from_epoch_to_system_time (- 123456789) = t)"

definition test_system_time_from_micros_positive_max :: bool where
  "test_system_time_from_micros_positive_max \<longleftrightarrow>
     on_value (after_epoch (duration_from_micros (2 ^ 63 - 1))) (\<lambda>t. micros_from_epoch_to_system_time (2 ^ 63 - 1) = t)"

definition test_system_time_from_micros_negative_min :: bool where
  "test_system_time_from_micros_negative_min \<longleftrightarrow>
     on_value (before_epoch (duration_from_micros (2 ^ 63 - 1 + 1))) (\<lambda>t. micros_from_epoch_to_system_time (2 ^ 63) = t)"

lemma micros_tests_hold:
  test_system_time_to_micros test_system_time_to_micros_negative test_system_time_to_micros_overflow_is_none
  test_system_time_to_micros_negative_overflow_is_none test_system_time_from_micros test_system_time_from_micros_negative
  test_system_time_from_micros_positive_max test_system_time_from_micros_negative_min
  by (simp_all add: test_system_time_to_micros_def test_system_time_to_micros_negative_def
      test_system_time_to_micros_overflow_is_none_def test_system_time_to_micros_negative_overflow_is_none_def
      test_system_time_from_micros_def test_system_time_from_micros_negative_def
      test_system_time_from_micros_positive_max_def test_system_time_from_micros_negative_min_def
      micros_simps micros_from_epoch_eq)

section \<open>Conversions\<close>

definition partial_from_complex :: "complex_time \<Rightarrow> partial_complex_time" where
  "partial_from_complex t = Complex t"

definition option_partial_from_complex :: "complex_time \<Rightarrow> partial_complex_time option" where
  "option_partial_from_complex t = Some (partial_from_complex t)"

definition partial_from_system_time :: "system_time \<Rightarrow> partial_complex_time" where
  "partial_from_system_time w = Wall w"

definition partial_from_instant :: "instant \<Rightarrow> partial_complex_time" where
  "partial_from_instant m = Monotonic m"

definition partial_from_pair :: "system_time \<times> instant \<Rightarrow> partial_complex_time" where
  "partial_from_pair t = Complex (complex_time_from t)"

text \<open>Every conversion keeps the times it is given: it destructures into them.\<close>

lemma conversions_keep_times:
  "destructure (partial_from_complex c) = (Some (wall c), Some (mono c))"
  "option_partial_from_complex c = Some (partial_from_pair (wall c, mono c))"
  "destructure (partial_from_system_time w) = (Some w, None)"
  "destructure (partial_from_instant m) = (None, Some m)"
  "destructure (partial_from_pair (w, m)) = (Some w, Some m)"
  by (simp_all add: partial_from_complex_def option_partial_from_complex_def partial_from_system_time_def
      partial_from_instant_def partial_from_pair_def complex_time_from_def)

section \<open>The mock time source\<close>

definition test_impl_time_source_for_mock_time_source :: "complex_time \<Rightarrow> bool" where
  "test_impl_time_source_for_mock_time_source time \<longleftrightarrow>
     (let mock_source = mts_new time
      in mts_now mock_source = time \<and> mts_now_in_walltime mock_source = wall time \<and>
         mts_now_in_monotonic mock_source = mono time)"

definition test_mock_timesource_will_advance :: "complex_time \<Rightarrow> bool" where
  "test_mock_timesource_will_advance now \<longleftrightarrow>
     (let source = mts_new now; duration = duration_from_secs 60 in
      on_value (mts_advance source duration) (\<lambda>source'.
      on_value (complex_time_add (mts_now source) duration) (\<lambda>expected. mts_now source' = expected)))"

text \<open>A clone shares the time: both sources are the same cell.\<close>

definition test_cloned_mock_time_source_also_advances :: "complex_time \<Rightarrow> bool" where
  "test_cloned_mock_time_source_also_advances now \<longleftrightarrow>
     (let shared = mts_new now; initial_time = mts_now shared in
      on_value (mts_advance shared an_hour) (\<lambda>shared'.
      on_value (complex_time_add initial_time an_hour) (\<lambda>expected. mts_now shared' = expected)))"

lemma time_source_tests_hold:
  "test_impl_time_source_for_mock_time_source now"
  "clock_reading now \<Longrightarrow> test_mock_timesource_will_advance now"
  "clock_reading now \<Longrightarrow> test_cloned_mock_time_source_also_advances now"
  by (simp_all add: test_impl_time_source_for_mock_time_source_def test_mock_timesource_will_advance_def
      test_cloned_mock_time_source_also_advances_def mts_new_def mts_now_def mts_now_in_walltime_def
      mts_now_in_monotonic_def mts_advance_def time_test_simps)

section \<open>The mock timer\<close>

text \<open>How a test of the timer ends; the panics with what their messages tell.\<close>

datatype timer_test_outcome =
    TimerPassed | TimerBlocked | OutOfRange duration duration duration | WrongTime | WrongWait | WaitsLeftOver

fun wait_failure :: "requested_wait \<Rightarrow> expected_wait \<Rightarrow> timer_test_outcome" where
  "wait_failure (WaitFor d) (ExpectFor lo hi) = OutOfRange d lo hi"
| "wait_failure (WaitUntil _) (ExpectUntil _) = WrongTime"
| "wait_failure _ _ = WrongWait"

text \<open>Waiting in turn, then dropping the timer.\<close>

fun timer_test :: "mock_timer \<Rightarrow> requested_wait list \<Rightarrow> timer_test_outcome" where
  "timer_test t [] = (if mock_timer_drop_ok t then TimerPassed else WaitsLeftOver)"
| "timer_test t (r # rs) =
     (case handle_wait t r of
        (WaitReady, t') \<Rightarrow> timer_test t' rs
      | (WaitPending, _) \<Rightarrow> TimerBlocked
      | (WaitPanic, _) \<Rightarrow> wait_failure r (hd (expected_waits t)))"

text \<open>A test passes exactly when the waits match what is expected, one by one and to the last.\<close>

lemma timer_test_passes_iff:
  "timer_test t rs = TimerPassed \<longleftrightarrow> list_all2 wait_matches rs (expected_waits t)"
proof (induction rs arbitrary: t)
  case (Cons r rs)
  show ?case
  proof (cases "expected_waits t")
    case (Cons e es)
    have "wait_failure r e \<noteq> TimerPassed" by (cases r; cases e) simp_all
    with Cons Cons.IH show ?thesis by (simp add: handle_wait_def)
  qed (simp add: handle_wait_def)
qed (simp add: mock_timer_drop_ok_def)

abbreviation secs :: "nat \<Rightarrow> requested_wait" where
  "secs n \<equiv> WaitFor (duration_from_secs n)"

abbreviation expecting :: "nat list \<Rightarrow> mock_timer" where
  "expecting ns \<equiv> fold (\<lambda>n t. expect_for t (duration_from_secs n)) ns mock_timer_new"

abbreviation expecting_range :: mock_timer where
  "expecting_range \<equiv> expect_for_range mock_timer_new (duration_from_secs 10) (duration_from_secs 20)"

definition test_wait_until_expected :: "complex_time \<Rightarrow> bool" where
  "test_wait_until_expected now \<longleftrightarrow>
     on_value (complex_time_add now (duration_from_secs 5555)) (\<lambda>time.
       timer_test (expect_until mock_timer_new (Complex time)) [WaitUntil (Complex time)] = TimerPassed)"

definition test_wait_for_expected :: bool where
  "test_wait_for_expected \<longleftrightarrow> timer_test (expecting [5555]) [secs 5555] = TimerPassed"

definition test_wait_for_twice :: bool where
  "test_wait_for_twice \<longleftrightarrow> timer_test (expecting [5555, 6666]) [secs 5555, secs 6666] = TimerPassed"

text \<open>The loop of the test waits for one second more each time; the pool stalls, and drops the timer.\<close>

definition test_wait_for_loop :: bool where
  "test_wait_for_loop \<longleftrightarrow>
     (let (res, t) = handle_waits (expecting [1, 2, 3]) (map secs [1, 2, 3, 4])
      in res = WaitPending \<and> mock_timer_drop_ok t)"

definition test_wait_for_expected_duration :: bool where
  "test_wait_for_expected_duration \<longleftrightarrow> timer_test expecting_range [secs 15] = TimerPassed"

definition test_wait_for_expected_duration_out_of_range_low :: bool where
  "test_wait_for_expected_duration_out_of_range_low \<longleftrightarrow>
     timer_test expecting_range [secs 3] =
       OutOfRange (duration_from_secs 3) (duration_from_secs 10) (duration_from_secs 20)"

definition test_wait_for_expected_duration_out_of_range_high :: bool where
  "test_wait_for_expected_duration_out_of_range_high \<longleftrightarrow>
     timer_test expecting_range [secs 30] =
       OutOfRange (duration_from_secs 30) (duration_from_secs 10) (duration_from_secs 20)"

definition test_wait_for_wrong_duration :: bool where
  "test_wait_for_wrong_duration \<longleftrightarrow>
     (let expected = duration_from_secs 5555
      in timer_test (expecting [5555]) [secs 6666] = OutOfRange (duration_from_secs 6666) expected expected)"

definition test_expect_more_wait_for :: bool where
  "test_expect_more_wait_for \<longleftrightarrow> timer_test (expecting [5555, 6666]) [secs 5555] = WaitsLeftOver"

definition test_wait_for_wrong_wait :: "complex_time \<Rightarrow> bool" where
  "test_wait_for_wrong_wait now \<longleftrightarrow>
     on_value (complex_time_add now (duration_from_secs 5555)) (\<lambda>time.
       timer_test (expect_until mock_timer_new (Complex time)) [secs 6666] = WrongWait)"

lemmas timer_simps = expect_for_def expect_until_def expect_for_range_def mock_timer_new_def handle_wait_def
  mock_timer_drop_ok_def duration_from_secs_def

lemma mock_timer_tests_hold:
  "clock_reading now \<Longrightarrow> test_wait_until_expected now"
  test_wait_for_expected test_wait_for_twice test_wait_for_loop test_wait_for_expected_duration
  test_wait_for_expected_duration_out_of_range_low test_wait_for_expected_duration_out_of_range_high
  test_wait_for_wrong_duration test_expect_more_wait_for
  "clock_reading now \<Longrightarrow> test_wait_for_wrong_wait now"
  by (simp_all add: test_wait_until_expected_def test_wait_for_expected_def test_wait_for_twice_def test_wait_for_loop_def
      test_wait_for_expected_duration_def test_wait_for_expected_duration_out_of_range_low_def
      test_wait_for_expected_duration_out_of_range_high_def test_wait_for_wrong_duration_def
      test_expect_more_wait_for_def test_wait_for_wrong_wait_def timer_simps time_test_simps)

definition test_wait_always_ready :: "complex_time \<Rightarrow> bool" where
  "test_wait_always_ready now \<longleftrightarrow>
     on_value (complex_time_add now (duration_from_secs 5555)) (\<lambda>time. stub_timer_wait (WaitUntil (Complex time)) = WaitReady) \<and>
     stub_timer_wait (secs 5555) = WaitReady"

lemma test_wait_always_ready_holds: "clock_reading now \<Longrightarrow> test_wait_always_ready now"
  by (simp add: test_wait_always_ready_def stub_timer_wait_def time_test_simps)

end
