(* ===== verification/Blocking_Timer.thy ===== *)
theory Blocking_Timer imports Time_Model begin

text \<open>
  The blocking timers of \<open>time/timers.rs\<close>.  A wait on \<open>BlockingTimer\<close> is a future: its first poll sends a
  \<open>BlockedTimer\<close> into the channel that \<open>BlockingTimer::new\<close> returned, and it completes when the receiver of that
  \<open>BlockedTimer\<close> unblocks it.  The state holds every wait ever created, by number, with the stage it is in; the channel
  holds the numbers of the waits whose \<open>BlockedTimer\<close> was sent and not received.  A clone of the sender has room for one
  message of its own, so the send itself never blocks, but flushing it waits until the message is received.
\<close>

section \<open>State\<close>

text \<open>\<open>Waking\<close> is the stage after \<open>unblock\<close>, \<open>Abandoned\<close> that after the \<open>BlockedTimer\<close> was dropped.\<close>

datatype wait_stage = NotSent | InChannel | Held | Waking | Abandoned

record blocking_wait =
  bw_wait :: requested_wait
  bw_stage :: wait_stage
  bw_alive :: bool

record blocking_timer =
  bt_waits :: "blocking_wait list"
  bt_channel :: "nat list"
  bt_receiver :: bool

section \<open>Operations\<close>

definition blocking_new :: blocking_timer where
  "blocking_new = \<lparr>bt_waits = [], bt_channel = [], bt_receiver = True\<rparr>"

definition set_stage :: "nat \<Rightarrow> wait_stage \<Rightarrow> blocking_timer \<Rightarrow> blocking_timer" where
  "set_stage i stage t = t\<lparr>bt_waits := (bt_waits t)[i := (bt_waits t ! i)\<lparr>bw_stage := stage\<rparr>]\<rparr>"

text \<open>\<open>wait\<close>, of \<open>wait_until\<close> and \<open>wait_for\<close>: the future, and the number it has.\<close>

definition blocking_wait_new :: "requested_wait \<Rightarrow> blocking_timer \<Rightarrow> nat \<times> blocking_timer" where
  "blocking_wait_new w t =
     (length (bt_waits t), t\<lparr>bt_waits := bt_waits t @ [\<lparr>bw_wait = w, bw_stage = NotSent, bw_alive = True\<rparr>]\<rparr>)"

text \<open>A poll of the future.  Without a receiver the send fails, and \<open>unwrap\<close> panics; an abandoned wait panics too.\<close>

definition blocking_poll :: "nat \<Rightarrow> blocking_timer \<Rightarrow> wait_result \<times> blocking_timer" where
  "blocking_poll i t =
     (case bw_stage (bt_waits t ! i) of
        NotSent \<Rightarrow>
          if bt_receiver t then (WaitPending, (set_stage i InChannel t)\<lparr>bt_channel := bt_channel t @ [i]\<rparr>) else (WaitPanic, t)
      | InChannel \<Rightarrow> (WaitPending, t)
      | Held \<Rightarrow> (WaitPending, t)
      | Waking \<Rightarrow> (WaitReady, t)
      | Abandoned \<Rightarrow> (WaitPanic, t))"

text \<open>The receiver of the channel: the next \<open>BlockedTimer\<close>, or \<open>None\<close> while there is none.\<close>

definition blocking_next :: "blocking_timer \<Rightarrow> (nat \<times> blocking_timer) option" where
  "blocking_next t =
     (case bt_channel t of [] \<Rightarrow> None | i # is \<Rightarrow> Some (i, (set_stage i Held t)\<lparr>bt_channel := is\<rparr>))"

definition requested_wait_of :: "nat \<Rightarrow> blocking_timer \<Rightarrow> requested_wait" where
  "requested_wait_of i t = bw_wait (bt_waits t ! i)"

text \<open>\<open>unblock\<close> consumes the \<open>BlockedTimer\<close>, and panics (\<open>None\<close>) when the future is no longer there.\<close>

definition blocking_unblock :: "nat \<Rightarrow> blocking_timer \<Rightarrow> blocking_timer option" where
  "blocking_unblock i t = (if bw_alive (bt_waits t ! i) then Some (set_stage i Waking t) else None)"

text \<open>Dropping a \<open>BlockedTimer\<close>, the future, and the receiver with what is in the channel.\<close>

definition drop_blocked_timer :: "nat \<Rightarrow> blocking_timer \<Rightarrow> blocking_timer" where
  "drop_blocked_timer i = set_stage i Abandoned"

definition drop_wait :: "nat \<Rightarrow> blocking_timer \<Rightarrow> blocking_timer" where
  "drop_wait i t = t\<lparr>bt_waits := (bt_waits t)[i := (bt_waits t ! i)\<lparr>bw_alive := False\<rparr>]\<rparr>"

definition drop_receiver :: "blocking_timer \<Rightarrow> blocking_timer" where
  "drop_receiver t = (fold (\<lambda>i. set_stage i Abandoned) (bt_channel t) t)\<lparr>bt_channel := [], bt_receiver := False\<rparr>"

text \<open>\<open>InfiniteTimer\<close>.\<close>

definition infinite_timer_wait :: "requested_wait \<Rightarrow> wait_result" where
  "infinite_timer_wait _ = WaitPending"

section \<open>Steps\<close>

text \<open>What a program that owns the timer, its futures, the receiver and the received \<open>BlockedTimer\<close>s can do.  Ownership
  allows a poll only of a future that is still there and has not completed, and consumes what is held.\<close>

inductive blocking_step :: "blocking_timer \<Rightarrow> blocking_timer \<Rightarrow> bool" where
  waits: "blocking_wait_new w t = (i, t') \<Longrightarrow> blocking_step t t'"
| polls: "i < length (bt_waits t) \<Longrightarrow> bw_alive (bt_waits t ! i) \<Longrightarrow> blocking_poll i t = (WaitPending, t') \<Longrightarrow> blocking_step t t'"
| receives: "bt_receiver t \<Longrightarrow> blocking_next t = Some (i, t') \<Longrightarrow> blocking_step t t'"
| unblocks: "i < length (bt_waits t) \<Longrightarrow> bw_stage (bt_waits t ! i) = Held \<Longrightarrow> blocking_unblock i t = Some t' \<Longrightarrow> blocking_step t t'"
| abandons: "i < length (bt_waits t) \<Longrightarrow> bw_stage (bt_waits t ! i) = Held \<Longrightarrow> blocking_step t (drop_blocked_timer i t)"
| drops_wait: "i < length (bt_waits t) \<Longrightarrow> blocking_step t (drop_wait i t)"
| drops_receiver: "blocking_step t (drop_receiver t)"

section \<open>Invariant\<close>

text \<open>The channel holds, once each, exactly the waits in stage \<open>InChannel\<close>; it is empty without a receiver.\<close>

definition blocking_ok :: "blocking_timer \<Rightarrow> bool" where
  "blocking_ok t \<longleftrightarrow>
     distinct (bt_channel t) \<and>
     (\<forall>i. i \<in> set (bt_channel t) \<longleftrightarrow> i < length (bt_waits t) \<and> bw_stage (bt_waits t ! i) = InChannel) \<and>
     (\<not> bt_receiver t \<longrightarrow> bt_channel t = [])"

lemma set_stage_sels [simp]:
  "length (bt_waits (set_stage i s t)) = length (bt_waits t)" "bt_channel (set_stage i s t) = bt_channel t"
  "bt_receiver (set_stage i s t) = bt_receiver t"
  "j < length (bt_waits t) \<Longrightarrow>
     bw_stage (bt_waits (set_stage i s t) ! j) = (if i = j then s else bw_stage (bt_waits t ! j))"
  by (auto simp: set_stage_def nth_list_update)

lemma fold_set_stage [simp]:
  "length (bt_waits (fold (\<lambda>i. set_stage i s) is t)) = length (bt_waits t)"
  "j < length (bt_waits t) \<Longrightarrow>
     bw_stage (bt_waits (fold (\<lambda>i. set_stage i s) is t) ! j) = (if j \<in> set is then s else bw_stage (bt_waits t ! j))"
  by (induction "is" arbitrary: t) auto

lemma blocking_okI:
  assumes "distinct (bt_channel t)" and "\<not> bt_receiver t \<Longrightarrow> bt_channel t = []"
    and "\<And>j. j \<in> set (bt_channel t) \<longleftrightarrow> j < length (bt_waits t) \<and> bw_stage (bt_waits t ! j) = InChannel"
  shows "blocking_ok t"
  using assms by (simp add: blocking_ok_def)

lemma blocking_ok_distinct: "blocking_ok t \<Longrightarrow> distinct (bt_channel t)"
  by (simp add: blocking_ok_def)

lemma in_channel_iff:
  "blocking_ok t \<Longrightarrow> i \<in> set (bt_channel t) \<longleftrightarrow> i < length (bt_waits t) \<and> bw_stage (bt_waits t ! i) = InChannel"
  by (simp add: blocking_ok_def)

lemma blocking_new_ok: "blocking_ok blocking_new"
  by (simp add: blocking_ok_def blocking_new_def)

text \<open>A wait that was received changes its stage.\<close>

lemma leave_stage_ok:
  assumes "blocking_ok t" and "bw_stage (bt_waits t ! i) = Held" and "s \<noteq> InChannel"
  shows "blocking_ok (set_stage i s t)"
proof (rule blocking_okI)
  fix j
  show "j \<in> set (bt_channel (set_stage i s t)) \<longleftrightarrow>
      j < length (bt_waits (set_stage i s t)) \<and> bw_stage (bt_waits (set_stage i s t) ! j) = InChannel"
    using in_channel_iff [OF assms(1), of j] assms(2, 3) by (cases "j < length (bt_waits t)") auto
qed (use assms(1) in \<open>auto simp: blocking_ok_def\<close>)

lemma blocking_step_ok: "blocking_step t t' \<Longrightarrow> blocking_ok t \<Longrightarrow> blocking_ok t'"
proof (induction rule: blocking_step.induct)
  case (waits w t i t')
  then have t': "t' = t\<lparr>bt_waits := bt_waits t @ [\<lparr>bw_wait = w, bw_stage = NotSent, bw_alive = True\<rparr>]\<rparr>"
    by (simp add: blocking_wait_new_def)
  show ?case using waits(2) by (simp add: t' blocking_ok_def nth_append less_Suc_eq)
next
  case (polls i t t')
  show ?case
  proof (cases "bw_stage (bt_waits t ! i) = NotSent")
    case True
    with polls(3) have t': "t' = (set_stage i InChannel t)\<lparr>bt_channel := bt_channel t @ [i]\<rparr>" and "bt_receiver t"
      by (auto simp: blocking_poll_def split: if_splits)
    moreover have "i \<notin> set (bt_channel t)" using True in_channel_iff [OF polls(4)] by simp
    moreover have "j \<in> set (bt_channel t) \<or> j = i \<longleftrightarrow>
        j < length (bt_waits t) \<and> bw_stage (bt_waits (set_stage i InChannel t) ! j) = InChannel" for j
      using polls(1) in_channel_iff [OF polls(4), of j] by (cases "j = i") auto
    ultimately show ?thesis using blocking_ok_distinct [OF polls(4)] by (intro blocking_okI) auto
  next
    case False
    with polls(3) have "t' = t" by (auto simp: blocking_poll_def split: wait_stage.splits)
    with polls(4) show ?thesis by simp
  qed
next
  case (receives t i t')
  then obtain "is" where ch: "bt_channel t = i # is" and t': "t' = (set_stage i Held t)\<lparr>bt_channel := is\<rparr>"
    by (auto simp: blocking_next_def split: list.splits)
  have "i \<notin> set is" "distinct is" using blocking_ok_distinct [OF receives(3)] ch by auto
  moreover have "j \<in> set is \<longleftrightarrow>
      j < length (bt_waits t) \<and> bw_stage (bt_waits (set_stage i Held t) ! j) = InChannel" for j
    using in_channel_iff [OF receives(3), of j] ch calculation by (cases "j = i") auto
  ultimately show ?case using receives(1) by (intro blocking_okI) (auto simp: t')
next
  case (unblocks i t t')
  then have "t' = set_stage i Waking t" by (simp add: blocking_unblock_def split: if_splits)
  with unblocks show ?case by (auto intro: leave_stage_ok)
next
  case (abandons i t)
  then show ?case by (auto simp: drop_blocked_timer_def intro: leave_stage_ok)
next
  case (drops_wait i t)
  have "bw_stage (bt_waits (drop_wait i t) ! j) = bw_stage (bt_waits t ! j)" for j
    using drops_wait(1) by (simp add: drop_wait_def nth_list_update)
  moreover have "bt_channel (drop_wait i t) = bt_channel t" "bt_receiver (drop_wait i t) = bt_receiver t"
    "length (bt_waits (drop_wait i t)) = length (bt_waits t)"
    by (simp_all add: drop_wait_def)
  ultimately show ?case using drops_wait(2) by (simp add: blocking_ok_def)
next
  case (drops_receiver t)
  have "\<not> (j < length (bt_waits t) \<and>
      bw_stage (bt_waits (fold (\<lambda>i. set_stage i Abandoned) (bt_channel t) t) ! j) = InChannel)" for j
    using in_channel_iff [OF drops_receiver, of j] by (cases "j < length (bt_waits t)") auto
  then show ?case by (intro blocking_okI) (auto simp: drop_receiver_def)
qed

lemma blocking_reachable_ok: "blocking_step\<^sup>*\<^sup>* blocking_new t \<Longrightarrow> blocking_ok t"
  by (induction rule: rtranclp_induct) (auto intro: blocking_new_ok blocking_step_ok)

section \<open>What a wait does\<close>

text \<open>A wait completes only when its \<open>BlockedTimer\<close> was unblocked, which was received before.\<close>

lemma blocking_poll_ready_iff: "fst (blocking_poll i t) = WaitReady \<longleftrightarrow> bw_stage (bt_waits t ! i) = Waking"
  by (simp add: blocking_poll_def split: wait_stage.splits)

lemma waking_comes_from_held:
  assumes "blocking_step t t'" and "i < length (bt_waits t)"
    and "bw_stage (bt_waits t' ! i) = Waking" and "bw_stage (bt_waits t ! i) \<noteq> Waking"
  shows "bw_stage (bt_waits t ! i) = Held \<and> bw_alive (bt_waits t ! i) \<and> blocking_unblock i t = Some t'"
  using assms
proof (cases rule: blocking_step.cases)
  case (polls j)
  with assms show ?thesis by (auto simp: blocking_poll_def split: wait_stage.splits if_splits)
next
  case (unblocks j)
  with assms show ?thesis by (auto simp: blocking_unblock_def split: if_splits)
qed (auto simp: blocking_wait_new_def nth_append blocking_next_def drop_blocked_timer_def drop_wait_def drop_receiver_def
    nth_list_update split: list.splits if_splits)

text \<open>A wait that is polled, received and unblocked completes at the next poll, and the receiver sees the wait asked for.\<close>

lemma blocking_wait_completes:
  assumes "bt_receiver t" and "bt_channel t = []" and "blocking_wait_new w t = (i, t1)"
  shows "\<exists>t2 t3 t4. blocking_poll i t1 = (WaitPending, t2) \<and> blocking_next t2 = Some (i, t3) \<and>
           requested_wait_of i t3 = w \<and> blocking_unblock i t3 = Some t4 \<and> fst (blocking_poll i t4) = WaitReady"
proof (intro exI conjI)
  let ?at = "\<lambda>stage. t\<lparr>bt_waits := bt_waits t @ [\<lparr>bw_wait = w, bw_stage = stage, bw_alive = True\<rparr>]\<rparr>"
  have i: "i = length (bt_waits t)" and t1: "t1 = ?at NotSent" using assms(3) by (auto simp: blocking_wait_new_def)
  have stage: "set_stage i s' (?at s) = ?at s'" for s s' by (simp add: i set_stage_def)
  show "blocking_poll i t1 = (WaitPending, (?at InChannel)\<lparr>bt_channel := [i]\<rparr>)"
    using assms(1, 2) stage [of InChannel NotSent] by (simp add: blocking_poll_def t1 i)
  show "blocking_next ((?at InChannel)\<lparr>bt_channel := [i]\<rparr>) = Some (i, (?at Held)\<lparr>bt_channel := []\<rparr>)"
    by (simp add: blocking_next_def set_stage_def i)
  show "requested_wait_of i ((?at Held)\<lparr>bt_channel := []\<rparr>) = w" by (simp add: requested_wait_of_def i)
  show "blocking_unblock i ((?at Held)\<lparr>bt_channel := []\<rparr>) = Some ((?at Waking)\<lparr>bt_channel := []\<rparr>)"
    by (simp add: blocking_unblock_def set_stage_def i)
  show "fst (blocking_poll i ((?at Waking)\<lparr>bt_channel := []\<rparr>)) = WaitReady" by (simp add: blocking_poll_def i)
qed

text \<open>Without a receiver, or after the \<open>BlockedTimer\<close> is dropped, the wait panics.\<close>

lemma blocking_wait_panics:
  "\<not> bt_receiver t \<Longrightarrow> blocking_wait_new w t = (i, t1) \<Longrightarrow> fst (blocking_poll i t1) = WaitPanic"
  "i < length (bt_waits t) \<Longrightarrow> fst (blocking_poll i (drop_blocked_timer i t)) = WaitPanic"
  "i \<in> set (bt_channel t) \<Longrightarrow> blocking_ok t \<Longrightarrow> fst (blocking_poll i (drop_receiver t)) = WaitPanic"
  by (auto simp: blocking_wait_new_def blocking_poll_def drop_blocked_timer_def drop_receiver_def blocking_ok_def)

text \<open>The receiver sees the waits in the order of their first polls: a poll adds at the end of the channel, and what is
  received are the waits from its front.\<close>

fun receive_many :: "nat \<Rightarrow> blocking_timer \<Rightarrow> nat list" where
  "receive_many 0 t = []"
| "receive_many (Suc n) t = (case blocking_next t of None \<Rightarrow> [] | Some (i, t') \<Rightarrow> i # receive_many n t')"

lemma receive_many_eq: "receive_many n t = take n (bt_channel t)"
  by (induction n arbitrary: t) (auto simp: blocking_next_def split: list.splits)

text \<open>Where the stages come from.\<close>

lemma held_comes_from_channel:
  assumes "blocking_step t t'" and "i < length (bt_waits t')"
    and "bw_stage (bt_waits t' ! i) = Held" and "i < length (bt_waits t) \<longrightarrow> bw_stage (bt_waits t ! i) \<noteq> Held"
  shows "bt_receiver t \<and> blocking_next t = Some (i, t')"
  using assms
proof (cases rule: blocking_step.cases)
  case (polls j)
  with assms show ?thesis by (auto simp: blocking_poll_def split: wait_stage.splits if_splits)
next
  case (receives j)
  with assms show ?thesis by (auto simp: blocking_next_def split: list.splits if_splits)
qed (use assms in \<open>auto simp: blocking_wait_new_def nth_append blocking_unblock_def drop_blocked_timer_def drop_wait_def
    drop_receiver_def nth_list_update less_Suc_eq split: if_splits\<close>)

lemma waits_stay: "blocking_step t t' \<Longrightarrow> length (bt_waits t) \<le> length (bt_waits t')"
  by (induction rule: blocking_step.induct)
     (auto simp: blocking_wait_new_def blocking_poll_def blocking_next_def blocking_unblock_def drop_blocked_timer_def
       drop_wait_def drop_receiver_def split: wait_stage.splits if_splits list.splits)

lemma held_was_received:
  assumes "blocking_step\<^sup>*\<^sup>* blocking_new t" and "i < length (bt_waits t)" and "bw_stage (bt_waits t ! i) = Held"
  shows "\<exists>t0 t1. blocking_step\<^sup>*\<^sup>* blocking_new t0 \<and> bt_receiver t0 \<and> blocking_next t0 = Some (i, t1) \<and> blocking_step\<^sup>*\<^sup>* t1 t"
  using assms
proof (induction rule: rtranclp_induct)
  case (step t t')
  show ?case
  proof (cases "i < length (bt_waits t) \<and> bw_stage (bt_waits t ! i) = Held")
    case True
    with step.IH step.hyps(2) show ?thesis by (meson rtranclp.rtrancl_into_rtrancl)
  next
    case False
    then have "bt_receiver t \<and> blocking_next t = Some (i, t')"
      using held_comes_from_channel [OF step.hyps(2) step.prems] by blast
    with step.hyps(1) show ?thesis by blast
  qed
qed (simp add: blocking_new_def)

lemma waking_was_unblocked:
  assumes "blocking_step\<^sup>*\<^sup>* blocking_new t" and "i < length (bt_waits t)" and "bw_stage (bt_waits t ! i) = Waking"
  shows "\<exists>t2 t3. blocking_step\<^sup>*\<^sup>* blocking_new t2 \<and> i < length (bt_waits t2) \<and> bw_stage (bt_waits t2 ! i) = Held \<and>
    blocking_unblock i t2 = Some t3 \<and> blocking_step\<^sup>*\<^sup>* t3 t"
  using assms
proof (induction rule: rtranclp_induct)
  case (step t t')
  have old: "i < length (bt_waits t)"
  proof (rule ccontr)
    assume "\<not> i < length (bt_waits t)"
    with step.hyps(2) step.prems show False
      by (cases rule: blocking_step.cases)
         (auto simp: blocking_wait_new_def nth_append blocking_poll_def blocking_next_def blocking_unblock_def
           drop_blocked_timer_def drop_wait_def drop_receiver_def less_Suc_eq
           split: wait_stage.splits if_splits list.splits)
  qed
  show ?case
  proof (cases "bw_stage (bt_waits t ! i) = Waking")
    case True
    with step.IH step.hyps(2) old show ?thesis by (meson rtranclp.rtrancl_into_rtrancl)
  next
    case False
    with waking_comes_from_held [OF step.hyps(2) old step.prems(2)] step.hyps(1) old show ?thesis by blast
  qed
qed (simp add: blocking_new_def)

section \<open>Properties\<close>

text \<open>C40: A wait on a blocking timer completes only when its test lets it.  In every reachable state, a wait whose poll
  is ready has gone, in this order, through the channel to a receiver that was there, and through \<open>unblock\<close> while its future
  was still there.\<close>

theorem wait_ready_was_unblocked:
  assumes "blocking_step\<^sup>*\<^sup>* blocking_new t" and "i < length (bt_waits t)" and "fst (blocking_poll i t) = WaitReady"
  shows "\<exists>t0 t1 t2 t3. blocking_step\<^sup>*\<^sup>* blocking_new t0 \<and> bt_receiver t0 \<and> hd (bt_channel t0) = i \<and>
    blocking_next t0 = Some (i, t1) \<and> blocking_step\<^sup>*\<^sup>* t1 t2 \<and>
    bw_alive (bt_waits t2 ! i) \<and> blocking_unblock i t2 = Some t3 \<and> blocking_step\<^sup>*\<^sup>* t3 t"
proof -
  have "bw_stage (bt_waits t ! i) = Waking" using assms(3) by (simp add: blocking_poll_ready_iff)
  from waking_was_unblocked [OF assms(1,2) this] obtain t2 t3 where t2: "blocking_step\<^sup>*\<^sup>* blocking_new t2"
      "i < length (bt_waits t2)" "bw_stage (bt_waits t2 ! i) = Held" "blocking_unblock i t2 = Some t3" "blocking_step\<^sup>*\<^sup>* t3 t"
    by blast
  from held_was_received [OF t2(1-3)] obtain t0 t1 where t0: "blocking_step\<^sup>*\<^sup>* blocking_new t0" "bt_receiver t0"
      "blocking_next t0 = Some (i, t1)" "blocking_step\<^sup>*\<^sup>* t1 t2"
    by blast
  have "hd (bt_channel t0) = i" using t0(3) by (auto simp: blocking_next_def split: list.splits)
  moreover have "bw_alive (bt_waits t2 ! i)" using t2(4) by (simp add: blocking_unblock_def split: if_splits)
  ultimately show ?thesis using t0 t2 by blast
qed

theorem wait_ready_was_unblocked_witness:
  "\<exists>t t0 t1 t2 t3. fst (blocking_poll 0 t) = WaitReady \<and> blocking_next t0 = Some (0, t1) \<and> blocking_step\<^sup>*\<^sup>* t1 t2 \<and>
     blocking_unblock 0 t2 = Some t3 \<and> blocking_step\<^sup>*\<^sup>* t3 t"
proof -
  let ?at = "\<lambda>stage ch. \<lparr>bt_waits = [\<lparr>bw_wait = WaitFor 0, bw_stage = stage, bw_alive = True\<rparr>], bt_channel = ch, bt_receiver = True\<rparr>"
  have "blocking_step blocking_new (?at NotSent [])"
    by (rule waits [of "WaitFor 0" _ 0]) (simp add: blocking_wait_new_def blocking_new_def)
  moreover have "blocking_step (?at NotSent []) (?at InChannel [0])"
    by (rule polls [of 0]) (simp_all add: blocking_poll_def set_stage_def)
  moreover have "blocking_step (?at InChannel [0]) (?at Held [])"
    by (rule receives [of _ 0]) (simp_all add: blocking_next_def set_stage_def)
  moreover have "blocking_step (?at Held []) (?at Waking [])"
    by (rule unblocks [of 0]) (simp_all add: blocking_unblock_def set_stage_def)
  ultimately have "blocking_step\<^sup>*\<^sup>* blocking_new (?at Waking [])"
    by (meson rtranclp.rtrancl_into_rtrancl rtranclp.rtrancl_refl)
  moreover have ready: "fst (blocking_poll 0 (?at Waking [])) = WaitReady" by (simp add: blocking_poll_def)
  ultimately show ?thesis using wait_ready_was_unblocked [of "?at Waking []" 0] by fastforce
qed

end
