(* ===== verification/App_Tests.thy ===== *)
theory App_Tests imports Stub_Machine begin

text \<open>
  The tests of \<open>common.rs\<close>, over the storage in memory, and the text forms that \<open>common.rs\<close> gives to check schedules.
  Formatting a time is a parameter.
\<close>

section \<open>Building apps\<close>

text \<open>\<open>App::builder().id(..).version(..).build()\<close>: the defaults of the struct for the rest.\<close>

definition built_app :: "string \<Rightarrow> u32 list \<Rightarrow> app" where
  "built_app i v =
     \<lparr>app_id = i, app_version = version_from v, app_fingerprint = None, app_cohort = cohort_default,
      app_user_counting = ClientRegulatedByDate None, app_extra_fields = []\<rparr>"

definition full_cohort :: "string option \<Rightarrow> string option \<Rightarrow> string option \<Rightarrow> cohort" where
  "full_cohort i hint name = \<lparr>cohort_id = i, cohort_hint = hint, cohort_name = name\<rparr>"

definition some_cohort :: cohort where
  "some_cohort = full_cohort (Some ''some_id'') (Some ''some_hint'') (Some ''some_name'')"

definition some_built_app :: "cohort \<Rightarrow> u32 option \<Rightarrow> app" where
  "some_built_app c days =
     (built_app ''some_id'' [1, 2])\<lparr>app_cohort := c, app_user_counting := ClientRegulatedByDate days\<rparr>"

lemmas app_simps = built_app_def cohort_from_hint_def full_cohort_def some_cohort_def some_built_app_def cohort_default_def

definition test_app_new_version :: bool where
  "test_app_new_version \<longleftrightarrow>
     (let app = (built_app ''some_id'' [1, 2])\<lparr>app_cohort := cohort_from_hint ''some-channel''\<rparr>
      in app_id app = ''some_id'' \<and> app_version app = version_from [1, 2] \<and> app_fingerprint app = None \<and>
         cohort_hint (app_cohort app) = Some ''some-channel'' \<and> cohort_name (app_cohort app) = None \<and>
         cohort_id (app_cohort app) = None \<and> app_user_counting app = ClientRegulatedByDate None \<and> app_extra_fields app = [])"

definition built_for_test_channel :: app where
  "built_for_test_channel = (built_app ''some_id_2'' [4, 6])\<lparr>app_cohort := cohort_from_hint ''test-channel''\<rparr>"

definition is_for_test_channel :: "app \<Rightarrow> bool" where
  "is_for_test_channel app \<longleftrightarrow>
     app_id app = ''some_id_2'' \<and> app_version app = version_from [4, 6] \<and>
     cohort_hint (app_cohort app) = Some ''test-channel'' \<and> cohort_name (app_cohort app) = None \<and>
     cohort_id (app_cohort app) = None"

definition test_app_with_fingerprint :: bool where
  "test_app_with_fingerprint \<longleftrightarrow>
     (let app = built_for_test_channel\<lparr>app_fingerprint := Some ''some_fp''\<rparr>
      in is_for_test_channel app \<and> app_fingerprint app = Some ''some_fp'' \<and>
         app_user_counting app = ClientRegulatedByDate None \<and> app_extra_fields app = [])"

definition test_app_with_user_counting :: bool where
  "test_app_with_user_counting \<longleftrightarrow>
     (let app = built_for_test_channel\<lparr>app_user_counting := ClientRegulatedByDate (Some 42)\<rparr>
      in is_for_test_channel app \<and> app_user_counting app = ClientRegulatedByDate (Some 42) \<and> app_extra_fields app = [])"

definition test_app_with_extras :: bool where
  "test_app_with_extras \<longleftrightarrow>
     (let app = built_for_test_channel\<lparr>app_extra_fields := [(''key1'', ''value1''), (''key2'', ''value2'')]\<rparr>
      in is_for_test_channel app \<and> app_user_counting app = ClientRegulatedByDate None \<and>
         length (app_extra_fields app) = 2 \<and> map_of (app_extra_fields app) ''key1'' = Some ''value1'' \<and>
         map_of (app_extra_fields app) ''key2'' = Some ''value2'')"

lemma app_builder_tests_hold:
  test_app_new_version test_app_with_fingerprint test_app_with_user_counting test_app_with_extras
  by (simp_all add: test_app_new_version_def test_app_with_fingerprint_def test_app_with_user_counting_def
      test_app_with_extras_def built_for_test_channel_def is_for_test_channel_def app_simps)

section \<open>Loading\<close>

text \<open>The app after \<open>storage.set_string(&app.id, &json)\<close> and \<open>app.load(&storage)\<close>; the JSON texts are those of \<open>docs\<close>.\<close>

definition loaded_from :: "json list \<Rightarrow> string \<Rightarrow> app \<Rightarrow> app" where
  "loaded_from docs body a =
     (case set_string mem_ops mem_new (app_id a) body of (_, s) \<Rightarrow> app_load mem_ops (json_read docs) s a)"

definition persisted_doc :: "fields \<Rightarrow> json \<Rightarrow> json" where
  "persisted_doc cohort days = JObj [(''cohort'', JObj cohort), (''user_counting'', JObj [(''ClientRegulatedByDate'', days)])]"

definition test_app_load :: bool where
  "test_app_load \<longleftrightarrow>
     (let json = persisted_doc [(''cohort'', JStr ''some_id''), (''cohorthint'', JStr ''some_hint''),
                   (''cohortname'', JStr ''some_name'')] (JInt 123);
          app = loaded_from [json] (json_print json) (built_app ''some_id'' [1, 2])
      in app_cohort app = some_cohort \<and> app_user_counting app = ClientRegulatedByDate (Some 123))"

definition test_app_load_empty_storage :: bool where
  "test_app_load_empty_storage \<longleftrightarrow>
     (let app = app_load mem_ops (json_read []) mem_new (some_built_app some_cohort (Some 123))
      in app_cohort app = some_cohort \<and> app_user_counting app = ClientRegulatedByDate (Some 123))"

definition test_app_load_malformed :: bool where
  "test_app_load_malformed \<longleftrightarrow>
     (let app = loaded_from [] ''not a json'' (some_built_app some_cohort (Some 123))
      in app_cohort app = some_cohort \<and> app_user_counting app = ClientRegulatedByDate (Some 123))"

definition test_app_load_partial :: bool where
  "test_app_load_partial \<longleftrightarrow>
     (let json = persisted_doc [(''cohorthint'', JStr ''some_hint_2''), (''cohortname'', JStr ''some_name_2'')] JNull;
          app = loaded_from [json] (json_print json) (some_built_app some_cohort (Some 123))
      in app_cohort app = some_cohort \<and> app_user_counting app = ClientRegulatedByDate (Some 123))"

definition test_app_load_override :: bool where
  "test_app_load_override \<longleftrightarrow>
     (let json = persisted_doc [(''cohort'', JStr ''some_id_2''), (''cohorthint'', JStr ''some_hint_2''),
                   (''cohortname'', JStr ''some_name_2'')] (JInt 123);
          app = loaded_from [json] (json_print json)
            (some_built_app (full_cohort (Some ''some_id'') (Some ''some_hint'') None) (Some 123))
      in app_cohort app = full_cohort (Some ''some_id'') (Some ''some_hint'') (Some ''some_name_2'') \<and>
         app_user_counting app = ClientRegulatedByDate (Some 123))"

text \<open>The texts of the tests are those of persisted apps.\<close>

lemma persisted_doc_eq:
  "persisted_doc (cohort_entries c) JNull = persisted_app_json \<lparr>pers_cohort = c, pers_user_counting = ClientRegulatedByDate None\<rparr>"
  "persisted_doc (cohort_entries c) (JInt 123) =
     persisted_app_json \<lparr>pers_cohort = c, pers_user_counting = ClientRegulatedByDate (Some 123)\<rparr>"
  by (simp_all add: persisted_doc_def persisted_app_json_def)

lemma loaded_from_persisted: "loaded_from [persisted_app_json p] (json_print (persisted_app_json p)) a = app_merge_persisted a p"
  by (simp add: loaded_from_def app_load_def mem_ops_def mem_set_string_def mem_get_string_def json_read_def)

lemma loaded_from_other: "loaded_from [] body a = a"
  by (simp add: loaded_from_def app_load_def json_read_def split: prod.splits option.splits)

lemma cohort_entries_of:
  "[(''cohorthint'', JStr h), (''cohortname'', JStr n)] =
     cohort_entries \<lparr>cohort_id = None, cohort_hint = Some h, cohort_name = Some n\<rparr>"
  "(''cohort'', JStr i) # cohort_entries \<lparr>cohort_id = None, cohort_hint = hint, cohort_name = name\<rparr> =
     cohort_entries \<lparr>cohort_id = Some i, cohort_hint = hint, cohort_name = name\<rparr>"
  by (simp_all add: cohort_entries_def)

lemma app_load_tests_hold:
  test_app_load test_app_load_empty_storage test_app_load_malformed test_app_load_partial test_app_load_override
  by (simp_all add: test_app_load_def test_app_load_empty_storage_def test_app_load_malformed_def test_app_load_partial_def
      test_app_load_override_def cohort_entries_of persisted_doc_eq loaded_from_persisted loaded_from_other
      cohort_update_from_omaha_def app_load_def mem_ops_def mem_get_string_def mem_new_def app_simps)

section \<open>Persisting\<close>

text \<open>The test reads back, uncommitted, the text of the JSON value that it expects.\<close>

definition persists_as :: "app \<Rightarrow> json \<Rightarrow> bool" where
  "persists_as a expected \<longleftrightarrow>
     (let s = app_persist mem_ops (\<lambda>j. Some (json_print j)) a mem_new
      in get_string mem_ops s (app_id a) = Some (json_print expected) \<and> \<not> mem_is_committed s)"

definition test_app_persist :: bool where
  "test_app_persist \<longleftrightarrow>
     persists_as (some_built_app some_cohort (Some 123))
       (persisted_doc [(''cohort'', JStr ''some_id''), (''cohorthint'', JStr ''some_hint''), (''cohortname'', JStr ''some_name'')]
         (JInt 123))"

definition test_app_persist_empty :: bool where
  "test_app_persist_empty \<longleftrightarrow> persists_as (some_built_app (full_cohort None None None) None) (persisted_doc [] JNull)"

lemma app_persist_tests_hold: test_app_persist test_app_persist_empty
  by (simp_all add: test_app_persist_def test_app_persist_empty_def persists_as_def app_persist_def mem_ops_def
      mem_set_string_def mem_get_string_def mem_is_committed_def persisted_doc_def persisted_app_json_def
      persisted_app_from_def cohort_entries_def app_simps)

section \<open>Channels\<close>

definition named_app :: "string \<Rightarrow> app" where
  "named_app name = (built_app ''some_id'' [0, 1])\<lparr>app_cohort := cohort_default\<lparr>cohort_name := Some name\<rparr>\<rparr>"

definition test_app_get_current_channel :: bool where
  "test_app_get_current_channel \<longleftrightarrow> get_current_channel (named_app ''current-channel-123'') = ''current-channel-123''"

definition test_app_get_current_channel_default :: bool where
  "test_app_get_current_channel_default \<longleftrightarrow> get_current_channel (built_app ''some_id'' [0, 1]) = []"

definition test_app_get_target_channel :: bool where
  "test_app_get_target_channel \<longleftrightarrow>
     get_target_channel ((built_app ''some_id'' [0, 1])\<lparr>app_cohort := cohort_from_hint ''target-channel-456''\<rparr>) =
       ''target-channel-456''"

definition test_app_get_target_channel_fallback :: bool where
  "test_app_get_target_channel_fallback \<longleftrightarrow> get_target_channel (named_app ''current-channel-123'') = ''current-channel-123''"

definition test_app_get_target_channel_default :: bool where
  "test_app_get_target_channel_default \<longleftrightarrow> get_target_channel (built_app ''some_id'' [0, 1]) = []"

definition test_app_set_target_channel :: bool where
  "test_app_set_target_channel \<longleftrightarrow>
     (let app = built_app ''some_id'' [0, 1];
          app1 = set_target_channel app (Some ''new-target-channel'') None;
          app2 = set_target_channel app1 None None
      in get_target_channel app = [] \<and> get_target_channel app1 = ''new-target-channel'' \<and> get_target_channel app2 = [])"

definition test_app_set_target_channel_and_id :: bool where
  "test_app_set_target_channel_and_id \<longleftrightarrow>
     (let app = built_app ''some_id'' [0, 1];
          app1 = set_target_channel app (Some ''new-target-channel'') (Some ''new-id'');
          app2 = set_target_channel app1 None None
      in get_target_channel app = [] \<and> get_target_channel app1 = ''new-target-channel'' \<and> app_id app1 = ''new-id'' \<and>
         get_target_channel app2 = [] \<and> app_id app2 = ''new-id'')"

lemma channel_tests_hold:
  test_app_get_current_channel test_app_get_current_channel_default test_app_get_target_channel
  test_app_get_target_channel_fallback test_app_get_target_channel_default test_app_set_target_channel
  test_app_set_target_channel_and_id
  by (simp_all add: test_app_get_current_channel_def test_app_get_current_channel_default_def test_app_get_target_channel_def
      test_app_get_target_channel_fallback_def test_app_get_target_channel_default_def test_app_set_target_channel_def
      test_app_set_target_channel_and_id_def get_current_channel_def get_target_channel_def set_target_channel_def
      named_app_def app_simps)

definition test_app_valid :: bool where
  "test_app_valid \<longleftrightarrow> app_valid (built_app ''some_id'' [0, 1])"

definition test_app_not_valid :: bool where
  "test_app_not_valid \<longleftrightarrow> \<not> app_valid (built_app [] [0, 1]) \<and> \<not> app_valid (built_app ''some_id'' [0])"

lemma app_valid_tests_hold: test_app_valid test_app_not_valid
  by code_simp+

section \<open>Check schedules\<close>

text \<open>\<open>PrettyOptionDisplay\<close>, in both of its text forms, and those of \<open>UpdateCheckSchedule\<close> (which leaves out the time of
  the last check) and of \<open>CheckTiming\<close>.  \<open>show_time\<close> and \<open>show_duration\<close> stand for the formatting of the parts.\<close>

definition pretty_option :: "('a \<Rightarrow> string) \<Rightarrow> 'a option \<Rightarrow> string" where
  "pretty_option show_value x = (case x of None \<Rightarrow> ''None'' | Some value \<Rightarrow> show_value value)"

definition check_timing_display :: "(partial_complex_time \<Rightarrow> string) \<Rightarrow> (duration \<Rightarrow> string) \<Rightarrow> check_timing \<Rightarrow> string" where
  "check_timing_display show_time show_duration t =
     (case ct_minimum_wait t of
        None \<Rightarrow> show_time (ct_time t)
      | Some wait \<Rightarrow> show_time (ct_time t) @ '' wait: '' @ show_duration wait)"

definition schedule_debug :: "(partial_complex_time \<Rightarrow> string) \<Rightarrow> (duration \<Rightarrow> string) \<Rightarrow> update_check_schedule \<Rightarrow> string" where
  "schedule_debug show_time show_duration s =
     ''UpdateCheckSchedule { last_update_time: '' @ pretty_option show_time (last_update_time s) @
     '', next_update_time: '' @ pretty_option (check_timing_display show_time show_duration) (next_update_time s) @ '' }''"

definition test_pretty_option_display_with_none :: bool where
  "test_pretty_option_display_with_none \<longleftrightarrow> pretty_option id None = ''None''"

definition test_pretty_option_display_with_some :: bool where
  "test_pretty_option_display_with_some \<longleftrightarrow> pretty_option id (Some ''this is a test'') = ''this is a test''"

definition test_update_check_schedule_debug_with_defaults ::
  "(partial_complex_time \<Rightarrow> string) \<Rightarrow> (duration \<Rightarrow> string) \<Rightarrow> bool" where
  "test_update_check_schedule_debug_with_defaults show_time show_duration \<longleftrightarrow>
     schedule_debug show_time show_duration update_check_schedule_default =
       ''UpdateCheckSchedule { last_update_time: None, next_update_time: None }''"

definition test_update_check_schedule_debug_with_values ::
  "(partial_complex_time \<Rightarrow> string) \<Rightarrow> (duration \<Rightarrow> string) \<Rightarrow> complex_time \<Rightarrow> bool" where
  "test_update_check_schedule_debug_with_values show_time show_duration last_time \<longleftrightarrow>
     (case complex_time_add last_time (duration_from_secs 1000) of
        None \<Rightarrow> False
      | Some next_time \<Rightarrow>
          ''UpdateCheckSchedule { last_update_time: '' @ show_time (Complex last_time) @ '', next_update_time: '' @
            show_time (Complex next_time) @ '' }'' =
          schedule_debug show_time show_duration
            (update_check_schedule_default\<lparr>last_update_time := Some (Complex last_time),
               next_update_time := Some \<lparr>ct_time = Complex next_time, ct_minimum_wait = None\<rparr>\<rparr>))"

lemma schedule_text_tests_hold:
  test_pretty_option_display_with_none test_pretty_option_display_with_some
  "test_update_check_schedule_debug_with_defaults show_time show_duration"
  "complex_time_add reading (duration_from_secs 1000) = Some later \<Longrightarrow>
     test_update_check_schedule_debug_with_values show_time show_duration reading"
  by (simp_all add: test_pretty_option_display_with_none_def test_pretty_option_display_with_some_def
      test_update_check_schedule_debug_with_defaults_def test_update_check_schedule_debug_with_values_def
      schedule_debug_def pretty_option_def check_timing_display_def update_check_schedule_default_def)

end
