(* ===== verification/Unit_Tests.thy ===== *)
theory Unit_Tests imports App_Tests Time_Tests begin

text \<open>
  The tests of \<open>version.rs\<close>, \<open>unless.rs\<close>, \<open>protocol.rs\<close>, \<open>app_set.rs\<close>, \<open>storage/memory.rs\<close>, \<open>storage/stub.rs\<close>,
  \<open>policy/stub.rs\<close> and \<open>state_machine/update_check.rs\<close>.
\<close>

section \<open>Versions\<close>

text \<open>The \<open>Serialize\<close> and \<open>Deserialize\<close> of a version are those of its text.\<close>

definition version_json :: "version \<Rightarrow> json" where
  "version_json v = JStr (version_to_string v)"

definition de_version :: "json \<Rightarrow> version option" where
  "de_version j = Option.bind (de_string j) (\<lambda>v. result_ok (version_from_str v))"

definition parses :: "string \<Rightarrow> u32 list \<Rightarrow> bool" where
  "parses s v \<longleftrightarrow> version_from_str s = Inr (version_from v)"

definition test_version_display :: bool where
  "test_version_display \<longleftrightarrow>
     version_to_string (version_from [1, 2, 3, 4]) = ''1.2.3.4'' \<and> version_to_string (version_from [0, 6, 4, 7]) = ''0.6.4.7''"

text \<open>The \<open>Debug\<close> of a version is its \<open>Display\<close>.\<close>

definition version_debug :: "version \<Rightarrow> string" where
  "version_debug v = version_to_string v"

definition test_version_debug :: bool where
  "test_version_debug \<longleftrightarrow>
     version_debug (version_from [1, 2, 3, 4]) = ''1.2.3.4'' \<and> version_debug (version_from [0, 6, 4, 7]) = ''0.6.4.7''"

definition test_version_parse :: bool where
  "test_version_parse \<longleftrightarrow> parses ''1.2.3.4'' [1, 2, 3, 4] \<and> parses ''6.4.7'' [6, 4, 7] \<and> parses ''999'' [999]"

definition test_version_parse_leading_zeros :: bool where
  "test_version_parse_leading_zeros \<longleftrightarrow>
     parses ''1.02.003.0004'' [1, 2, 3, 4] \<and> parses ''06.4.07'' [6, 4, 7] \<and> parses ''0000999'' [999]"

definition test_version_parse_error :: bool where
  "test_version_parse_error \<longleftrightarrow>
     list_all (\<lambda>s. result_ok (version_from_str s) = None)
       [''1.2.3.4.5'', ''1.2.'', ''.1.2'', ''-1'', ''abc'', ''.'', [], ''999999999999999999999999'']"

definition test_version_to_string :: bool where
  "test_version_to_string \<longleftrightarrow>
     list_all (\<lambda>(s, t). map_option version_to_string (result_ok (version_from_str s)) = Some t)
       [(''1.2'', ''1.2.0.0''), (''1.2.3.4'', ''1.2.3.4''), (''1'', ''1.0.0.0''), (''3.2.1'', ''3.2.1.0'')]"

definition test_version_compare :: bool where
  "test_version_compare \<longleftrightarrow>
     version_from [1, 2, 3, 4] < version_from [2, 0, 3] \<and> version_from [1, 2, 3] < version_from [1, 2, 3, 4] \<and>
     version_from [1, 0] = version_from [1, 0, 0] \<and> version_from [1, 0] \<le> version_from [1, 0, 0] \<and>
     version_from [1, 0] \<ge> version_from [1, 0, 0] \<and> version_from [1] = version_from [1, 0, 0, 0] \<and>
     version_from [0] = version_from [0, 0, 0, 0] \<and> version_from [0, 1, 0] > version_from [0, 0, 1, 0] \<and>
     version_from [0] < version_from [0, 0, 1, 0] \<and> version_from [1] < version_from [1, 0, 1, 0] \<and>
     version_from [1, 0] < version_from [1, 0, 0, 1] \<and> version_from [1, 0, 0] > version_from [0, 1, 2, 0]"

definition test_version_deserialize :: bool where
  "test_version_deserialize \<longleftrightarrow>
     de_version (JStr ''1.2.3.4'') = Some (version_from [1, 2, 3, 4]) \<and> de_version (JStr ''1.2.3'') = Some (version_from [1, 2, 3]) \<and>
     de_version (JStr ''1.2.3.4.5'') = None"

definition test_version_serialize :: bool where
  "test_version_serialize \<longleftrightarrow>
     version_json (version_from [1, 2, 3, 4]) = JStr ''1.2.3.4'' \<and> version_json (version_from [1, 2, 3]) = JStr ''1.2.3.0''"

lemma test_version_compare_holds: test_version_compare
  by (simp add: test_version_compare_def version_from_def less_version_def less_eq_version_def)

lemmas parse_version_simps = parses_def version_from_str_def parse_uint_def digit_val_def version_from_def result_ok_def

lemma version_parse_tests_hold:
  test_version_parse test_version_parse_leading_zeros test_version_parse_error
  by (simp_all add: test_version_parse_def test_version_parse_leading_zeros_def test_version_parse_error_def
      parse_version_simps)

lemma digit_chars:
  "digit_char 0 = CHR ''0''" "digit_char (Suc 0) = CHR ''1''" "digit_char 2 = CHR ''2''" "digit_char 3 = CHR ''3''"
  "digit_char 4 = CHR ''4''" "digit_char 6 = CHR ''6''" "digit_char 7 = CHR ''7''"
  by code_simp+

lemma version_text_tests_hold:
  test_version_display test_version_debug test_version_to_string test_version_deserialize test_version_serialize
  by (simp_all add: test_version_display_def test_version_debug_def version_debug_def test_version_to_string_def test_version_deserialize_def test_version_serialize_def
      de_version_def version_json_def version_to_string_def dec.simps digit_chars parse_version_simps)

section \<open>Cohorts\<close>

definition test_cohort_new :: bool where
  "test_cohort_new \<longleftrightarrow>
     (let cohort = cohort_new ''my_cohort''
      in cohort_id cohort = Some ''my_cohort'' \<and> cohort_hint cohort = None \<and> cohort_name cohort = None)"

definition test_cohort_update_from_omaha :: bool where
  "test_cohort_update_from_omaha \<longleftrightarrow>
     (let cohort = cohort_update_from_omaha (cohort_from_hint ''hint'') (cohort_new ''my_cohort'')
      in cohort_id cohort = Some ''my_cohort'' \<and> cohort_hint cohort = Some ''hint'' \<and> cohort_name cohort = None)"

definition test_cohort_update_from_omaha_none :: bool where
  "test_cohort_update_from_omaha_none \<longleftrightarrow>
     (let cohort = full_cohort (Some ''id'') (Some ''hint'') (Some ''name'')
      in cohort_update_from_omaha cohort cohort_default = cohort)"

definition test_valid_cohort_names :: bool where
  "test_valid_cohort_names \<longleftrightarrow>
     validate_name ''some-channel'' \<and> validate_name ''a'' \<and> validate_name (replicate 1024 (CHR ''a''))"

definition test_invalid_cohort_name_length :: bool where
  "test_invalid_cohort_name_length \<longleftrightarrow> \<not> validate_name [] \<and> \<not> validate_name (replicate 1025 (CHR ''a''))"

text \<open>The last character is two bytes in UTF-8.\<close>

definition test_invalid_cohort_name_chars :: bool where
  "test_invalid_cohort_name_chars \<longleftrightarrow>
     \<not> validate_name (''some'' @ [CHR 0x09] @ ''channel'') \<and> \<not> validate_name (''some'' @ [CHR 0x7F] @ ''channel'') \<and>
     \<not> validate_name (''some'' @ [CHR 0xC2, CHR 0x80] @ ''channel'')"

lemma cohort_tests_hold:
  test_cohort_new test_cohort_update_from_omaha test_cohort_update_from_omaha_none test_valid_cohort_names
  test_invalid_cohort_name_length test_invalid_cohort_name_chars
  by (simp_all add: test_cohort_new_def test_cohort_update_from_omaha_def test_cohort_update_from_omaha_none_def
      test_valid_cohort_names_def test_invalid_cohort_name_length_def test_invalid_cohort_name_chars_def
      cohort_new_def cohort_from_hint_def cohort_update_from_omaha_def validate_name_def app_simps list_all_iff)

section \<open>Small traits\<close>

text \<open>The trait \<open>Unless\<close>, of every type.\<close>

definition unless :: "'a \<Rightarrow> 'a option \<Rightarrow> 'a" where
  "unless self opt = (case opt of None \<Rightarrow> self | Some other \<Rightarrow> other)"

definition unless_tests :: bool where
  "unless_tests \<longleftrightarrow>
     unless ''default'' None = ''default'' \<and> unless ''default'' (Some ''other'') = ''other''"

lemma unless_tests_hold: unless_tests
  by (simp add: unless_tests_def unless_def)

section \<open>App sets\<close>

text \<open>\<open>VecAppSet::new(..)\<close>, whose panic on an empty vector fails the test.\<close>

definition on_app_set :: "app list \<Rightarrow> (vec_app_set \<Rightarrow> bool) \<Rightarrow> bool" where
  "on_app_set apps P = (case vec_app_set_new apps of None \<Rightarrow> False | Some s \<Rightarrow> P s)"

definition test_appsetext_update_from_omaha :: bool where
  "test_appsetext_update_from_omaha \<longleftrightarrow>
     (let cohort = cohort_default\<lparr>cohort_name := Some ''some-channel''\<rparr>;
          user_counting = ClientRegulatedByDate (Some 42);
          app_responses =
            [\<lparr>ar_app_id = ''some_id'', ar_cohort = cohort, ar_user_counting = user_counting, ar_result = Updated\<rparr>,
             \<lparr>ar_app_id = ''some_other_id'', ar_cohort = cohort, ar_user_counting = user_counting, ar_result = NoUpdate\<rparr>]
      in on_app_set [built_app ''some_id'' [0, 1], built_app ''not_updated_id'' [2]] (\<lambda>s.
           let apps = get_apps vec_ops (update_from_omaha vec_ops app_responses s)
           in app_cohort (apps ! 0) = cohort \<and> app_user_counting (apps ! 0) = user_counting \<and>
              apps ! 1 = built_app ''not_updated_id'' [2]))"

definition test_appsetext_valid :: bool where
  "test_appsetext_valid \<longleftrightarrow>
     on_app_set [built_app ''some_id'' [0, 1]] (all_valid vec_ops) \<and>
     on_app_set [built_app ''some_id'' [0, 1], built_app ''some_id_2'' [1]] (all_valid vec_ops)"

definition test_appsetext_not_valid :: bool where
  "test_appsetext_not_valid \<longleftrightarrow>
     list_all (\<lambda>apps. on_app_set apps (\<lambda>s. \<not> all_valid vec_ops s))
       [[built_app ''some_id'' [0, 1], built_app [] [0, 1]],
        [built_app ''some_id'' [0], built_app ''some_id_2'' [0, 1]],
        [built_app ''some_id'' [0], built_app [] [0, 1]]]"

definition test_get_apps :: bool where
  "test_get_apps \<longleftrightarrow>
     (let apps = [built_app ''some_id'' [0, 1]] in on_app_set apps (\<lambda>s. get_apps vec_ops s = apps))"

definition test_iter_mut_apps :: bool where
  "test_iter_mut_apps \<longleftrightarrow>
     on_app_set [built_app ''id1'' [1], built_app ''id2'' [2]] (\<lambda>s.
       get_apps vec_ops (iter_mut_apps vec_ops (\<lambda>a. a\<lparr>app_id := app_id a @ ''_mutated''\<rparr>) s) =
         [built_app ''id1_mutated'' [1], built_app ''id2_mutated'' [2]])"

definition test_get_system_app_id :: bool where
  "test_get_system_app_id \<longleftrightarrow>
     on_app_set [built_app ''id1'' [1], built_app ''id2'' [2]] (\<lambda>s. get_system_app_id vec_ops s = ''id1'')"

lemma app_set_tests_hold:
  test_appsetext_update_from_omaha test_appsetext_valid test_appsetext_not_valid test_get_apps test_iter_mut_apps
  test_get_system_app_id
  by (simp_all add: test_appsetext_update_from_omaha_def test_appsetext_valid_def test_appsetext_not_valid_def
      test_get_apps_def test_iter_mut_apps_def test_get_system_app_id_def on_app_set_def vec_app_set_new_def vec_ops_def
      update_from_omaha_def cohort_update_from_omaha_def all_valid_def app_valid_def version_from_def app_simps)

section \<open>Storage\<close>

text \<open>The tests of the storage in memory are the contract tests on a new storage.\<close>

definition memory_contract_tests :: bool where
  "memory_contract_tests \<longleftrightarrow>
     do_test_set_get_remove_string mem_ops mem_new \<noteq> None \<and> do_test_set_get_remove_int mem_ops mem_new \<noteq> None \<and>
     do_test_set_option_int mem_ops mem_new \<noteq> None \<and> do_test_set_get_remove_bool mem_ops mem_new \<noteq> None \<and>
     do_test_set_get_remove_time mem_ops mem_new \<noteq> None \<and> do_return_none_for_wrong_value_type mem_ops mem_new \<noteq> None \<and>
     do_ensure_no_error_remove_nonexistent_key mem_ops mem_new \<noteq> None"

definition test_committed :: bool where
  "test_committed \<longleftrightarrow>
     (let s0 = mem_new;
          (r1, s1) = set_bool mem_ops s0 ''some bool key'' False;
          (r2, s2) = commit_values mem_ops s1;
          (r3, s3) = set_string mem_ops s2 ''some string key'' ''some string'';
          (r4, s4) = set_int mem_ops s3 ''some int key'' 42;
          (r5, s5) = commit_values mem_ops s4
      in list_all (\<lambda>r. r = Inr ()) [r1, r2, r3, r4, r5] \<and>
         map mem_is_committed [s0, s1, s2, s3, s4, s5] = [True, False, True, False, False, True])"

lemma memory_tests_hold: memory_contract_tests test_committed
proof -
  have empty: "get_string mem_ops mem_new k = None" "get_int mem_ops mem_new k = None" "get_bool mem_ops mem_new k = None" for k
    by (simp_all add: mem_ops_def mem_new_def mem_get_string_def mem_get_int_def mem_get_bool_def)
  then have "get_time mem_ops mem_new k = None" for k by (simp add: get_time_def)
  with empty show memory_contract_tests
    unfolding memory_contract_tests_def mem_works.passes_string mem_works.passes_int mem_works.passes_option_int
      mem_works.passes_bool mem_works.passes_time
    by (intro conjI mem_works.passes_others)
  show test_committed
    by (simp add: test_committed_def mem_ops_def mem_new_def mem_set_bool_def mem_set_string_def mem_set_int_def mem_commit_def
        mem_is_committed_def)
qed

text \<open>A write, the read after it, and a removal, on the stub storage.\<close>

definition stub_storage_tests :: bool where
  "stub_storage_tests \<longleftrightarrow>
     \<not> is_ok (fst (set_string stub_storage_ops () ''key'' ''value'')) \<and> get_string stub_storage_ops () ''key'' = None \<and>
     \<not> is_ok (fst (set_int stub_storage_ops () ''key'' 123)) \<and> get_int stub_storage_ops () ''key'' = None \<and>
     \<not> is_ok (fst (set_bool stub_storage_ops () ''key'' True)) \<and> get_bool stub_storage_ops () ''key'' = None \<and>
     \<not> is_ok (fst (remove_value stub_storage_ops () ''key'')) \<and> \<not> is_ok (fst (commit_values stub_storage_ops ()))"

lemma stub_storage_tests_hold: stub_storage_tests
  by (simp add: stub_storage_tests_def stub_storage_ops_def)

section \<open>The stub policy\<close>

definition stub_test_world :: "complex_time \<Rightarrow> unit \<Rightarrow> complex_time \<times> unit" where
  "stub_test_world t w = (t, w)"

definition test_compute_next_update_time :: "complex_time \<Rightarrow> bool" where
  "test_compute_next_update_time current_time \<longleftrightarrow>
     stub_compute_next_update_time current_time = \<lparr>ct_time = partial_from_complex current_time, ct_minimum_wait = None\<rparr>"

definition test_update_check_allowed_on_demand :: bool where
  "test_update_check_allowed_on_demand \<longleftrightarrow>
     stub_update_check_allowed \<lparr>opt_source = OnDemand\<rparr> =
       CheckOk (request_params_default\<lparr>rp_source := OnDemand, use_configured_proxies := True\<rparr>)"

definition test_update_check_allowed_scheduled_task :: bool where
  "test_update_check_allowed_scheduled_task \<longleftrightarrow>
     stub_update_check_allowed \<lparr>opt_source = ScheduledTask\<rparr> =
       CheckOk (request_params_default\<lparr>rp_source := ScheduledTask, use_configured_proxies := True\<rparr>)"

definition test_update_can_start :: "complex_time \<Rightarrow> bool" where
  "test_update_can_start t \<longleftrightarrow> fst (update_can_start (stub_policy_engine (stub_test_world t)) StubPlan ()) = UpdateOk"

lemma stub_policy_tests_hold:
  "test_compute_next_update_time t" test_update_check_allowed_on_demand test_update_check_allowed_scheduled_task
  "test_update_can_start t"
  by (simp_all add: test_compute_next_update_time_def test_update_check_allowed_on_demand_def
      test_update_check_allowed_scheduled_task_def test_update_can_start_def stub_compute_next_update_time_def
      stub_update_check_allowed_def stub_policy_engine_def partial_from_complex_def)

section \<open>The context of the update checks\<close>

definition test_load_context :: bool where
  "test_load_context \<longleftrightarrow>
     (let last = 123456789;
          poll_interval = duration_from_micros 56789;
          s1 = snd (set_int mem_ops mem_new LAST_UPDATE_TIME last);
          s2 = snd (set_int mem_ops s1 SERVER_DICTATED_POLL_INTERVAL (word_of_nat (duration_as_micros poll_interval)));
          s3 = snd (set_int mem_ops s2 CONSECUTIVE_FAILED_UPDATE_CHECKS 1234);
          c = context_load mem_ops s3
      in last_update_time (ctx_schedule c) = Some (Wall (micros_from_epoch_to_system_time last)) \<and>
         server_dictated_poll_interval (ctx_state c) = Some poll_interval \<and>
         consecutive_failed_update_checks (ctx_state c) = 1234)"

definition test_load_context_empty_storage :: bool where
  "test_load_context_empty_storage \<longleftrightarrow>
     (let c = context_load mem_ops mem_new
      in last_update_time (ctx_schedule c) = None \<and> server_dictated_poll_interval (ctx_state c) = None \<and>
         consecutive_failed_update_checks (ctx_state c) = 0)"

definition some_context :: "duration option \<Rightarrow> u32 \<Rightarrow> update_context" where
  "some_context poll failed =
     \<lparr>ctx_schedule = \<lparr>last_update_time = Some (Wall (micros_from_epoch_to_system_time 123456789)),
                       last_update_check_time = None, next_update_time = None\<rparr>,
      ctx_state = \<lparr>server_dictated_poll_interval = poll, consecutive_failed_update_checks = failed,
                    consecutive_proxied_requests = 0\<rparr>\<rparr>"

definition test_persist_context :: bool where
  "test_persist_context \<longleftrightarrow>
     (let s = context_persist mem_ops (some_context (Some (duration_from_micros 56789)) 1234) mem_new
      in get_int mem_ops s LAST_UPDATE_TIME = Some 123456789 \<and>
         get_int mem_ops s SERVER_DICTATED_POLL_INTERVAL = Some 56789 \<and>
         get_int mem_ops s CONSECUTIVE_FAILED_UPDATE_CHECKS = Some 1234 \<and> \<not> mem_is_committed s)"

definition test_persist_context_remove_defaults :: bool where
  "test_persist_context_remove_defaults \<longleftrightarrow>
     (let s1 = snd (set_int mem_ops mem_new SERVER_DICTATED_POLL_INTERVAL 987654);
          s2 = snd (set_int mem_ops s1 CONSECUTIVE_FAILED_UPDATE_CHECKS 1234);
          s = context_persist mem_ops (some_context None 0) s2
      in get_int mem_ops s LAST_UPDATE_TIME = Some 123456789 \<and>
         get_int mem_ops s SERVER_DICTATED_POLL_INTERVAL = None \<and>
         get_int mem_ops s CONSECUTIVE_FAILED_UPDATE_CHECKS = None \<and> \<not> mem_is_committed s)"

lemma set_option_int_uncommitted: "\<not> mem_committed (snd (set_option_int mem_ops s k v))"
  by (cases v) (simp_all add: set_option_int_def mem_ops_def mem_set_int_def mem_remove_def)

lemma context_persist_uncommitted: "\<not> mem_is_committed (context_persist mem_ops c s)"
  by (simp add: context_persist_def Let_def mem_is_committed_def set_option_int_uncommitted)

lemma poll_interval_micros:
  "i64_try_from_nat (duration_as_micros (duration_from_micros 56789)) = Some 56789"
  "u64_try_from_i64 (word_of_nat (duration_as_micros (duration_from_micros 56789))) = Some 56789"
  by (simp_all add: i64_try_from_nat_def u64_try_from_i64_def duration_as_micros_def duration_from_micros_def)

lemma last_update_micros:
  "checked_to_micros_since_epoch (Wall (micros_from_epoch_to_system_time 123456789)) = Some 123456789"
  by (simp add: checked_to_micros_since_epoch_def checked_to_system_time_def micros_from_epoch_eq to_micros_Some_iff)

lemma load_context_tests_hold: test_load_context test_load_context_empty_storage
  by (simp_all add: test_load_context_def test_load_context_empty_storage_def context_load_def get_time_def mem.view_int
      mem.set_int_upd poll_interval_micros u32_try_from_i64_def Let_def mem_new_def)

lemma persist_context_tests_hold: test_persist_context test_persist_context_remove_defaults
  by (simp_all add: test_persist_context_def test_persist_context_remove_defaults_def some_context_def
      context_persist_uncommitted mem.view_int mem.context_persist_view poll_interval_micros last_update_micros Let_def)

end
