(* ===== verification/Cup_Tests.thy ===== *)
theory Cup_Tests imports Stub_Machine begin

text \<open>
  The tests of \<open>http_uri_ext.rs\<close> and \<open>cup_ecdsa.rs\<close>.  Those of CUPv2 are stated for every cryptography that signs and
  verifies, and encodes and decodes, as \<open>test_library_ok\<close> says, for every request, and for every draw of the nonces.
\<close>

section \<open>Extending URIs\<close>

definition make_uri_from_path_and_query :: "string option \<Rightarrow> unit uri_parts" where
  "make_uri_from_path_and_query path_and_query =
     \<lparr>parts_rest = (),
      parts_path_and_query =
        (case path_and_query of
           None \<Rightarrow> None
         | Some p \<Rightarrow> if p = [] then None
                     else if starts_with ''?'' p then Some (pq_of_string (''/'' @ p)) else Some (pq_of_string p))\<rparr>"

definition pq_text :: "path_and_query \<Rightarrow> string" where
  "pq_text p = pq_path p @ (case pq_query p of None \<Rightarrow> [] | Some q \<Rightarrow> ''?'' @ q)"

definition assert_expected_path :: "string option \<Rightarrow> string \<Rightarrow> string option \<Rightarrow> bool" where
  "assert_expected_path base added expected \<longleftrightarrow>
     (case extend_dir_with_path sample_uri_ops (make_uri_from_path_and_query base) added of
        Inl _ \<Rightarrow> False
      | Inr u \<Rightarrow> map_option pq_text (parts_path_and_query (uri_into_parts sample_uri_ops u)) = expected)"

definition no_query_empty_argument :: bool where
  "no_query_empty_argument \<longleftrightarrow>
     assert_expected_path None [] None \<and> assert_expected_path (Some []) [] None \<and>
     assert_expected_path (Some ''/'') [] (Some ''/'') \<and> assert_expected_path (Some ''/a'') [] (Some ''/a'') \<and>
     assert_expected_path (Some ''/a/'') [] (Some ''/a/'')"

definition has_query_empty_argument :: bool where
  "has_query_empty_argument \<longleftrightarrow>
     assert_expected_path (Some ''?k=v'') [] (Some ''/?k=v'') \<and> assert_expected_path (Some ''/?k=v'') [] (Some ''/?k=v'') \<and>
     assert_expected_path (Some ''/a?k=v'') [] (Some ''/a?k=v'') \<and>
     assert_expected_path (Some ''/a/?k=v'') [] (Some ''/a/?k=v'')"

definition no_query_has_argument :: bool where
  "no_query_has_argument \<longleftrightarrow>
     assert_expected_path None ''c'' (Some ''/c'') \<and> assert_expected_path (Some []) ''c'' (Some ''/c'') \<and>
     assert_expected_path (Some ''/'') ''c'' (Some ''/c'') \<and> assert_expected_path (Some ''/a'') ''c'' (Some ''/a/c'') \<and>
     assert_expected_path (Some ''/a/'') ''c'' (Some ''/a/c'')"

definition has_query_has_argument :: bool where
  "has_query_has_argument \<longleftrightarrow>
     assert_expected_path (Some ''?k=v'') ''c'' (Some ''/c?k=v'') \<and>
     assert_expected_path (Some ''/?k=v'') ''c'' (Some ''/c?k=v'') \<and>
     assert_expected_path (Some ''/a?k=v'') ''c'' (Some ''/a/c?k=v'') \<and>
     assert_expected_path (Some ''/a/?k=v'') ''c'' (Some ''/a/c?k=v'')"

definition assert_expected_param :: "string option \<Rightarrow> string \<Rightarrow> string \<Rightarrow> string option \<Rightarrow> bool" where
  "assert_expected_param base key value expected \<longleftrightarrow>
     (case append_query_parameter sample_uri_ops (make_uri_from_path_and_query base) key value of
        Inl _ \<Rightarrow> False
      | Inr u \<Rightarrow> map_option pq_text (parts_path_and_query (uri_into_parts sample_uri_ops u)) = expected)"

definition new_query :: bool where
  "new_query \<longleftrightarrow>
     assert_expected_param None ''k'' ''v'' (Some ''/?k=v'') \<and> assert_expected_param (Some []) ''k'' ''v'' (Some ''/?k=v'') \<and>
     assert_expected_param (Some ''/'') ''k'' ''v'' (Some ''/?k=v'') \<and>
     assert_expected_param (Some ''/a'') ''k'' ''v'' (Some ''/a?k=v'') \<and>
     assert_expected_param (Some ''/a/'') ''k'' ''v'' (Some ''/a/?k=v'')"

definition append_query :: bool where
  "append_query \<longleftrightarrow>
     assert_expected_param (Some ''?k=v'') ''k2'' ''v2'' (Some ''/?k=v&k2=v2'') \<and>
     assert_expected_param (Some ''/?k=v'') ''k2'' ''v2'' (Some ''/?k=v&k2=v2'') \<and>
     assert_expected_param (Some ''/a?k=v'') ''k2'' ''v2'' (Some ''/a?k=v&k2=v2'') \<and>
     assert_expected_param (Some ''/a/?k=v'') ''k2'' ''v2'' (Some ''/a/?k=v&k2=v2'')"

lemma uri_tests_hold:
  no_query_empty_argument has_query_empty_argument no_query_has_argument has_query_has_argument new_query append_query
  by code_simp+

section \<open>Entity tags\<close>

text \<open>A text in double quotes, and one with the weak prefix as well.\<close>

definition in_quotes :: "string \<Rightarrow> string" where
  "in_quotes s = [CHR 0x22] @ s @ [CHR 0x22]"

definition weak :: "string \<Rightarrow> string" where
  "weak s = ''W/'' @ in_quotes s"

definition test_parse_etag :: bool where
  "test_parse_etag \<longleftrightarrow>
     (let inner_quotes = ''thing-'' @ in_quotes ''with'' @ ''-quotes'' in
      parse_etag (weak ''foo'') = ''foo'' \<and> parse_etag (weak inner_quotes) = inner_quotes \<and> parse_etag (weak []) = [] \<and>
      parse_etag (in_quotes ''foo'') = ''foo'' \<and> parse_etag (in_quotes inner_quotes) = inner_quotes \<and> parse_etag (in_quotes []) = [] \<and>
      list_all (\<lambda>v. parse_etag v = v)
        [''foo'', ''1'', ''W'', ''W'' @ [CHR 0x22], ''W/'' @ [CHR 0x22], ''W/'', ''w/'' @ in_quotes ''bar'',
         ''W/'' @ [CHR 0x27] @ ''bar'' @ [CHR 0x27], []])"

lemma test_parse_etag_holds: test_parse_etag
  by code_simp

section \<open>The cryptography of the tests\<close>

definition starts_path :: "char \<Rightarrow> bool" where
  "starts_path c \<longleftrightarrow> c = CHR ''/'' \<or> c = CHR ''?''"

text \<open>A URI library for absolute URIs, which keeps everything before the path; the path is a slash when there is none.\<close>

definition absolute_uri_ops :: "(string uri_parts, string) uri_ops" where
  "absolute_uri_ops =
     \<lparr>uri_parse = (\<lambda>s.
        if starts_with ''http://'' s
        then (let rest = drop 7 s; pq = dropWhile (\<lambda>c. \<not> starts_path c) rest
              in Inr \<lparr>parts_rest = ''http://'' @ takeWhile (\<lambda>c. \<not> starts_path c) rest,
                      parts_path_and_query = Some (pq_of_string (if starts_with ''/'' pq then pq else ''/'' @ pq))\<rparr>)
        else Inl InvalidUri),
      uri_to_string = (\<lambda>u. parts_rest u @ (case parts_path_and_query u of None \<Rightarrow> [] | Some p \<Rightarrow> pq_text p)),
      uri_into_parts = (\<lambda>u. u), uri_from_parts = Inr, parse_path_and_query = (\<lambda>s. Inr (pq_of_string s))\<rparr>"

definition visible :: "char set" where
  "visible = {c. (32 :: nat) \<le> of_char c \<and> (of_char c :: nat) < 127}"

text \<open>Bytes: of the byte order mark in UTF-8, and a number of ones.\<close>

definition bom :: string where
  "bom = [CHR 0xEF, CHR 0xBB, CHR 0xBF]"

definition ones :: "nat \<Rightarrow> string" where
  "ones n = replicate n (CHR 0x01)"

text \<open>The pair of test keys belongs together and signs one hash at a time; DER and hexadecimal text read back, the latter
  in visible characters other than colon and quotes; some texts are neither hexadecimal nor DER; a header value is text
  exactly if it is visible ASCII.\<close>

definition test_library_ok :: "('k, 'd, 's) crypto_ops \<Rightarrow> ('d, 's, 'p) server_ops \<Rightarrow> 'p \<Rightarrow> 'k \<Rightarrow> bool" where
  "test_library_ok lib ops priv pub \<longleftrightarrow>
     (\<forall>h h'. key_verify lib pub h (sv_sign ops priv h') \<longleftrightarrow> h = h') \<and>
     (\<forall>d. der_from_bytes lib (der_as_bytes lib d) = Some d) \<and>
     (\<forall>s. signature_of_der lib (sv_to_der ops s) = Some s) \<and>
     (\<forall>b. hex_decode lib (hex_encode lib b) = Some b \<and> set (hex_encode lib b) \<subseteq> visible - {CHR '':'', CHR 0x22}) \<and>
     hex_decode lib ''foo'' = None \<and> hex_decode lib ''bar'' = None \<and> der_from_bytes lib (ones 64) = None \<and>
     (\<forall>v. set v \<subseteq> visible \<longrightarrow> header_to_str lib v = Some v) \<and> header_to_str lib bom = None"

definition handler_for :: "public_key_id \<Rightarrow> 'k \<Rightarrow> 'k standard_cupv2_handler" where
  "handler_for i pub = standard_cupv2_handler_new (make_public_keys_for_test i pub)"

text \<open>The standard intermediate of the tests, decorated with the nonce that is drawn.\<close>

definition decorate_standard ::
  "('k, 'd, 's) crypto_ops \<Rightarrow> (json \<Rightarrow> string option) \<Rightarrow> 'k standard_cupv2_handler \<Rightarrow> nonce \<Rightarrow> request
     \<Rightarrow> (cup_decoration_error + request_metadata) \<times> intermediate" where
  "decorate_standard lib to_vec handler n r =
     decorate_request lib absolute_uri_ops (intermediate_request to_vec) handler n (make_standard_intermediate_for_test r)"

text \<open>The rest of a test after the \<open>?\<close> on a decoration.\<close>

fun when_decorated :: "(cup_decoration_error + request_metadata) \<times> intermediate \<Rightarrow> (request_metadata \<Rightarrow> intermediate \<Rightarrow> bool) \<Rightarrow> bool" where
  "when_decorated (Inl _, _) P = False"
| "when_decorated (Inr meta, im) P = P meta im"

definition answer_with :: "string option \<Rightarrow> string \<Rightarrow> http_response" where
  "answer_with etag body = \<lparr>http_status = 200, http_header = (\<lambda>h. if h = ETAG then etag else None), http_body = body\<rparr>"

section \<open>Decorating\<close>

definition test_standard_cup_handler_decorate ::
  "('k, 'd, 's) crypto_ops \<Rightarrow> (json \<Rightarrow> string option) \<Rightarrow> 'k \<Rightarrow> request \<Rightarrow> nonce \<Rightarrow> bool" where
  "test_standard_cup_handler_decorate lib to_vec pub r n \<longleftrightarrow>
     when_decorated (decorate_standard lib to_vec (handler_for 42 pub) n r) (\<lambda>meta im.
       (case Option.bind (pq_query (pq_of_string (im_uri im))) (split_once CHR ''='') of
          Some (k, v) \<Rightarrow>
            k = ''cup2key'' \<and>
            (case split_once CHR '':'' v of
               Some (public_key_decimal, nonce_hex) \<Rightarrow>
                 public_key_decimal = dec 42 \<and> nonce_hex = nonce_to_string lib (rm_nonce meta)
             | None \<Rightarrow> False)
        | None \<Rightarrow> False) \<and>
       rm_nonce meta \<noteq> replicate 32 (CHR 0x00))"

definition test_standard_cup_handler_decorate_ipv6_link_local ::
  "('k, 'd, 's) crypto_ops \<Rightarrow> (json \<Rightarrow> string option) \<Rightarrow> 'k \<Rightarrow> request \<Rightarrow> nonce \<Rightarrow> bool" where
  "test_standard_cup_handler_decorate_ipv6_link_local lib to_vec pub r n \<longleftrightarrow>
     when_decorated
       (decorate_request lib absolute_uri_ops (intermediate_request to_vec) (handler_for 42 pub) n
         \<lparr>im_uri = ''http://[::1%eth0]'', im_headers = [], im_body = r\<rparr>)
       (\<lambda>meta im. im_uri im = ''http://[::1%eth0]/?cup2key='' @ dec 42 @ '':'' @ nonce_to_string lib (rm_nonce meta) \<and>
          rm_nonce meta \<noteq> replicate 32 (CHR 0x00))"

lemma handler_for_sels [simp]:
  "latest_public_key_id (handler_for i pub) = i" "parameters_by_id (handler_for i pub) = [i \<mapsto> pub]"
  by (simp_all add: handler_for_def standard_cupv2_handler_new_def make_public_keys_for_test_def)

lemma decorate_authority:
  assumes "to_vec (request_wrapper_json r) = Some body" and "u = ''http://'' @ host" and "list_all (\<lambda>c. \<not> starts_path c) host"
  shows "decorate_request lib absolute_uri_ops (intermediate_request to_vec) handler n \<lparr>im_uri = u, im_headers = hs, im_body = r\<rparr> =
    (Inr \<lparr>rm_request_body = body, rm_public_key_id = latest_public_key_id handler, rm_nonce = n\<rparr>,
     \<lparr>im_uri = u @ ''/?cup2key='' @ cup2_urlparam lib (latest_public_key_id handler) n, im_headers = hs, im_body = r\<rparr>)"
proof -
  have host: "takeWhile (\<lambda>c. \<not> starts_path c) host = host" "dropWhile (\<lambda>c. \<not> starts_path c) host = []"
    using assms(3) by (auto simp: takeWhile_eq_all_conv dropWhile_eq_Nil_conv list_all_iff)
  with assms(1, 2) show ?thesis
    by (simp add: host decorate_request_def absolute_uri_ops_def intermediate_request_def Let_def starts_with_def serialize_body_def
        append_query_parameter_def with_path_and_query_def appended_query_def pq_of_string_def ok_or_def pq_text_def)
qed

lemma decorate_standard_eq:
  assumes "to_vec (request_wrapper_json r) = Some body"
  shows "decorate_standard lib to_vec handler n r =
    (Inr \<lparr>rm_request_body = body, rm_public_key_id = latest_public_key_id handler, rm_nonce = n\<rparr>,
     (make_standard_intermediate_for_test r)
       \<lparr>im_uri := ''http://fuchsia.dev/?cup2key='' @ cup2_urlparam lib (latest_public_key_id handler) n\<rparr>)"
  unfolding decorate_standard_def make_standard_intermediate_for_test_def
  using decorate_authority [where to_vec = to_vec and r = r and body = body and u = "''http://fuchsia.dev''" and host = "''fuchsia.dev''" and hs = "[]"] assms
  by (simp add: starts_path_def)

lemma decorate_tests_hold:
  assumes "to_vec (request_wrapper_json r) = Some body" and "n \<noteq> replicate 32 (CHR 0x00)"
  shows "test_standard_cup_handler_decorate lib to_vec pub r n"
    and "test_standard_cup_handler_decorate_ipv6_link_local lib to_vec pub r n"
proof -
  show "test_standard_cup_handler_decorate lib to_vec pub r n"
    using assms(2)
    by (simp add: test_standard_cup_handler_decorate_def decorate_standard_eq [where to_vec = to_vec, OF assms(1)]
        pq_of_string_def cup2_urlparam_split split_once_append)
  show "test_standard_cup_handler_decorate_ipv6_link_local lib to_vec pub r n"
    using assms(2)
      decorate_authority [where to_vec = to_vec and r = r and body = body and u = "''http://[::1%eth0]''" and host = "''[::1%eth0]''" and hs = "[]"
          and lib = lib and handler = "handler_for 42 pub" and n = n, OF assms(1)]
    by (simp add: test_standard_cup_handler_decorate_ipv6_link_local_def cup2_urlparam_def starts_path_def)
qed

section \<open>Verifying\<close>

definition test_verify_response_missing_etag_header ::
  "('k, 'd, 's) crypto_ops \<Rightarrow> (json \<Rightarrow> string option) \<Rightarrow> 'k \<Rightarrow> request \<Rightarrow> nonce \<Rightarrow> bool" where
  "test_verify_response_missing_etag_header lib to_vec pub r n \<longleftrightarrow>
     (let handler = handler_for 12345 pub in
      when_decorated (decorate_standard lib to_vec handler n r) (\<lambda>meta _.
        verify_response lib handler meta (answer_with None ''foo'') 12345 = Inl EtagHeaderMissing))"

definition test_verify_response_malformed_etag_header ::
  "('k, 'd, 's) crypto_ops \<Rightarrow> (json \<Rightarrow> string option) \<Rightarrow> 'k \<Rightarrow> request \<Rightarrow> nonce \<Rightarrow> bool" where
  "test_verify_response_malformed_etag_header lib to_vec pub r n \<longleftrightarrow>
     (let handler = handler_for 12345 pub in
      when_decorated (decorate_standard lib to_vec handler n r) (\<lambda>meta _.
        verify_response lib handler meta (answer_with (Some bom) ''foo'') 12345 = Inl EtagNotString))"

fun err :: "'e + 'a \<Rightarrow> 'e option" where
  "err (Inl e) = Some e"
| "err (Inr _) = None"

definition test_verify_cached_signature_against_message ::
  "('k, 'd, 's) crypto_ops \<Rightarrow> ('d, 's, 'p) server_ops \<Rightarrow> (json \<Rightarrow> string option) \<Rightarrow> 'p \<Rightarrow> 'k \<Rightarrow> request \<Rightarrow> nonce \<Rightarrow> bool" where
  "test_verify_cached_signature_against_message lib ops to_vec priv pub r n \<longleftrightarrow>
     (let correct = 24682468; wrong = 12341234; handler = handler_for correct pub in
      when_decorated (decorate_standard lib to_vec handler n r) (\<lambda>meta im.
        (case serialize_body to_vec im of
           Inl _ \<Rightarrow> False
         | Inr body \<Rightarrow>
             (let expected_metadata = \<lparr>rm_request_body = body, rm_public_key_id = correct, rm_nonce = rm_nonce meta\<rparr>;
                  expected_hash = hex_encode lib (sha256 lib (rm_request_body meta));
                  expected_signature = hex_encode lib (make_expected_signature_for_test lib ops priv expected_metadata ''bar'')
              in list_all (\<lambda>(etag, i, expected_err). err (verify_response lib handler meta (answer_with (Some etag) ''bar'') i) = expected_err)
                   [(''bar'', correct, Some EtagMalformed),
                    (''foo:bar'', correct, Some RequestHashMalformed),
                    (''foo:'' @ hex_encode lib (ones 32), correct, Some RequestHashMismatch),
                    (''foo:'' @ expected_hash, correct, Some SignatureMalformed),
                    (hex_encode lib (ones 64) @ '':'' @ expected_hash, correct, Some SignatureError),
                    (expected_signature @ '':'' @ expected_hash, wrong, Some SpecifiedPublicKeyIdMissing),
                    (expected_signature @ '':'' @ expected_hash, correct, None)]))))"

text \<open>The metadata of a decorated request, and the response to it that the private key signs.\<close>

definition make_verify_response_arguments ::
  "('k, 'd, 's) crypto_ops \<Rightarrow> ('d, 's, 'p) server_ops \<Rightarrow> (json \<Rightarrow> string option) \<Rightarrow> request \<Rightarrow> 'k standard_cupv2_handler
     \<Rightarrow> nonce \<Rightarrow> 'p \<Rightarrow> string \<Rightarrow> (request_metadata \<times> http_response) option" where
  "make_verify_response_arguments lib ops to_vec r request_handler n private_key response_body =
     (case decorate_standard lib to_vec request_handler n r of
        (Inl _, _) \<Rightarrow> None
      | (Inr meta, _) \<Rightarrow>
          (let signature = hex_encode lib (make_expected_signature_for_test lib ops private_key meta response_body);
               etag = signature @ '':'' @ hex_encode lib (sha256 lib (rm_request_body meta))
           in Some (meta, answer_with (Some etag) response_body)))"

text \<open>Both key pairs of the test are the same: the test keys are constants.\<close>

definition test_historical_verification ::
  "('k, 'd, 's) crypto_ops \<Rightarrow> ('d, 's, 'p) server_ops \<Rightarrow> (json \<Rightarrow> string option) \<Rightarrow> 'p \<Rightarrow> 'k \<Rightarrow> request \<Rightarrow> nonce \<Rightarrow> nonce \<Rightarrow> bool" where
  "test_historical_verification lib ops to_vec priv pub r n_a n_b \<longleftrightarrow>
     (let id_a = 24682468; id_b = 12341234;
          handler_a = standard_cupv2_handler_new \<lparr>pk_latest = \<lparr>pk_key = pub, pk_id = id_a\<rparr>, pk_historical = []\<rparr>;
          handler_b = standard_cupv2_handler_new
            \<lparr>pk_latest = \<lparr>pk_key = pub, pk_id = id_b\<rparr>, pk_historical = [\<lparr>pk_key = pub, pk_id = id_a\<rparr>]\<rparr>
      in case (make_verify_response_arguments lib ops to_vec r handler_a n_a priv ''foo'',
               make_verify_response_arguments lib ops to_vec r handler_b n_b priv ''bar'') of
           (Some (metadata_a, response_a), Some (metadata_b, response_b)) \<Rightarrow>
             err (verify_response lib handler_a metadata_a response_a id_a) = None \<and>
             err (verify_response lib handler_b metadata_b response_b id_b) = None \<and>
             err (verify_response lib handler_b metadata_a response_a id_a) = None \<and>
             err (verify_response lib handler_b metadata_a response_a id_b) \<noteq> None \<and>
             err (verify_response lib handler_b metadata_a response_b id_a) \<noteq> None \<and>
             err (verify_response lib handler_b metadata_b response_a id_a) \<noteq> None
         | _ \<Rightarrow> False)"

text \<open>What \<open>test_library_ok\<close> says.\<close>

lemma test_libraryD:
  assumes "test_library_ok lib ops priv pub"
  shows "key_verify lib pub h (sv_sign ops priv h') \<longleftrightarrow> h = h'" "der_from_bytes lib (der_as_bytes lib d) = Some d"
    "signature_of_der lib (sv_to_der ops s) = Some s" "hex_decode lib (hex_encode lib b) = Some b"
    "hex_decode lib ''foo'' = None" "hex_decode lib ''bar'' = None" "der_from_bytes lib (ones 64) = None"
    "set v \<subseteq> visible \<Longrightarrow> header_to_str lib v = Some v" "header_to_str lib bom = None"
    "set (hex_encode lib b) \<subseteq> visible" "CHR '':'' \<notin> set (hex_encode lib b)" "CHR 0x22 \<notin> set (hex_encode lib b)"
  using assms unfolding test_library_ok_def by blast+

text \<open>A header of two parts is taken apart, unless the first holds a colon.\<close>

lemma verify_two_parts:
  assumes ok: "test_library_ok lib ops priv pub" and "set a \<subseteq> visible - {CHR '':'', CHR 0x22}"
    and "set b \<subseteq> visible - {CHR 0x22}"
  shows "verify_response lib handler meta (answer_with (Some (a @ '':'' @ b)) body) i =
    (case hex_decode lib b of
       None \<Rightarrow> Inl RequestHashMalformed
     | Some actual_hash \<Rightarrow>
         if sha256 lib (rm_request_body meta) \<noteq> actual_hash then Inl RequestHashMismatch
         else (case hex_decode lib a of
             None \<Rightarrow> Inl SignatureMalformed
           | Some bytes \<Rightarrow>
               (case der_from_bytes lib bytes of
                  None \<Rightarrow> Inl SignatureError
                | Some signature \<Rightarrow>
                    result_bind (verify_response_with_signature lib handler signature (rm_request_body meta) body i (rm_nonce meta))
                      (\<lambda>_. Inr signature))))"
proof -
  have colon: "CHR '':'' \<in> visible" by (simp add: visible_def)
  have "set (a @ '':'' @ b) \<subseteq> visible" using assms(2,3) colon by auto
  then have "header_to_str lib (a @ '':'' @ b) = Some (a @ '':'' @ b)" by (rule test_libraryD(8) [OF ok])
  moreover have "parse_etag (a @ '':'' @ b) = a @ '':'' @ b" using assms(2,3) by (intro parse_etag_plain) auto
  moreover have "split_once CHR '':'' (a @ '':'' @ b) = Some (a, b)" using assms(2) split_once_append [of "CHR '':''" a b] by auto
  ultimately show ?thesis
    by (simp add: verify_response_def answer_with_def ok_or_def split: option.splits)
qed

lemma verify_signed:
  assumes ok: "test_library_ok lib ops priv pub"
  shows "verify_response_with_signature lib handler (sv_to_der ops (sv_sign ops priv h)) req body i n =
    (case parameters_by_id handler i of
       None \<Rightarrow> Inl SpecifiedPublicKeyIdMissing
     | Some k \<Rightarrow> if key_verify lib k (make_transaction_hash lib req body i n) (sv_sign ops priv h) then Inr () else Inl SignatureError)"
  by (simp add: verify_response_with_signature_def Let_def ok_or_def test_libraryD [OF ok] split: option.splits)

lemma missing_and_malformed_tests_hold:
  assumes "to_vec (request_wrapper_json r) = Some body" and "test_library_ok lib ops priv pub"
  shows "test_verify_response_missing_etag_header lib to_vec pub r n"
    and "test_verify_response_malformed_etag_header lib to_vec pub r n"
  by (simp_all add: test_verify_response_missing_etag_header_def test_verify_response_malformed_etag_header_def
      decorate_standard_eq [where to_vec = to_vec, OF assms(1)] verify_response_def answer_with_def ok_or_def
      test_libraryD [OF assms(2)])

lemma visible_words: "set ''foo'' \<subseteq> visible - {CHR '':'', CHR 0x22}" "set ''bar'' \<subseteq> visible - {CHR 0x22}"
  by (simp_all add: visible_def)

lemma hex_visible:
  assumes "test_library_ok lib ops priv pub"
  shows "set (hex_encode lib b) \<subseteq> visible - {CHR '':'', CHR 0x22}" "set (hex_encode lib b) \<subseteq> visible - {CHR 0x22}"
  using test_libraryD(10-12) [OF assms, of b] by auto

lemma test_verify_cached_signature_against_message_holds:
  assumes "to_vec (request_wrapper_json r) = Some body" and ok: "test_library_ok lib ops priv pub"
    and other: "sha256 lib body \<noteq> ones 32"
  shows "test_verify_cached_signature_against_message lib ops to_vec priv pub r n"
proof -
  note lib = test_libraryD [OF ok]
  have plain: "verify_response lib handler meta (answer_with (Some ''bar'') ''bar'') i = Inl EtagMalformed" for handler meta i
    using lib(8) [of "''bar''"] visible_words(2)
    by (simp add: verify_response_def answer_with_def ok_or_def parse_etag_plain iffD2 [OF split_once_None])
  note two = verify_two_parts [OF ok]
  show ?thesis
    using two [OF visible_words] two [OF visible_words(1) hex_visible(2) [OF ok]] two [OF hex_visible [OF ok]] other
    by (simp add: test_verify_cached_signature_against_message_def decorate_standard_eq [where to_vec = to_vec, OF assms(1)]
        serialize_body_def make_standard_intermediate_for_test_def assms(1) ok_or_def plain lib verify_signed [OF ok]
        make_expected_signature_for_test_def)
qed

text \<open>Only the transaction that was signed verifies, as far as the hashes of the transactions tell them apart.\<close>

lemma arguments_eq:
  assumes "to_vec (request_wrapper_json r) = Some req"
  shows "make_verify_response_arguments lib ops to_vec r handler n priv body =
    (let i = latest_public_key_id handler; h = make_transaction_hash lib req body i n
     in Some (\<lparr>rm_request_body = req, rm_public_key_id = i, rm_nonce = n\<rparr>,
          answer_with (Some (hex_encode lib (der_as_bytes lib (sv_to_der ops (sv_sign ops priv h))) @ '':'' @
            hex_encode lib (sha256 lib req))) body))"
  by (simp add: make_verify_response_arguments_def decorate_standard_eq [where to_vec = to_vec, OF assms]
      make_expected_signature_for_test_def Let_def)

lemma verify_signed_answer:
  assumes ok: "test_library_ok lib ops priv pub"
  shows "err (verify_response lib handler meta
      (answer_with (Some (hex_encode lib (der_as_bytes lib (sv_to_der ops (sv_sign ops priv h))) @ '':'' @
         hex_encode lib (sha256 lib (rm_request_body meta)))) body) i) =
    (case parameters_by_id handler i of
       None \<Rightarrow> Some SpecifiedPublicKeyIdMissing
     | Some k \<Rightarrow> if key_verify lib k (make_transaction_hash lib (rm_request_body meta) body i (rm_nonce meta)) (sv_sign ops priv h)
                  then None else Some SignatureError)"
  by (subst verify_two_parts [OF ok hex_visible [OF ok]])
    (simp add: test_libraryD(2-4) [OF ok] verify_signed [OF ok] split: option.splits)

lemma test_historical_verification_holds:
  assumes req: "to_vec (request_wrapper_json r) = Some req" and ok: "test_library_ok lib ops priv pub"
    and apart: "distinct (map (\<lambda>(body, i, n). make_transaction_hash lib req body i n)
      [(''foo'', 24682468, n_a), (''foo'', 12341234, n_a), (''bar'', 12341234, n_b), (''bar'', 24682468, n_a),
       (''foo'', 24682468, n_b)])"
  shows "test_historical_verification lib ops to_vec priv pub r n_a n_b"
  using apart
  by (auto simp: test_historical_verification_def arguments_eq [where to_vec = to_vec, OF req] Let_def
      verify_signed_answer [OF ok, where meta = "\<lparr>rm_request_body = req, rm_public_key_id = i, rm_nonce = n\<rparr>" for i n, simplified]
      standard_cupv2_handler_new_def test_libraryD(1) [OF ok])

section \<open>An instance\<close>

text \<open>Bytes as bits, DER as a tagged text, a signature as the key before the message, and a hash that ends in a mark.\<close>

definition tagged_crypto :: "(string, string, string) crypto_ops" where
  "tagged_crypto = bits_crypto
     \<lparr>sha256 := (\<lambda>s. s @ ''#''), key_verify := (\<lambda>k m s. k @ m = s), der_as_bytes := Cons (CHR ''D''),
      der_from_bytes := (\<lambda>s. case s of [] \<Rightarrow> None | c # d \<Rightarrow> if c = CHR ''D'' then Some d else None),
      header_to_str := (\<lambda>v. if list_all (\<lambda>c. c \<in> visible) v then Some v else None)\<rparr>"

definition tagged_signing :: "(string, string, string) server_ops" where
  "tagged_signing =
     \<lparr>sv_sign = (\<lambda>k m. k @ m), sv_to_der = id, sv_query_pairs = (\<lambda>_. None), sv_read_json = (\<lambda>_. None),
      sv_write_json = json_print, sv_header_ok = (\<lambda>_. True)\<rparr>"

lemma tagged_library_ok: "test_library_ok tagged_crypto tagged_signing k k"
proof -
  have "{CHR ''0'', CHR ''1''} \<subseteq> visible - {CHR '':'', CHR 0x22}" by (simp add: visible_def)
  with bits_chars have hex: "set (bits_encode b) \<subseteq> visible - {CHR '':'', CHR 0x22}" for b by blast
  have bom: "CHR 0xEF \<notin> visible" by (simp add: visible_def)
  have ones: "ones 64 = CHR 0x01 # ones 63" by (simp add: ones_def flip: replicate_Suc)
  have words: "bits_decode ''foo'' = None" "bits_decode ''bar'' = None" by simp_all
  show ?thesis
    unfolding test_library_ok_def
    by (intro conjI allI)
      (use hex bom in \<open>simp_all add: tagged_crypto_def tagged_signing_def bits_crypto_def toy_crypto_def
        bits_decode_encode list_all_iff bom_def ones words subset_eq\<close>)
qed

lemma cup2_urlparam_inject:
  assumes "inj (hex_encode lib)"
  shows "cup2_urlparam lib i a = cup2_urlparam lib j b \<longleftrightarrow> i = j \<and> a = b"
proof
  assume "cup2_urlparam lib i a = cup2_urlparam lib j b"
  then have "dec (unat i) = dec (unat j)" and "hex_encode lib a = hex_encode lib b"
    using cup2_urlparam_split [of lib i a] cup2_urlparam_split [of lib j b] by (simp_all add: nonce_to_string_def)
  then show "i = j \<and> a = b" using assms by (simp add: dec_unat_inject inj_eq)
qed simp

lemma tagged_hash_inject:
  "make_transaction_hash tagged_crypto req ''foo'' i a = make_transaction_hash tagged_crypto req ''foo'' j b \<longleftrightarrow> i = j \<and> a = b"
  "make_transaction_hash tagged_crypto req ''bar'' i a = make_transaction_hash tagged_crypto req ''bar'' j b \<longleftrightarrow> i = j \<and> a = b"
  "make_transaction_hash tagged_crypto req ''foo'' i a \<noteq> make_transaction_hash tagged_crypto req ''bar'' j b"
proof -
  have "inj (hex_encode tagged_crypto)"
    by (rule inj_on_inverseI [where g = "the \<circ> bits_decode"])
      (simp add: tagged_crypto_def bits_crypto_def bits_decode_encode)
  note urlparam = cup2_urlparam_inject [OF this]
  have sha: "sha256 tagged_crypto s = s @ ''#''" for s by (simp add: tagged_crypto_def)
  show
    "make_transaction_hash tagged_crypto req ''foo'' i a = make_transaction_hash tagged_crypto req ''foo'' j b \<longleftrightarrow> i = j \<and> a = b"
    "make_transaction_hash tagged_crypto req ''bar'' i a = make_transaction_hash tagged_crypto req ''bar'' j b \<longleftrightarrow> i = j \<and> a = b"
    "make_transaction_hash tagged_crypto req ''foo'' i a \<noteq> make_transaction_hash tagged_crypto req ''bar'' j b"
    by (simp_all add: make_transaction_hash_def transaction_bytes_def sha urlparam)
qed

lemma cup_tests_example:
  "test_verify_cached_signature_against_message tagged_crypto tagged_signing (\<lambda>_. Some ''req'') ''key'' ''key'' r ''n''"
  "test_historical_verification tagged_crypto tagged_signing (\<lambda>_. Some ''req'') ''key'' ''key'' r ''a'' ''b''"
proof -
  have "hd (sha256 tagged_crypto ''req'') \<noteq> hd (ones 32)" by (simp add: tagged_crypto_def ones_def)
  then have other: "sha256 tagged_crypto ''req'' \<noteq> ones 32" by metis
  show "test_verify_cached_signature_against_message tagged_crypto tagged_signing (\<lambda>_. Some ''req'') ''key'' ''key'' r ''n''"
    by (rule test_verify_cached_signature_against_message_holds [where body = "''req''", OF _ tagged_library_ok])
      (simp_all add: other)
  show "test_historical_verification tagged_crypto tagged_signing (\<lambda>_. Some ''req'') ''key'' ''key'' r ''a'' ''b''"
    by (rule test_historical_verification_holds [where req = "''req''", OF _ tagged_library_ok])
      (simp_all add: tagged_hash_inject tagged_hash_inject(3) [symmetric])
qed

end
