(* ===== verification/Public_Keys.thy ===== *)
theory Public_Keys imports Cup_Ecdsa Json_Model begin

text \<open>
  \<open>cup_ecdsa.rs\<close>: the JSON form of the public keys, in which a key is PEM text.  Reading and writing PEM are parameters,
  \<open>None\<close> their errors.
\<close>

section \<open>Writing and reading\<close>

definition to_pem :: "('k \<Rightarrow> string option) \<Rightarrow> 'k \<Rightarrow> json option" where
  "to_pem write_pem public_key = map_option JStr (write_pem public_key)"

definition from_pem :: "(string \<Rightarrow> 'k option) \<Rightarrow> json \<Rightarrow> 'k option" where
  "from_pem parse_pem j = Option.bind (de_string j) parse_pem"

definition public_key_and_id_json :: "('k \<Rightarrow> string option) \<Rightarrow> 'k public_key_and_id \<Rightarrow> json option" where
  "public_key_and_id_json write_pem k =
     map_option (\<lambda>key. JObj [(''key'', key), (''id'', JInt (uint (pk_id k)))]) (to_pem write_pem (pk_key k))"

definition public_keys_json :: "('k \<Rightarrow> string option) \<Rightarrow> 'k public_keys \<Rightarrow> json option" where
  "public_keys_json write_pem ks =
     do { latest \<leftarrow> public_key_and_id_json write_pem (pk_latest ks);
          historical \<leftarrow> sequence (map (public_key_and_id_json write_pem) (pk_historical ks));
          Some (JObj [(''latest'', latest), (''historical'', JArr historical)]) }"

definition de_public_key_and_id :: "(string \<Rightarrow> 'k option) \<Rightarrow> json \<Rightarrow> 'k public_key_and_id option" where
  "de_public_key_and_id parse_pem j =
     do { kvs \<leftarrow> struct_fields [''key'', ''id''] j;
          key \<leftarrow> req_field kvs ''key'' (from_pem parse_pem);
          i \<leftarrow> req_field kvs ''id'' de_u64;
          Some \<lparr>pk_key = key, pk_id = i\<rparr> }"

definition de_public_keys :: "(string \<Rightarrow> 'k option) \<Rightarrow> json \<Rightarrow> 'k public_keys option" where
  "de_public_keys parse_pem j =
     do { kvs \<leftarrow> struct_fields [''latest'', ''historical''] j;
          latest \<leftarrow> req_field kvs ''latest'' (de_public_key_and_id parse_pem);
          historical \<leftarrow> req_field kvs ''historical'' (de_list (de_public_key_and_id parse_pem));
          Some \<lparr>pk_latest = latest, pk_historical = historical\<rparr> }"

section \<open>Reading back\<close>

lemma de_u64_uint [simp]: "de_u64 (JInt (uint (i :: u64))) = Some i"
  using uint_bounded [of i] by (simp add: de_u64_def)

lemma de_public_key_and_id_json:
  assumes "\<And>k s. write_pem k = Some s \<Longrightarrow> parse_pem s = Some k" and "public_key_and_id_json write_pem k = Some j"
  shows "de_public_key_and_id parse_pem j = Some k"
  using assms
  by (auto simp: public_key_and_id_json_def to_pem_def de_public_key_and_id_def from_pem_def struct_fields_def req_field_def)

lemma de_list_json:
  assumes "\<And>x j. enc x = Some j \<Longrightarrow> de j = Some x" and "sequence (map enc xs) = Some js"
  shows "de_list de (JArr js) = Some xs"
proof -
  from assms(2) have "map enc xs = map Some js" by (simp add: sequence_Some_iff)
  then have "list_all2 (\<lambda>x j. enc x = Some j) xs js" by (simp add: list_all2_conv_all_nth list_eq_iff_nth_eq)
  then have "list_all2 (\<lambda>x j. de j = Some x) xs js" by (rule list_all2_mono) (use assms(1) in auto)
  then have "map de js = map Some xs" by (auto simp: list_all2_conv_all_nth list_eq_iff_nth_eq)
  then show ?thesis by (simp add: de_list_def sequence_Some_iff)
qed

text \<open>Keys that can be written at all read back as they were, whatever else the text of a key may be.\<close>

lemma de_public_keys_json:
  assumes pem: "\<And>k s. write_pem k = Some s \<Longrightarrow> parse_pem s = Some k" and "public_keys_json write_pem ks = Some j"
  shows "de_public_keys parse_pem j = Some ks"
proof -
  from assms(2) obtain l hs where l: "public_key_and_id_json write_pem (pk_latest ks) = Some l"
    and hs: "sequence (map (public_key_and_id_json write_pem) (pk_historical ks)) = Some hs"
    and j: "j = JObj [(''latest'', l), (''historical'', JArr hs)]"
    by (auto simp: public_keys_json_def bind_eq_Some_conv)
  have "de_public_key_and_id parse_pem l = Some (pk_latest ks)" using pem l by (rule de_public_key_and_id_json)
  moreover have "de_list (de_public_key_and_id parse_pem) (JArr hs) = Some (pk_historical ks)"
    using de_public_key_and_id_json [of write_pem parse_pem] pem hs by (intro de_list_json) auto
  ultimately show ?thesis by (simp add: de_public_keys_def struct_fields_def req_field_def j)
qed

section \<open>Tests\<close>

text \<open>The PEM text of the test key, and what it parses to, are arguments.\<close>

definition test_deserialize_public_keys :: "(string \<Rightarrow> 'k option) \<Rightarrow> string \<Rightarrow> bool" where
  "test_deserialize_public_keys parse_pem raw_key \<longleftrightarrow>
     (case de_public_key_and_id parse_pem (JObj [(''id'', JInt 123), (''key'', JStr raw_key)]) of
        None \<Rightarrow> False
      | Some k \<Rightarrow> Some (pk_key k) = parse_pem raw_key)"

definition default_json_public_keys_for_test :: "string \<Rightarrow> public_key_id \<Rightarrow> json" where
  "default_json_public_keys_for_test raw_key i =
     JObj [(''latest'', JObj [(''id'', JInt (uint i)), (''key'', JStr raw_key)]), (''historical'', JArr [])]"

definition test_publickeys_roundtrip :: "('k \<Rightarrow> string option) \<Rightarrow> (string \<Rightarrow> 'k option) \<Rightarrow> 'k public_keys \<Rightarrow> bool" where
  "test_publickeys_roundtrip write_pem parse_pem ks \<longleftrightarrow>
     (case public_keys_json write_pem ks of None \<Rightarrow> False | Some j \<Rightarrow> de_public_keys parse_pem j = Some ks)"

lemma test_deserialize_public_keys_holds:
  "parse_pem raw_key = Some k \<Longrightarrow> test_deserialize_public_keys parse_pem raw_key"
  by (simp add: test_deserialize_public_keys_def de_public_key_and_id_def struct_fields_def req_field_def from_pem_def de_u64_def)

lemma test_publickeys_roundtrip_holds:
  assumes "\<And>k s. write_pem k = Some s \<Longrightarrow> parse_pem s = Some k" and "write_pem (pk_key (pk_latest ks)) = Some t"
    and "pk_historical ks = []"
  shows "test_publickeys_roundtrip write_pem parse_pem ks"
proof -
  obtain j where "public_keys_json write_pem ks = Some j"
    using assms(2,3) by (simp add: public_keys_json_def public_key_and_id_json_def to_pem_def)
  with de_public_keys_json [OF assms(1) this] show ?thesis by (simp add: test_publickeys_roundtrip_def)
qed

lemma default_json_public_keys_read:
  "parse_pem raw_key = Some k \<Longrightarrow>
     de_public_keys parse_pem (default_json_public_keys_for_test raw_key i) =
       Some \<lparr>pk_latest = \<lparr>pk_key = k, pk_id = i\<rparr>, pk_historical = []\<rparr>"
  by (simp add: default_json_public_keys_for_test_def de_public_keys_def de_public_key_and_id_def struct_fields_def
      req_field_def from_pem_def de_list_def)

end
