(* ===== verification/Server_Tests.thy ===== *)
theory Server_Tests imports Stub_Machine begin

text \<open>
  The tests of \<open>mock-omaha-server/src/lib.rs\<close>.  A server that panics drops the connection, so an exchange without a
  response is the failure of the client.  The tests pass for every JSON library that reads back the documents they write,
  and, where the entity tag is wanted, every URL parser that finds the parameter.
\<close>

section \<open>Exchanges\<close>

text \<open>\<open>OmahaServerBuilder\<close>: the defaults of the struct for what is not set.\<close>

definition server_build :: "'p \<Rightarrow> (string \<times> response_and_metadata) list \<Rightarrow> bool \<Rightarrow> 'p omaha_server" where
  "server_build private_key responses require_cup =
     \<lparr>os_responses = Mapping.of_alist responses, os_private_keys = make_default_private_keys_for_test private_key,
      os_etag_override = None, os_require_cup = require_cup\<rparr>"

text \<open>The client posts a document to a path and query of the server.\<close>

definition post ::
  "('k, 'd, 's) crypto_ops \<Rightarrow> ('d, 's, 'p) server_ops \<Rightarrow> string \<Rightarrow> json \<Rightarrow> 'p omaha_server \<Rightarrow> (http_response \<times> 'p omaha_server) option" where
  "post lib ops target doc server =
     (case handle_server_request lib ops server
        \<lparr>srq_method = ''POST'', srq_path = pq_path (pq_of_string target), srq_uri = target,
         srq_body = Inr (sv_write_json ops doc)\<rparr> of
        Some (Inr resp, server') \<Rightarrow> Some (resp, server')
      | _ \<Rightarrow> None)"

definition check_doc :: "(string \<times> string) list \<Rightarrow> json" where
  "check_doc apps =
     JObj [(''request'', JObj [(''app'', JArr (map (\<lambda>(i, v).
       JObj [(''appid'', JStr i), (''version'', JStr v), (''updatecheck'', JObj [(''updatedisabled'', JBool False)])]) apps))])]"

text \<open>The statuses of the apps in the body of a response.\<close>

definition app_statuses :: "('d, 's, 'p) server_ops \<Rightarrow> http_response \<Rightarrow> json list option" where
  "app_statuses ops resp = do {
     obj \<leftarrow> sv_read_json ops (http_body resp);
     response \<leftarrow> json_get ''response'' obj;
     app \<leftarrow> json_get ''app'' response;
     apps \<leftarrow> json_as_array app;
     sequence (map (\<lambda>app. Option.bind (json_get ''updatecheck'' app) (json_get ''status'')) apps) }"

definition reads_back :: "('d, 's, 'p) server_ops \<Rightarrow> json list \<Rightarrow> bool" where
  "reads_back ops docs \<longleftrightarrow> (\<forall>j \<in> set docs. sv_read_json ops (sv_write_json ops j) = Some j)"

section \<open>Tests\<close>

abbreviation app_1 :: string where "app_1 \<equiv> ''integration-test-appid-1''"
abbreviation app_2 :: string where "app_2 \<equiv> ''integration-test-appid-2''"

definition sends_no_update :: "string option \<Rightarrow> response_and_metadata" where
  "sends_no_update v = response_and_metadata_default\<lparr>ram_response := SendNoUpdate, ram_version := v\<rparr>"

definition test_no_validate_version :: "('k, 'd, 's) crypto_ops \<Rightarrow> ('d, 's, 'p) server_ops \<Rightarrow> 'p \<Rightarrow> bool" where
  "test_no_validate_version lib ops key \<longleftrightarrow>
     (case post lib ops ''/'' (check_doc [(app_1, ''9.9.9.9'')]) (server_build key [(app_1, sends_no_update None)] False) of
        None \<Rightarrow> False
      | Some (resp, _) \<Rightarrow> http_status resp = 200 \<and> app_statuses ops resp = Some [JStr ''noupdate''])"

definition new_responses_doc :: json where
  "new_responses_doc =
     JObj [(app_1, JObj [
       (''response'', JStr ''Update''), (''check_assertion'', JStr ''UpdatesEnabled''), (''version'', JStr ''0.0.0.1''),
       (''codebase'', JStr ''fuchsia-pkg://integration.test.fuchsia.com/''),
       (''package_name'', JStr ''update?hash=deadbeefdeadbeefdeadbeefdeadbeefdeadbeefdeadbeefdeadbeefdeadbeef'')])]"

definition test_server_replies :: "('k, 'd, 's) crypto_ops \<Rightarrow> ('d, 's, 'p) server_ops \<Rightarrow> 'p \<Rightarrow> bool" where
  "test_server_replies lib ops key \<longleftrightarrow>
     (case post lib ops ''/'' (check_doc [(app_1, ''0.0.0.1''), (app_2, ''0.0.0.2'')])
         (server_build key [(app_1, sends_no_update (Some ''0.0.0.1'')), (app_2, sends_no_update (Some ''0.0.0.2''))] False) of
        None \<Rightarrow> False
      | Some (resp, server) \<Rightarrow>
          http_status resp = 200 \<and> app_statuses ops resp = Some [JStr ''noupdate'', JStr ''noupdate''] \<and>
          (case post lib ops ''/set_responses_by_appid'' new_responses_doc server of
             None \<Rightarrow> False
           | Some (resp, server) \<Rightarrow>
               http_status resp = 200 \<and>
               (case post lib ops ''/'' (check_doc [(app_1, ''0.0.0.1'')]) server of
                  None \<Rightarrow> False
                | Some (resp, _) \<Rightarrow> http_status resp = 200 \<and> app_statuses ops resp = Some [JStr ''ok''])))"

definition test_no_configured_responses :: "('k, 'd, 's) crypto_ops \<Rightarrow> ('d, 's, 'p) server_ops \<Rightarrow> 'p \<Rightarrow> bool" where
  "test_no_configured_responses lib ops key \<longleftrightarrow>
     (case post lib ops ''/'' (check_doc [(app_1, ''0.1.2.3'')]) (server_build key [] False) of
        None \<Rightarrow> False
      | Some (resp, _) \<Rightarrow> http_status resp = 500)"

definition cup_server :: "'p \<Rightarrow> 'p omaha_server" where
  "cup_server key = server_build key [(app_1, sends_no_update (Some ''0.0.0.1''))] True"

definition test_server_expect_cup_nopanic :: "('k, 'd, 's) crypto_ops \<Rightarrow> ('d, 's, 'p) server_ops \<Rightarrow> 'p \<Rightarrow> bool" where
  "test_server_expect_cup_nopanic lib ops key \<longleftrightarrow>
     (case post lib ops (''/?cup2key='' @ dec (unat make_default_public_key_id_for_test) @ '':nonce'')
         (check_doc [(app_1, ''0.0.0.1'')]) (cup_server key) of
        None \<Rightarrow> False
      | Some (resp, _) \<Rightarrow> http_status resp = 200)"

text \<open>The test expects the panic of the client, whose connection the panicking server closes.\<close>

definition test_server_expect_cup_panic :: "('k, 'd, 's) crypto_ops \<Rightarrow> ('d, 's, 'p) server_ops \<Rightarrow> 'p \<Rightarrow> bool" where
  "test_server_expect_cup_panic lib ops key \<longleftrightarrow>
     post lib ops ''/'' (check_doc [(app_1, ''0.0.0.1'')]) (cup_server key) = None"

section \<open>They pass\<close>

definition no_update_answer :: "string list \<Rightarrow> json" where
  "no_update_answer is = server_response_json (map (\<lambda>i. app_answer (JStr i) (Some (JObj [(''status'', JStr ''noupdate'')]))) is)"

definition new_response :: response_and_metadata where
  "new_response = response_and_metadata_default\<lparr>ram_response := SendUpdate, ram_version := Some ''0.0.0.1''\<rparr>"

definition update_answer :: json where
  "update_answer = server_response_json [app_answer (JStr app_1) (Some (update_check_answer new_response))]"

lemma checked_app:
  assumes "Mapping.lookup responses i = Some r" and "ram_version r \<in> {None, Some v}"
    and "ram_check_assertion r = UpdatesEnabled" and "ram_cohort_assertion r = None"
  shows "answer_app responses (JObj [(''appid'', JStr i), (''version'', JStr v),
      (''updatecheck'', JObj [(''updatedisabled'', JBool False)])]) = Some (app_answer (JStr i) (Some (update_check_answer r)))"
  using assms by (auto simp: answer_app_def json_get_def assert_that_def)

text \<open>An update check for exactly the configured apps is answered for each of them.\<close>

lemma post_checks:
  assumes "sv_read_json ops (sv_write_json ops (check_doc apps)) = Some (check_doc apps)"
    and "list_all (\<lambda>(i, v). \<exists>r. Mapping.lookup (os_responses server) i = Some r \<and> ram_version r \<in> {None, Some v} \<and>
           ram_check_assertion r = UpdatesEnabled \<and> ram_cohort_assertion r = None) apps"
    and "length apps = Mapping.size (os_responses server)" and "apps \<noteq> []"
    and "pq_path (pq_of_string target) \<noteq> ''/set_responses_by_appid''"
    and "\<not> Mapping.is_empty (os_responses server)"
  shows "post lib ops target (check_doc apps) server =
    map_option (\<lambda>resp. (resp, server))
      (sign_answer lib ops server target (sv_write_json ops (check_doc apps))
        (sv_write_json ops (server_response_json (map (\<lambda>(i, v). app_answer (JStr i)
           (Some (update_check_answer (the (Mapping.lookup (os_responses server) i))))) apps))))"
proof -
  let ?app = "\<lambda>(i, v). JObj [(''appid'', JStr i), (''version'', JStr v), (''updatecheck'', JObj [(''updatedisabled'', JBool False)])]"
  let ?answer = "\<lambda>(i, v). app_answer (JStr i) (Some (update_check_answer (the (Mapping.lookup (os_responses server) i))))"
  have "answer_app (os_responses server) (?app a) = Some (?answer a)" if "a \<in> set apps" for a
  proof -
    obtain i v where a: "a = (i, v)" by (cases a)
    from that a assms(2) obtain r where "Mapping.lookup (os_responses server) i = Some r" "ram_version r \<in> {None, Some v}"
      "ram_check_assertion r = UpdatesEnabled" "ram_cohort_assertion r = None"
      by (auto simp: list_all_iff)
    with checked_app [OF this] show ?thesis by (simp add: a)
  qed
  then have answers: "sequence (map (answer_app (os_responses server)) (map ?app apps)) = Some (map ?answer apps)"
    by (simp add: sequence_map_Some comp_def)
  have "json_get ''request'' (check_doc apps) = Some (JObj [(''app'', JArr (map ?app apps))])"
    by (simp add: check_doc_def json_get_def)
  moreover have "json_get ''app'' (JObj [(''app'', JArr (map ?app apps))]) = Some (JArr (map ?app apps))"
    by (simp add: json_get_def)
  moreover have "filter (\<lambda>app. json_get ''updatecheck'' app \<noteq> None) (map ?app apps) = map ?app apps"
    by (auto simp: filter_id_conv json_get_def)
  then have "check_app_count (os_responses server) (map ?app apps) = Some ()"
    using assms(3) unfolding check_app_count_def Let_def by (simp only: length_map assert_that_Some) simp
  ultimately have "handle_omaha_request lib ops server
      \<lparr>srq_method = ''POST'', srq_path = pq_path (pq_of_string target), srq_uri = target,
       srq_body = Inr (sv_write_json ops (check_doc apps))\<rparr> =
      map_option Inr (sign_answer lib ops server target (sv_write_json ops (check_doc apps))
        (sv_write_json ops (server_response_json (map ?answer apps))))"
    using assms(1, 6) answers
    by (simp add: handle_omaha_request_def assert_that_def del: map_map)
      (cases "sign_answer lib ops server target (sv_write_json ops (check_doc apps))
        (sv_write_json ops (server_response_json (map ?answer apps)))", simp_all)
  then show ?thesis using assms(5)
    by (cases "sign_answer lib ops server target (sv_write_json ops (check_doc apps))
        (sv_write_json ops (server_response_json (map ?answer apps)))")
      (simp_all add: post_def handle_server_request_def)
qed

lemma statuses_of_answers:
  assumes "sv_read_json ops (http_body resp) = Some (server_response_json (map f xs))"
    and "\<And>x. x \<in> set xs \<Longrightarrow> Option.bind (json_get ''updatecheck'' (f x)) (json_get ''status'') = Some (g x)"
  shows "app_statuses ops resp = Some (map g xs)"
proof -
  have "sequence (map (\<lambda>app. Option.bind (json_get ''updatecheck'' app) (json_get ''status'')) (map f xs)) = Some (map g xs)"
    using assms(2) by (simp add: sequence_map_Some comp_def)
  then show ?thesis using assms(1) by (simp add: app_statuses_def server_response_json_def json_get_def)
qed

lemma answer_statuses:
  "Option.bind (json_get ''updatecheck'' (app_answer (JStr i) (Some (JObj [(''status'', JStr ''noupdate'')])))) (json_get ''status'') =
     Some (JStr ''noupdate'')"
  "Option.bind (json_get ''updatecheck'' (app_answer (JStr i) (Some (update_check_answer new_response)))) (json_get ''status'') =
     Some (JStr ''ok'')"
  by (simp_all add: app_answer_def json_get_def update_check_answer_def new_response_def installable_def)

lemma statuses_hold:
  "sv_read_json ops (http_body resp) = Some (no_update_answer is) \<Longrightarrow>
     app_statuses ops resp = Some (map (\<lambda>_. JStr ''noupdate'') is)"
  "sv_read_json ops (http_body resp) = Some update_answer \<Longrightarrow> app_statuses ops resp = Some [JStr ''ok'']"
  using statuses_of_answers [where f = "\<lambda>i. app_answer (JStr i) (Some (JObj [(''status'', JStr ''noupdate'')]))"
      and g = "\<lambda>_. JStr ''noupdate''" and xs = "is" and ops = ops and resp = resp]
    statuses_of_answers [where f = "\<lambda>i. app_answer (JStr i) (Some (update_check_answer new_response))"
      and g = "\<lambda>_. JStr ''ok''" and xs = "[app_1]" and ops = ops and resp = resp]
  by (simp_all add: no_update_answer_def update_answer_def answer_statuses)

lemmas server_simps = server_build_def sends_no_update_def response_and_metadata_default_def lookup_of_alist
  Mapping.size_update Mapping.lookup_update Mapping.lookup_empty pq_of_string_def sign_answer_def make_etag_def assert_that_def
  http_answer_def update_check_answer_def

lemma of_alist_two:
  "Mapping.of_alist [] = Mapping.empty" "Mapping.of_alist [(k, v)] = Mapping.update k v Mapping.empty"
  "Mapping.of_alist [(k, v), (k', v')] = Mapping.update k v (Mapping.update k' v' Mapping.empty)"
  by (simp_all add: Mapping.of_alist_def)

lemma test_no_validate_version_holds:
  assumes "reads_back ops [check_doc [(app_1, ''9.9.9.9'')], no_update_answer [app_1]]"
  shows "test_no_validate_version lib ops key"
  using assms statuses_hold(1) [of ops _ "[app_1]"]
  by (simp add: test_no_validate_version_def reads_back_def post_checks server_simps of_alist_two no_update_answer_def)

lemma new_responses_read:
  "de_response_map new_responses_doc = Some (Mapping.update app_1 new_response Mapping.empty)"
  by (simp add: de_response_map_def new_responses_doc_def map_fields_def de_response_and_metadata_def struct_fields_def
      req_field_def opt_field_def de_option_def de_omaha_response_def unit_variant_def de_check_assertion_def new_response_def
      response_and_metadata_default_def)

lemma test_server_replies_holds:
  assumes "reads_back ops [check_doc [(app_1, ''0.0.0.1''), (app_2, ''0.0.0.2'')], no_update_answer [app_1, app_2],
     new_responses_doc, check_doc [(app_1, ''0.0.0.1'')], update_answer]"
  shows "test_server_replies lib ops key"
proof -
  have read: "sv_read_json ops (sv_write_json ops j) = Some j"
    if "j \<in> {check_doc [(app_1, ''0.0.0.1''), (app_2, ''0.0.0.2'')], no_update_answer [app_1, app_2], new_responses_doc,
      check_doc [(app_1, ''0.0.0.1'')], update_answer}" for j
    using assms that by (auto simp: reads_back_def)
  let ?server = "server_build key [(app_1, sends_no_update (Some ''0.0.0.1'')), (app_2, sends_no_update (Some ''0.0.0.2''))] False"
  have first: "post lib ops ''/'' (check_doc [(app_1, ''0.0.0.1''), (app_2, ''0.0.0.2'')]) ?server =
      Some (http_answer 200 None (sv_write_json ops (no_update_answer [app_1, app_2])), ?server)"
    by (simp add: post_checks read server_simps of_alist_two no_update_answer_def)
  have second: "post lib ops ''/set_responses_by_appid'' new_responses_doc ?server =
      Some (http_answer 200 None [], ?server\<lparr>os_responses := Mapping.update app_1 new_response Mapping.empty\<rparr>)"
    by (simp add: post_def handle_server_request_def handle_set_responses_def pq_of_string_def read new_responses_read assert_that_def)
  have third: "post lib ops ''/'' (check_doc [(app_1, ''0.0.0.1'')])
        (?server\<lparr>os_responses := Mapping.update app_1 new_response Mapping.empty\<rparr>) =
      Some (http_answer 200 None (sv_write_json ops update_answer),
        ?server\<lparr>os_responses := Mapping.update app_1 new_response Mapping.empty\<rparr>)"
    by (simp add: post_checks read server_simps new_response_def update_answer_def)
  show ?thesis
    using statuses_hold(1) [of ops _ "[app_1, app_2]"] statuses_hold(2) [of ops]
    by (simp add: test_server_replies_def first second third http_answer_def read)
qed

lemma test_no_configured_responses_holds: "test_no_configured_responses lib ops key"
  by (simp add: test_no_configured_responses_def post_def handle_server_request_def handle_omaha_request_def server_simps
      of_alist_two)

lemma test_server_expect_cup_nopanic_holds:
  assumes "reads_back ops [check_doc [(app_1, ''0.0.0.1'')]]"
    and "sv_query_pairs ops (''https://example.com/?cup2key='' @ dec (unat make_default_public_key_id_for_test) @ '':nonce'') =
      Some [(''cup2key'', dec (unat make_default_public_key_id_for_test) @ '':nonce'')]"
    and "\<And>v. sv_header_ok ops v"
  shows "test_server_expect_cup_nopanic lib ops key"
proof -
  let ?id = "dec (unat make_default_public_key_id_for_test)"
  let ?target = "''/?cup2key='' @ ?id @ '':nonce''"
  have split: "split_once CHR '':'' (?id @ '':nonce'') = Some (?id, ''nonce'')"
    using split_once_append [of "CHR '':''" ?id "''nonce''"] digit_val_None_notin_dec [of "CHR '':''"] by simp
  have signed: "\<exists>etag. sign_answer lib ops (cup_server key) ?target body data = Some (http_answer 200 (Some etag) data)" for body data
  proof -
    obtain etag where "make_etag lib ops body ?target (make_default_private_keys_for_test key) data = Some (Some etag)"
      using assms(2)
      by (simp add: make_etag_def split parse_key_id make_default_private_keys_for_test_def find_private_key_def
          assert_that_def Let_def)
    with assms(3) show ?thesis by (intro exI [of _ etag]) (simp add: sign_answer_def cup_server_def server_build_def assert_that_def)
  qed
  have "pq_path (pq_of_string ?target) = ''/''" by (simp add: pq_of_string_def)
  moreover have "post lib ops ?target (check_doc [(app_1, ''0.0.0.1'')]) (cup_server key) =
      map_option (\<lambda>resp. (resp, cup_server key))
        (sign_answer lib ops (cup_server key) ?target (sv_write_json ops (check_doc [(app_1, ''0.0.0.1'')]))
          (sv_write_json ops (no_update_answer [app_1])))"
    using assms(1) calculation
    by (subst post_checks) (simp_all add: reads_back_def cup_server_def server_simps of_alist_two no_update_answer_def)
  moreover obtain etag where "sign_answer lib ops (cup_server key) ?target (sv_write_json ops (check_doc [(app_1, ''0.0.0.1'')]))
      (sv_write_json ops (no_update_answer [app_1])) = Some (http_answer 200 (Some etag) (sv_write_json ops (no_update_answer [app_1])))"
    using signed by blast
  ultimately show ?thesis
    by (simp add: test_server_expect_cup_nopanic_def http_answer_def)
qed

lemma test_server_expect_cup_panic_holds:
  assumes "reads_back ops [check_doc [(app_1, ''0.0.0.1'')]]"
  shows "test_server_expect_cup_panic lib ops key"
  using assms by (simp add: test_server_expect_cup_panic_def cup_server_def reads_back_def post_checks server_simps of_alist_two)

text \<open>The library of the other tests, whose reader knows the documents of this one, is such a library.\<close>

lemma requests_differ_from_answers: "json_print (check_doc apps) \<noteq> json_print (server_response_json answers)"
  by (simp add: check_doc_def server_response_json_def)

lemma server_tests_example:
  "test_no_validate_version lib
     (test_signing\<lparr>sv_read_json := json_read [check_doc [(app_1, ''9.9.9.9'')], no_update_answer [app_1]]\<rparr>) ()"
  using requests_differ_from_answers
  by (intro test_no_validate_version_holds) (simp add: reads_back_def test_signing_def json_read_def no_update_answer_def)

end
