(* ===== verification/Generator_Tests.thy ===== *)
theory Generator_Tests imports Async_Generator "HOL-Library.Word" begin

text \<open>
  The tests of \<open>async_generator.rs\<close>.  A task of a test is the list of what it does between its start and its end; its
  channel has room for one item, and counts what the task counts.
\<close>

section \<open>Scripted tasks\<close>

text \<open>\<open>Flush\<close> is the second half of a yield, the wait until the item is received; \<open>YieldOnce\<close> is the future that is pending
  once.  \<open>yield_all\<close> sends one item after the other.\<close>

datatype 'i task_action = Inc | YieldItem 'i | Flush | YieldOnce | DropCo

definition yield_all :: "'i list \<Rightarrow> 'i task_action list" where
  "yield_all items = map YieldItem items"

record 'i counted_channel =
  ch_queue :: "'i list"
  ch_open :: bool
  ch_ended :: bool
  ch_count :: nat

text \<open>The task runs until it waits or returns, when it drops the sender with everything it owns.\<close>

fun run_actions :: "'r \<Rightarrow> 'i task_action list \<Rightarrow> 'i counted_channel \<Rightarrow> 'r poll \<times> ('i task_action list \<times> bool) \<times> 'i counted_channel" where
  "run_actions r [] c = (Ready r, ([], True), c\<lparr>ch_open := False\<rparr>)"
| "run_actions r (Inc # as) c = run_actions r as (c\<lparr>ch_count := ch_count c + 1\<rparr>)"
| "run_actions r (YieldItem x # as) c = (Pending, (Flush # as, False), c\<lparr>ch_queue := ch_queue c @ [x]\<rparr>)"
| "run_actions r (Flush # as) c = (if ch_queue c = [] then run_actions r as c else (Pending, (Flush # as, False), c))"
| "run_actions r (YieldOnce # as) c = (Pending, (as, False), c)"
| "run_actions r (DropCo # as) c = run_actions r as (c\<lparr>ch_open := False\<rparr>)"

definition recv_counted :: "'i counted_channel \<Rightarrow> 'i option poll \<times> 'i counted_channel" where
  "recv_counted c =
     (case ch_queue c of
        x # q \<Rightarrow> (Ready (Some x), c\<lparr>ch_queue := q\<rparr>)
      | [] \<Rightarrow> if ch_open c then (Pending, c) else (Ready None, c\<lparr>ch_ended := True\<rparr>))"

definition script_ops :: "'r \<Rightarrow> ('i task_action list \<times> bool, 'i counted_channel, 'i, 'r) generator_ops" where
  "script_ops r =
     \<lparr>task_poll = (\<lambda>(as, fin) c. if fin then (Pending, (as, fin), c) else run_actions r as c),
      task_terminated = snd, recv_poll = recv_counted, recv_terminated = ch_ended\<rparr>"

definition channel_new :: "'i counted_channel" where
  "channel_new = \<lparr>ch_queue = [], ch_open = True, ch_ended = False, ch_count = 0\<rparr>"

definition generate_script :: "'i task_action list \<Rightarrow> ('i task_action list \<times> bool, 'i counted_channel, 'r) generator" where
  "generate_script as = generate (as, False) channel_new"

section \<open>Waiting for the stream\<close>

text \<open>\<open>s.next().await\<close> under \<open>block_on\<close>: polls until the stream is ready.  A poll leaves a task with less to do or is ready,
  so as many polls as the task has actions are enough; without an answer the test would hang (\<open>None\<close>).\<close>

fun gen_next ::
  "('t, 'c, 'i, 'r) generator_ops \<Rightarrow> nat \<Rightarrow> ('t, 'c, 'r) generator
     \<Rightarrow> (('i, 'r) generator_state option \<times> ('t, 'c, 'r) generator) option" where
  "gen_next ops 0 g = None"
| "gen_next ops (Suc n) g =
     (case gen_poll_next ops g of
        (Pending, g') \<Rightarrow> gen_next ops n g'
      | (Ready x, g') \<Rightarrow> Some (x, g'))"

text \<open>\<open>collect\<close>, and \<open>take(k)\<close> of it.\<close>

fun gen_collect ::
  "('t, 'c, 'i, 'r) generator_ops \<Rightarrow> nat \<Rightarrow> ('t, 'c, 'r) generator
     \<Rightarrow> (('i, 'r) generator_state list \<times> ('t, 'c, 'r) generator) option" where
  "gen_collect ops 0 g = None"
| "gen_collect ops (Suc n) g =
     (case gen_poll_next ops g of
        (Pending, g') \<Rightarrow> gen_collect ops n g'
      | (Ready None, g') \<Rightarrow> Some ([], g')
      | (Ready (Some s), g') \<Rightarrow> map_option (\<lambda>(ss, g''). (s # ss, g'')) (gen_collect ops n g'))"

text \<open>The next state, and what the task counted meanwhile.\<close>

definition next_counting ::
  "nat \<Rightarrow> ('i task_action list \<times> bool, 'i counted_channel, 'r) generator \<Rightarrow> 'r
     \<Rightarrow> (('i, 'r) generator_state option \<times> nat \<times> ('i task_action list \<times> bool, 'i counted_channel, 'r) generator) option" where
  "next_counting n g r =
     map_option (\<lambda>(x, g'). (x, ch_count (gen_stream g'), g'\<lparr>gen_stream := (gen_stream g')\<lparr>ch_count := 0\<rparr>\<rparr>))
       (gen_next (script_ops r) n g)"

section \<open>Tests\<close>

definition generator_waits_for_item_to_yield :: bool where
  "generator_waits_for_item_to_yield \<longleftrightarrow>
     (let s = generate_script [Inc, YieldItem ''first'', Inc, YieldOnce, Inc, YieldItem ''second'', DropCo, YieldOnce, Inc];
          next' = (\<lambda>s. next_counting 10 s ())
      in ch_count (gen_stream s) = 0 \<and>
         (case next' s of None \<Rightarrow> False | Some (x, n, s) \<Rightarrow>
            x = Some (GenYielded ''first'') \<and> n = 1 \<and>
            (case next' s of None \<Rightarrow> False | Some (x, n, s) \<Rightarrow>
               x = Some (GenYielded ''second'') \<and> n = 2 \<and>
               (case next' s of None \<Rightarrow> False | Some (x, n, s) \<Rightarrow>
                  x = Some (GenComplete ()) \<and> n = 1 \<and>
                  (case next' s of None \<Rightarrow> False | Some (x, n, s) \<Rightarrow> x = None \<and> n = 0)))))"

text \<open>All states of the generator, on a task with these actions.\<close>

definition collected :: "'r \<Rightarrow> 'i task_action list \<Rightarrow> ('i, 'r) generator_state list option" where
  "collected r as = map_option fst (gen_collect (script_ops r) 20 (generate_script as))"

definition yield_all_yields_all :: bool where
  "yield_all_yields_all \<longleftrightarrow>
     collected () (yield_all [1, 2, 3] @ [YieldItem (42 :: nat)]) =
       Some [GenYielded 1, GenYielded 2, GenYielded 3, GenYielded 42, GenComplete ()]"

definition fused_impl :: bool where
  "fused_impl \<longleftrightarrow>
     (let ops = script_ops ''done''; s = generate_script [YieldItem (1 :: nat), DropCo, YieldOnce]
      in \<not> gen_is_terminated ops s \<and>
         (case gen_next ops 10 s of None \<Rightarrow> False | Some (x, s) \<Rightarrow>
            x = Some (GenYielded 1) \<and> \<not> gen_is_terminated ops s \<and>
            (case gen_next ops 10 s of None \<Rightarrow> False | Some (x, s) \<Rightarrow>
               x = Some (GenComplete ''done'') \<and> gen_is_terminated ops s \<and>
               (case gen_next ops 10 s of None \<Rightarrow> False | Some (x, s) \<Rightarrow> x = None \<and> gen_is_terminated ops s))))"

definition into_try_stream_transposes_generator_states :: bool where
  "into_try_stream_transposes_generator_states \<longleftrightarrow>
     map_option into_try_stream (collected (Inl ''oops'') [YieldItem (1 :: nat), YieldItem 2]) =
       Some [Inr 1, Inr 2, Inl ''oops'']"

definition into_try_stream_eats_unit_success :: bool where
  "into_try_stream_eats_unit_success \<longleftrightarrow>
     map_option into_try_stream (collected (Inr () :: string + unit) [YieldItem (1 :: nat), YieldItem 2]) = Some [Inr 1, Inr 2]"

text \<open>Whatever is made of the stream, the task runs to its end: the count is 1.\<close>

definition runs_task_to_completion :: bool where
  "runs_task_to_completion \<longleftrightarrow>
     (case gen_collect (script_ops ()) 20 (generate_script [YieldItem (8 :: nat), DropCo, YieldOnce, Inc]) of
        None \<Rightarrow> False
      | Some (states, g) \<Rightarrow>
          states = [GenYielded 8, GenComplete ()] \<and> into_yielded states = [8] \<and> into_complete states = Some () \<and>
          ch_count (gen_stream g) = 1)"

lemmas script_simps = generate_script_def generate_def channel_new_def script_ops_def gen_poll_next_def gen_poll_task_def
  gen_flush_def recv_counted_def next_counting_def gen_is_terminated_def

lemma generator_tests_hold:
  generator_waits_for_item_to_yield yield_all_yields_all fused_impl into_try_stream_transposes_generator_states
  into_try_stream_eats_unit_success runs_task_to_completion
  by code_simp+

section \<open>Every script\<close>

text \<open>The tests are instances: whatever a task does, in whatever order (the sender being used only before it is dropped),
  the stream made of it gives exactly its items, in order, then its result, then ends, and the task has run to its end.\<close>

fun items_of :: "'i task_action list \<Rightarrow> 'i list" where
  "items_of [] = []"
| "items_of (YieldItem x # as) = x # items_of as"
| "items_of (_ # as) = items_of as"

fun incs_of :: "'i task_action list \<Rightarrow> nat" where
  "incs_of [] = 0"
| "incs_of (Inc # as) = Suc (incs_of as)"
| "incs_of (_ # as) = incs_of as"

fun owns_sender :: "bool \<Rightarrow> 'i task_action list \<Rightarrow> bool" where
  "owns_sender b [] \<longleftrightarrow> True"
| "owns_sender b (YieldItem x # as) \<longleftrightarrow> b \<and> owns_sender b as"
| "owns_sender b (DropCo # as) \<longleftrightarrow> owns_sender False as"
| "owns_sender b (_ # as) \<longleftrightarrow> owns_sender b as"

abbreviation scripted :: "'i task_action list \<Rightarrow> bool \<Rightarrow> 'i counted_channel \<Rightarrow> 'r option \<Rightarrow> ('i task_action list \<times> bool, 'i counted_channel, 'r) generator" where
  "scripted as fin c res \<equiv> \<lparr>gen_task = (as, fin), gen_stream = c, gen_res = res\<rparr>"

lemma poll_task_within:
  "gen_poll_task (script_ops r) (scripted (Inc # as) False c None) =
     gen_poll_task (script_ops r) (scripted as False (c\<lparr>ch_count := ch_count c + 1\<rparr>) None)"
  "ch_queue c = [] \<Longrightarrow> gen_poll_task (script_ops r) (scripted (Flush # as) False c None) =
     gen_poll_task (script_ops r) (scripted as False c None)"
  "gen_poll_task (script_ops r) (scripted (DropCo # as) False c None) =
     gen_poll_task (script_ops r) (scripted as False (c\<lparr>ch_open := False\<rparr>) None)"
  by (simp_all add: gen_poll_task_def script_ops_def split: poll.split prod.split)

lemma poll_within:
  "gen_poll_next (script_ops r) (scripted (Inc # as) False c None) =
     gen_poll_next (script_ops r) (scripted as False (c\<lparr>ch_count := ch_count c + 1\<rparr>) None)"
  "ch_queue c = [] \<Longrightarrow> gen_poll_next (script_ops r) (scripted (Flush # as) False c None) =
     gen_poll_next (script_ops r) (scripted as False c None)"
  "gen_poll_next (script_ops r) (scripted (DropCo # as) False c None) =
     gen_poll_next (script_ops r) (scripted as False (c\<lparr>ch_open := False\<rparr>) None)"
  by (simp_all add: gen_poll_next_def poll_task_within)

lemma collect_within:
  "gen_collect (script_ops r) n (scripted (Inc # as) False c None) =
     gen_collect (script_ops r) n (scripted as False (c\<lparr>ch_count := ch_count c + 1\<rparr>) None)"
  "ch_queue c = [] \<Longrightarrow> gen_collect (script_ops r) n (scripted (Flush # as) False c None) =
     gen_collect (script_ops r) n (scripted as False c None)"
  "gen_collect (script_ops r) n (scripted (DropCo # as) False c None) =
     gen_collect (script_ops r) n (scripted as False (c\<lparr>ch_open := False\<rparr>) None)"
  by (cases n; simp add: poll_within)+

text \<open>An empty channel is consistent if it has not ended while its sender is there.\<close>

abbreviation idle :: "'i counted_channel \<Rightarrow> bool" where
  "idle c \<equiv> ch_queue c = [] \<and> (ch_ended c \<longrightarrow> \<not> ch_open c)"

lemma poll_script:
  "idle c \<Longrightarrow> ch_open c \<Longrightarrow> gen_poll_next (script_ops r) (scripted (YieldItem x # as) False c None) =
     (Ready (Some (GenYielded x)), scripted (Flush # as) False c None)"
  "idle c \<Longrightarrow> \<exists>c'. gen_poll_next (script_ops r) (scripted (YieldOnce # as) False c None) = (Pending, scripted as False c' None) \<and>
     idle c' \<and> ch_open c' = ch_open c \<and> ch_count c' = ch_count c"
  "idle c \<Longrightarrow> \<exists>c'. gen_poll_next (script_ops r) (scripted [] False c None) = (Ready (Some (GenComplete r)), scripted [] True c' None) \<and>
     ch_ended c' \<and> ch_count c' = ch_count c"
  "ch_ended c \<Longrightarrow> gen_poll_next (script_ops r) (scripted [] True c None) = (Ready None, scripted [] True c None)"
  by (auto simp: gen_poll_next_def gen_poll_task_def script_ops_def recv_counted_def gen_flush_def)

lemma collect_script:
  "idle c \<Longrightarrow> owns_sender (ch_open c) as \<Longrightarrow> length as + 2 \<le> n \<Longrightarrow>
   \<exists>g. gen_collect (script_ops r) n (scripted as False c None) = Some (map GenYielded (items_of as) @ [GenComplete r], g) \<and>
     ch_count (gen_stream g) = ch_count c + incs_of as"
proof (induction as arbitrary: c n)
  case Nil
  then have "2 \<le> n" by simp
  then obtain m where n: "n = Suc (Suc m)" by (metis add_2_eq_Suc le_iff_add)
  from poll_script(3) [of c r] Nil.prems(1) obtain c' where
    "gen_poll_next (script_ops r) (scripted [] False c None) = (Ready (Some (GenComplete r)), scripted [] True c' None)"
    "ch_ended c'" "ch_count c' = ch_count c" by blast
  with poll_script(4) [of c' r] show ?case by (simp add: n)
next
  case (Cons a as)
  then obtain m where n: "n = Suc m" and m: "length as + 2 \<le> m" by (cases n) simp_all
  show ?case
  proof (cases a)
    case Inc
    then show ?thesis using Cons.IH [of "c\<lparr>ch_count := ch_count c + 1\<rparr>" n] Cons.prems by (simp add: collect_within)
  next
    case (YieldItem x)
    then have opened: "ch_open c" "owns_sender (ch_open c) as" using Cons.prems by auto
    from Cons.IH [OF Cons.prems(1) opened(2) m] obtain g where
      "gen_collect (script_ops r) m (scripted as False c None) = Some (map GenYielded (items_of as) @ [GenComplete r], g)"
      "ch_count (gen_stream g) = ch_count c + incs_of as" by blast
    then show ?thesis using YieldItem Cons.prems(1) poll_script(1) [OF Cons.prems(1) opened(1), of r x as] by (simp add: n collect_within)
  next
    case Flush
    then show ?thesis using Cons.IH [of c n] Cons.prems by (simp add: collect_within)
  next
    case YieldOnce
    from poll_script(2) [OF Cons.prems(1), of r as] obtain c' where
      "gen_poll_next (script_ops r) (scripted (YieldOnce # as) False c None) = (Pending, scripted as False c' None)"
      "idle c'" "ch_open c' = ch_open c" "ch_count c' = ch_count c" by blast
    with Cons.IH [of c' m] Cons.prems m YieldOnce show ?thesis by (simp add: n)
  next
    case DropCo
    then show ?thesis using Cons.IH [of "c\<lparr>ch_open := False\<rparr>" n] Cons.prems by (simp add: collect_within)
  qed
qed

lemma generate_script_delivers:
  assumes "owns_sender True as"
  shows "\<exists>g. gen_collect (script_ops r) (length as + 2) (generate_script as) =
      Some (map GenYielded (items_of as) @ [GenComplete r], g) \<and> ch_count (gen_stream g) = incs_of as"
  using collect_script [of channel_new as "length as + 2" r] assms
  by (simp add: generate_script_def generate_def channel_new_def)

section \<open>An endless task\<close>

text \<open>The task of the test \<open>fibonacci\<close>: the two numbers, and whether the first item was sent.  It never returns.  The test
  takes ten items, far below the overflow of the addition, which is not modelled.\<close>

type_synonym fib_task = "32 word \<times> 32 word \<times> bool"

definition fib_poll :: "fib_task \<Rightarrow> 32 word counted_channel \<Rightarrow> unit poll \<times> fib_task \<times> 32 word counted_channel" where
  "fib_poll t c =
     (let (a, b, started) = t in
      if ch_queue c \<noteq> [] then (Pending, t, c)
      else let (a', b') = (if started then (b, b + a) else (a, b))
           in (Pending, (a', b', True), c\<lparr>ch_queue := [a']\<rparr>))"

definition fib_ops :: "(fib_task, 32 word counted_channel, 32 word, unit) generator_ops" where
  "fib_ops = \<lparr>task_poll = fib_poll, task_terminated = (\<lambda>_. False), recv_poll = recv_counted, recv_terminated = ch_ended\<rparr>"

definition fibonacci :: bool where
  "fibonacci \<longleftrightarrow>
     (let (ps, _) = gen_polls fib_ops 10 (generate (0, 1, False) channel_new)
      in into_yielded (states_of ps) = [0, 1, 1, 2, 3, 5, 8, 13, 21, 34])"

lemma fib_poll_next:
  "gen_poll_next fib_ops \<lparr>gen_task = (a, b, started), gen_stream = channel_new, gen_res = None\<rparr> =
     (Ready (Some (GenYielded (if started then b else a))),
      \<lparr>gen_task = (if started then (b, b + a, True) else (a, b, True)), gen_stream = channel_new, gen_res = None\<rparr>)"
  by (simp add: gen_poll_next_def gen_poll_task_def fib_ops_def fib_poll_def recv_counted_def channel_new_def)

lemma fibonacci_holds: fibonacci
  by (simp add: fibonacci_def generate_def fib_poll_next eval_nat_numeral into_yielded_def List.map_filter_def)

end
