(* ===== verification/Mock_Tests.thy ===== *)
theory Mock_Tests imports Stub_Machine Server_Tests begin

text \<open>
  What is left of the mocks: the assertions of \<open>http_request/mock.rs\<close>, the constructors of \<open>metrics/mock.rs\<close> and the verifier of
  the mock handler in \<open>cup_ecdsa.rs\<close>, with the tests of the first two; and how \<open>mock-omaha-server/src/main.rs\<close> makes
  its server of the arguments.  The parser of URIs, the file system and the parser of keys are parameters.
\<close>

section \<open>The mock HTTP client\<close>

definition to_lower :: "char \<Rightarrow> char" where
  "to_lower c = (if 65 \<le> (of_char c :: nat) \<and> (of_char c :: nat) \<le> 90 then char_of ((of_char c :: nat) + 32) else c)"

text \<open>The first value of a header, whose name is compared without regard to case.\<close>

definition header_of :: "string \<Rightarrow> (string \<times> string) list \<Rightarrow> string option" where
  "header_of key headers = map_of (map (\<lambda>(k, v). (map to_lower k, v)) headers) (map to_lower key)"

definition mock_assert_uri :: "(string \<Rightarrow> 'u option) \<Rightarrow> string \<Rightarrow> mock_http_request \<Rightarrow> unit option" where
  "mock_assert_uri parse uri m = do {
     expected \<leftarrow> parse uri;
     assert_that (mock_requests m \<noteq> []);
     assert_that (Some expected = parse (hreq_uri (last (mock_requests m)))) }"

definition mock_assert_header :: "string \<Rightarrow> string \<Rightarrow> mock_http_request \<Rightarrow> unit option" where
  "mock_assert_header key value m = do {
     assert_that (mock_requests m \<noteq> []);
     actual \<leftarrow> header_of key (hreq_headers (last (mock_requests m)));
     assert_that (actual = value) }"

definition mock_assert_body_str :: "(string \<Rightarrow> string) \<Rightarrow> string \<Rightarrow> mock_http_request \<Rightarrow> mock_http_request option" where
  "mock_assert_body_str from_utf8_lossy expected m = do {
     (req, m') \<leftarrow> mock_take_request m;
     assert_that (expected = from_utf8_lossy (hreq_body req));
     Some m' }"

definition byte_response :: "string \<Rightarrow> http_response" where
  "byte_response body = \<lparr>http_status = 200, http_header = Map.empty, http_body = body\<rparr>"

definition request_default :: http_request where
  "request_default = \<lparr>hreq_method = ''GET'', hreq_uri = ''/'', hreq_headers = [], hreq_body = []\<rparr>"

definition http_test_mock :: "(string \<Rightarrow> 'u option) \<Rightarrow> bool" where
  "http_test_mock parse \<longleftrightarrow>
     (let res_body = [CHR 0x01, CHR 0x02, CHR 0x03]; req_body = [CHR 0x04, CHR 0x05, CHR 0x06]; uri = ''https://mock.uri/'';
          mock = mock_http_new (byte_response res_body);
          req = \<lparr>hreq_method = ''GET'', hreq_uri = uri, hreq_headers = [(''X-Custom-Foo'', ''Bar'')], hreq_body = req_body\<rparr>;
          (r, mock) = mock_request req mock
      in map_option http_body (result_ok r) = Some res_body \<and>
         do { mock_assert_method ''GET'' mock; mock_assert_uri parse uri mock;
              mock_assert_header ''X-Custom-Foo'' ''Bar'' mock; mock_assert_body req_body mock } \<noteq> None)"

definition test_missing_response :: bool where
  "test_missing_response \<longleftrightarrow>
     (let res_body = [CHR 0x01, CHR 0x02, CHR 0x03];
          (r, mock) = mock_request request_default (mock_http_new (byte_response res_body));
          (r2, _) = mock_request request_default mock
      in map_option http_body (result_ok r) = Some res_body \<and> map_option http_status (result_ok r2) = Some 500)"

definition test_multiple_responses :: bool where
  "test_multiple_responses \<longleftrightarrow>
     (let res_body = [CHR 0x01, CHR 0x02, CHR 0x03]; res_body2 = [CHR 0x04, CHR 0x05, CHR 0x06];
          mock = mock_add_response (byte_response res_body2) (mock_http_new (byte_response res_body));
          (r, mock) = mock_request request_default mock;
          (r2, _) = mock_request request_default mock
      in map_option http_body (result_ok r) = Some res_body \<and> map_option http_body (result_ok r2) = Some res_body2)"

lemmas mock_test_simps = mock_http_new_def mock_http_empty_def mock_add_response_def mock_request_def byte_response_def
  result_ok_def mock_assert_method_def mock_assert_uri_def mock_assert_header_def mock_assert_body_def mock_take_request_def
  assert_that_def header_of_def

lemma http_mock_tests_hold:
  "parse ''https://mock.uri/'' \<noteq> None \<Longrightarrow> http_test_mock parse" test_missing_response test_multiple_responses
  by (auto simp: http_test_mock_def test_missing_response_def test_multiple_responses_def mock_test_simps)

text \<open>A second assertion on the body looks at the request before.\<close>

lemma mock_assert_body_twice:
  "mock_requests m = rs @ [r1, r2] \<Longrightarrow>
     Option.bind (mock_assert_body b2 m) (mock_assert_body b1) =
       (if b2 = hreq_body r2 \<and> b1 = hreq_body r1 then Some (m\<lparr>mock_requests := rs\<rparr>) else None)"
  by (auto simp: mock_assert_body_def mock_take_request_def assert_that_def butlast_append)

section \<open>The mock metrics reporter\<close>

definition mock_metrics_new_failing :: mock_metrics_reporter where
  "mock_metrics_new_failing = \<lparr>should_fail = True, mock_metrics = []\<rparr>"

definition mock_metrics_new :: mock_metrics_reporter where
  "mock_metrics_new = \<lparr>should_fail = False, mock_metrics = []\<rparr>"

definition test_mock_metrics_reporter :: bool where
  "test_mock_metrics_reporter \<longleftrightarrow>
     is_ok (fst (mock_report_metrics (UpdateCheckResponseTime (duration_from_secs 2) True) mock_metrics_new))"

definition test_mock_metrics_reporter_error :: bool where
  "test_mock_metrics_reporter_error \<longleftrightarrow>
     \<not> is_ok (fst (mock_report_metrics (UpdateCheckResponseTime (duration_from_secs 5) True) mock_metrics_new_failing))"

lemma metrics_mock_tests_hold: test_mock_metrics_reporter test_mock_metrics_reporter_error
  by (simp_all add: test_mock_metrics_reporter_def test_mock_metrics_reporter_error_def mock_report_metrics_def
      mock_metrics_new_def mock_metrics_new_failing_def)

text \<open>A failing reporter records as well.\<close>

lemma mock_metrics_recorded:
  "mock_metrics (snd (fold (\<lambda>x (_, r). mock_report_metrics x r) xs (Inr (), r))) = mock_metrics r @ xs"
  by (induction xs rule: rev_induct) (auto simp: mock_report_metrics_def split: prod.split)

section \<open>The verifier of the mock handler\<close>

definition mock_verify_with_signature ::
  "mock_cupv2_handler \<Rightarrow> 'd \<Rightarrow> string \<Rightarrow> string \<Rightarrow> public_key_id \<Rightarrow> nonce \<Rightarrow> cup_verification_error + unit" where
  "mock_verify_with_signature h _ _ _ _ _ = (case verification_error h of Some e \<Rightarrow> Inl e | None \<Rightarrow> Inr ())"

text \<open>The two methods of the mock agree: a response is accepted exactly if its signature is.\<close>

lemma mock_verifiers_agree:
  "mock_verify_response lib ops key h meta resp = Some r \<Longrightarrow>
     map_sum id (\<lambda>_. ()) r = mock_verify_with_signature h d (rm_request_body meta) (http_body resp) (rm_public_key_id meta) (rm_nonce meta)"
  by (auto simp: mock_verify_response_def mock_verify_with_signature_def split: option.splits)

section \<open>The server of the command line\<close>

record server_args =
  arg_responses_by_appid :: response_map
  arg_key_id :: u64
  arg_key_path :: string
  arg_port :: "16 word"
  arg_listen_on :: "128 word"
  arg_require_cup :: bool

definition parse_responses_by_appid :: "(string \<Rightarrow> json option) \<Rightarrow> string \<Rightarrow> response_map option" where
  "parse_responses_by_appid read value = Option.bind (read value) de_response_map"

definition DEFAULT_PRIVATE_KEY_ID :: int where
  "DEFAULT_PRIVATE_KEY_ID = 42"

definition EXAMPLE_RESPONSES_BY_APPID :: json where
  "EXAMPLE_RESPONSES_BY_APPID =
     JObj [(''appid_01'', JObj
       [(''response'', JStr ''NoUpdate''), (''check_assertion'', JStr ''UpdatesEnabled''),
        (''version'', JStr ''14.20230831.4.72''), (''codebase'', JStr ''fuchsia-pkg://omaha.mock.fuchsia.com/''),
        (''package_name'', JStr ''update?hash=deadbeefdeadbeefdeadbeefdeadbeefdeadbeefdeadbeefdeadbeefdeadbeef'')])]"

text \<open>The arguments without options; the reader is given the text of the example.\<close>

definition server_args_default :: "(string \<Rightarrow> json option) \<Rightarrow> string \<Rightarrow> server_args option" where
  "server_args_default read example = do {
     responses \<leftarrow> parse_responses_by_appid read example;
     Some \<lparr>arg_responses_by_appid = responses, arg_key_id = word_of_int DEFAULT_PRIVATE_KEY_ID,
           arg_key_path = ''mock-omaha-server/src/testing_keys/test_private_key.pem'', arg_port = 0, arg_listen_on = 0,
           arg_require_cup = False\<rparr> }"

text \<open>\<open>main\<close> up to the listener; a key file that is missing or that is not a key is a panic.\<close>

definition server_of_args ::
  "(string \<Rightarrow> string option) \<Rightarrow> (string \<Rightarrow> 'p option) \<Rightarrow> server_args \<Rightarrow> 'p omaha_server option" where
  "server_of_args read_file parse_key args = do {
     text \<leftarrow> read_file (arg_key_path args);
     key \<leftarrow> parse_key text;
     Some \<lparr>os_responses = arg_responses_by_appid args,
           os_private_keys = \<lparr>prk_latest = \<lparr>prk_id = arg_key_id args, prk_key = key\<rparr>, prk_historical = []\<rparr>,
           os_etag_override = None, os_require_cup = arg_require_cup args\<rparr> }"

definition example_response :: response_and_metadata where
  "example_response =
     \<lparr>ram_response = SendNoUpdate, ram_check_assertion = UpdatesEnabled, ram_version = Some ''14.20230831.4.72'',
      ram_cohort_assertion = None, ram_codebase = ''fuchsia-pkg://omaha.mock.fuchsia.com/'',
      ram_package_name = ''update?hash=deadbeefdeadbeefdeadbeefdeadbeefdeadbeefdeadbeefdeadbeefdeadbeef''\<rparr>"

lemma example_responses:
  "de_response_map EXAMPLE_RESPONSES_BY_APPID = Some (Mapping.update ''appid_01'' example_response Mapping.empty)"
  by (simp add: de_response_map_def EXAMPLE_RESPONSES_BY_APPID_def de_response_and_metadata_def de_omaha_response_def unit_variant_def
      de_check_assertion_def example_response_def de_simps)

lemma of_alist_single: "Mapping.of_alist [(k, v)] = Mapping.update k v Mapping.empty"
  by (rule mapping_eqI) (simp add: lookup_of_alist lookup_update')

text \<open>Without options the server is the one that the tests build, with the table of the example and its
  key under another id.\<close>

lemma default_server:
  assumes "read example = Some EXAMPLE_RESPONSES_BY_APPID"
    and "read_file ''mock-omaha-server/src/testing_keys/test_private_key.pem'' = Some text" and "parse_key text = Some key"
  shows "Option.bind (server_args_default read example) (server_of_args read_file parse_key) =
     Some ((server_build key [(''appid_01'', example_response)] False)
       \<lparr>os_private_keys := \<lparr>prk_latest = \<lparr>prk_id = 42, prk_key = key\<rparr>, prk_historical = []\<rparr>\<rparr>)"
  using assms
  by (simp add: server_args_default_def server_of_args_def parse_responses_by_appid_def example_responses server_build_def
      DEFAULT_PRIVATE_KEY_ID_def of_alist_single)

end
