(* ===== verification/Server_Concurrency.thy ===== *)
theory Server_Concurrency imports Mock_Server begin

text \<open>
  The mock server under concurrent requests.  \<open>OmahaServer::start\<close> shares the server behind a mutex and serves every
  connection in a task of its own, so the futures of \<open>handle_request\<close> interleave at their \<open>await\<close>s, where they read the
  body.  A future holds the lock only to copy the server or to replace its table, never over an \<open>await\<close> nor over code
  that may panic; the mutex is therefore never poisoned and a \<open>lock().unwrap()\<close> never panics.
\<close>

section \<open>State\<close>

text \<open>A task before its first poll; waiting for the body that replaces the table; waiting for the body of a request to Omaha
  with its copy of the server; finished, by an answer or a panic (\<open>None\<close>); or dropped, when the client is gone.\<close>

datatype 'p server_task =
    Arrived server_request
  | AwaitTable server_request
  | AwaitBody "'p omaha_server" server_request
  | Finished server_request "(server_error + http_response) option"
  | Dropped server_request

fun task_request :: "'p server_task \<Rightarrow> server_request" where
  "task_request (Arrived req) = req"
| "task_request (AwaitTable req) = req"
| "task_request (AwaitBody _ req) = req"
| "task_request (Finished req _) = req"
| "task_request (Dropped req) = req"

text \<open>The log is no state of the program: it records, in this order, when each task took effect, and with what answer.\<close>

type_synonym server_log = "(nat \<times> server_request \<times> (server_error + http_response) option) list"

record 'p shared_server =
  sh_server :: "'p omaha_server"
  sh_tasks :: "'p server_task list"
  sh_log :: server_log

definition shared_new :: "'p omaha_server \<Rightarrow> 'p shared_server" where
  "shared_new server = \<lparr>sh_server = server, sh_tasks = [], sh_log = []\<rparr>"

section \<open>Polls\<close>

definition SET_RESPONSES :: string where
  "SET_RESPONSES = ''/set_responses_by_appid''"

text \<open>The first poll runs to the \<open>await\<close> on the body.\<close>

definition poll_arrived :: "'p omaha_server \<Rightarrow> server_request \<Rightarrow> 'p server_task" where
  "poll_arrived server req =
     (if srq_path req = SET_RESPONSES then if srq_method req = ''POST'' then AwaitTable req else Finished req None
      else if srq_method req \<noteq> ''POST'' then Finished req None
      else if Mapping.is_empty (os_responses server) then Finished req (Some (Inr (http_answer 500 None [])))
      else AwaitBody server req)"

definition poll_table ::
  "('d, 's, 'p) server_ops \<Rightarrow> 'p omaha_server \<Rightarrow> server_request \<Rightarrow> (server_error + http_response) option \<times> 'p omaha_server" where
  "poll_table ops server req =
     (case handle_set_responses ops server req of None \<Rightarrow> (None, server) | Some (r, server') \<Rightarrow> (Some r, server'))"

section \<open>Steps\<close>

definition set_task :: "nat \<Rightarrow> 'p server_task \<Rightarrow> 'p shared_server \<Rightarrow> 'p shared_server" where
  "set_task i task s = s\<lparr>sh_tasks := (sh_tasks s)[i := task]\<rparr>"

definition log_effect :: "nat \<Rightarrow> server_request \<Rightarrow> (server_error + http_response) option \<Rightarrow> 'p shared_server \<Rightarrow> 'p shared_server" where
  "log_effect i req r s = s\<lparr>sh_log := sh_log s @ [(i, req, r)]\<rparr>"

text \<open>What a copy of the server makes of a request, whenever its body arrives.\<close>

abbreviation answer_of ::
  "('k, 'd, 's) crypto_ops \<Rightarrow> ('d, 's, 'p) server_ops \<Rightarrow> 'p omaha_server \<Rightarrow> server_request \<Rightarrow> (server_error + http_response) option" where
  "answer_of lib ops server req \<equiv> (if srq_path req = SET_RESPONSES then None else handle_omaha_request lib ops server req)"

inductive serve_step ::
  "('k, 'd, 's) crypto_ops \<Rightarrow> ('d, 's, 'p) server_ops \<Rightarrow> 'p shared_server \<Rightarrow> 'p shared_server \<Rightarrow> bool" for lib ops where
  arrives: "serve_step lib ops s (s\<lparr>sh_tasks := sh_tasks s @ [Arrived req]\<rparr>)"
| starts_table: "i < length (sh_tasks s) \<Longrightarrow> sh_tasks s ! i = Arrived req \<Longrightarrow>
     poll_arrived (sh_server s) req = AwaitTable req \<Longrightarrow> serve_step lib ops s (set_task i (AwaitTable req) s)"
| starts: "i < length (sh_tasks s) \<Longrightarrow> sh_tasks s ! i = Arrived req \<Longrightarrow>
     poll_arrived (sh_server s) req = task \<Longrightarrow> task \<noteq> AwaitTable req \<Longrightarrow>
     serve_step lib ops s (log_effect i req (answer_of lib ops (sh_server s) req) (set_task i task s))"
| reads_table: "i < length (sh_tasks s) \<Longrightarrow> sh_tasks s ! i = AwaitTable req \<Longrightarrow>
     poll_table ops (sh_server s) req = (r, server') \<Longrightarrow>
     serve_step lib ops s (log_effect i req r (set_task i (Finished req r) (s\<lparr>sh_server := server'\<rparr>)))"
| reads_body: "i < length (sh_tasks s) \<Longrightarrow> sh_tasks s ! i = AwaitBody server req \<Longrightarrow>
     serve_step lib ops s (set_task i (Finished req (handle_omaha_request lib ops server req)) s)"
| drops: "i < length (sh_tasks s) \<Longrightarrow> serve_step lib ops s (set_task i (Dropped (task_request (sh_tasks s ! i))) s)"

section \<open>One request after the other\<close>

definition serve_one ::
  "('k, 'd, 's) crypto_ops \<Rightarrow> ('d, 's, 'p) server_ops \<Rightarrow> 'p omaha_server \<Rightarrow> server_request
     \<Rightarrow> (server_error + http_response) option \<times> 'p omaha_server" where
  "serve_one lib ops server req =
     (case handle_server_request lib ops server req of None \<Rightarrow> (None, server) | Some (r, server') \<Rightarrow> (Some r, server'))"

fun serve_all ::
  "('k, 'd, 's) crypto_ops \<Rightarrow> ('d, 's, 'p) server_ops \<Rightarrow> 'p omaha_server \<Rightarrow> server_request list
     \<Rightarrow> (server_error + http_response) option list \<times> 'p omaha_server" where
  "serve_all lib ops server [] = ([], server)"
| "serve_all lib ops server (req # reqs) =
     (let (r, server1) = serve_one lib ops server req; (rs, server2) = serve_all lib ops server1 reqs in (r # rs, server2))"

lemma serve_all_snoc:
  "serve_all lib ops server reqs = (rs, server1) \<Longrightarrow> serve_one lib ops server1 req = (r, server2) \<Longrightarrow>
     serve_all lib ops server (reqs @ [req]) = (rs @ [r], server2)"
  by (induction reqs arbitrary: server rs) (auto simp: Let_def split: prod.splits)

text \<open>Requests to Omaha leave the server; a new table is taken from the body alone.\<close>

lemma serve_one_omaha:
  "srq_path req \<noteq> SET_RESPONSES \<Longrightarrow> serve_one lib ops server req = (handle_omaha_request lib ops server req, server)"
  by (simp add: serve_one_def handle_server_request_def SET_RESPONSES_def split: option.split)

lemma serve_one_table:
  "srq_path req = SET_RESPONSES \<Longrightarrow> serve_one lib ops server req = poll_table ops server req"
  by (simp add: serve_one_def handle_server_request_def SET_RESPONSES_def poll_table_def)

lemma serve_one_started:
  assumes "poll_arrived server req \<noteq> AwaitTable req"
  shows "serve_one lib ops server req = (answer_of lib ops server req, server)"
proof (cases "srq_path req = SET_RESPONSES")
  case True
  with assms have "srq_method req \<noteq> ''POST''" by (auto simp: poll_arrived_def)
  with True show ?thesis by (simp add: serve_one_table poll_table_def handle_set_responses_def assert_that_def)
qed (simp add: serve_one_omaha)

lemma poll_arrived_finished:
  "poll_arrived server req = Finished req' r \<Longrightarrow> req' = req \<and> r = answer_of lib ops server req"
  by (auto simp: poll_arrived_def handle_omaha_request_def assert_that_def split: if_splits)

lemma poll_arrived_awaits:
  "poll_arrived server req = AwaitBody server' req' \<Longrightarrow> server' = server \<and> req' = req \<and> srq_path req \<noteq> SET_RESPONSES"
  "poll_arrived server req = AwaitTable req' \<Longrightarrow> req' = req \<and> srq_path req = SET_RESPONSES"
  "poll_arrived server req \<noteq> Arrived req'" "poll_arrived server req \<noteq> Dropped req'"
  by (auto simp: poll_arrived_def split: if_splits)

section \<open>The log explains every state\<close>

fun task_logged ::
  "('k, 'd, 's) crypto_ops \<Rightarrow> ('d, 's, 'p) server_ops \<Rightarrow> server_log \<Rightarrow> nat \<Rightarrow> 'p server_task \<Rightarrow> bool" where
  "task_logged lib ops log i (Arrived req) \<longleftrightarrow> i \<notin> fst ` set log"
| "task_logged lib ops log i (AwaitTable req) \<longleftrightarrow> i \<notin> fst ` set log \<and> srq_path req = SET_RESPONSES"
| "task_logged lib ops log i (AwaitBody server req) \<longleftrightarrow> (i, req, handle_omaha_request lib ops server req) \<in> set log"
| "task_logged lib ops log i (Finished req r) \<longleftrightarrow> (i, req, r) \<in> set log"
| "task_logged lib ops log i (Dropped req) \<longleftrightarrow> True"

definition explained ::
  "('k, 'd, 's) crypto_ops \<Rightarrow> ('d, 's, 'p) server_ops \<Rightarrow> 'p omaha_server \<Rightarrow> 'p shared_server \<Rightarrow> bool" where
  "explained lib ops server0 s \<longleftrightarrow>
     serve_all lib ops server0 (map (fst \<circ> snd) (sh_log s)) = (map (snd \<circ> snd) (sh_log s), sh_server s) \<and>
     distinct (map fst (sh_log s)) \<and>
     (\<forall>e \<in> set (sh_log s). fst e < length (sh_tasks s) \<and> task_request (sh_tasks s ! fst e) = fst (snd e)) \<and>
     (\<forall>i < length (sh_tasks s). task_logged lib ops (sh_log s) i (sh_tasks s ! i))"

lemma task_logged_later: "task_logged lib ops log j task \<Longrightarrow> j \<noteq> fst e \<Longrightarrow> task_logged lib ops (log @ [e]) j task"
  by (cases task) auto

lemma explained_new: "explained lib ops server0 (shared_new server0)"
  by (simp add: explained_def shared_new_def)

lemma explained_task:
  assumes "explained lib ops server0 s" and "i < length (sh_tasks s)" and "task_request task = task_request (sh_tasks s ! i)"
    and "task_logged lib ops (sh_log s) i task"
  shows "explained lib ops server0 (set_task i task s)"
  using assms by (auto simp: explained_def set_task_def nth_list_update)

lemma explained_effect:
  assumes "explained lib ops server0 s" and "i < length (sh_tasks s)" and "i \<notin> fst ` set (sh_log s)"
    and "task_request (sh_tasks s ! i) = req" and "task_request task = req"
    and "serve_one lib ops (sh_server s) req = (r, server')" and "task_logged lib ops (sh_log s @ [(i, req, r)]) i task"
  shows "explained lib ops server0 (log_effect i req r (set_task i task (s\<lparr>sh_server := server'\<rparr>)))"
  unfolding explained_def
proof (intro conjI)
  let ?s = "log_effect i req r (set_task i task (s\<lparr>sh_server := server'\<rparr>))"
  show "serve_all lib ops server0 (map (fst \<circ> snd) (sh_log ?s)) = (map (snd \<circ> snd) (sh_log ?s), sh_server ?s)"
    using assms(1) serve_all_snoc [OF _ assms(6)] by (simp add: explained_def log_effect_def set_task_def)
  show "distinct (map fst (sh_log ?s))" using assms(1, 3) by (simp add: explained_def log_effect_def set_task_def)
  show "\<forall>e \<in> set (sh_log ?s). fst e < length (sh_tasks ?s) \<and> task_request (sh_tasks ?s ! fst e) = fst (snd e)"
    using assms(1, 2, 3, 5) by (force simp: explained_def log_effect_def set_task_def nth_list_update)
  have "task_logged lib ops (sh_log s @ [(i, req, r)]) j ((sh_tasks s)[i := task] ! j)" if "j < length (sh_tasks s)" for j
    using assms(1, 2, 7) that by (cases "j = i") (auto simp: explained_def intro: task_logged_later)
  then show "\<forall>j < length (sh_tasks ?s). task_logged lib ops (sh_log ?s) j (sh_tasks ?s ! j)"
    by (simp add: log_effect_def set_task_def)
qed

lemma explained_logged:
  "explained lib ops server0 s \<Longrightarrow> i < length (sh_tasks s) \<Longrightarrow> task_logged lib ops (sh_log s) i (sh_tasks s ! i)"
  by (simp add: explained_def)

lemma serve_step_explained: "serve_step lib ops s s' \<Longrightarrow> explained lib ops server0 s \<Longrightarrow> explained lib ops server0 s'"
proof (induction rule: serve_step.induct)
  case (arrives s req)
  then have "length (sh_tasks s) \<notin> fst ` set (sh_log s)" by (auto simp: explained_def)
  with arrives show ?case by (auto simp: explained_def nth_append less_Suc_eq)
next
  case (starts_table i s req)
  with explained_logged [OF starts_table(4, 1)] poll_arrived_awaits(2) [OF starts_table(3)]
  show ?case by (auto intro: explained_task)
next
  case (starts i s req task)
  have one: "serve_one lib ops (sh_server s) req = (answer_of lib ops (sh_server s) req, sh_server s)"
    using starts(3, 4) by (intro serve_one_started) simp
  have "task_request task = req \<and>
      task_logged lib ops (sh_log s @ [(i, req, answer_of lib ops (sh_server s) req)]) i task"
    using starts(3, 4) poll_arrived_finished [of "sh_server s" req _ _ lib ops] poll_arrived_awaits [of "sh_server s" req]
    by (cases task) auto
  moreover have "i \<notin> fst ` set (sh_log s)" using explained_logged [OF starts(5, 1)] starts(2) by simp
  ultimately show ?case using explained_effect [OF starts(5, 1) _ _ _ one] starts(2) by simp
next
  case (reads_table i s req r server')
  then have "i \<notin> fst ` set (sh_log s)" "srq_path req = SET_RESPONSES" using explained_logged [OF reads_table(4, 1)] by simp_all
  then show ?case using reads_table by (intro explained_effect) (simp_all add: serve_one_table)
next
  case (reads_body i s server req)
  with explained_logged [OF reads_body(3, 1)] show ?case by (intro explained_task) simp_all
next
  case (drops i s)
  then show ?case by (intro explained_task) simp_all
qed

lemma reachable_explained:
  "(serve_step lib ops)\<^sup>*\<^sup>* s s' \<Longrightarrow> explained lib ops server0 s \<Longrightarrow> explained lib ops server0 s'"
  by (induction rule: rtranclp_induct) (auto intro: serve_step_explained)

lemma log_grows: "(serve_step lib ops)\<^sup>*\<^sup>* s s' \<Longrightarrow> \<exists>later. sh_log s' = sh_log s @ later"
proof (induction rule: rtranclp_induct)
  case (step s' s'')
  from step(2) have "\<exists>xs. sh_log s'' = sh_log s' @ xs"
    by (cases rule: serve_step.cases) (auto simp: set_task_def log_effect_def)
  with step(3) show ?case by auto
qed simp

section \<open>Linearizability\<close>

text \<open>C20: Whatever requests the mock server serves at the same time, and however their tasks interleave and are dropped:
  there is an order of the requests, in which each of them occurs at most once, such that serving one request after the other in this
  order, a panic leaving the server as it is, gives every finished request the answer it got and the server the table it has.
  A request that was answered before another one arrived comes before it in this order.\<close>

theorem server_is_linearizable:
  assumes "(serve_step lib ops)\<^sup>*\<^sup>* (shared_new server0) s" and "(serve_step lib ops)\<^sup>*\<^sup>* s s'"
  shows "serve_all lib ops server0 (map (\<lambda>(i, req, r). req) (sh_log s')) =
           (map (\<lambda>(i, req, r). r) (sh_log s'), sh_server s') \<and>
    distinct (map (\<lambda>(i, req, r). i) (sh_log s')) \<and>
    (\<forall>i < length (sh_tasks s'). \<forall>req r. sh_tasks s' ! i = Finished req r \<longrightarrow> (i, req, r) \<in> set (sh_log s')) \<and>
    (\<forall>i < length (sh_tasks s). \<forall>req r. sh_tasks s ! i = Finished req r \<longrightarrow>
       (\<forall>j \<ge> length (sh_tasks s). \<forall>req' r'. (j, req', r') \<in> set (sh_log s') \<longrightarrow>
          (\<exists>before between after. sh_log s' = before @ (i, req, r) # between @ (j, req', r') # after)))"
proof -
  have ex: "explained lib ops server0 s" using reachable_explained [OF assms(1)] explained_new by blast
  then have ex': "explained lib ops server0 s'" using reachable_explained [OF assms(2)] by blast
  obtain later where later: "sh_log s' = sh_log s @ later" using log_grows [OF assms(2)] by blast
  have parts: "(\<lambda>(i, req, r). req) = (fst \<circ> snd)" "(\<lambda>(i, req, r). r) = (snd \<circ> snd)" "(\<lambda>(i, req, r). i) = fst"
    by (auto simp: fun_eq_iff)
  have finished: "(i, req, r) \<in> set (sh_log t)"
    if "explained lib ops server0 t" "i < length (sh_tasks t)" "sh_tasks t ! i = Finished req r" for t i req r
    using explained_logged [OF that(1, 2)] that(3) by simp
  have "\<exists>before between after. sh_log s' = before @ (i, req, r) # between @ (j, req', r') # after"
    if "i < length (sh_tasks s)" "sh_tasks s ! i = Finished req r" "length (sh_tasks s) \<le> j"
      "(j, req', r') \<in> set (sh_log s')" for i j req req' r r'
  proof -
    have in_log: "(j, req', r') \<in> set (sh_log s')" by (fact that(4))
    have "(i, req, r) \<in> set (sh_log s)" using finished [OF ex that(1, 2)] .
    then obtain before mid where "sh_log s = before @ (i, req, r) # mid" by (meson split_list)
    moreover have "(j, req', r') \<notin> set (sh_log s)" using ex that(3) by (auto simp: explained_def)
    then obtain mid' after where "later = mid' @ (j, req', r') # after" using in_log later by (auto dest: split_list)
    ultimately show ?thesis using later by (metis append.assoc append_Cons)
  qed
  with ex' finished [OF ex'] show ?thesis unfolding parts explained_def by blast
qed

text \<open>A request to Omaha before there is a table, and then a table.\<close>

definition post_to :: "string \<Rightarrow> server_request" where
  "post_to target = \<lparr>srq_method = ''POST'', srq_path = target, srq_uri = target, srq_body = Inr ''{}''\<rparr>"

definition lone_ops :: "(string, string, string) server_ops" where
  "lone_ops =
     \<lparr>sv_sign = (\<lambda>k m. k @ m), sv_to_der = id, sv_query_pairs = (\<lambda>_. None), sv_read_json = (\<lambda>_. Some (JObj [])),
      sv_write_json = (\<lambda>_. ''{}''), sv_header_ok = (\<lambda>_. True)\<rparr>"

definition lone_server :: "string omaha_server" where
  "lone_server =
     \<lparr>os_responses = Mapping.empty, os_private_keys = \<lparr>prk_latest = \<lparr>prk_id = 7, prk_key = ''k''\<rparr>, prk_historical = []\<rparr>,
      os_etag_override = None, os_require_cup = False\<rparr>"

definition answered_500 :: "string shared_server" where
  "answered_500 =
     (let req = post_to ''/''; r = Some (Inr (http_answer 500 None []))
      in \<lparr>sh_server = lone_server, sh_tasks = [Finished req r], sh_log = [(0, req, r)]\<rparr>)"

definition table_set :: "string shared_server" where
  "table_set =
     (let req = post_to SET_RESPONSES; r = Some (Inr (http_answer 200 None []))
      in answered_500\<lparr>sh_tasks := sh_tasks answered_500 @ [Finished req r], sh_log := sh_log answered_500 @ [(1, req, r)]\<rparr>)"

lemma lone_polls:
  "poll_arrived lone_server (post_to ''/'') = Finished (post_to ''/'') (Some (Inr (http_answer 500 None [])))"
  "poll_arrived lone_server (post_to SET_RESPONSES) = AwaitTable (post_to SET_RESPONSES)"
  "handle_omaha_request bits_crypto lone_ops lone_server (post_to ''/'') = Some (Inr (http_answer 500 None []))"
  "poll_table lone_ops lone_server (post_to SET_RESPONSES) = (Some (Inr (http_answer 200 None [])), lone_server)"
  by (simp_all add: poll_arrived_def post_to_def SET_RESPONSES_def lone_server_def poll_table_def handle_set_responses_def
      handle_omaha_request_def assert_that_def lone_ops_def de_response_map_def map_fields_def is_empty_empty)

lemma post_paths: "srq_path (post_to target) = target" "''/'' \<noteq> SET_RESPONSES"
  by (simp_all add: post_to_def SET_RESPONSES_def)

lemma reaches_answered_500: "(serve_step bits_crypto lone_ops)\<^sup>*\<^sup>* (shared_new lone_server) answered_500"
proof -
  let ?s = "(shared_new lone_server)\<lparr>sh_tasks := [Arrived (post_to ''/'')]\<rparr>"
  have "serve_step bits_crypto lone_ops (shared_new lone_server) ?s"
    using arrives [of bits_crypto lone_ops "shared_new lone_server" "post_to ''/''"] by (simp add: shared_new_def)
  moreover have "serve_step bits_crypto lone_ops ?s answered_500"
    using starts [of 0 ?s "post_to ''/''" "Finished (post_to ''/'') (Some (Inr (http_answer 500 None [])))" bits_crypto lone_ops]
    by (simp add: shared_new_def lone_polls post_paths answered_500_def set_task_def log_effect_def Let_def)
  ultimately show ?thesis by simp
qed

lemma reaches_table_set: "(serve_step bits_crypto lone_ops)\<^sup>*\<^sup>* answered_500 table_set"
proof -
  let ?req = "post_to SET_RESPONSES"
  let ?s = "\<lambda>task. answered_500\<lparr>sh_tasks := sh_tasks answered_500 @ [task]\<rparr>"
  have "serve_step bits_crypto lone_ops answered_500 (?s (Arrived ?req))" by (rule arrives)
  moreover have "serve_step bits_crypto lone_ops (?s (Arrived ?req)) (?s (AwaitTable ?req))"
    using starts_table [of 1 "?s (Arrived ?req)" ?req bits_crypto lone_ops]
    by (simp add: lone_polls answered_500_def set_task_def Let_def)
  moreover have "serve_step bits_crypto lone_ops (?s (AwaitTable ?req)) table_set"
    using reads_table [of 1 "?s (AwaitTable ?req)" ?req lone_ops "Some (Inr (http_answer 200 None []))" lone_server bits_crypto]
    by (simp add: lone_polls answered_500_def table_set_def set_task_def log_effect_def Let_def)
  ultimately show ?thesis by (rule converse_rtranclp_into_rtranclp [OF _ converse_rtranclp_into_rtranclp [OF _ r_into_rtranclp]])
qed

theorem server_is_linearizable_witness:
  "serve_all bits_crypto lone_ops lone_server [post_to ''/'', post_to SET_RESPONSES] =
     ([Some (Inr (http_answer 500 None [])), Some (Inr (http_answer 200 None []))], lone_server) \<and>
   (\<exists>before between after. sh_log table_set =
      before @ (0, post_to ''/'', Some (Inr (http_answer 500 None []))) # between @
        (1, post_to SET_RESPONSES, Some (Inr (http_answer 200 None []))) # after)"
  using server_is_linearizable [OF reaches_answered_500 reaches_table_set]
  by (simp add: table_set_def answered_500_def Let_def)

end
