(* ===== verification/Spec2Isabelle.thy ===== *)
theory Spec2Isabelle
  imports Version Time_Model Storage_Model Json_Model Protocol_Model Response_Model Common_Model Update_Check
    App_Set Http_Uri Cup_Ecdsa Request_Builder Policy_Installer Machine_State Omaha_Requests Update_Flow
    Control_Loop Machine_Effects Demo_Environment Consent Check_Properties Loop_Properties Retry_Properties
    Install_Properties State_Events Async_Generator Mock_Server Client_Server Hello_World Test_Support
    Session_Properties Loop_Moves Check_Tests Observer_Tests Metrics_Tests Storage_Tests Bookkeeping_Tests Loop_Tests Storage_Schema
    Request_Tests Response_Tests Builder_Tests Time_Tests Blocking_Timer App_Tests Unit_Tests Cup_Tests Public_Keys
    Server_Tests Generator_Tests Mock_Tests Server_Concurrency
begin

text \<open>
  A verification development of the Omaha client library.

  \<^bold>\<open>The program.\<close>  The library checks for software updates against an Omaha server and applies them through
  an installer of its embedder.  Its centre is the state machine (\<open>state_machine.rs\<close>).  The embedder gives it a policy
  engine, an HTTP client, an installer, a timer, a clock, a metrics reporter, a storage, a set of apps and
  optionally a CUPv2 handler that signs requests and checks responses.  The machine sleeps until the time that the
  policy computes or until it is asked through its control handle, asks the policy whether to check, sends one
  request for all apps (with retries), reads the response, lets the installer make a plan, asks the policy whether
  the plan may start, installs, reports every stage to Omaha, stores what it has to remember, and
  finally asks the policy when to reboot.

  \<^bold>\<open>Theories and sources\<close> (paths below \<open>src/omaha-client/src\<close>).
  \<^item> \<open>Omaha_Prelude\<close>: machine integers as the code converts them, decimal numbers, string splitting, results, the state
    monad with a calculus of weakest preconditions, and the locale \<open>effect_preorder\<close> for relations between states that
    sequences of actions preserve.
  \<^item> \<open>Version\<close>: \<open>version.rs\<close>.  \<open>Time_Model\<close>: \<open>time.rs\<close> and \<open>time/\<close>; wall times are integers of nanoseconds since the epoch,
    monotonic times integers of nanoseconds.  \<open>Storage_Model\<close>: \<open>storage.rs\<close> and \<open>storage/\<close>; the trait is the record
    \<open>storage_ops\<close>.
  \<^item> \<open>Json_Model\<close>: the JSON values and the derived readers of serde that the next theories share.  \<open>Protocol_Model\<close>:
    \<open>protocol.rs\<close>, \<open>protocol/request.rs\<close>.  \<open>Response_Model\<close>: \<open>protocol/response.rs\<close>.
  \<^item> \<open>Common_Model\<close>: \<open>common.rs\<close>.  \<open>Update_Check\<close>: \<open>state_machine/update_check.rs\<close>.  \<open>App_Set\<close>: \<open>app_set.rs\<close>.
  \<^item> \<open>Http_Uri\<close>: \<open>http_uri_ext.rs\<close>.  \<open>Cup_Ecdsa\<close>: \<open>cup_ecdsa.rs\<close>.  \<open>Request_Builder\<close>: \<open>request_builder.rs\<close>,
    \<open>configuration.rs\<close>.
  \<^item> \<open>Policy_Installer\<close>: the interfaces of \<open>policy.rs\<close>, \<open>installer.rs\<close>, \<open>http_request.rs\<close>, \<open>metrics.rs\<close> and
    \<open>state_machine/observer.rs\<close>, with the stubs of policy and installer.
  \<^item> \<open>Machine_State\<close>: the state of the machine and the primitive actions.  \<open>Omaha_Requests\<close>, \<open>Update_Flow\<close>,
    \<open>Control_Loop\<close>: \<open>state_machine.rs\<close>, in the order of its calls from one request over one check to the loops, and
    \<open>state_machine/builder.rs\<close>.
  \<^item> \<open>Machine_Effects\<close>: what actions may do to the machine, for any preorder.  \<open>Consent\<close>: installations and reboots need the
    policy's consent.  \<open>Check_Properties\<close>: what a check leaves in counters, times, apps and storage.  \<open>Loop_Properties\<close>:
    control requests are answered once, in order, and can always be answered.  \<open>Retry_Properties\<close>: attempts and
    waits of the retry loop and of a check.  \<open>Install_Properties\<close>: the installer's results, what survives a
    reboot, and that a run reports at most one wait for it.  \<open>State_Events\<close>: the announced states are a path in a transition graph.  \<open>Session_Properties\<close>: the requests of
    a check form one session.  \<open>Storage_Schema\<close>: the machine gives its own keys values of their types and touches no
    others.  \<open>Loop_Moves\<close>: the step relation of the loops as an executable machine.  \<open>Demo_Environment\<close>: a concrete
    environment in which the machine runs, for the witnesses.
  \<^item> \<open>Async_Generator\<close>: \<open>async_generator.rs\<close>, the stream through which the machine yields its events.
  \<^item> \<open>Mock_Server\<close>: \<open>mock-omaha-server/src/lib.rs\<close> (beside the client's crate).  \<open>Client_Server\<close>: the client against it, from
    the request builder through CUP and HTTP to the parsed response.  \<open>Server_Concurrency\<close>: its handlers interleaved at their
    awaits behind the mutex of \<open>OmahaServer::start\<close>, as a step relation, and that they are linearizable.
  \<^item> \<open>Hello_World\<close>: \<open>omaha-client/examples/hello-world\<close>, an embedder of the library, as an instance of the machine.
  \<^item> \<open>Test_Support\<close>: the contract tests of \<open>storage.rs\<close>, the test support of \<open>cup_ecdsa.rs\<close>, \<open>http_request/mock.rs\<close>,
    \<open>metrics/mock.rs\<close>.  \<open>Stub_Machine\<close>: the builder of \<open>state_machine/builder.rs\<close> with its setters and stub,
    \<open>policy/mock.rs\<close>, and the installers of the tests of \<open>state_machine.rs\<close>.  \<open>Test_Runs\<close>: how these machines are run by
    rewriting, and the documents that the tests send.  \<open>Check_Tests\<close>, \<open>Observer_Tests\<close>, \<open>Metrics_Tests\<close>, \<open>Storage_Tests\<close>,
    \<open>Bookkeeping_Tests\<close>, \<open>Loop_Tests\<close>: the 61 tests of \<open>state_machine.rs\<close>, one definition each with the name of the test,
    and that they hold.  The pools, channels and blocked timers of the tests of the loops are sequences of moves.
  \<^item> \<open>Blocking_Timer\<close>: the blocking timers of \<open>time/timers.rs\<close>, their step relation, its invariant, and
    what a wait that is ready went through.  \<open>Public_Keys\<close>: the
    JSON of the public keys of \<open>cup_ecdsa.rs\<close>, and that it is read back.
  \<^item> The unit tests of the other modules, again one definition each and that it holds.  \<open>Request_Tests\<close>,
    \<open>Response_Tests\<close>: \<open>protocol/request/tests.rs\<close>, \<open>protocol/response/tests.rs\<close>.  \<open>Builder_Tests\<close>:
    \<open>request_builder/tests.rs\<close>.  \<open>Time_Tests\<close>: \<open>time/\<close>.  \<open>App_Tests\<close>: \<open>common.rs\<close>.  \<open>Cup_Tests\<close>: \<open>cup_ecdsa.rs\<close> and
    \<open>http_uri_ext.rs\<close>.  \<open>Server_Tests\<close>: \<open>mock-omaha-server/src/lib.rs\<close>.  \<open>Generator_Tests\<close>: \<open>async_generator.rs\<close>.
    \<open>Unit_Tests\<close>: \<open>version.rs\<close>, \<open>unless.rs\<close>, \<open>protocol.rs\<close>, \<open>app_set.rs\<close>, \<open>storage/memory.rs\<close>, \<open>storage/stub.rs\<close>,
    \<open>policy/stub.rs\<close>, \<open>state_machine/update_check.rs\<close>.  Clock readings, libraries and keys are arguments, and the
    hypotheses of the lemmas say what the tests need of them (\<open>clock_reading\<close>, \<open>test_library_ok\<close>, \<open>reads_back\<close>).
    \<open>Mock_Tests\<close>: the tests of \<open>http_request/mock.rs\<close> and \<open>metrics/mock.rs\<close> with what of these mocks only they use, and the
    server that \<open>mock-omaha-server/src/main.rs\<close> makes of its arguments.

  \<^bold>\<open>How the machine is modelled.\<close>  The record \<open>machine\<close> holds what the struct holds; the collaborators of the embedder
  are the record \<open>env\<close> of functions on a world of arbitrary type, so every call of them may change the world and every
  later answer may depend on it.  What the machine does to the outside (events it yields, metrics, timers, decisions it
  got, installations and reboots it asked for) is appended to a trace.  A function of the code
  is an action of the state monad over the machine; \<open>await\<close> is sequencing, since the task polls one future at a time.
  The two loops with their \<open>select!\<close> are the inductive relation \<open>step\<close>: whichever branch is ready may be taken, control
  requests may be sent at any time and are queued, and the world may change at any time.  An update
  check shares only its options with the requests that arrive while it runs, so its effects
  are one step, taken when it completes.  The storage and the app set are values of the machine's state that only the machine
  changes: in the code they sit behind \<open>Rc<Mutex<_>>\<close>, and the embedder that shares them is assumed to leave them alone
  while the machine runs.  The random numbers (back-off, nonces, GUIDs) are answers of the world.

  \<^bold>\<open>Numbers and termination.\<close>  Counters and keys are words of the code's width; increments wrap, as in a build without
  overflow checks.  The retry loop terminates by its attempts (a measure), every other loop of the code is structural or
  is a step of the relation; no model of code uses fuel.  The tests of the generator poll at most as often as their task has
  actions and two more (lemma \<open>generate_script_delivers\<close>), the bounds 10 and 20 of the definitions being larger.

  \<^bold>\<open>Locales.\<close>  \<open>effect_preorder\<close> is the contract under which a relation between states is preserved by actions, by
  sequencing, branching and iteration; \<open>effect_class\<close> gives it from a class of effect sequences; \<open>check_effects\<close>,
  \<open>machine_effects\<close>, \<open>loop_actions\<close> and \<open>loop_effects\<close> say which primitive effects must be allowed, and conclude that every
  action of the machine, every check, every step of the loops but for the report at the head, and every step is;
  \<open>quiet_effects\<close> and \<open>any_effects\<close> are the cases that allow every effect but that report, and every effect.  Each property of the machine is one
  interpretation of them.  \<open>network_cost\<close> counts effects along the actions, and is interpreted once for requests and
  once for waits.  \<open>storage_laws\<close> (with \<open>reliable_storage\<close> and \<open>working_storage\<close>, which extend it) is the contract of the storage
  trait, interpreted on the three storages of the repository; \<open>app_set_laws\<close> is that of app sets, interpreted on both.

  \<^bold>\<open>What is relied on.\<close>  Code outside the repository appears in hypotheses that say what its documentation says:
  \<open>channel_laws\<close> (the mpsc channel, whose sender the task may drop before it returns, and fused tasks), \<open>task_progresses\<close> (a
  task that ends, where termination is claimed), \<open>crypto_agrees\<close> (signatures verify, encodings read back, hexadecimal text is a
  header value that reads as that text), \<open>url_agrees\<close> (how
  URIs split), and \<open>same_value\<close>, which relates JSON values that a reader of JSON text may not tell apart.

  \<^bold>\<open>Not modelled.\<close>  JSON text (reading and printing it is a parameter, the structure above the text is modelled), the
  cryptographic primitives, the URI grammar of the http crate, and hyper itself are parameters: their
  code is not in the repository.  Log messages and the \<open>Debug\<close> and \<open>Display\<close> texts that only logs show are left out,
  but for the schedules of \<open>common.rs\<close>, whose texts are above parameters for the texts of times and durations (these are
  made by the chrono crate and the standard library).  So are the sockets and the parsing of the command line of the
  mock server, the tokio runtime, and the tests of derived builders, which build a record and look at its fields.
\<close>

section \<open>The tests of the state machine\<close>

text \<open>A sanity check of the model rather than a property of the program: the unit tests of \<open>state_machine.rs\<close>, each run on the
  machine that its builder gives with the mocks of the repository, pass (requests and their bodies, events, metrics, timers,
  stored values, reboots and answers to control requests).\<close>

lemma state_machine_tests_hold:
  "run_simple_check_with_noupdate_result \<and> test_cohort_returned_with_noupdate_result \<and>
   test_cohort_returned_with_update_result \<and> test_report_parse_response_error \<and>
   test_report_construct_install_plan_error \<and> test_report_installation_error \<and>
   test_report_installation_error_multi_app \<and> test_observe_installation_error \<and>
   test_report_deferred_by_policy \<and> test_report_denied_by_policy \<and>
   test_cohort_and_user_counting_updates_are_used_in_subsequent_requests \<and> test_user_counting_returned \<and>
   run_cup_but_decoration_error \<and> run_cup_but_verification_error \<and> run_cup_valid \<and>
   test_observe_state \<and> test_observe_schedule \<and> test_observe_protocol_state \<and>
   test_observe_omaha_server_response \<and> test_progress_observer \<and> test_metrics_report_omaha_event_lost \<and>
   test_metrics_report_update_check_response_time \<and> test_metrics_report_update_check_response_time_on_failure \<and>
   test_metrics_report_update_check_response_time_on_failure_followed_by_success \<and>
   test_metrics_report_requests_per_check \<and>
   test_metrics_report_requests_per_check_on_failure_followed_by_success \<and>
   test_metrics_report_requests_per_check_on_failure \<and> test_requests_per_check_backoff_with_mock_timer \<and>
   test_metrics_report_update_check_failure_reason_omaha \<and>
   test_metrics_report_update_check_failure_reason_network \<and> test_persist_last_update_time \<and>
   test_persist_server_dictated_poll_interval \<and> test_persist_server_dictated_poll_interval_http_error \<and>
   test_persist_server_dictated_poll_interval_max_duration \<and>
   test_server_dictated_poll_interval_with_transport_error_no_retry \<and> test_persist_app \<and>
   test_load_last_update_time \<and> test_load_server_dictated_poll_interval \<and> test_load_app \<and>
   test_report_check_interval_with_no_storage \<and> test_report_check_interval_mono_transition \<and>
   test_report_successful_update_duration \<and> test_report_failed_update_duration \<and>
   test_record_update_first_seen_time \<and> test_report_attempts_to_successful_check \<and>
   test_ping_omaha_updates_consecutive_failed_update_checks_and_persists \<and>
   test_report_attempts_to_successful_install \<and> test_report_attempts_to_successful_install_fails_then_succeeds \<and>
   test_report_attempts_to_successful_install_does_not_report_for_no_update \<and> test_wait_timer \<and>
   test_successful_update_triggers_reboot \<and> test_skip_reboot_if_not_needed \<and>
   test_failed_update_does_not_trigger_reboot \<and>
   test_reboots_immediately_if_user_initiated_update_requests_occurs_during_install \<and>
   test_reboots_immediately_when_check_now_comes_in_during_wait \<and> test_wait_for_reboot \<and>
   test_start_update_during_update_replies_with_in_progress \<and> test_start_update_during_timer_starts_update \<and>
   test_start_update_check_returns_throttled \<and>
   test_report_waited_for_reboot_duration_doesnt_panic_on_wrong_current_time \<and>
   test_report_waited_for_reboot_duration"
  by (simp only: check_tests observer_tests metrics_tests storage_tests bookkeeping_tests loop_tests)

end
